(* ===== verification/Trino_Prelude.thy ===== *)
theory Trino_Prelude
  imports Main "HOL-Library.Word" "HOL-Library.Multiset" "HOL-Library.AList"
begin

text \<open>
  Shared ground of the development.

  \<^item> Results of Go code: a function that can return an \<open>error\<close> or panic yields a value of
    \<open>'a res\<close>, that is \<open>fault + 'a\<close>. \<open>Err\<close> is an error value handed to the caller,
    \<open>Panic\<close> a run-time panic (a nil dereference or an explicit \<open>panic\<close>).
  \<^item> Nil-able pointers are \<open>option\<close> values; reading through one is \<open>deref\<close>.
  \<^item> Go maps with string keys are association lists with distinct keys. The order in which
    \<open>range\<close> visits a map is chosen by the Go run time on every loop, so a loop over a map takes
    the order as an argument (\<open>range_order\<close>) and theorems quantify over the fair ones.
\<close>

named_theorems go_res
named_theorems go_map

section \<open>Results\<close>

type_synonym int32 = "32 word"

datatype goerror = Errorf string | LibError string

datatype fault = Err goerror | Panic string

type_synonym 'a res = "fault + 'a"

fun bind_res :: "'a res \<Rightarrow> ('a \<Rightarrow> 'b res) \<Rightarrow> 'b res" where
  "bind_res (Inl f) k = Inl f"
| "bind_res (Inr x) k = k x"

definition from_lib :: "goerror + 'a \<Rightarrow> 'a res" where
  "from_lib r = (case r of Inl e \<Rightarrow> Inl (Err e) | Inr x \<Rightarrow> Inr x)"

definition deref :: "string \<Rightarrow> 'a option \<Rightarrow> 'a res" where
  "deref what p = (case p of None \<Rightarrow> Inl (Panic (''nil dereference: '' @ what)) | Some x \<Rightarrow> Inr x)"

fun map_res :: "('a \<Rightarrow> 'b res) \<Rightarrow> 'a list \<Rightarrow> 'b list res" where
  "map_res f [] = Inr []"
| "map_res f (x # xs) = bind_res (f x) (\<lambda>y. bind_res (map_res f xs) (\<lambda>ys. Inr (y # ys)))"

text \<open>Appending the slices that a fallible function gives for each element of a list.\<close>

definition concat_res :: "('a \<Rightarrow> 'b list res) \<Rightarrow> 'a list \<Rightarrow> 'b list res" where
  "concat_res f xs = bind_res (map_res f xs) (\<lambda>yss. Inr (concat yss))"

definition panics :: "'a res \<Rightarrow> bool" where
  "panics r = (case r of Inl (Panic _) \<Rightarrow> True | _ \<Rightarrow> False)"

text \<open>
  Methods that change their receiver and can fail: a state transformer that returns the result and
  the receiver as the method leaves it, also on a fault.
\<close>

type_synonym ('s, 'a) st = "'s \<Rightarrow> 'a res \<times> 's"

definition bind_st :: "('s, 'a) st \<Rightarrow> ('a \<Rightarrow> ('s, 'b) st) \<Rightarrow> ('s, 'b) st" where
  "bind_st m k = (\<lambda>s. case m s of (Inl f, s') \<Rightarrow> (Inl f, s') | (Inr x, s') \<Rightarrow> k x s')"

definition lift_st :: "'a res \<Rightarrow> ('s, 'a) st" where
  "lift_st r = (\<lambda>s. (r, s))"

definition modify_st :: "('s \<Rightarrow> 's) \<Rightarrow> ('s, unit) st" where
  "modify_st f = (\<lambda>s. (Inr (), f s))"

definition gets_st :: "('s \<Rightarrow> 'a res) \<Rightarrow> ('s, 'a) st" where
  "gets_st f = (\<lambda>s. (f s, s))"

text \<open>The loop \<open>for _, x := range xs { if err := f(x); err != nil { return err } }\<close>.\<close>

fun for_st :: "('a \<Rightarrow> ('s, unit) st) \<Rightarrow> 'a list \<Rightarrow> ('s, unit) st" where
  "for_st f [] = lift_st (Inr ())"
| "for_st f (x # xs) = bind_st (f x) (\<lambda>_. for_st f xs)"

section \<open>Maps and the order of iteration\<close>

type_synonym 'v gomap = "(string \<times> 'v) list"
type_synonym range_order = "string list \<Rightarrow> string list"

definition wf_map :: "'v gomap \<Rightarrow> bool" where
  "wf_map m \<longleftrightarrow> distinct (map fst m)"

definition fair_order :: "range_order \<Rightarrow> bool" where
  "fair_order ord \<longleftrightarrow> (\<forall>ks. mset (ord ks) = mset ks)"

definition range_map :: "range_order \<Rightarrow> 'v gomap \<Rightarrow> (string \<times> 'v) list" where
  "range_map ord m = List.map_filter (\<lambda>k. map_option (Pair k) (map_of m k)) (ord (map fst m))"

text \<open>A nil map has no entries.\<close>

definition map_entries :: "'v gomap option \<Rightarrow> 'v gomap" where
  "map_entries m = (case m of None \<Rightarrow> [] | Some es \<Rightarrow> es)"

section \<open>Lemmas on results\<close>

lemma bind_res_Inr_iff [go_res]:
  "bind_res m k = Inr y \<longleftrightarrow> (\<exists>x. m = Inr x \<and> k x = Inr y)"
  by (cases m) auto

lemma bind_res_Inl_iff [go_res]:
  "bind_res m k = Inl f \<longleftrightarrow> m = Inl f \<or> (\<exists>x. m = Inr x \<and> k x = Inl f)"
  by (cases m) auto

lemma bind_res_assoc: "bind_res (bind_res m f) g = bind_res m (\<lambda>x. bind_res (f x) g)"
  by (cases m) auto

lemma bind_res_return [simp]: "bind_res m Inr = m"
  by (cases m) auto

lemma bind_res_cong [fundef_cong]:
  "m = m' \<Longrightarrow> (\<And>x. m' = Inr x \<Longrightarrow> k x = k' x) \<Longrightarrow> bind_res m k = bind_res m' k'"
  by (cases m') auto

lemma deref_simps [simp]:
  "deref w (Some x) = Inr x"
  "deref w None = Inl (Panic (''nil dereference: '' @ w))"
  by (simp_all add: deref_def)

lemma deref_Inr_iff [go_res]: "deref w p = Inr x \<longleftrightarrow> p = Some x"
  by (cases p) auto

lemma from_lib_simps [simp]:
  "from_lib (Inr x) = Inr x"
  "from_lib (Inl e) = Inl (Err e)"
  by (simp_all add: from_lib_def)

lemma from_lib_Inr_iff [go_res]: "from_lib r = Inr x \<longleftrightarrow> r = Inr x"
  by (cases r) auto

lemma from_lib_no_panic [simp]: "\<not> panics (from_lib r)"
  by (cases r) (auto simp: panics_def)

lemma panics_simps [simp]:
  "\<not> panics (Inr x)"
  "panics (Inl (Panic w))"
  "\<not> panics (Inl (Err e))"
  by (simp_all add: panics_def)

lemma panics_bind_iff [go_res]:
  "panics (bind_res m k) \<longleftrightarrow> panics m \<or> (\<exists>x. m = Inr x \<and> panics (k x))"
  by (cases m) (auto simp: panics_def split: fault.splits)

lemma map_res_Inr_iff: "map_res f xs = Inr ys \<longleftrightarrow> list_all2 (\<lambda>x y. f x = Inr y) xs ys"
proof (induction xs arbitrary: ys)
  case Nil
  then show ?case by auto
next
  case (Cons x xs)
  then show ?case by (cases ys) (auto simp: go_res)
qed

lemma map_res_total: "(\<And>x. x \<in> set xs \<Longrightarrow> f x = Inr (g x)) \<Longrightarrow> map_res f xs = Inr (map g xs)"
  by (induction xs) auto

lemma map_res_append:
  "map_res f (xs @ ys) = bind_res (map_res f xs) (\<lambda>as. bind_res (map_res f ys) (\<lambda>bs. Inr (as @ bs)))"
  by (induction xs) (auto simp: bind_res_assoc)

lemma concat_res_simps [simp]:
  "concat_res f [] = Inr []"
  "concat_res f (x # xs) = bind_res (f x) (\<lambda>y. bind_res (concat_res f xs) (\<lambda>ys. Inr (y @ ys)))"
  by (simp_all add: concat_res_def bind_res_assoc)

lemma concat_res_set:
  assumes "concat_res f xs = Inr ys"
  shows "y \<in> set ys \<longleftrightarrow> (\<exists>x \<in> set xs. \<exists>zs. f x = Inr zs \<and> y \<in> set zs)"
  using assms
  by (induction xs arbitrary: ys) (fastforce simp: go_res)+

lemma concat_res_elem:
  assumes "concat_res f xs = Inr ys" and "x \<in> set xs"
  obtains zs where "f x = Inr zs" and "set zs \<subseteq> set ys"
proof -
  have "\<exists>zs. f x = Inr zs \<and> set zs \<subseteq> set ys"
    using assms
  proof (induction xs arbitrary: ys)
    case Nil
    then show ?case by simp
  next
    case (Cons a xs)
    from Cons.prems(1) obtain u v where "f a = Inr u" and v: "concat_res f xs = Inr v" and "ys = u @ v"
      by (auto simp: go_res)
    then show ?case using Cons.IH [OF v] Cons.prems(2) by auto
  qed
  with that show thesis by blast
qed

lemma concat_res_defined: "(\<And>x. x \<in> set xs \<Longrightarrow> \<exists>y. f x = Inr y) \<Longrightarrow> \<exists>ys. concat_res f xs = Inr ys"
proof (induction xs)
  case (Cons x xs)
  from Cons.prems obtain y where "f x = Inr y" by (meson list.set_intros(1))
  moreover from Cons obtain ys where "concat_res f xs = Inr ys" by (meson list.set_intros(2))
  ultimately show ?case by simp
qed simp

lemma concat_res_defined_iff: "(\<exists>ys. concat_res f xs = Inr ys) \<longleftrightarrow> (\<forall>x \<in> set xs. \<exists>y. f x = Inr y)"
  by (metis concat_res_defined concat_res_elem)

lemma concat_res_total:
  "(\<And>x. x \<in> set xs \<Longrightarrow> f x = Inr (g x)) \<Longrightarrow> concat_res f xs = Inr (concat (map g xs))"
  by (simp add: concat_res_def map_res_total)

lemma bind_modify_st [simp]: "bind_st (modify_st f) k s = k () (f s)"
  by (simp add: bind_st_def modify_st_def)

lemma bind_lift_st: "bind_st (lift_st r) k s = (case r of Inl f \<Rightarrow> (Inl f, s) | Inr x \<Rightarrow> k x s)"
  by (simp add: bind_st_def lift_st_def split: sum.splits)

lemma bind_lift_st_Inr [simp]: "bind_st (lift_st (Inr x)) k s = k x s"
  by (simp add: bind_lift_st)

lemma bind_lift_st_ok [go_res]:
  "bind_st (lift_st r) k s = (Inr y, s') \<longleftrightarrow> (\<exists>x. r = Inr x \<and> k x s = (Inr y, s'))"
  by (auto simp: bind_lift_st split: sum.splits)

lemma gets_st_ok [go_res]: "gets_st f s = (Inr y, s') \<longleftrightarrow> f s = Inr y \<and> s' = s"
  by (auto simp: gets_st_def)

lemma bind_gets_st_ok [go_res]:
  "bind_st (gets_st f) k s = (Inr y, s') \<longleftrightarrow> (\<exists>x. f s = Inr x \<and> k x s = (Inr y, s'))"
  by (auto simp: bind_st_def gets_st_def split: sum.splits)

lemma bind_gets_st: "bind_st (gets_st f) k s = (case f s of Inl e \<Rightarrow> (Inl e, s) | Inr x \<Rightarrow> k x s)"
  by (simp add: bind_st_def gets_st_def split: sum.splits)

lemma fst_st:
  "fst (bind_st (gets_st f) k s) = bind_res (f s) (\<lambda>x. fst (k x s))"
  "fst (bind_st (lift_st r) k s) = bind_res r (\<lambda>x. fst (k x s))"
  "fst (gets_st f s) = f s"
  by (cases "f s"; cases r; simp add: bind_st_def gets_st_def lift_st_def)+

section \<open>Lemmas on maps\<close>

lemma fair_order_id [simp]: "fair_order (\<lambda>ks. ks)" "fair_order rev"
  by (simp_all add: fair_order_def)

lemma fair_order_set: "fair_order ord \<Longrightarrow> set (ord ks) = set ks"
  by (metis fair_order_def set_mset_mset)

lemma fair_order_distinct: "fair_order ord \<Longrightarrow> distinct (ord ks) = distinct ks"
  by (metis fair_order_def mset_eq_imp_distinct_iff)

lemma fair_order_Nil [simp]: "fair_order ord \<Longrightarrow> ord [] = []"
  by (metis fair_order_def mset_zero_iff)

lemma fair_order_single [simp]: "fair_order ord \<Longrightarrow> ord [k] = [k]"
  by (metis fair_order_def mset_single_iff_right mset.simps(1,2) add_mset_eq_single)

lemma map_filter_lookup:
  "set ks \<subseteq> set (map fst m) \<Longrightarrow>
    List.map_filter (\<lambda>k. map_option (Pair k) (map_of m k)) ks = map (\<lambda>k. (k, the (map_of m k))) ks"
proof (induction ks)
  case Nil
  then show ?case by (simp add: map_filter_simps)
next
  case (Cons k ks)
  then obtain v where "map_of m k = Some v"
    by (metis domD dom_map_of_conv_image_fst insert_subset list.simps(15) list.set_map)
  with Cons show ?case by (simp add: map_filter_simps)
qed

lemma range_map_eq:
  assumes "fair_order ord"
  shows "range_map ord m = map (\<lambda>k. (k, the (map_of m k))) (ord (map fst m))"
  unfolding range_map_def
  by (rule map_filter_lookup) (simp only: fair_order_set [OF assms])

lemma range_map_keys [go_map]: "fair_order ord \<Longrightarrow> map fst (range_map ord m) = ord (map fst m)"
  by (simp add: range_map_eq comp_def)

lemma wf_map_lookup: "wf_map m \<Longrightarrow> map (\<lambda>k. (k, the (map_of m k))) (map fst m) = m"
proof -
  assume "wf_map m"
  then have "the (map_of m k) = v" if "(k, v) \<in> set m" for k v
    using that by (simp add: wf_map_def map_of_is_SomeI)
  then show ?thesis by (auto intro!: map_idI simp: comp_def)
qed

lemma range_map_mset:
  assumes "fair_order ord" and "wf_map m"
  shows "mset (range_map ord m) = mset m"
proof -
  have "mset (range_map ord m) = image_mset (\<lambda>k. (k, the (map_of m k))) (mset (ord (map fst m)))"
    using assms(1) by (simp add: range_map_eq)
  also have "\<dots> = mset (map (\<lambda>k. (k, the (map_of m k))) (map fst m))"
    using assms(1) by (simp only: fair_order_def mset_map)
  also have "\<dots> = mset m"
    by (simp only: wf_map_lookup [OF assms(2)])
  finally show ?thesis .
qed

lemma range_map_set: "fair_order ord \<Longrightarrow> wf_map m \<Longrightarrow> set (range_map ord m) = set m"
  by (metis range_map_mset set_mset_mset)

lemma range_map_length: "fair_order ord \<Longrightarrow> wf_map m \<Longrightarrow> length (range_map ord m) = length m"
  by (metis range_map_mset size_mset)

lemma range_map_wf: "fair_order ord \<Longrightarrow> wf_map m \<Longrightarrow> wf_map (range_map ord m)"
  by (simp add: wf_map_def range_map_keys fair_order_distinct)

lemma range_map_map_of: "fair_order ord \<Longrightarrow> wf_map m \<Longrightarrow> map_of (range_map ord m) = map_of m"
  by (metis range_map_set range_map_wf wf_map_def map_of_inject_set)

lemma range_map_Nil [simp]: "fair_order ord \<Longrightarrow> range_map ord [] = []"
  by (simp add: range_map_eq)

lemma range_map_single [simp]: "fair_order ord \<Longrightarrow> range_map ord [(k, v)] = [(k, v)]"
  by (simp add: range_map_eq)

lemma map_entries_simps [simp]: "map_entries None = []" "map_entries (Some m) = m"
  by (simp_all add: map_entries_def)

end
