(* ===== verification/Api_Types.thy ===== *)
theory Api_Types
  imports Trino_Prelude
begin

text \<open>
  The data of the program: the custom resources of \<open>src/api/v1alpha1/trino_types.go\<close> the constants of
  \<open>src/internal/controller/common/constant.go\<close> and the Kubernetes objects the operator writes down as composite literals.

  A Go struct is a record, a pointer field an \<open>option\<close>, a slice whose nil-ness is tested an
  \<open>option\<close> of a list, a map an association list. Two type variables stand for types of other
  modules that the operator never looks into: \<open>'q\<close> is \<open>resource.Quantity\<close>, \<open>'x\<close> every other
  opaque struct (overrides, cluster operation, the unread part of a role group's configuration,
  built containers). Constants keep the source's names and values.
\<close>

section \<open>Constants of trino_types.go\<close>

definition DefaultRepository :: string where "DefaultRepository = ''quay.io/zncdatadev''"
definition DefaultProductVersion :: string where "DefaultProductVersion = ''451''"
definition DefaultProductName :: string where "DefaultProductName = ''trino''"

definition TrinoCoordinatorRoleName :: string where "TrinoCoordinatorRoleName = ''coordinator''"
definition TrinoWorkerRoleName :: string where "TrinoWorkerRoleName = ''worker''"
definition HttpPortName :: string where "HttpPortName = ''http''"
definition HttpPort :: int32 where "HttpPort = 8080"
definition HttpsPortName :: string where "HttpsPortName = ''https''"
definition HttpsPort :: int32 where "HttpsPort = 8443"
definition MetricsPortName :: string where "MetricsPortName = ''metrics''"
definition MetricsPort :: int32 where "MetricsPort = 8081"

definition DefaultTlsSecretClass :: string where "DefaultTlsSecretClass = ''tls''"
definition DefaultQueryMaxMemory :: string where "DefaultQueryMaxMemory = ''50GB''"

section \<open>Constants of common/constant.go\<close>

definition RoleCoordinator :: string where "RoleCoordinator = ''coordinator''"
definition RoleWorker :: string where "RoleWorker = ''worker''"
definition HttpScheme :: string where "HttpScheme = ''http''"
definition HttpsScheme :: string where "HttpsScheme = ''https''"

section \<open>Kubernetes objects the operator spells out\<close>

record ContainerPort =
  cp_Name :: string
  cp_ContainerPort :: int32
  cp_Protocol :: string

text \<open>An environment variable read from a key of a Secret (\<open>ValueFrom.SecretKeyRef\<close>).\<close>

record EnvVar =
  ev_Name :: string
  ev_SecretKey :: string
  ev_SecretName :: string

record VolumeMount =
  vm_Name :: string
  vm_MountPath :: string

record 'q PersistentVolumeClaimTemplate =
  ct_Annotations :: "string gomap"
  ct_AccessModes :: "string list"
  ct_StorageClassName :: "string option"
  ct_StorageRequest :: 'q

record 'q PersistentVolumeClaim =
  pvc_Name :: string
  pvc_VolumeMode :: "string option"
  pvc_AccessModes :: "string list"
  pvc_StorageRequest :: 'q

datatype 'q VolumeSource =
    ConfigMapSource string
  | EmptyDirSource 'q
  | EphemeralSource "'q PersistentVolumeClaimTemplate"
  | SecretSource string

record 'q Volume =
  vol_Name :: string
  vol_Source :: "'q VolumeSource"

record Probe =
  pr_Path :: string
  pr_Port :: string
  pr_Scheme :: string
  pr_InitialDelaySeconds :: int32
  pr_TimeoutSeconds :: int32
  pr_PeriodSeconds :: int32
  pr_FailureThreshold :: int32
  pr_SuccessThreshold :: int32

section \<open>The TrinoCluster resource\<close>

record OidcSpec =
  os_ClientCredentialsSecret :: string
  os_ExtraScopes :: "string list"

record AuthenticationSpec =
  as_AuthenticationClass :: string
  as_Oidc :: "OidcSpec option"

record 'x CatalogLabelSelectorSpec =
  cls_MatchLabels :: "string gomap option"
  cls_MatchExpressions :: "'x list option"

record TlsSpec =
  tls_ServerSecretClass :: string
  tls_InternalSecretClass :: string

record 'x ClusterConfigSpec =
  cc_Authentication :: "AuthenticationSpec list option"
  cc_CatalogLabelSelector :: "'x CatalogLabelSelectorSpec option"
  cc_CatalogProperties :: "string gomap gomap option"
  cc_ListenerClass :: string
  cc_Tls :: "TlsSpec option"
  cc_VectorAggregatorConfigMapName :: string

text \<open>
  The embedded \<open>commonsv1alpha1.RoleGroupConfigSpec\<close>: the operator reads its \<open>Resources\<close>
  (\<open>Memory.Limit\<close> and \<open>Storage.Capacity\<close>) and passes the rest on.
\<close>

record 'q ResourcesSpec =
  rs_MemoryLimit :: "'q option"
  rs_StorageCapacity :: "'q option"

record ('q, 'x) RoleGroupConfigSpec =
  rgc_Resources :: "'q ResourcesSpec option"
  rgc_rest :: 'x

record ('q, 'x) ConfigSpec =
  cs_RoleGroupConfigSpec :: "('q, 'x) RoleGroupConfigSpec option"
  cs_QueryMaxMemory :: string
  cs_QueryMaxMemoryPerNode :: string

record ('q, 'x) BaseRoleSpec =
  br_Replicas :: "int32 option"
  br_OverridesSpec :: "'x option"
  br_RoleConfig :: "'x option"
  br_Config :: "('q, 'x) ConfigSpec option"

record ('q, 'x) RoleGroupSpec =
  rg_Replicas :: "int32 option"
  rg_Config :: "('q, 'x) ConfigSpec option"
  rg_OverridesSpec :: "'x option"

record ('q, 'x) CoordinatorsSpec =
  co_RoleGroups :: "('q, 'x) RoleGroupSpec option gomap option"
  co_BaseRoleSpec :: "('q, 'x) BaseRoleSpec"

record ('q, 'x) WorkersSpec =
  wo_RoleGroups :: "('q, 'x) RoleGroupSpec option gomap option"
  wo_BaseRoleSpec :: "('q, 'x) BaseRoleSpec"

record ImageSpec =
  is_Custom :: string
  is_Repo :: string
  is_KubedoopVersion :: string
  is_ProductVersion :: string
  is_PullPolicy :: string
  is_PullSecretName :: string

record ('q, 'x) TrinoClusterSpec =
  tcs_ClusterConfig :: "'x ClusterConfigSpec option"
  tcs_ClusterOperation :: "'x option"
  tcs_Image :: "ImageSpec option"
  tcs_Coordinators :: "('q, 'x) CoordinatorsSpec option"
  tcs_Workers :: "('q, 'x) WorkersSpec option"

record ('q, 'x) TrinoCluster =
  tc_Name :: string
  tc_GVK :: "string \<times> string \<times> string"
  tc_Spec :: "('q, 'x) TrinoClusterSpec"
  tc_Status :: 'x

section \<open>Lemmas\<close>

lemmas port_defs = HttpPort_def HttpsPort_def MetricsPort_def HttpPortName_def HttpsPortName_def MetricsPortName_def

lemma ports_distinct:
  "HttpPort \<noteq> HttpsPort" "HttpPort \<noteq> MetricsPort" "HttpsPort \<noteq> MetricsPort"
  "HttpPortName \<noteq> HttpsPortName" "HttpPortName \<noteq> MetricsPortName" "HttpsPortName \<noteq> MetricsPortName"
  by (simp_all add: port_defs)

lemma ports_sint [simp]: "sint HttpPort = 8080" "sint HttpsPort = 8443" "sint MetricsPort = 8081"
  by (simp_all add: port_defs)

end
