(* ===== verification/Go_Float.thy ===== *)
theory Go_Float
  imports Complex_Main "HOL-Library.Log_Nat"
begin

text \<open>
  The float64 arithmetic that the heap-size computation uses. A finite float64 is a pair of an
  integer significand and a binary exponent; multiplication is the exact product rounded to 53
  significant bits, ties to even, as IEEE 754 and the Go specification prescribe. The exponent is
  unbounded: the values in question lie between \<open>2 ^ 9\<close> and \<open>2 ^ 63\<close>, far from overflow and
  from the subnormal range. Division by a power of two only moves the exponent and is exact there,
  and a conversion to int truncates towards zero.
\<close>

datatype f64 = F64 (significand: int) (exponent2: int)

definition f64_val :: "f64 \<Rightarrow> real" where
  "f64_val x = real_of_int (significand x) * 2 powi (exponent2 x)"

text \<open>Division of a non-negative integer by \<open>2 ^ s\<close>, rounded to nearest, ties to even.\<close>

definition round_shift :: "int \<Rightarrow> nat \<Rightarrow> int" where
  "round_shift m s =
     (let q = m div 2 ^ s; r = m mod 2 ^ s
      in if 2 * r > 2 ^ s \<or> (2 * r = 2 ^ s \<and> odd q) then q + 1 else q)"

definition f64_round :: "int \<Rightarrow> int \<Rightarrow> f64" where
  "f64_round m e =
     (let s = nat (bitlen \<bar>m\<bar> - 53)
      in F64 (sgn m * round_shift \<bar>m\<bar> s) (e + int s))"

definition f64_mult :: "f64 \<Rightarrow> f64 \<Rightarrow> f64" where
  "f64_mult x y = f64_round (significand x * significand y) (exponent2 x + exponent2 y)"

definition f64_div_pow2 :: "f64 \<Rightarrow> nat \<Rightarrow> f64" where
  "f64_div_pow2 x n = F64 (significand x) (exponent2 x - int n)"

definition f64_to_int :: "f64 \<Rightarrow> int" where
  "f64_to_int x =
     (if 0 \<le> exponent2 x then significand x * 2 ^ nat (exponent2 x)
      else sgn (significand x) * (\<bar>significand x\<bar> div 2 ^ nat (- exponent2 x)))"

section \<open>Lemmas\<close>

lemma round_shift_error:
  assumes "0 \<le> m"
  shows "\<bar>real_of_int (round_shift m s) * 2 ^ s - real_of_int m\<bar> \<le> 2 ^ s / 2"
proof -
  define q r where "q = m div 2 ^ s" and "r = m mod 2 ^ s"
  have m: "m = q * 2 ^ s + r" and r: "0 \<le> r" "r < 2 ^ s"
    by (simp_all only: q_def r_def div_mult_mod_eq) simp_all
  then have mr: "real_of_int m = real_of_int q * 2 ^ s + real_of_int r"
    by (metis of_int_add of_int_mult of_int_numeral of_int_power)
  have rr: "0 \<le> real_of_int r" "real_of_int r \<le> 2 ^ s"
    using r by (simp, metis less_imp_le of_int_le_iff of_int_numeral of_int_power)
  show ?thesis
  proof (cases "2 * r > 2 ^ s \<or> (2 * r = 2 ^ s \<and> odd q)")
    case True
    then have "2 ^ s \<le> 2 * r" by auto
    then have "(2::real) ^ s \<le> 2 * real_of_int r"
      by (metis of_int_le_iff of_int_mult of_int_numeral of_int_power)
    moreover from True have "round_shift m s = q + 1"
      by (simp add: round_shift_def q_def r_def Let_def)
    ultimately show ?thesis
      using mr rr by (simp add: algebra_simps abs_le_iff)
  next
    case False
    then have "2 * r \<le> 2 ^ s" by auto
    then have "2 * real_of_int r \<le> (2::real) ^ s"
      by (metis of_int_le_iff of_int_mult of_int_numeral of_int_power)
    moreover from False have "round_shift m s = q"
      unfolding round_shift_def q_def r_def Let_def by (rule if_not_P)
    ultimately show ?thesis
      using mr rr by (simp add: algebra_simps abs_le_iff)
  qed
qed

lemma round_shift_nonneg: "0 \<le> m \<Longrightarrow> 0 \<le> round_shift m s"
  by (simp add: round_shift_def Let_def pos_imp_zdiv_nonneg_iff)

lemma bitlen_pow_le:
  assumes "0 < m"
  shows "2 ^ (nat (bitlen m - 53)) \<le> real_of_int m / 2 ^ 52 \<or> nat (bitlen m - 53) = 0"
proof (cases "bitlen m \<le> 53")
  case False
  define b where "b = nat (bitlen m)"
  have "2 ^ (b - 1) \<le> m"
    using bitlen_bounds [OF assms] False by (simp add: b_def nat_diff_distrib)
  then have "(2::real) ^ (b - 1) \<le> real_of_int m"
    by (metis of_int_le_iff of_int_numeral of_int_power)
  moreover have "b - 1 = nat (bitlen m - 53) + 52"
    using False by (simp add: b_def nat_diff_distrib)
  ultimately have "2 ^ nat (bitlen m - 53) * 2 ^ 52 \<le> real_of_int m"
    by (metis power_add)
  then show ?thesis
    by (simp only: pos_le_divide_eq zero_less_power zero_less_numeral) simp
qed simp

text \<open>Rounding to 53 bits changes a positive value by at most one part in \<open>2 ^ 53\<close>.\<close>

lemma f64_round_error:
  assumes "0 < m"
  shows "\<bar>f64_val (f64_round m e) - real_of_int m * 2 powi e\<bar> \<le> real_of_int m * 2 powi e / 2 ^ 53"
proof -
  define s where "s = nat (bitlen m - 53)"
  have s: "2 ^ s \<le> real_of_int m / 2 ^ 52 \<or> s = 0"
    using bitlen_pow_le [OF assms] by (simp add: s_def)
  have val: "f64_val (f64_round m e) = (real_of_int (round_shift m s) * 2 ^ s) * 2 powi e"
  proof -
    have "f64_round m e = F64 (round_shift m s) (e + int s)"
      using assms by (simp add: f64_round_def Let_def s_def)
    then show ?thesis
      by (simp only: f64_val_def f64.sel power_int_add power_int_of_nat) (simp add: power_int_add)
  qed
  have err: "\<bar>real_of_int (round_shift m s) * 2 ^ s - real_of_int m\<bar> \<le> real_of_int m / 2 ^ 53"
  proof (cases "s = 0")
    case True
    then show ?thesis using assms by (simp add: round_shift_def)
  next
    case False
    with s have "2 ^ s / 2 \<le> real_of_int m / 2 ^ 53" by simp
    with round_shift_error [of m s] assms show ?thesis by linarith
  qed
  have "\<bar>f64_val (f64_round m e) - real_of_int m * 2 powi e\<bar>
      = \<bar>real_of_int (round_shift m s) * 2 ^ s - real_of_int m\<bar> * 2 powi e"
    by (simp add: val abs_mult flip: left_diff_distrib)
  also have "\<dots> \<le> real_of_int m / 2 ^ 53 * 2 powi e"
    using err by (intro mult_right_mono) simp_all
  finally show ?thesis by simp
qed

lemma f64_mult_error:
  assumes "0 < significand x" and "0 < significand y"
  shows "\<bar>f64_val (f64_mult x y) - f64_val x * f64_val y\<bar> \<le> f64_val x * f64_val y / 2 ^ 53"
proof -
  have "f64_val x * f64_val y
      = real_of_int (significand x * significand y) * 2 powi (exponent2 x + exponent2 y)"
    by (simp add: f64_val_def power_int_add)
  then show ?thesis
    unfolding f64_mult_def using f64_round_error assms by (metis zero_less_mult_iff)
qed

lemma f64_div_pow2_val: "f64_val (f64_div_pow2 x n) = f64_val x / 2 ^ n"
  by (simp add: f64_val_def f64_div_pow2_def power_int_diff)

lemma f64_div_pow2_significand [simp]: "significand (f64_div_pow2 x n) = significand x"
  by (simp add: f64_div_pow2_def)

text \<open>Truncation of a non-negative value is its floor.\<close>

lemma f64_to_int_floor:
  assumes "0 \<le> significand x"
  shows "f64_to_int x = \<lfloor>f64_val x\<rfloor>"
proof (cases "0 \<le> exponent2 x")
  case True
  then have "f64_val x = real_of_int (f64_to_int x)"
    by (simp add: f64_val_def f64_to_int_def power_int_def)
  then show ?thesis by simp
next
  case False
  define n where "n = nat (- exponent2 x)"
  have "f64_val x = real_of_int (significand x) / real_of_int (2 ^ n)"
    using False by (simp add: f64_val_def power_int_def n_def field_simps)
  then have "\<lfloor>f64_val x\<rfloor> = significand x div 2 ^ n"
    by (metis floor_divide_of_int_eq)
  then show ?thesis
    using False assms by (auto simp: f64_to_int_def n_def sgn_if)
qed

lemma f64_mult_significand: "0 < significand x \<Longrightarrow> 0 < significand y \<Longrightarrow> 0 \<le> significand (f64_mult x y)"
  by (simp add: f64_mult_def f64_round_def Let_def round_shift_nonneg)

end
