(* ===== verification/Operator_Go.thy ===== *)
theory Operator_Go
  imports Api_Types Go_Float
begin

text \<open>
  The operator's surroundings that are not part of the repository: the operator-go framework,
  apimachinery's \<open>resource.Quantity\<close> and controller-runtime's client. None of their code is
  modelled. Each is a record of functions and constants, a parameter of the definitions that call
  it, and a builder object of the framework is the constructor arguments together with the list of
  calls made on it since, in order. So a definition states exactly which calls the operator makes,
  and what the framework does with them is the parameter's business.

  What a theorem needs of a parameter is a named hypothesis stated here: \<open>props_laws\<close> (a
  \<open>properties.Properties\<close> returns the value added last for a key and lists the added keys; a nil one lists none),
  \<open>quantity_laws\<close>, \<open>info_laws\<close> (the getters of the info structs), \<open>builder_laws\<close>.
\<close>

section \<open>operator-go constants\<close>

record constants_api =
  KubedoopRoot :: string
  KubedoopConfigDir :: string
  KubedoopConfigDirMount :: string
  KubedoopDataDir :: string
  KubedoopLogDir :: string
  KubedoopTlsDir :: string
  KubedoopJmxDir :: string
  ClusterInternal :: string
  AnnotationSecretsClass :: string
  AnnotationSecretsScope :: string
  AnnotationSecretsFormat :: string
  AnnotationSecretsPKCS12Password :: string
  PodScope :: string
  NodeScope :: string
  ServiceScope :: string
  CommonDelimiter :: string
  TLSP12 :: string
  SecretStorageClassPtr :: "string option"
  VectorConfigFileName :: string

section \<open>properties.Properties\<close>

text \<open>
  A \<open>Properties\<close> object is the list of its \<open>Add\<close> calls since \<open>NewProperties\<close>. The source
  calls \<open>Keys\<close> and \<open>Get\<close> on a pointer that can be nil, so their nil receiver has an entry of
  its own.
\<close>

type_synonym properties = "(string \<times> string) list"

record props_api =
  props_Keys :: "properties \<Rightarrow> string list"
  props_Get :: "properties \<Rightarrow> string \<Rightarrow> string"
  props_Keys_nil :: "string list res"
  props_Get_nil :: "string \<Rightarrow> string res"
  props_Marshal :: "properties \<Rightarrow> goerror + string"

definition Properties_Add :: "properties \<Rightarrow> string \<Rightarrow> string \<Rightarrow> properties" where
  "Properties_Add p k v = p @ [(k, v)]"

definition Properties_Keys :: "props_api \<Rightarrow> properties option \<Rightarrow> string list res" where
  "Properties_Keys P p = (case p of None \<Rightarrow> props_Keys_nil P | Some q \<Rightarrow> Inr (props_Keys P q))"

definition Properties_Get :: "props_api \<Rightarrow> properties option \<Rightarrow> string \<Rightarrow> string res" where
  "Properties_Get P p k = (case p of None \<Rightarrow> props_Get_nil P k | Some q \<Rightarrow> Inr (props_Get P q k))"

definition last_value :: "properties \<Rightarrow> string \<Rightarrow> string option" where
  "last_value p k = map_of (rev p) k"

definition props_laws :: "props_api \<Rightarrow> bool" where
  "props_laws P \<longleftrightarrow>
     (\<forall>p. distinct (props_Keys P p) \<and> set (props_Keys P p) = fst ` set p) \<and>
     (\<forall>p k v. last_value p k = Some v \<longrightarrow> props_Get P p k = v) \<and>
     (\<forall>ks. props_Keys_nil P = Inr ks \<longrightarrow> ks = [])"

section \<open>resource.Quantity\<close>

record 'q quantity_api =
  MustParse :: "string \<Rightarrow> 'q"
  q_Value :: "'q \<Rightarrow> int"
  q_ToDec :: "'q \<Rightarrow> 'q"
  q_AsApproximateFloat64 :: "'q \<Rightarrow> f64"
  q_String :: "'q \<Rightarrow> string"
  q_IsZero :: "'q \<Rightarrow> bool"

text \<open>
  \<open>Value\<close> rounds a quantity up to an integer, \<open>AsApproximateFloat64\<close> may lose precision:
  the float is positive with the quantity and within one unit and a few units in the last place of
  \<open>Value\<close>.
\<close>

definition quantity_laws :: "'q quantity_api \<Rightarrow> bool" where
  "quantity_laws Q \<longleftrightarrow> (\<forall>m. 0 < q_Value Q m \<longrightarrow>
     0 < significand (q_AsApproximateFloat64 Q (q_ToDec Q m)) \<and>
     \<bar>f64_val (q_AsApproximateFloat64 Q (q_ToDec Q m)) - real_of_int (q_Value Q m)\<bar>
       \<le> 1 + real_of_int (q_Value Q m) / 2 ^ 50)"

section \<open>Authentication classes and the client\<close>

record OIDCProvider =
  op_Hostname :: string
  op_Port :: int
  op_RootPath :: string
  op_PrincipalClaim :: string

record StaticProvider =
  sp_UserCredentialsSecretName :: "string option"

record CredentialsScope =
  sc_Pod :: bool
  sc_Node :: bool
  sc_Services :: "string list option"

record Credentials =
  cr_SecretClass :: string
  cr_Scope :: "CredentialsScope option"

text \<open>
  The fields of the provider structs that the source reads through without a nil test
  (\<open>BindCredentials\<close>, \<open>LDAPFieldNames\<close>, \<open>UserCredentialsSecret\<close>) are options, so that the
  model has the panic the code would have on a nil pointer.
\<close>

record LDAPProvider =
  lp_BindCredentials :: "Credentials option"
  lp_Hostname :: string
  lp_Port :: int
  lp_SearchBase :: string
  lp_FieldNamesUid :: "string option"
  lp_TLS :: "unit option"

record AuthenticationProvider =
  ap_OIDC :: "OIDCProvider option"
  ap_Static :: "StaticProvider option"
  ap_LDAP :: "LDAPProvider option"

record AuthenticationClass =
  ac_AuthenticationProvider :: "AuthenticationProvider option"

record client_api =
  GetOwnerNamespace :: string
  Get_AuthenticationClass :: "string \<Rightarrow> string \<Rightarrow> goerror + AuthenticationClass"
  IgnoreNotFound :: "goerror \<Rightarrow> goerror option"

text \<open>\<open>ctrl.Result\<close> and its zero value.\<close>

record Result =
  res_Requeue :: bool
  res_RequeueAfter :: int

definition zero_Result :: Result where
  "zero_Result = \<lparr>res_Requeue = False, res_RequeueAfter = 0\<rparr>"

section \<open>Info structs\<close>

record ClusterInfo =
  ci_GVK :: "string \<times> string \<times> string"
  ci_ClusterName :: string

record RoleInfo =
  ri_ClusterInfo :: ClusterInfo
  ri_RoleName :: string

record RoleGroupInfo =
  rgi_RoleInfo :: RoleInfo
  rgi_RoleGroupName :: string

record info_api =
  ci_GetClusterName :: "ClusterInfo \<Rightarrow> string"
  ci_GetLabels :: "ClusterInfo \<Rightarrow> string gomap"
  ci_GetAnnotations :: "ClusterInfo \<Rightarrow> string gomap"
  ri_GetFullName :: "RoleInfo \<Rightarrow> string"
  ri_GetLabels :: "RoleInfo \<Rightarrow> string gomap"
  ri_GetAnnotations :: "RoleInfo \<Rightarrow> string gomap"
  rgi_GetFullName :: "RoleGroupInfo \<Rightarrow> string"
  rgi_GetLabels :: "RoleGroupInfo \<Rightarrow> string gomap"
  rgi_GetAnnotations :: "RoleGroupInfo \<Rightarrow> string gomap"
  rgi_GetClusterName :: "RoleGroupInfo \<Rightarrow> string"
  rgi_GetRoleName :: "RoleGroupInfo \<Rightarrow> string"
  rgi_GetGroupName :: "RoleGroupInfo \<Rightarrow> string"

definition info_laws :: "info_api \<Rightarrow> bool" where
  "info_laws I \<longleftrightarrow>
     (\<forall>c. ci_GetClusterName I c = ci_ClusterName c) \<and>
     (\<forall>g. rgi_GetClusterName I g = ci_ClusterName (ri_ClusterInfo (rgi_RoleInfo g))) \<and>
     (\<forall>g. rgi_GetRoleName I g = ri_RoleName (rgi_RoleInfo g)) \<and>
     (\<forall>g. rgi_GetGroupName I g = rgi_RoleGroupName g)"

text \<open>
  \<open>GetFullName\<close> joins the cluster, role and role group names with hyphens.
\<close>

definition full_name_laws :: "info_api \<Rightarrow> bool" where
  "full_name_laws I \<longleftrightarrow>
     (\<forall>r. ri_GetFullName I r = ci_ClusterName (ri_ClusterInfo r) @ ''-'' @ ri_RoleName r) \<and>
     (\<forall>g. rgi_GetFullName I g = ci_ClusterName (ri_ClusterInfo (rgi_RoleInfo g)) @ ''-''
        @ ri_RoleName (rgi_RoleInfo g) @ ''-'' @ rgi_RoleGroupName g)"

section \<open>Builders\<close>

record Image =
  img_ProductName :: string
  img_KubedoopVersion :: string
  img_ProductVersion :: string
  img_Custom :: string
  img_Repo :: string
  img_PullPolicy :: string

record Options =
  opt_ClusterName :: string
  opt_RoleName :: string
  opt_RoleGroupName :: string
  opt_Labels :: "string gomap"
  opt_Annotations :: "string gomap"

definition zero_Options :: Options where
  "zero_Options = \<lparr>opt_ClusterName = [], opt_RoleName = [], opt_RoleGroupName = [],
     opt_Labels = [], opt_Annotations = []\<rparr>"

type_synonym option_fn = "Options \<Rightarrow> Options"

text \<open>The loop \<open>for _, o := range options { o(opts) }\<close> on a fresh \<open>Options\<close>.\<close>

definition apply_options :: "option_fn list \<Rightarrow> Options" where
  "apply_options fs = fold (\<lambda>f opts. f opts) fs zero_Options"

datatype container_call =
    SetCommand "string list"
  | SetArgs "string list"
  | AddVolumeMounts "VolumeMount list"
  | AddEnvFromSecret string
  | AddEnvVars "EnvVar list"
  | AddPorts "ContainerPort list"
  | SetLivenessProbe Probe
  | SetReadinessProbe Probe

record container_builder =
  cb_Name :: string
  cb_Image :: Image
  cb_calls :: "container_call list"

datatype ('q, 'x) statefulset_call =
    AddVolumeClaimTemplates "'q PersistentVolumeClaim list"
  | AddVolumes "'q Volume list"
  | AddContainer 'x

record ('q, 'x) statefulset_base =
  sb_Name :: string
  sb_Replicas :: "int32 option"
  sb_Image :: Image
  sb_Overrides :: "'x option"
  sb_RoleGroupConfig :: "('q, 'x) RoleGroupConfigSpec option"
  sb_Options :: "option_fn list"
  sb_calls :: "('q, 'x) statefulset_call list"

record ('q, 'x) StatefulSetObject =
  so_Volumes :: "'q Volume list"
  so_Containers :: "'x list"
  so_rest :: 'x

record config_base =
  cfb_Name :: string
  cfb_Options :: "option_fn list"
  cfb_Items :: "(string \<times> string) list"

definition AddItem :: "config_base \<Rightarrow> string \<Rightarrow> string \<Rightarrow> config_base" where
  "AddItem b k v = b\<lparr>cfb_Items := cfb_Items b @ [(k, v)]\<rparr>"

record ('q, 'x) builder_api =
  ss_GetName :: "('q, 'x) statefulset_base \<Rightarrow> string"
  ss_GetImage :: "('q, 'x) statefulset_base \<Rightarrow> Image"
  ss_GetObject :: "('q, 'x) statefulset_base \<Rightarrow> goerror + ('q, 'x) StatefulSetObject"
  container_Build :: "container_builder \<Rightarrow> 'x"
  vector_GetVolumes :: "string \<Rightarrow> string \<Rightarrow> Image \<Rightarrow> 'q Volume list"
  vector_GetContainer :: "string \<Rightarrow> string \<Rightarrow> Image \<Rightarrow> 'x"
  cm_GetObject :: "config_base \<Rightarrow> 'x"
  secret_GetObject :: "config_base \<Rightarrow> 'x"
  secret_GetName :: "config_base \<Rightarrow> string"
  MakeVectorYaml :: "string \<Rightarrow> string \<Rightarrow> string \<Rightarrow> string \<Rightarrow> string \<Rightarrow> goerror + string"
  IndentTab4Spaces :: "string \<Rightarrow> string"

definition builder_laws :: "('q, 'x) builder_api \<Rightarrow> bool" where
  "builder_laws U \<longleftrightarrow> (\<forall>b. ss_GetName U b = sb_Name b) \<and> (\<forall>b. secret_GetName U b = cfb_Name b)"

record ServiceBuilderOptions =
  sbo_ClusterName :: string
  sbo_RoleName :: string
  sbo_RoleGroupName :: string
  sbo_Labels :: "string gomap"
  sbo_MatchingLabels :: "string gomap"
  sbo_Annotations :: "string gomap"
  sbo_ListenerClass :: string
  sbo_Headless :: bool

text \<open>A service builder: its name, its ports and the option function handed to the framework.\<close>

record service_builder =
  svc_Name :: string
  svc_Ports :: "ContainerPort list"
  svc_Option :: "ServiceBuilderOptions \<Rightarrow> ServiceBuilderOptions"

section \<open>Lemmas\<close>

lemma apply_options_single [simp]: "apply_options [f] = f zero_Options"
  by (simp add: apply_options_def)

lemma last_value_append:
  "last_value (p @ q) k = (case last_value q k of None \<Rightarrow> last_value p k | Some v \<Rightarrow> Some v)"
  by (simp add: last_value_def map_add_def split: option.splits)

lemma last_value_None_iff: "last_value p k = None \<longleftrightarrow> k \<notin> fst ` set p"
  by (simp add: last_value_def map_of_eq_None_iff)

lemma last_value_distinct: "distinct (map fst p) \<Longrightarrow> (k, v) \<in> set p \<Longrightarrow> last_value p k = Some v"
  unfolding last_value_def by (rule map_of_is_SomeI) (simp_all add: rev_map [symmetric])

lemma props_laws_Keys: "props_laws P \<Longrightarrow> distinct (props_Keys P p)" "props_laws P \<Longrightarrow> set (props_Keys P p) = fst ` set p"
  by (auto simp: props_laws_def)

lemma props_laws_nil: "props_laws P \<Longrightarrow> props_Keys_nil P = Inr ks \<Longrightarrow> ks = []"
  by (simp add: props_laws_def)

lemma props_laws_Get: "props_laws P \<Longrightarrow> last_value p k = Some v \<Longrightarrow> props_Get P p k = v"
  by (simp add: props_laws_def)

section \<open>Builders for the examples\<close>

text \<open>In the examples an opaque object of the framework is a string.\<close>

definition example_builders :: "(int, string) builder_api" where
  "example_builders = \<lparr>ss_GetName = sb_Name, ss_GetImage = sb_Image,
     ss_GetObject = (\<lambda>b. Inr \<lparr>so_Volumes = concat (map (\<lambda>c. case c of AddVolumes vs \<Rightarrow> vs | _ \<Rightarrow> []) (sb_calls b)),
       so_Containers = concat (map (\<lambda>c. case c of AddContainer x \<Rightarrow> [x] | _ \<Rightarrow> []) (sb_calls b)),
       so_rest = sb_Name b\<rparr>),
     container_Build = cb_Name, vector_GetVolumes = (\<lambda>_ _ _. []), vector_GetContainer = (\<lambda>_ _ _. ''vector''),
     cm_GetObject = cfb_Name, secret_GetObject = (\<lambda>b. snd (last (cfb_Items b))), secret_GetName = cfb_Name,
     MakeVectorYaml = (\<lambda>_ _ _ _ _. Inr ''sources''), IndentTab4Spaces = (\<lambda>s. s)\<rparr>"

section \<open>Info structs for the examples\<close>

definition example_infos :: info_api where
  "example_infos = \<lparr>ci_GetClusterName = ci_ClusterName, ci_GetLabels = (\<lambda>c. [(''instance'', ci_ClusterName c)]),
     ci_GetAnnotations = (\<lambda>_. []),
     ri_GetFullName = (\<lambda>r. ci_ClusterName (ri_ClusterInfo r) @ ''-'' @ ri_RoleName r),
     ri_GetLabels = (\<lambda>r. [(''component'', ri_RoleName r)]), ri_GetAnnotations = (\<lambda>_. []),
     rgi_GetFullName = (\<lambda>g. ci_ClusterName (ri_ClusterInfo (rgi_RoleInfo g)) @ ''-''
        @ ri_RoleName (rgi_RoleInfo g) @ ''-'' @ rgi_RoleGroupName g),
     rgi_GetLabels = (\<lambda>g. [(''component'', ri_RoleName (rgi_RoleInfo g)), (''role-group'', rgi_RoleGroupName g)]),
     rgi_GetAnnotations = (\<lambda>_. []),
     rgi_GetClusterName = (\<lambda>g. ci_ClusterName (ri_ClusterInfo (rgi_RoleInfo g))),
     rgi_GetRoleName = (\<lambda>g. ri_RoleName (rgi_RoleInfo g)), rgi_GetGroupName = rgi_RoleGroupName\<rparr>"

definition example_group :: "string \<Rightarrow> string \<Rightarrow> RoleGroupInfo" where
  "example_group role name = \<lparr>rgi_RoleInfo = \<lparr>ri_ClusterInfo = \<lparr>ci_GVK = (''trino.kubedoop.dev'', ''v1alpha1'', ''TrinoCluster''),
     ci_ClusterName = ''trino''\<rparr>, ri_RoleName = role\<rparr>, rgi_RoleGroupName = name\<rparr>"

lemma example_info_laws: "info_laws example_infos" "full_name_laws example_infos"
  by (simp_all add: info_laws_def full_name_laws_def example_infos_def)

end
