(* ===== verification/Go_Strings.thy ===== *)
theory Go_Strings
  imports Trino_Prelude
begin

text \<open>
  The functions of Go's \<open>strings\<close>, \<open>strconv\<close> and \<open>path\<close> packages that the operator calls:
  \<open>strings.Join\<close>, \<open>strings.ReplaceAll\<close> with one-byte arguments, \<open>strconv.Itoa\<close>,
  \<open>path.Clean\<close> and \<open>path.Join\<close>. The lemmas are the facts the components need of them: the
  shape of a cleaned path, that joining a plain file name to a directory is injective, that
  cleaning is idempotent, and that \<open>Itoa\<close> is injective.
\<close>

section \<open>strings and strconv\<close>

fun strings_Join :: "string list \<Rightarrow> string \<Rightarrow> string" where
  "strings_Join [] sep = []"
| "strings_Join [s] sep = s"
| "strings_Join (s # t # ts) sep = s @ sep @ strings_Join (t # ts) sep"

definition strings_ReplaceAll1 :: "string \<Rightarrow> char \<Rightarrow> char \<Rightarrow> string" where
  "strings_ReplaceAll1 s old new = map (\<lambda>c. if c = old then new else c) s"

definition digit_char :: "nat \<Rightarrow> char" where
  "digit_char n = ''0123456789'' ! n"

fun nat_digits :: "nat \<Rightarrow> string" where
  "nat_digits n = (if n < 10 then [digit_char n] else nat_digits (n div 10) @ [digit_char (n mod 10)])"

declare nat_digits.simps [simp del]

definition strconv_Itoa :: "int \<Rightarrow> string" where
  "strconv_Itoa i = (if i < 0 then ''-'' @ nat_digits (nat (- i)) else nat_digits (nat i))"

section \<open>path\<close>

fun path_split :: "string \<Rightarrow> string list" where
  "path_split [] = [[]]"
| "path_split (c # cs) =
     (if c = CHR ''/'' then [] # path_split cs
      else (case path_split cs of [] \<Rightarrow> [[c]] | w # ws \<Rightarrow> (c # w) # ws))"

text \<open>
  The element loop of \<open>path.Clean\<close>. The stack holds the elements kept so far, last one first; a
  \<open>..\<close> backtracks over a kept element that is not itself a \<open>..\<close>, is dropped at the root of a
  rooted path, and is kept otherwise.
\<close>

definition dotdot :: string where
  "dotdot = ''..''"

fun pop_elem :: "bool \<Rightarrow> string list \<Rightarrow> string list" where
  "pop_elem rooted [] = (if rooted then [] else [dotdot])"
| "pop_elem rooted (t # ts) = (if t = dotdot then dotdot # t # ts else ts)"

definition push_elem :: "bool \<Rightarrow> string list \<Rightarrow> string \<Rightarrow> string list" where
  "push_elem rooted st w =
     (if w = [] \<or> w = ''.'' then st else if w = dotdot then pop_elem rooted st else w # st)"

definition clean_elems :: "bool \<Rightarrow> string list \<Rightarrow> string list" where
  "clean_elems rooted ws = rev (foldl (push_elem rooted) [] ws)"

definition is_rooted :: "string \<Rightarrow> bool" where
  "is_rooted p = (case p of [] \<Rightarrow> False | c # _ \<Rightarrow> c = CHR ''/'')"

definition path_elems :: "string \<Rightarrow> string list" where
  "path_elems p = clean_elems (is_rooted p) (path_split p)"

definition path_render :: "bool \<Rightarrow> string list \<Rightarrow> string" where
  "path_render rooted es =
     (if rooted then ''/'' @ strings_Join es ''/''
      else if es = [] then ''.'' else strings_Join es ''/'')"

definition path_Clean :: "string \<Rightarrow> string" where
  "path_Clean p = (if p = [] then ''.'' else path_render (is_rooted p) (path_elems p))"

definition path_Join :: "string list \<Rightarrow> string" where
  "path_Join es = (case dropWhile (\<lambda>e. e = []) es of
     [] \<Rightarrow> [] | f # fs \<Rightarrow> path_Clean (strings_Join (f # fs) ''/''))"

text \<open>A plain file name: one element that \<open>path.Clean\<close> leaves alone.\<close>

definition plain_name :: "string \<Rightarrow> bool" where
  "plain_name w \<longleftrightarrow> w \<noteq> [] \<and> w \<noteq> ''.'' \<and> w \<noteq> dotdot \<and> CHR ''/'' \<notin> set w"

section \<open>Lemmas on strings\<close>

lemma strings_Join_Cons: "ss \<noteq> [] \<Longrightarrow> strings_Join (s # ss) sep = s @ sep @ strings_Join ss sep"
  by (cases ss) auto

lemma strings_Join_snoc: "ss \<noteq> [] \<Longrightarrow> strings_Join (ss @ [s]) sep = strings_Join ss sep @ sep @ s"
  by (induction ss sep rule: strings_Join.induct) auto

lemma strings_Join_chars: "set (strings_Join ss sep) \<subseteq> \<Union> (set ` set ss) \<union> set sep"
  by (induction ss sep rule: strings_Join.induct) auto

lemma ReplaceAll1_absent: "old \<noteq> new \<Longrightarrow> old \<notin> set (strings_ReplaceAll1 s old new)"
  by (auto simp: strings_ReplaceAll1_def)

lemma ReplaceAll1_length: "length (strings_ReplaceAll1 s old new) = length s"
  by (simp add: strings_ReplaceAll1_def)

lemma ReplaceAll1_id: "old \<notin> set s \<Longrightarrow> strings_ReplaceAll1 s old new = s"
  by (auto simp: strings_ReplaceAll1_def intro: map_idI)

lemma digit_char_inj:
  assumes "m < 10" "n < 10" "digit_char m = digit_char n"
  shows "m = n"
proof -
  have d: "distinct ''0123456789''" and l: "length ''0123456789'' = 10" by simp_all
  from assms show ?thesis
    unfolding digit_char_def using nth_eq_iff_index_eq [OF d] l by metis
qed

lemma digit_char_digit: "k < 10 \<Longrightarrow> digit_char k \<in> set ''0123456789''"
proof -
  assume "k < 10"
  moreover have "length ''0123456789'' = 10" by simp
  ultimately show ?thesis unfolding digit_char_def by (metis nth_mem)
qed

lemma nat_digits_nonempty: "nat_digits n \<noteq> []"
  by (subst nat_digits.simps) simp

lemma nat_digits_inj: "nat_digits m = nat_digits n \<Longrightarrow> m = n"
proof (induction m arbitrary: n rule: nat_digits.induct)
  case (1 m)
  show ?case
  proof (cases "m < 10")
    case True
    show ?thesis
    proof (cases "n < 10")
      case n: True
      with True "1.prems" show ?thesis
        by (auto simp: nat_digits.simps [of m] nat_digits.simps [of n] intro: digit_char_inj)
    next
      case False
      with True "1.prems" show ?thesis
        by (auto simp: nat_digits.simps [of m] nat_digits.simps [of n] nat_digits_nonempty [symmetric] nat_digits_nonempty)
    qed
  next
    case m: False
    show ?thesis
    proof (cases "n < 10")
      case True
      with m "1.prems" show ?thesis
        by (auto simp: nat_digits.simps [of m] nat_digits.simps [of n] nat_digits_nonempty [symmetric] nat_digits_nonempty)
    next
      case False
      with m "1.prems" have "nat_digits (m div 10) = nat_digits (n div 10)"
        and d: "digit_char (m mod 10) = digit_char (n mod 10)"
        by (simp_all add: nat_digits.simps [of m] nat_digits.simps [of n])
      with "1.IH" m have "m div 10 = n div 10" by simp
      moreover from d have "m mod 10 = n mod 10"
        by (rule digit_char_inj [rotated 2]) simp_all
      ultimately show ?thesis by (metis mult_div_mod_eq)
    qed
  qed
qed

lemma nat_digits_no_minus: "CHR ''-'' \<notin> set (nat_digits n)"
proof (induction n rule: nat_digits.induct)
  case (1 n)
  have d: "digit_char k \<noteq> CHR ''-''" if "k < 10" for k
    using digit_char_digit [OF that] by auto
  show ?case
    using "1.IH" d [of "n mod 10"] d [of n] by (subst nat_digits.simps) auto
qed

lemma Itoa_inj: "strconv_Itoa i = strconv_Itoa j \<longleftrightarrow> i = j"
proof
  assume eq: "strconv_Itoa i = strconv_Itoa j"
  have minus: "''-'' @ xs \<noteq> nat_digits n" for xs n
    by (metis append_Cons list.set_intros(1) nat_digits_no_minus)
  show "i = j"
    using eq minus minus [symmetric]
    by (auto simp: strconv_Itoa_def split: if_splits dest!: nat_digits_inj)
qed simp

section \<open>Lemmas on paths\<close>

lemma dotdot_special: "dotdot \<noteq> []" "dotdot \<noteq> ''.''" "CHR ''/'' \<notin> set dotdot"
  by (simp_all add: dotdot_def)

lemma path_split_nonempty [simp]: "path_split s \<noteq> []"
  by (induction s) (auto split: list.splits)

lemma path_split_no_slash: "w \<in> set (path_split s) \<Longrightarrow> CHR ''/'' \<notin> set w"
  by (induction s arbitrary: w) (auto split: if_splits list.splits)

lemma path_split_plain: "CHR ''/'' \<notin> set w \<Longrightarrow> path_split w = [w]"
  by (induction w) auto

lemma path_split_append_slash: "path_split (s @ CHR ''/'' # t) = path_split s @ path_split t"
proof (induction s)
  case Nil
  then show ?case by simp
next
  case (Cons c s)
  then show ?case by (cases "path_split s") auto
qed

lemma path_split_Join:
  "es \<noteq> [] \<Longrightarrow> \<forall>e \<in> set es. CHR ''/'' \<notin> set e \<Longrightarrow> path_split (strings_Join es ''/'') = es"
proof (induction es "''/''" rule: strings_Join.induct)
  case (3 s t ts)
  then show ?case
    using path_split_append_slash [of s "strings_Join (t # ts) ''/''"] path_split_plain [of s] by simp
qed (auto simp: path_split_plain)

lemma plain_not_special:
  assumes "plain_name w"
  shows "w \<noteq> []" "w \<noteq> ''.''" "w \<noteq> dotdot" "CHR ''/'' \<notin> set w"
  using assms by (simp_all add: plain_name_def)

lemma push_elem_plain [simp]: "plain_name w \<Longrightarrow> push_elem r st w = w # st"
  by (simp add: push_elem_def plain_not_special)

lemma clean_elems_snoc: "plain_name w \<Longrightarrow> clean_elems r (ws @ [w]) = clean_elems r ws @ [w]"
  by (simp add: clean_elems_def)

text \<open>
  The elements that cleaning keeps: plain names, after any leading \<open>..\<close>, of which a rooted path
  has none. The stack has them last one first.
\<close>

definition clean_stack :: "bool \<Rightarrow> string list \<Rightarrow> bool" where
  "clean_stack rooted st \<longleftrightarrow>
     (\<exists>ps n. st = ps @ replicate n dotdot \<and> list_all plain_name ps \<and> (rooted \<longrightarrow> n = 0))"

definition clean_form :: "bool \<Rightarrow> string list \<Rightarrow> bool" where
  "clean_form rooted es \<longleftrightarrow> clean_stack rooted (rev es)"

lemma clean_stackI: "list_all plain_name ps \<Longrightarrow> rooted \<longrightarrow> n = 0 \<Longrightarrow> clean_stack rooted (ps @ replicate n dotdot)"
  unfolding clean_stack_def by blast

lemma clean_stack_Nil [simp]: "clean_stack r []"
  using clean_stackI [of "[]" r 0] by simp

lemma clean_stack_plain: "clean_stack r st \<Longrightarrow> plain_name w \<Longrightarrow> clean_stack r (w # st)"
  unfolding clean_stack_def by (metis append_Cons list.pred_inject(2))

lemma clean_stack_pop:
  assumes "clean_stack r st"
  shows "clean_stack r (pop_elem r st)"
proof -
  from assms obtain ps n where st: "st = ps @ replicate n dotdot"
    and ps: "list_all plain_name ps" and r: "r \<longrightarrow> n = 0"
    by (auto simp: clean_stack_def)
  show ?thesis
  proof (cases ps)
    case (Cons p ps')
    with st ps r show ?thesis
      by (auto dest: plain_not_special(3) intro: clean_stackI)
  next
    case Nil
    with st r show ?thesis
      using clean_stackI [of "[]" r 1] clean_stackI [of "[]" r "Suc n"] by (cases n) auto
  qed
qed

lemma clean_stack_push:
  "clean_stack r st \<Longrightarrow> CHR ''/'' \<notin> set w \<Longrightarrow> clean_stack r (push_elem r st w)"
  by (auto simp: push_elem_def plain_name_def intro: clean_stack_pop clean_stack_plain)

lemma clean_stack_foldl:
  "clean_stack r st \<Longrightarrow> \<forall>w \<in> set ws. CHR ''/'' \<notin> set w \<Longrightarrow> clean_stack r (foldl (push_elem r) st ws)"
  by (induction ws arbitrary: st) (auto intro: clean_stack_push)

lemma clean_elems_form: "\<forall>w \<in> set ws. CHR ''/'' \<notin> set w \<Longrightarrow> clean_form r (clean_elems r ws)"
  by (simp add: clean_form_def clean_elems_def clean_stack_foldl)

lemma path_elems_form: "clean_form (is_rooted p) (path_elems p)"
  unfolding path_elems_def
  by (rule clean_elems_form) (auto dest: path_split_no_slash)

lemma foldl_push_dots:
  "foldl (push_elem False) (replicate m dotdot) (replicate n dotdot) = replicate (n + m) dotdot"
proof (induction n arbitrary: m)
  case 0
  show ?case by simp
next
  case (Suc n)
  have "push_elem False (replicate m dotdot) dotdot = replicate (Suc m) dotdot"
    by (cases m) (simp_all add: push_elem_def dotdot_special)
  with Suc.IH [of "Suc m"] show ?case by simp
qed

lemma foldl_push_plain: "list_all plain_name ps \<Longrightarrow> foldl (push_elem r) st ps = rev ps @ st"
  by (induction ps arbitrary: st) simp_all

lemma clean_elems_idem:
  assumes "clean_form r es"
  shows "clean_elems r es = es"
proof -
  from assms obtain ps n where "rev es = ps @ replicate n dotdot"
    and ps: "list_all plain_name ps" and r: "r \<longrightarrow> n = 0"
    by (auto simp: clean_form_def clean_stack_def)
  then have es: "es = replicate n dotdot @ rev ps"
    by (metis rev_append rev_replicate rev_rev_ident)
  show ?thesis
    using r es ps foldl_push_dots [of 0 n] by (cases r) (simp_all add: clean_elems_def foldl_push_plain)
qed

lemma clean_form_elem:
  assumes "clean_form r es" and "e \<in> set es"
  shows "CHR ''/'' \<notin> set e" and "e \<noteq> []"
proof -
  from assms obtain ps n where e: "e \<in> set ps \<or> e \<in> set (replicate n dotdot)"
    and ps: "list_all plain_name ps"
    unfolding clean_form_def clean_stack_def by (metis Un_iff set_append set_rev)
  from e have "plain_name e \<or> e = dotdot"
    using ps by (metis in_set_replicate list.pred_set)
  then show "CHR ''/'' \<notin> set e" and "e \<noteq> []"
    using dotdot_special by (metis plain_not_special)+
qed

text \<open>Rendering is injective on clean forms and the elements of a rendered form are that form.\<close>

lemma Join_slash_Nil: "\<forall>e \<in> set es. e \<noteq> [] \<Longrightarrow> strings_Join es ''/'' = [] \<longleftrightarrow> es = []"
  by (cases "(es, ''/'')" rule: strings_Join.cases) auto

lemma Join_slash_unrooted:
  assumes "clean_form r es" and "es \<noteq> []"
  shows "\<not> is_rooted (strings_Join es ''/'')"
proof -
  obtain e es' where es: "es = e # es'" using assms(2) by (cases es) auto
  have ne: "e \<noteq> []" and ns: "CHR ''/'' \<notin> set e"
    using clean_form_elem [OF assms(1), of e] es by auto
  then have "\<exists>c rest. strings_Join es ''/'' = c # rest \<and> c \<in> set e"
    using es by (cases es'; cases e) auto
  with ns show ?thesis by (auto simp: is_rooted_def)
qed

lemma path_render_rooted:
  assumes "clean_form r es"
  shows "is_rooted (path_render r es) = r"
  using Join_slash_unrooted [OF assms] by (auto simp: path_render_def) (auto simp: is_rooted_def)

lemma path_render_nonempty: "clean_form r es \<Longrightarrow> path_render r es \<noteq> []"
  using Join_slash_Nil [of es] clean_form_elem(2) by (auto simp: path_render_def)

lemma path_elems_render:
  assumes "clean_form r es"
  shows "path_elems (path_render r es) = es"
proof -
  have sp: "path_split (strings_Join es ''/'') = es" if "es \<noteq> []"
    using that clean_form_elem(1) [OF assms] by (intro path_split_Join) auto
  have skip: "clean_elems q ([] # ws) = clean_elems q ws" for q ws
    by (simp add: clean_elems_def push_elem_def)
  have root: "path_elems (path_render r es) = clean_elems r (path_split (path_render r es))"
    by (simp add: path_elems_def path_render_rooted [OF assms])
  consider (empty) "es = []" | (rooted) "es \<noteq> []" "r" | (rel) "es \<noteq> []" "\<not> r" by blast
  then show ?thesis
  proof cases
    case empty
    then show ?thesis
      unfolding root by (cases r) (simp_all add: path_render_def clean_elems_def push_elem_def)
  next
    case rooted
    then show ?thesis
      unfolding root using sp clean_elems_idem [OF assms] by (simp add: path_render_def skip)
  next
    case rel
    then show ?thesis
      unfolding root using sp clean_elems_idem [OF assms] by (simp add: path_render_def)
  qed
qed

theorem path_Clean_idem: "path_Clean (path_Clean p) = path_Clean p"
proof (cases "p = []")
  case True
  then show ?thesis
    by (simp add: path_Clean_def is_rooted_def path_elems_def clean_elems_def push_elem_def path_render_def)
next
  case False
  have form: "clean_form (is_rooted p) (path_elems p)" by (rule path_elems_form)
  show ?thesis
    using False path_render_nonempty [OF form] path_render_rooted [OF form] path_elems_render [OF form]
    by (simp add: path_Clean_def)
qed

lemma path_render_inj:
  "clean_form r es \<Longrightarrow> clean_form r' es' \<Longrightarrow> path_render r es = path_render r' es' \<Longrightarrow> r = r' \<and> es = es'"
  by (metis path_elems_render path_render_rooted)

lemma clean_form_snoc: "clean_form r es \<Longrightarrow> plain_name w \<Longrightarrow> clean_form r (es @ [w])"
  by (simp add: clean_form_def clean_stack_plain)

text \<open>Joining a plain name to a directory adds one element to the directory's clean form.\<close>

lemma path_Join_plain:
  assumes "plain_name w"
  shows "path_Join [dir, w] = path_render (is_rooted dir) (path_elems dir @ [w])"
proof (cases "dir = []")
  case True
  have "path_elems [] = []"
    by (simp add: path_elems_def clean_elems_def push_elem_def is_rooted_def)
  moreover have "\<not> is_rooted w"
    using assms by (auto simp: is_rooted_def plain_name_def split: list.splits)
  moreover have "path_elems w = [w]" if "\<not> is_rooted w"
    using assms that clean_elems_snoc [OF assms, of False "[]"]
    by (simp add: path_elems_def path_split_plain plain_not_special clean_elems_def)
  ultimately show ?thesis
    using True plain_not_special(1) [OF assms]
    by (simp add: path_Join_def path_Clean_def is_rooted_def)
next
  case False
  have "path_split (dir @ ''/'' @ w) = path_split dir @ [w]"
    using path_split_append_slash [of dir w] path_split_plain [of w] plain_not_special(4) [OF assms] by simp
  moreover have "is_rooted (dir @ ''/'' @ w) = is_rooted dir"
    using False by (cases dir) (auto simp: is_rooted_def)
  ultimately show ?thesis
    using False clean_elems_snoc [OF assms]
    by (simp add: path_Join_def path_Clean_def path_elems_def)
qed

lemma path_Join_plain_inj:
  assumes "plain_name v" and "plain_name w"
  shows "path_Join [dir, v] = path_Join [dir, w] \<longleftrightarrow> v = w"
  using assms path_render_inj [OF clean_form_snoc [OF path_elems_form assms(1)]
      clean_form_snoc [OF path_elems_form assms(2)], of dir dir]
  by (auto simp: path_Join_plain)

lemma path_split_chars: "w \<in> set (path_split s) \<Longrightarrow> set w \<subseteq> set s"
  by (induction s arbitrary: w) (fastforce split: if_splits list.splits)+

lemma foldl_push_elems: "set (foldl (push_elem r) st ws) \<subseteq> set st \<union> set ws \<union> {dotdot}"
proof (induction ws arbitrary: st)
  case (Cons w ws)
  have "set (pop_elem r st) \<subseteq> set st \<union> {dotdot}" by (cases st) auto
  then have "set (push_elem r st w) \<subseteq> set st \<union> {w, dotdot}" by (auto simp: push_elem_def)
  with Cons.IH [of "push_elem r st w"] show ?case by auto
qed auto

text \<open>Joining brings no characters but the separator and the dots of a cleaned path.\<close>

lemma path_Join_plain_chars:
  assumes "plain_name w"
  shows "set (path_Join [dir, w]) \<subseteq> set dir \<union> set w \<union> {CHR ''/'', CHR ''.''}"
proof -
  have "set (path_elems dir) \<subseteq> set (path_split dir) \<union> {dotdot}"
    using foldl_push_elems [of "is_rooted dir" "[]" "path_split dir"] by (simp add: path_elems_def clean_elems_def)
  then have "set e \<subseteq> set dir \<union> {CHR ''.''}" if "e \<in> set (path_elems dir)" for e
  proof -
    from that \<open>set (path_elems dir) \<subseteq> _\<close> consider "e \<in> set (path_split dir)" | "e = dotdot" by blast
    then show ?thesis using path_split_chars [of e dir] by cases (auto simp: dotdot_def)
  qed
  then have "\<Union> (set ` set (path_elems dir @ [w])) \<subseteq> set dir \<union> set w \<union> {CHR ''.''}" by auto
  with strings_Join_chars [of "path_elems dir @ [w]" "''/''"] show ?thesis
    by (auto simp: path_Join_plain [OF assms] path_render_def)
qed

text \<open>Joining two plain names at once is joining them one after the other.\<close>

lemma path_Join_plain_elems:
  assumes "plain_name w"
  shows "is_rooted (path_Join [dir, w]) = is_rooted dir" "path_elems (path_Join [dir, w]) = path_elems dir @ [w]"
  using clean_form_snoc [OF path_elems_form assms, of dir]
  by (simp_all add: path_Join_plain [OF assms] path_render_rooted path_elems_render)

lemma path_Join_assoc:
  assumes "plain_name v" and "plain_name w"
  shows "path_Join [dir, v, w] = path_Join [path_Join [dir, v], w]"
proof -
  have slash: "CHR ''/'' \<notin> set v" "CHR ''/'' \<notin> set w" and ne: "v \<noteq> []" "w \<noteq> []"
    using assms by (simp_all add: plain_not_special)
  then have vw: "path_split (v @ ''/'' @ w) = [v, w]"
    using path_split_append_slash [of v w] by (simp add: path_split_plain)
  have elems: "clean_elems r (ws @ [v, w]) = clean_elems r ws @ [v, w]" for r ws
    using clean_elems_snoc [OF assms(2), of r "ws @ [v]"] clean_elems_snoc [OF assms(1), of r ws] by simp
  have "path_Join [dir, v, w] = path_render (is_rooted dir) (path_elems dir @ [v, w])"
  proof (cases "dir = []")
    case True
    have "\<not> is_rooted (v @ ''/'' @ w)" using slash(1) ne(1) by (cases v) (auto simp: is_rooted_def)
    moreover have "path_elems [] = []" by (simp add: path_elems_def clean_elems_def push_elem_def is_rooted_def)
    moreover have "path_elems (v @ ''/'' @ w) = [v, w]"
      unfolding path_elems_def vw using elems [of _ "[]"] by (simp add: clean_elems_def)
    ultimately show ?thesis using True ne by (simp add: path_Join_def path_Clean_def is_rooted_def)
  next
    case False
    have "path_split (dir @ ''/'' @ v @ ''/'' @ w) = path_split dir @ [v, w]"
      using path_split_append_slash [of dir "v @ ''/'' @ w"] vw by simp
    moreover have "is_rooted (dir @ ''/'' @ v @ ''/'' @ w) = is_rooted dir"
      using False by (cases dir) (auto simp: is_rooted_def)
    ultimately show ?thesis using False elems by (simp add: path_Join_def path_Clean_def path_elems_def)
  qed
  then show ?thesis
    unfolding path_Join_plain [OF assms(2)] path_Join_plain_elems [OF assms(1)] by simp
qed

end
