(* ===== verification/Go_Encoding.thy ===== *)
theory Go_Encoding
  imports Go_Strings
begin

text \<open>
  The encoders of Go's standard library that the operator calls: \<open>url.URL.String\<close> for a URL with
  a scheme, a host and a path (the only fields the operator sets), and
  \<open>base64.StdEncoding.EncodeToString\<close>. Each comes with its decoder and a round trip.
\<close>

section \<open>net/url\<close>

datatype url_encoding = encodeHost | encodePath

definition is_alnum :: "char \<Rightarrow> bool" where
  "is_alnum c \<longleftrightarrow> (let n = (of_char c :: nat) in
     (97 \<le> n \<and> n \<le> 122) \<or> (65 \<le> n \<and> n \<le> 90) \<or> (48 \<le> n \<and> n \<le> 57))"

definition host_sub_delims :: string where
  "host_sub_delims = ''!$&()*+,;=:[]<>'' @ [CHR 0x27, CHR 0x22]"

definition shouldEscape :: "url_encoding \<Rightarrow> char \<Rightarrow> bool" where
  "shouldEscape mode c =
     (if is_alnum c then False
      else if mode = encodeHost \<and> c \<in> set host_sub_delims then False
      else if c \<in> set ''-_.~'' then False
      else if mode = encodePath \<and> c \<in> set ''$&+,/:;=?@'' then c = CHR ''?''
      else True)"

definition hex_digit :: "nat \<Rightarrow> char" where
  "hex_digit n = ''0123456789ABCDEF'' ! n"

definition escape_char :: "url_encoding \<Rightarrow> char \<Rightarrow> string" where
  "escape_char mode c =
     (if shouldEscape mode c
      then [CHR ''%'', hex_digit (of_char c div 16), hex_digit (of_char c mod 16)]
      else [c])"

definition url_escape :: "url_encoding \<Rightarrow> string \<Rightarrow> string" where
  "url_escape mode s = concat (map (escape_char mode) s)"

record URL =
  url_Scheme :: string
  url_Host :: string
  url_Path :: string

definition url_EscapedPath :: "URL \<Rightarrow> string" where
  "url_EscapedPath u = (if url_Path u = ''*'' then ''*'' else url_escape encodePath (url_Path u))"

text \<open>
  \<open>URL.String\<close> for a URL whose \<open>Opaque\<close>, \<open>User\<close>, query and fragment are empty. The special
  case of a relative path whose first segment holds a colon needs an empty scheme and an empty
  host, which the operator never builds; it is part of the definition all the same.
\<close>

definition url_String :: "URL \<Rightarrow> string" where
  "url_String u =
     (let scheme = (if url_Scheme u \<noteq> [] then url_Scheme u @ '':'' else []);
          slashes = (if (url_Scheme u \<noteq> [] \<or> url_Host u \<noteq> []) \<and> (url_Host u \<noteq> [] \<or> url_Path u \<noteq> [])
                     then ''//'' else []);
          host = url_escape encodeHost (url_Host u);
          path = url_EscapedPath u;
          sep = (if path \<noteq> [] \<and> \<not> is_rooted path \<and> url_Host u \<noteq> [] then ''/'' else []);
          front = scheme @ slashes @ host @ sep;
          dot = (if front = [] \<and> CHR '':'' \<in> set (takeWhile (\<lambda>c. c \<noteq> CHR ''/'') path)
                 then ''./'' else [])
      in front @ dot @ path)"

fun unhex :: "char \<Rightarrow> nat" where
  "unhex c = length (takeWhile (\<lambda>d. d \<noteq> c) ''0123456789ABCDEF'')"

fun url_unescape :: "string \<Rightarrow> string" where
  "url_unescape [] = []"
| "url_unescape (c # cs) =
     (if c = CHR ''%''
      then (case cs of
              h # l # rest \<Rightarrow> char_of (16 * unhex h + unhex l) # url_unescape rest
            | _ \<Rightarrow> c # url_unescape cs)
      else c # url_unescape cs)"

section \<open>encoding/base64\<close>

type_synonym byte = "8 word"

definition std_alphabet :: string where
  "std_alphabet = ''ABCDEFGHIJKLMNOPQRSTUVWXYZabcdefghijklmnopqrstuvwxyz0123456789+/''"

definition b64_char :: "nat \<Rightarrow> char" where
  "b64_char n = std_alphabet ! n"

fun base64_Encode :: "byte list \<Rightarrow> string" where
  "base64_Encode [] = []"
| "base64_Encode [a] =
     (let n = unat a * 65536
      in [b64_char (n div 262144), b64_char (n div 4096 mod 64), CHR ''='', CHR ''=''])"
| "base64_Encode [a, b] =
     (let n = unat a * 65536 + unat b * 256
      in [b64_char (n div 262144), b64_char (n div 4096 mod 64), b64_char (n div 64 mod 64), CHR ''=''])"
| "base64_Encode (a # b # c # rest) =
     (let n = unat a * 65536 + unat b * 256 + unat c
      in b64_char (n div 262144) # b64_char (n div 4096 mod 64) # b64_char (n div 64 mod 64)
         # b64_char (n mod 64) # base64_Encode rest)"

definition b64_index :: "char \<Rightarrow> nat" where
  "b64_index ch = length (takeWhile (\<lambda>d. d \<noteq> ch) std_alphabet)"

fun base64_Decode :: "string \<Rightarrow> byte list" where
  "base64_Decode (w # x # y # z # rest) =
     (let n = b64_index w * 262144 + b64_index x * 4096
              + (if y = CHR ''='' then 0 else b64_index y * 64)
              + (if z = CHR ''='' then 0 else b64_index z)
      in if y = CHR ''='' then [of_nat (n div 65536)]
         else if z = CHR ''='' then [of_nat (n div 65536), of_nat (n div 256 mod 256)]
         else of_nat (n div 65536) # of_nat (n div 256 mod 256) # of_nat (n mod 256) # base64_Decode rest)"
| "base64_Decode _ = []"

section \<open>Lemmas on URLs\<close>

lemma takeWhile_index:
  "distinct xs \<Longrightarrow> n < length xs \<Longrightarrow> length (takeWhile (\<lambda>d. d \<noteq> xs ! n) xs) = n"
proof (induction xs arbitrary: n)
  case (Cons x xs)
  then show ?case
    by (cases n) auto
qed simp

lemma unhex_hex_digit: "n < 16 \<Longrightarrow> unhex (hex_digit n) = n"
proof -
  assume n: "n < 16"
  have d: "distinct ''0123456789ABCDEF''" and l: "length ''0123456789ABCDEF'' = 16" by simp_all
  show ?thesis
    unfolding hex_digit_def unhex.simps by (rule takeWhile_index) (simp_all only: d l n)
qed

lemma url_escape_simps [simp]:
  "url_escape m [] = []"
  "url_escape m (c # cs) = escape_char m c @ url_escape m cs"
  "url_escape m (s @ t) = url_escape m s @ url_escape m t"
  by (simp_all add: url_escape_def)

lemma url_escape_id: "\<forall>c \<in> set s. \<not> shouldEscape m c \<Longrightarrow> url_escape m s = s"
  by (induction s) (auto simp: escape_char_def)

lemma percent_escaped: "shouldEscape m (CHR ''%'')"
  by (simp add: shouldEscape_def is_alnum_def host_sub_delims_def)

lemma url_unescape_escape_append: "url_unescape (url_escape m s @ t) = s @ url_unescape t"
proof (induction s)
  case (Cons c s)
  show ?case
  proof (cases "shouldEscape m c")
    case True
    have "(of_char c :: nat) < 256" by simp
    then have "of_char c div 16 < (16::nat)" by (simp only: less_mult_imp_div_less)
    then show ?thesis
      using Cons True by (simp add: escape_char_def unhex_hex_digit del: unhex.simps)
  next
    case False
    then have "c \<noteq> CHR ''%''" using percent_escaped by metis
    with Cons False show ?thesis by (simp add: escape_char_def)
  qed
qed simp

lemma url_unescape_escape: "url_unescape (url_escape m s) = s"
  using url_unescape_escape_append [of m s "[]"] by simp

lemma url_escape_Nil_iff: "url_escape m s = [] \<longleftrightarrow> s = []"
  by (cases s) (auto simp: escape_char_def)

lemma escape_path_rooted: "is_rooted (url_escape encodePath s) = is_rooted s"
proof (cases s)
  case (Cons c cs)
  have "\<not> shouldEscape encodePath (CHR ''/'')" by (simp add: shouldEscape_def)
  with Cons show ?thesis by (auto simp: is_rooted_def escape_char_def)
qed (simp add: is_rooted_def)

lemma EscapedPath_facts:
  "url_EscapedPath u = [] \<longleftrightarrow> url_Path u = []"
  "is_rooted (url_EscapedPath u) = is_rooted (url_Path u)"
  "url_unescape (url_EscapedPath u) = url_Path u"
  by (simp_all add: url_EscapedPath_def url_escape_Nil_iff escape_path_rooted url_unescape_escape)

text \<open>A URL with a scheme and a host decodes to its parts.\<close>

lemma url_String_decodes:
  assumes "url_Scheme u \<noteq> []" "CHR ''%'' \<notin> set (url_Scheme u)" "url_Host u \<noteq> []"
  shows "url_unescape (url_String u) = url_Scheme u @ ''://'' @ url_Host u
    @ (if url_Path u = [] \<or> is_rooted (url_Path u) then [] else ''/'') @ url_Path u"
proof -
  have plain: "url_unescape (s @ t) = s @ url_unescape t" if "CHR ''%'' \<notin> set s" for s t
    using that by (induction s) auto
  define sep where "sep = (if url_Path u = [] \<or> is_rooted (url_Path u) then [] else ''/'')"
  have str: "url_String u = (url_Scheme u @ ''://'') @ url_escape encodeHost (url_Host u) @ sep @ url_EscapedPath u"
    using assms by (auto simp: url_String_def Let_def sep_def EscapedPath_facts)
  have "url_unescape (sep @ url_EscapedPath u) = sep @ url_Path u"
    using plain [of sep "url_EscapedPath u"] EscapedPath_facts(3) by (simp add: sep_def)
  then show ?thesis
    using assms(2) plain [of "url_Scheme u @ ''://''"]
    by (simp add: str url_unescape_escape_append flip: sep_def)
qed

section \<open>Lemmas on base64\<close>

lemma std_alphabet_facts: "distinct std_alphabet" "length std_alphabet = 64" "CHR ''='' \<notin> set std_alphabet"
  by (simp_all add: std_alphabet_def)

lemma b64_index_char: "n < 64 \<Longrightarrow> b64_index (b64_char n) = n"
  unfolding b64_char_def b64_index_def
  by (rule takeWhile_index) (simp_all add: std_alphabet_facts)

lemma b64_char_not_pad: "n < 64 \<Longrightarrow> b64_char n \<noteq> CHR ''=''"
  unfolding b64_char_def by (metis nth_mem std_alphabet_facts(2,3))

lemma unat_byte: "unat (a :: byte) < 256"
  using unsigned_less [of a, where ?'a = nat] by simp

lemma base64_Encode_length: "length (base64_Encode bs) = 4 * ((length bs + 2) div 3)"
proof (induction bs rule: base64_Encode.induct)
  case (4 a b c rest)
  have "(length (a # b # c # rest) + 2) div 3 = Suc ((length rest + 2) div 3)" by simp
  with 4 show ?case by (simp add: Let_def)
qed (auto simp: Let_def)

lemma sextet_mults: "(64::nat) * 64 = 4096" "(64::nat) * 4096 = 262144"
  by simp_all

lemma sextets_recombine:
  fixes n :: nat
  assumes "n < 16777216"
  shows "n div 262144 < 64" "n div 4096 mod 64 < 64" "n div 64 mod 64 < 64" "n mod 64 < 64"
    and "n div 262144 * 262144 + n div 4096 mod 64 * 4096 + n div 64 mod 64 * 64 + n mod 64 = n"
proof -
  have "n div 262144 < 64" using assms by (simp add: div_less_iff_less_mult)
  then show "n div 262144 < 64" "n div 4096 mod 64 < 64" "n div 64 mod 64 < 64" "n mod 64 < 64"
    by simp_all
  have "n div 4096 = n div 64 div 64" "n div 262144 = n div 64 div 64 div 64"
    by (simp_all flip: div_mult2_eq)
  moreover have "k div 64 * 64 + k mod 64 = k" for k :: nat by simp
  ultimately show "n div 262144 * 262144 + n div 4096 mod 64 * 4096 + n div 64 mod 64 * 64 + n mod 64 = n"
    by (metis (no_types) add_mult_distrib mult.assoc numeral_times_numeral sextet_mults)
qed

theorem base64_roundtrip: "base64_Decode (base64_Encode bs) = bs"
proof (induction bs rule: base64_Encode.induct)
  case (2 a)
  define n where "n = unat a * 65536"
  have "n < 16777216" using unat_byte [of a] by (simp add: n_def)
  note sx = sextets_recombine [OF this]
  have "n div 64 mod 64 = 0" "n mod 64 = 0" by (simp_all add: n_def)
  with sx(5) have "n div 262144 * 262144 + n div 4096 mod 64 * 4096 = n" by simp
  then show ?case
    using sx by (simp add: Let_def b64_index_char flip: n_def) (simp add: n_def)
next
  case (3 a b)
  define n where "n = unat a * 65536 + unat b * 256"
  have "n < 16777216" using unat_byte [of a] unat_byte [of b] by (simp add: n_def)
  note sx = sextets_recombine [OF this]
  have "n mod 64 = 0" by (simp add: n_def)
  with sx(5) have eq: "n div 262144 * 262144 + n div 4096 mod 64 * 4096 + n div 64 mod 64 * 64 = n" by simp
  have "n div 65536 = unat a" "n div 256 mod 256 = unat b"
    using unat_byte [of a] unat_byte [of b] by (simp_all add: n_def)
  then show ?case
    using sx eq by (simp add: Let_def b64_index_char b64_char_not_pad flip: n_def)
next
  case (4 a b c rest)
  define n where "n = unat a * 65536 + unat b * 256 + unat c"
  have "n < 16777216" using unat_byte [of a] unat_byte [of b] unat_byte [of c] by (simp add: n_def)
  note sx = sextets_recombine [OF this]
  have "n = (unat a * 256 + unat b) * 256 + unat c" by (simp add: n_def)
  then have "n div 256 = unat a * 256 + unat b" "n mod 256 = unat c"
    using unat_byte [of c] by (simp_all only: div_mult_self3 mod_mult_self3 div_less mod_less)
  moreover have "n div 65536 = n div 256 div 256" by (simp flip: div_mult2_eq)
  ultimately have "n div 65536 = unat a" "n div 256 mod 256 = unat b" "n mod 256 = unat c"
    using unat_byte [of b] by simp_all
  then show ?case
    using sx 4 by (simp add: Let_def b64_index_char b64_char_not_pad flip: n_def)
qed simp

end
