(* ===== verification/Authz.thy ===== *)
theory Authz
  imports Operator_Go Go_Encoding
begin

text \<open>
  \<open>src/internal/controller/common/authz\<close>: the three authenticators and their collection.

  \<open>Oidc\<close>, \<open>Static\<close> and \<open>Ldap\<close> are records; the Go interface \<open>Authenticator\<close> is the
  datatype \<open>authenticator\<close> with one dispatching function per method and, as a contract, the locale
  \<open>authenticator_contract\<close>: whenever an authenticator is complete, its methods do not panic, and
  the volumes it mounts are exactly the volumes it declares. The locale is interpreted for each of
  the three authenticators, for the datatype and for \<open>TrinoAuthentication\<close>, the list that
  \<open>NewAuthentication\<close> returns.

  \<open>NewAuthentication\<close> keeps its authenticators in a map and lists them in the map's iteration
  order, so it takes the order as an argument. \<open>Provider\<close> pointers are never nil here: the
  factory builds an authenticator only under a nil test of its provider.
\<close>

section \<open>Oidc\<close>

record Oidc =
  oidc_AuthenticationClassName :: string
  oidc_Config :: "OidcSpec option"
  oidc_Provider :: OIDCProvider

definition oidc_scopes :: "OidcSpec \<Rightarrow> string list" where
  "oidc_scopes cfg = [''openid'', ''email'', ''profile''] @ os_ExtraScopes cfg"

definition oidc_issuer :: "OIDCProvider \<Rightarrow> URL" where
  "oidc_issuer prov =
     (let issuer = \<lparr>url_Scheme = ''http'', url_Host = op_Hostname prov, url_Path = op_RootPath prov\<rparr>
      in if (url_Scheme issuer = ''http'' \<and> op_Port prov \<noteq> 80)
            \<or> (url_Scheme issuer = ''https'' \<and> op_Port prov \<noteq> 443)
         then issuer\<lparr>url_Host := url_Host issuer @ '':'' @ strconv_Itoa (op_Port prov)\<rparr>
         else issuer)"

definition oidc_GetConfigProperties :: "Oidc \<Rightarrow> properties option res" where
  "oidc_GetConfigProperties a =
     bind_res (deref ''Oidc.Config'' (oidc_Config a)) (\<lambda>cfg. Inr (Some
       [(''http-server.authentication.type'', ''OAUTH2''),
        (''http-server.authentication.oauth2.scopes'', strings_Join (oidc_scopes cfg) '' ''),
        (''http-server.authentication.oauth2.client-id'', ''${ENV:OIDC_CLIENT_ID}''),
        (''http-server.authentication.oauth2.client-secret'', ''${ENV:OIDC_CLIENT_SECRET}''),
        (''http-server.authentication.oauth2.issuer'', url_String (oidc_issuer (oidc_Provider a))),
        (''http-server.authentication.oauth2.principal-field'', op_PrincipalClaim (oidc_Provider a))]))"

definition oidc_GetEnvVars :: "Oidc \<Rightarrow> EnvVar list res" where
  "oidc_GetEnvVars a =
     bind_res (deref ''Oidc.Config'' (oidc_Config a)) (\<lambda>cfg. Inr
       [\<lparr>ev_Name = ''OIDC_CLIENT_ID'', ev_SecretKey = ''CLIENT_ID'',
         ev_SecretName = os_ClientCredentialsSecret cfg\<rparr>,
        \<lparr>ev_Name = ''OIDC_CLIENT_SECRET'', ev_SecretKey = ''CLIENT_SECRET'',
         ev_SecretName = os_ClientCredentialsSecret cfg\<rparr>])"

definition oidc_GetCommands :: "Oidc \<Rightarrow> string list res" where
  "oidc_GetCommands a = Inr []"

definition oidc_GetVolumes :: "Oidc \<Rightarrow> 'q Volume list res" where
  "oidc_GetVolumes a = Inr []"

definition oidc_GetVolumeMounts :: "Oidc \<Rightarrow> VolumeMount list res" where
  "oidc_GetVolumeMounts a = Inr []"

section \<open>Static\<close>

record Static =
  static_AuthenticationClassName :: string
  static_Provider :: StaticProvider

definition static_GetCommands :: "Static \<Rightarrow> string list res" where
  "static_GetCommands a = Inr []"

definition static_GetConfigProperties :: "Static \<Rightarrow> properties option res" where
  "static_GetConfigProperties a = Inr None"

definition static_GetEnvVars :: "Static \<Rightarrow> EnvVar list res" where
  "static_GetEnvVars a = Inr []"

definition static_getCredentialsMountPath :: "constants_api \<Rightarrow> Static \<Rightarrow> string" where
  "static_getCredentialsMountPath C a = path_Join [KubedoopRoot C, ''auth-secrets'']"

definition static_getVolumeName :: "Static \<Rightarrow> string" where
  "static_getVolumeName a = ''auth-secrets-'' @ static_AuthenticationClassName a"

definition static_GetVolumeMounts :: "constants_api \<Rightarrow> Static \<Rightarrow> VolumeMount list res" where
  "static_GetVolumeMounts C a =
     Inr [\<lparr>vm_Name = static_getVolumeName a, vm_MountPath = static_getCredentialsMountPath C a\<rparr>]"

definition static_GetVolumes :: "Static \<Rightarrow> 'q Volume list res" where
  "static_GetVolumes a =
     bind_res (deref ''Static.Provider.UserCredentialsSecret'' (sp_UserCredentialsSecretName (static_Provider a)))
       (\<lambda>name. Inr [\<lparr>vol_Name = static_getVolumeName a, vol_Source = SecretSource name\<rparr>])"

section \<open>Ldap\<close>

record Ldap =
  ldap_AuthenticationClassName :: string
  ldap_Provider :: LDAPProvider

definition ldap_credentials :: "Ldap \<Rightarrow> Credentials res" where
  "ldap_credentials a = deref ''Ldap.Provider.BindCredentials'' (lp_BindCredentials (ldap_Provider a))"

definition ldap_getBindCredentialsMountPath :: "constants_api \<Rightarrow> Ldap \<Rightarrow> string res" where
  "ldap_getBindCredentialsMountPath C a =
     bind_res (ldap_credentials a) (\<lambda>cr. Inr (path_Join [KubedoopTlsDir C, cr_SecretClass cr]))"

definition NL :: string where "NL = [CHR 0x0A]"

definition ldap_command_text :: "string \<Rightarrow> string" where
  "ldap_command_text dir = NL @ ''set +x'' @ NL @ NL
     @ ''export LDAP_USER=$(cat '' @ path_Join [dir, ''user''] @ '')'' @ NL
     @ ''export LDAP_PASSWORD=$(cat '' @ path_Join [dir, ''password''] @ '')'' @ NL
     @ ''set -x'' @ NL"

definition ldap_GetCommands :: "constants_api \<Rightarrow> (string \<Rightarrow> string) \<Rightarrow> Ldap \<Rightarrow> string list res" where
  "ldap_GetCommands C indent a =
     bind_res (ldap_getBindCredentialsMountPath C a) (\<lambda>dir. Inr [indent (ldap_command_text dir)])"

definition ldap_getEndpoint :: "Ldap \<Rightarrow> string" where
  "ldap_getEndpoint a =
     (let schema = (if lp_TLS (ldap_Provider a) \<noteq> None then ''ldaps'' else ''ldap'');
          host = (if lp_Port (ldap_Provider a) \<noteq> 0
                  then lp_Hostname (ldap_Provider a) @ '':'' @ strconv_Itoa (lp_Port (ldap_Provider a))
                  else lp_Hostname (ldap_Provider a))
      in schema @ ''://'' @ host)"

definition ldap_GetConfigProperties :: "Ldap \<Rightarrow> properties option res" where
  "ldap_GetConfigProperties a =
     bind_res (deref ''Ldap.Provider.LDAPFieldNames'' (lp_FieldNamesUid (ldap_Provider a))) (\<lambda>uid. Inr (Some
       [(''http-server.authentication.type'', ''PASSWORD''),
        (''http-server.authentication.ldap.server'', ldap_getEndpoint a),
        (''password-authenticator.name'', ''ldap''),
        (''ldap.user-base-dn'', lp_SearchBase (ldap_Provider a)),
        (''ldap.group-auth-pattern'', ''(&('' @ uid @ ''={user}))''),
        (''ldap.bind-dn'', ''${ENV:LDAP_USER}''),
        (''ldap.bind-password'', ''${ENV:LDAP_PASSWORD}'')]))"

definition ldap_GetEnvVars :: "Ldap \<Rightarrow> EnvVar list res" where
  "ldap_GetEnvVars a = Inr []"

definition ldap_getBindCredentialsVolumeName :: "Ldap \<Rightarrow> string" where
  "ldap_getBindCredentialsVolumeName a = ''ldap-bind-credentials''"

definition ldap_GetVolumeMounts :: "constants_api \<Rightarrow> Ldap \<Rightarrow> VolumeMount list res" where
  "ldap_GetVolumeMounts C a =
     bind_res (ldap_getBindCredentialsMountPath C a) (\<lambda>dir.
       Inr [\<lparr>vm_Name = ldap_getBindCredentialsVolumeName a, vm_MountPath = dir\<rparr>])"

definition ldap_scopes :: "constants_api \<Rightarrow> CredentialsScope option \<Rightarrow> string list" where
  "ldap_scopes C scope = (case scope of
     None \<Rightarrow> []
   | Some sc \<Rightarrow> (if sc_Pod sc then [PodScope C] else []) @ (if sc_Node sc then [NodeScope C] else [])
       @ (case sc_Services sc of None \<Rightarrow> [] | Some ss \<Rightarrow> map (\<lambda>s. ServiceScope C @ ''='' @ s) ss))"

definition ldap_GetVolumes :: "constants_api \<Rightarrow> 'q quantity_api \<Rightarrow> Ldap \<Rightarrow> 'q Volume list res" where
  "ldap_GetVolumes C Q a =
     bind_res (ldap_credentials a) (\<lambda>cr. Inr
       [\<lparr>vol_Name = ldap_getBindCredentialsVolumeName a,
         vol_Source = EphemeralSource
           \<lparr>ct_Annotations =
              [(AnnotationSecretsClass C, cr_SecretClass cr),
               (AnnotationSecretsScope C, strings_Join (ldap_scopes C (cr_Scope cr)) (CommonDelimiter C))],
            ct_AccessModes = [''ReadWriteOnce''],
            ct_StorageClassName = SecretStorageClassPtr C,
            ct_StorageRequest = MustParse Q ''1Mi''\<rparr>\<rparr>])"

section \<open>The Authenticator interface and its factory\<close>

datatype authenticator = OidcAuth Oidc | StaticAuth Static | LdapAuth Ldap

fun auth_GetEnvVars :: "authenticator \<Rightarrow> EnvVar list res" where
  "auth_GetEnvVars (OidcAuth a) = oidc_GetEnvVars a"
| "auth_GetEnvVars (StaticAuth a) = static_GetEnvVars a"
| "auth_GetEnvVars (LdapAuth a) = ldap_GetEnvVars a"

fun auth_GetVolumes :: "constants_api \<Rightarrow> 'q quantity_api \<Rightarrow> authenticator \<Rightarrow> 'q Volume list res" where
  "auth_GetVolumes C Q (OidcAuth a) = oidc_GetVolumes a"
| "auth_GetVolumes C Q (StaticAuth a) = static_GetVolumes a"
| "auth_GetVolumes C Q (LdapAuth a) = ldap_GetVolumes C Q a"

fun auth_GetVolumeMounts :: "constants_api \<Rightarrow> authenticator \<Rightarrow> VolumeMount list res" where
  "auth_GetVolumeMounts C (OidcAuth a) = oidc_GetVolumeMounts a"
| "auth_GetVolumeMounts C (StaticAuth a) = static_GetVolumeMounts C a"
| "auth_GetVolumeMounts C (LdapAuth a) = ldap_GetVolumeMounts C a"

fun auth_GetConfigProperties :: "authenticator \<Rightarrow> properties option res" where
  "auth_GetConfigProperties (OidcAuth a) = oidc_GetConfigProperties a"
| "auth_GetConfigProperties (StaticAuth a) = static_GetConfigProperties a"
| "auth_GetConfigProperties (LdapAuth a) = ldap_GetConfigProperties a"

fun auth_GetCommands :: "constants_api \<Rightarrow> (string \<Rightarrow> string) \<Rightarrow> authenticator \<Rightarrow> string list res" where
  "auth_GetCommands C indent (OidcAuth a) = oidc_GetCommands a"
| "auth_GetCommands C indent (StaticAuth a) = static_GetCommands a"
| "auth_GetCommands C indent (LdapAuth a) = ldap_GetCommands C indent a"

definition AuthenticationTypeOIDC :: string where "AuthenticationTypeOIDC = ''oidc''"
definition AuthenticationTypeLDAP :: string where "AuthenticationTypeLDAP = ''ldap''"
definition AuthenticationTypeStatic :: string where "AuthenticationTypeStatic = ''static''"
definition AuthenticationTypeTls :: string where "AuthenticationTypeTls = ''tls''"

definition AuthenticatorFectory ::
  "OidcSpec option \<Rightarrow> AuthenticationProvider option \<Rightarrow> (string \<times> authenticator option) res" where
  "AuthenticatorFectory config provider =
     bind_res (deref ''AuthenticationProvider'' provider) (\<lambda>prov. Inr
       (case ap_OIDC prov of
          Some p \<Rightarrow> (AuthenticationTypeOIDC,
            Some (OidcAuth \<lparr>oidc_AuthenticationClassName = [], oidc_Config = config, oidc_Provider = p\<rparr>))
        | None \<Rightarrow>
          (case ap_Static prov of
             Some p \<Rightarrow> (AuthenticationTypeStatic,
               Some (StaticAuth \<lparr>static_AuthenticationClassName = [], static_Provider = p\<rparr>))
           | None \<Rightarrow>
             (case ap_LDAP prov of
                Some p \<Rightarrow> (AuthenticationTypeLDAP,
                  Some (LdapAuth \<lparr>ldap_AuthenticationClassName = [], ldap_Provider = p\<rparr>))
              | None \<Rightarrow> ([], None)))))"

section \<open>TrinoAuthentication\<close>

text \<open>
  The lookup of one authentication class. A class that is not found leaves the zero object, whose
  provider pointer is nil.
\<close>

definition fetch_class :: "client_api \<Rightarrow> string \<Rightarrow> AuthenticationClass res" where
  "fetch_class K name =
     (case Get_AuthenticationClass K (GetOwnerNamespace K) name of
        Inr obj \<Rightarrow> Inr obj
      | Inl e \<Rightarrow> (if IgnoreNotFound K e \<noteq> None then Inl (Err e)
                  else Inr \<lparr>ac_AuthenticationProvider = None\<rparr>))"

definition duplicate_error :: "string \<Rightarrow> string \<Rightarrow> goerror" where
  "duplicate_error authType name = Errorf
     (''cannot support multiple authenticators of the same type; found multiple '' @ authType
      @ '' authenticators in AuthenticationClass '' @ name)"

fun collect_authenticators ::
  "client_api \<Rightarrow> authenticator gomap \<Rightarrow> AuthenticationSpec list \<Rightarrow> authenticator gomap res" where
  "collect_authenticators K m [] = Inr m"
| "collect_authenticators K m (spec # specs) =
     bind_res (fetch_class K (as_AuthenticationClass spec)) (\<lambda>obj.
     bind_res (AuthenticatorFectory (as_Oidc spec) (ac_AuthenticationProvider obj)) (\<lambda>(authType, a).
       case a of
         None \<Rightarrow> collect_authenticators K m specs
       | Some a' \<Rightarrow>
           (if map_of m authType \<noteq> None
            then Inl (Err (duplicate_error authType (as_AuthenticationClass spec)))
            else collect_authenticators K (AList.update authType a' m) specs)))"

declare collect_authenticators.simps(2) [simp del]

type_synonym TrinoAuthentication = "authenticator list"

definition NewAuthentication ::
  "client_api \<Rightarrow> range_order \<Rightarrow> AuthenticationSpec list \<Rightarrow> TrinoAuthentication res" where
  "NewAuthentication K ord specs =
     bind_res (collect_authenticators K [] specs) (\<lambda>m. Inr (map snd (range_map ord m)))"

definition trino_GetEnvVars :: "TrinoAuthentication \<Rightarrow> EnvVar list res" where
  "trino_GetEnvVars as = concat_res auth_GetEnvVars as"

definition trino_GetVolumes :: "constants_api \<Rightarrow> 'q quantity_api \<Rightarrow> TrinoAuthentication \<Rightarrow> 'q Volume list res" where
  "trino_GetVolumes C Q as = concat_res (auth_GetVolumes C Q) as"

definition trino_GetVolumeMounts :: "constants_api \<Rightarrow> TrinoAuthentication \<Rightarrow> VolumeMount list res" where
  "trino_GetVolumeMounts C as = concat_res (auth_GetVolumeMounts C) as"

text \<open>Copying every key of one properties object into another, as the two copy loops do.\<close>

definition copy_properties :: "props_api \<Rightarrow> properties option \<Rightarrow> properties res" where
  "copy_properties P src =
     bind_res (Properties_Keys P src) (\<lambda>keys.
       map_res (\<lambda>key. bind_res (Properties_Get P src key) (\<lambda>v. Inr (key, v))) keys)"

definition trino_GetConfigProperties :: "props_api \<Rightarrow> TrinoAuthentication \<Rightarrow> properties res" where
  "trino_GetConfigProperties P as =
     concat_res (\<lambda>a. bind_res (auth_GetConfigProperties a) (copy_properties P)) as"

definition trino_GetCommands :: "constants_api \<Rightarrow> (string \<Rightarrow> string) \<Rightarrow> TrinoAuthentication \<Rightarrow> string list res" where
  "trino_GetCommands C indent as = concat_res (auth_GetCommands C indent) as"

section \<open>The contract of the interface\<close>

locale authenticator_contract =
  fixes GetEnvVars :: "'a \<Rightarrow> EnvVar list res"
    and GetVolumes :: "'a \<Rightarrow> 'q Volume list res"
    and GetVolumeMounts :: "'a \<Rightarrow> VolumeMount list res"
    and GetCommands :: "'a \<Rightarrow> string list res"
    and complete :: "'a \<Rightarrow> bool"
  assumes env_total: "complete a \<Longrightarrow> \<exists>es. GetEnvVars a = Inr es"
    and volumes_total: "complete a \<Longrightarrow> \<exists>vs. GetVolumes a = Inr vs"
    and mounts_total: "complete a \<Longrightarrow> \<exists>ms. GetVolumeMounts a = Inr ms"
    and commands_total: "complete a \<Longrightarrow> \<exists>cs. GetCommands a = Inr cs"
    and mounts_are_volumes:
      "GetVolumes a = Inr vs \<Longrightarrow> GetVolumeMounts a = Inr ms \<Longrightarrow> map vm_Name ms = map vol_Name vs"
begin

lemma list_total:
  assumes "list_all complete as"
  shows "\<exists>es. concat_res GetEnvVars as = Inr es" "\<exists>vs. concat_res GetVolumes as = Inr vs"
    "\<exists>ms. concat_res GetVolumeMounts as = Inr ms" "\<exists>cs. concat_res GetCommands as = Inr cs"
proof -
  have tot: "\<exists>ys. concat_res f as = Inr ys" if "\<And>a. complete a \<Longrightarrow> \<exists>y. f a = Inr y"
    for f :: "'a \<Rightarrow> 'c list res"
    using assms
  proof (induction as)
    case (Cons a as)
    with that [of a] show ?case by auto
  qed simp
  show "\<exists>es. concat_res GetEnvVars as = Inr es" by (rule tot) (rule env_total)
  show "\<exists>vs. concat_res GetVolumes as = Inr vs" by (rule tot) (rule volumes_total)
  show "\<exists>ms. concat_res GetVolumeMounts as = Inr ms" by (rule tot) (rule mounts_total)
  show "\<exists>cs. concat_res GetCommands as = Inr cs" by (rule tot) (rule commands_total)
qed

lemma list_mounts_are_volumes:
  "concat_res GetVolumes as = Inr vs \<Longrightarrow> concat_res GetVolumeMounts as = Inr ms \<Longrightarrow>
    map vm_Name ms = map vol_Name vs"
proof (induction as arbitrary: vs ms)
  case (Cons a as)
  from Cons.prems obtain v v' m m' where
    "GetVolumes a = Inr v" "concat_res GetVolumes as = Inr v'" "vs = v @ v'"
    "GetVolumeMounts a = Inr m" "concat_res GetVolumeMounts as = Inr m'" "ms = m @ m'"
    by (auto simp: go_res)
  with Cons.IH mounts_are_volumes show ?case by simp
qed simp

text \<open>Two listings of the same authenticators, in whatever order, mount and declare the same names.\<close>

lemma reordered_mounts_backed:
  assumes "set as = set as'" and "concat_res GetVolumes as = Inr vs"
    and "concat_res GetVolumeMounts as' = Inr ms"
  shows "vm_Name ` set ms = vol_Name ` set vs"
proof -
  have one: "vm_Name ` set m = vol_Name ` set v" if "GetVolumes a = Inr v" "GetVolumeMounts a = Inr m" for a v m
    using mounts_are_volumes [OF that] by (metis list.set_map)
  have "n \<in> vm_Name ` set ms \<longleftrightarrow> n \<in> vol_Name ` set vs" for n
  proof
    assume "n \<in> vm_Name ` set ms"
    then obtain a m where "a \<in> set as'" "GetVolumeMounts a = Inr m" and n: "n \<in> vm_Name ` set m"
      using concat_res_set [OF assms(3)] by blast
    moreover obtain v where "GetVolumes a = Inr v" "set v \<subseteq> set vs"
      using assms(1,2) \<open>a \<in> set as'\<close> concat_res_elem by metis
    ultimately show "n \<in> vol_Name ` set vs" using one by blast
  next
    assume "n \<in> vol_Name ` set vs"
    then obtain a v where "a \<in> set as" "GetVolumes a = Inr v" and n: "n \<in> vol_Name ` set v"
      using concat_res_set [OF assms(2)] by blast
    moreover obtain m where "GetVolumeMounts a = Inr m" "set m \<subseteq> set ms"
      using assms(1,3) \<open>a \<in> set as\<close> concat_res_elem by metis
    ultimately show "n \<in> vm_Name ` set ms" using one by blast
  qed
  then show ?thesis by blast
qed

end

section \<open>Completeness of an authenticator\<close>

definition oidc_complete :: "Oidc \<Rightarrow> bool" where
  "oidc_complete a \<longleftrightarrow> oidc_Config a \<noteq> None"

definition static_complete :: "Static \<Rightarrow> bool" where
  "static_complete a \<longleftrightarrow> sp_UserCredentialsSecretName (static_Provider a) \<noteq> None"

definition ldap_complete :: "Ldap \<Rightarrow> bool" where
  "ldap_complete a \<longleftrightarrow>
     lp_BindCredentials (ldap_Provider a) \<noteq> None \<and> lp_FieldNamesUid (ldap_Provider a) \<noteq> None"

fun auth_complete :: "authenticator \<Rightarrow> bool" where
  "auth_complete (OidcAuth a) = oidc_complete a"
| "auth_complete (StaticAuth a) = static_complete a"
| "auth_complete (LdapAuth a) = ldap_complete a"

lemmas oidc_defs = oidc_GetEnvVars_def oidc_GetVolumes_def oidc_GetVolumeMounts_def oidc_GetCommands_def
  oidc_GetConfigProperties_def oidc_complete_def
lemmas static_defs = static_GetEnvVars_def static_GetVolumes_def static_GetVolumeMounts_def
  static_GetCommands_def static_GetConfigProperties_def static_complete_def
lemmas ldap_defs = ldap_GetEnvVars_def ldap_GetVolumes_def ldap_GetVolumeMounts_def ldap_GetCommands_def
  ldap_GetConfigProperties_def ldap_complete_def ldap_credentials_def ldap_getBindCredentialsMountPath_def

interpretation oidc: authenticator_contract oidc_GetEnvVars oidc_GetVolumes oidc_GetVolumeMounts
  oidc_GetCommands oidc_complete
  by unfold_locales (auto simp: oidc_defs)

interpretation static: authenticator_contract static_GetEnvVars static_GetVolumes
  "static_GetVolumeMounts C" static_GetCommands static_complete for C
  by unfold_locales (auto simp: static_defs go_res)

interpretation ldap: authenticator_contract ldap_GetEnvVars "ldap_GetVolumes C Q"
  "ldap_GetVolumeMounts C" "ldap_GetCommands C indent" ldap_complete for C Q indent
  by unfold_locales (auto simp: ldap_defs go_res)

lemma auth_mounts_are_volumes:
  "auth_GetVolumes C Q a = Inr vs \<Longrightarrow> auth_GetVolumeMounts C a = Inr ms \<Longrightarrow> map vm_Name ms = map vol_Name vs"
  by (cases a) (simp_all add: oidc.mounts_are_volumes static.mounts_are_volumes ldap.mounts_are_volumes)

interpretation auth: authenticator_contract auth_GetEnvVars "auth_GetVolumes C Q"
  "auth_GetVolumeMounts C" "auth_GetCommands C indent" auth_complete for C Q indent
proof unfold_locales
  fix a :: authenticator and vs :: "'a Volume list" and ms
  assume "auth_GetVolumes C Q a = Inr vs" "auth_GetVolumeMounts C a = Inr ms"
  then show "map vm_Name ms = map vol_Name vs" by (rule auth_mounts_are_volumes)
next
  fix a assume a: "auth_complete a"
  show "\<exists>es. auth_GetEnvVars a = Inr es"
    using a by (cases a) (auto dest: oidc.env_total static.env_total ldap.env_total)
  show "\<exists>vs. auth_GetVolumes C Q a = Inr vs"
    using a by (cases a) (auto dest: oidc.volumes_total static.volumes_total ldap.volumes_total)
  show "\<exists>ms. auth_GetVolumeMounts C a = Inr ms"
    using a by (cases a) (auto dest: oidc.mounts_total static.mounts_total ldap.mounts_total)
  show "\<exists>cs. auth_GetCommands C indent a = Inr cs"
    using a by (cases a) (auto dest: oidc.commands_total static.commands_total ldap.commands_total)
qed

interpretation trino: authenticator_contract trino_GetEnvVars "trino_GetVolumes C Q"
  "trino_GetVolumeMounts C" "trino_GetCommands C indent" "list_all auth_complete" for C Q indent
  by unfold_locales
    (simp_all add: trino_GetEnvVars_def trino_GetVolumes_def trino_GetVolumeMounts_def
      trino_GetCommands_def auth.list_total auth.list_mounts_are_volumes)

section \<open>What NewAuthentication returns\<close>

text \<open>
  The abstract reading of \<open>NewAuthentication\<close>: resolve every entry of the list, in order; the
  result exists if every entry resolves and no authenticator type occurs twice.
\<close>

definition resolve :: "client_api \<Rightarrow> AuthenticationSpec \<Rightarrow> (string \<times> authenticator option) res" where
  "resolve K spec =
     bind_res (fetch_class K (as_AuthenticationClass spec))
       (\<lambda>obj. AuthenticatorFectory (as_Oidc spec) (ac_AuthenticationProvider obj))"

definition present :: "(string \<times> authenticator option) list \<Rightarrow> authenticator gomap" where
  "present rs = List.map_filter (\<lambda>(t, a). map_option (Pair t) a) rs"

fun auth_type :: "authenticator \<Rightarrow> string" where
  "auth_type (OidcAuth _) = AuthenticationTypeOIDC"
| "auth_type (StaticAuth _) = AuthenticationTypeStatic"
| "auth_type (LdapAuth _) = AuthenticationTypeLDAP"

definition typed_map :: "authenticator gomap \<Rightarrow> bool" where
  "typed_map m \<longleftrightarrow> wf_map m \<and> (\<forall>(t, a) \<in> set m. t = auth_type a)"

lemma auth_types_distinct:
  "AuthenticationTypeOIDC \<noteq> AuthenticationTypeStatic" "AuthenticationTypeOIDC \<noteq> AuthenticationTypeLDAP"
  "AuthenticationTypeStatic \<noteq> AuthenticationTypeLDAP"
  by (simp_all add: AuthenticationTypeOIDC_def AuthenticationTypeStatic_def AuthenticationTypeLDAP_def)

lemma Fectory_type: "AuthenticatorFectory cfg prov = Inr (t, Some a) \<Longrightarrow> t = auth_type a"
  by (auto simp: AuthenticatorFectory_def go_res split: option.splits)

lemma Fectory_no_error: "AuthenticatorFectory cfg prov \<noteq> Inl (Err e)"
  by (cases prov) (auto simp: AuthenticatorFectory_def)

lemma present_simps [simp]:
  "present [] = []"
  "present ((t, None) # rs) = present rs"
  "present ((t, Some a) # rs) = (t, a) # present rs"
  by (simp_all add: present_def)

lemma update_fresh: "map_of m t = None \<Longrightarrow> AList.update t a m = m @ [(t, a)]"
  by (induction m) (auto split: if_splits)

lemma collect_unfold:
  "collect_authenticators K m (spec # specs) =
     bind_res (resolve K spec) (\<lambda>(t, a). case a of
         None \<Rightarrow> collect_authenticators K m specs
       | Some a' \<Rightarrow>
           (if map_of m t \<noteq> None then Inl (Err (duplicate_error t (as_AuthenticationClass spec)))
            else collect_authenticators K (m @ [(t, a')]) specs))"
  by (auto simp: collect_authenticators.simps(2) resolve_def bind_res_assoc update_fresh intro!: bind_res_cong split: option.splits)

lemma collect_eq:
  "collect_authenticators K m specs = Inr m' \<longleftrightarrow>
     (\<exists>rs. map_res (resolve K) specs = Inr rs \<and> m' = m @ present rs \<and>
        distinct (map fst (present rs)) \<and> fst ` set m \<inter> fst ` set (present rs) = {})"
proof (induction specs arbitrary: m)
  case Nil
  then show ?case by auto
next
  case (Cons spec specs)
  show ?case
  proof (cases "resolve K spec")
    case (Inl f)
    then show ?thesis by (simp add: collect_unfold)
  next
    case (Inr r)
    obtain t a where r: "r = (t, a)" by (cases r)
    show ?thesis
    proof (cases a)
      case None
      with Inr r Cons.IH show ?thesis
        by (auto simp: collect_unfold go_res)
    next
      case (Some a')
      show ?thesis
      proof (cases "map_of m t = None")
        case True
        then have "t \<notin> fst ` set m" by (simp add: map_of_eq_None_iff)
        moreover have "collect_authenticators K m (spec # specs)
            = collect_authenticators K (m @ [(t, a')]) specs"
          using Inr r Some True by (simp add: collect_unfold)
        moreover have "(\<exists>rs. map_res (resolve K) (spec # specs) = Inr rs \<and> P rs)
            \<longleftrightarrow> (\<exists>rs. map_res (resolve K) specs = Inr rs \<and> P ((t, Some a') # rs))" for P
          using Inr r Some by (auto simp: bind_res_Inr_iff)
        ultimately show ?thesis
          using Cons.IH [of "m @ [(t, a')]"] by (simp del: map_res.simps) blast
      next
        case False
        then have "t \<in> fst ` set m" by (metis map_of_eq_None_iff)
        with False Inr r Some show ?thesis
          by (auto simp: collect_unfold go_res)
      qed
    qed
  qed
qed

lemma collect_typed:
  assumes "collect_authenticators K [] specs = Inr m"
  shows "typed_map m"
proof -
  from assms obtain rs where rs: "map_res (resolve K) specs = Inr rs" and m: "m = present rs"
    and d: "distinct (map fst (present rs))"
    by (auto simp: collect_eq)
  have "\<forall>(t, a) \<in> set (present rs). t = auth_type a"
    using rs
  proof (induction specs arbitrary: rs)
    case (Cons spec specs)
    then obtain r rs' where r: "resolve K spec = Inr r" and rs': "map_res (resolve K) specs = Inr rs'"
      and eq: "rs = r # rs'"
      by (auto simp: go_res)
    obtain t a where ta: "r = (t, a)" by (cases r)
    have "a = Some a' \<Longrightarrow> t = auth_type a'" for a'
      using r ta by (auto simp: resolve_def go_res dest: Fectory_type)
    then show ?case using Cons.IH [OF rs'] eq ta by (cases a) auto
  qed simp
  with d m show ?thesis by (simp add: typed_map_def wf_map_def)
qed

lemma NewAuthentication_typed:
  assumes "fair_order ord" and "NewAuthentication K ord specs = Inr as"
  obtains m where "collect_authenticators K [] specs = Inr m" "typed_map m" "mset as = mset (map snd m)"
    "map auth_type as = ord (map fst m)"
proof -
  from assms(2) obtain m where m: "collect_authenticators K [] specs = Inr m"
    and as: "as = map snd (range_map ord m)"
    by (auto simp: NewAuthentication_def go_res)
  have t: "typed_map m" using m by (rule collect_typed)
  then have wf: "wf_map m" by (simp add: typed_map_def)
  have ms: "mset (range_map ord m) = mset m" using assms(1) wf by (rule range_map_mset)
  then have "mset as = mset (map snd m)" by (simp add: as)
  moreover have "map auth_type as = map fst (range_map ord m)"
  proof -
    have "auth_type (snd p) = fst p" if "p \<in> set (range_map ord m)" for p
      using that t range_map_set [OF assms(1) wf] by (auto simp: typed_map_def)
    then show ?thesis by (simp add: as)
  qed
  ultimately show thesis
    using that m t assms(1) by (simp add: range_map_keys)
qed

lemma NewAuthentication_reorder:
  assumes "fair_order o1" "fair_order o2"
    and "NewAuthentication K o1 specs = Inr as" "NewAuthentication K o2 specs = Inr bs"
  shows "mset as = mset bs"
proof -
  obtain m1 where m1: "collect_authenticators K [] specs = Inr m1" "mset as = mset (map snd m1)"
    using assms(1,3) by (rule NewAuthentication_typed)
  obtain m2 where m2: "collect_authenticators K [] specs = Inr m2" "mset bs = mset (map snd m2)"
    using assms(2,4) by (rule NewAuthentication_typed)
  from m1 m2 show ?thesis by simp
qed

lemma NewAuthentication_fault: "NewAuthentication K o1 specs = Inl f \<longleftrightarrow> NewAuthentication K o2 specs = Inl f"
  by (auto simp: NewAuthentication_def go_res)

lemma collect_append:
  "collect_authenticators K m (xs @ ys) =
     bind_res (collect_authenticators K m xs) (\<lambda>m'. collect_authenticators K m' ys)"
proof (induction xs arbitrary: m)
  case (Cons x xs)
  show ?case
    unfolding append_Cons collect_unfold bind_res_assoc
    by (rule bind_res_cong [OF refl]) (auto simp: Cons.IH split: option.splits)
qed simp

text \<open>The factory leaves the class name of every authenticator empty.\<close>

definition factory_made :: "authenticator \<Rightarrow> bool" where
  "factory_made a = (case a of
     OidcAuth x \<Rightarrow> oidc_AuthenticationClassName x = []
   | StaticAuth x \<Rightarrow> static_AuthenticationClassName x = []
   | LdapAuth x \<Rightarrow> ldap_AuthenticationClassName x = [])"

lemma Fectory_made: "AuthenticatorFectory cfg prov = Inr (t, Some a) \<Longrightarrow> factory_made a"
  by (auto simp: AuthenticatorFectory_def factory_made_def go_res split: option.splits)

lemma present_made:
  assumes "map_res (resolve K) specs = Inr rs" and "(t, a) \<in> set (present rs)"
  shows "factory_made a"
  using assms
proof (induction specs arbitrary: rs)
  case (Cons spec specs)
  from Cons.prems(1) obtain r rs' where r: "resolve K spec = Inr r"
    and rs': "map_res (resolve K) specs = Inr rs'" and eq: "rs = r # rs'"
    by (auto simp: go_res)
  obtain u b where ub: "r = (u, b)" by (cases r)
  have "b = Some b' \<Longrightarrow> factory_made b'" for b'
    using r ub by (auto simp: resolve_def go_res dest: Fectory_made)
  then show ?case using Cons.IH [OF rs'] Cons.prems(2) eq ub by (cases b) auto
qed simp

lemma NewAuthentication_made:
  assumes "fair_order ord" "NewAuthentication K ord specs = Inr as" "a \<in> set as"
  shows "factory_made a"
proof -
  obtain m where m: "collect_authenticators K [] specs = Inr m" and ms: "mset as = mset (map snd m)"
    using assms(1,2) by (rule NewAuthentication_typed)
  from ms assms(3) have "a \<in> set (map snd m)" by (metis set_mset_mset)
  then obtain t where "(t, a) \<in> set m" by auto
  with m show ?thesis by (auto simp: collect_eq dest: present_made)
qed

section \<open>Configuration properties\<close>

lemma copy_properties_Some [simp]:
  "copy_properties P (Some p) = Inr (map (\<lambda>k. (k, props_Get P p k)) (props_Keys P p))"
  by (simp add: copy_properties_def Properties_Keys_def Properties_Get_def map_res_total)

lemma copy_keeps_values:
  assumes "props_laws P"
  shows "last_value (map (\<lambda>k. (k, props_Get P p k)) (props_Keys P p)) k = last_value p k"
proof (cases "last_value p k")
  case None
  then have "k \<notin> set (props_Keys P p)"
    by (simp add: props_laws_Keys(2) [OF assms] last_value_None_iff)
  then have "k \<notin> fst ` set (map (\<lambda>k. (k, props_Get P p k)) (props_Keys P p))" by auto
  with None show ?thesis by (metis last_value_None_iff)
next
  case (Some v)
  then have "k \<in> set (props_Keys P p)"
    by (metis assms last_value_None_iff option.distinct(1) props_laws_Keys(2))
  moreover have "distinct (map fst (map (\<lambda>k. (k, props_Get P p k)) (props_Keys P p)))"
    using props_laws_Keys(1) [OF assms] by (simp add: comp_def)
  ultimately have "last_value (map (\<lambda>k. (k, props_Get P p k)) (props_Keys P p)) k = Some (props_Get P p k)"
    by (intro last_value_distinct) auto
  with Some props_laws_Get [OF assms Some] show ?thesis by simp
qed

definition type_key :: string where "type_key = ''http-server.authentication.type''"

lemma oidc_type:
  "oidc_GetConfigProperties a = Inr (Some p) \<Longrightarrow> last_value p type_key = Some ''OAUTH2''"
  by (auto simp: oidc_defs go_res last_value_def type_key_def)

lemma ldap_type:
  "ldap_GetConfigProperties a = Inr (Some p) \<Longrightarrow> last_value p type_key = Some ''PASSWORD''"
  by (auto simp: ldap_defs go_res last_value_def type_key_def)

section \<open>A small world for the examples\<close>

definition example_props :: props_api where
  "example_props = \<lparr>props_Keys = (\<lambda>p. remdups (map fst p)),
     props_Get = (\<lambda>p k. case last_value p k of None \<Rightarrow> [] | Some v \<Rightarrow> v),
     props_Keys_nil = Inl (Panic ''nil dereference: Properties''),
     props_Get_nil = (\<lambda>k. Inl (Panic ''nil dereference: Properties'')),
     props_Marshal = (\<lambda>p. if last_value p ''bad'' = None then Inr [] else Inl (LibError ''marshal''))\<rparr>"

definition example_oidc :: OIDCProvider where
  "example_oidc = \<lparr>op_Hostname = ''sso.example'', op_Port = 8080, op_RootPath = ''/realms/a b'',
     op_PrincipalClaim = ''sub''\<rparr>"

definition example_ldap :: LDAPProvider where
  "example_ldap = \<lparr>lp_BindCredentials = Some \<lparr>cr_SecretClass = ''ldap-bind'', cr_Scope = None\<rparr>,
     lp_Hostname = ''ldap.example'', lp_Port = 389, lp_SearchBase = ''ou=users'',
     lp_FieldNamesUid = Some ''uid'', lp_TLS = None\<rparr>"

definition example_static :: StaticProvider where
  "example_static = \<lparr>sp_UserCredentialsSecretName = Some ''users''\<rparr>"

definition example_client :: client_api where
  "example_client = \<lparr>GetOwnerNamespace = ''prod'',
     Get_AuthenticationClass = (\<lambda>ns name.
       if name = ''sso'' then Inr \<lparr>ac_AuthenticationProvider = Some
         \<lparr>ap_OIDC = Some example_oidc, ap_Static = None, ap_LDAP = None\<rparr>\<rparr>
       else if name = ''people'' then Inr \<lparr>ac_AuthenticationProvider = Some
         \<lparr>ap_OIDC = None, ap_Static = None, ap_LDAP = Some example_ldap\<rparr>\<rparr>
       else if name = ''users'' then Inr \<lparr>ac_AuthenticationProvider = Some
         \<lparr>ap_OIDC = None, ap_Static = Some example_static, ap_LDAP = None\<rparr>\<rparr>
       else if name = ''broken'' then Inl (LibError ''timeout'')
       else Inl (LibError ''not found'')),
     IgnoreNotFound = (\<lambda>e. if e = LibError ''not found'' then None else Some e)\<rparr>"

definition example_oidc_spec :: OidcSpec where
  "example_oidc_spec = \<lparr>os_ClientCredentialsSecret = ''trino-oidc'', os_ExtraScopes = [''groups'']\<rparr>"

definition sso_spec :: AuthenticationSpec where
  "sso_spec = \<lparr>as_AuthenticationClass = ''sso'', as_Oidc = Some example_oidc_spec\<rparr>"

definition people_spec :: AuthenticationSpec where
  "people_spec = \<lparr>as_AuthenticationClass = ''people'', as_Oidc = None\<rparr>"

definition users_spec :: AuthenticationSpec where
  "users_spec = \<lparr>as_AuthenticationClass = ''users'', as_Oidc = None\<rparr>"

definition gone_spec :: AuthenticationSpec where
  "gone_spec = \<lparr>as_AuthenticationClass = ''gone'', as_Oidc = None\<rparr>"

definition sso_auth :: Oidc where
  "sso_auth = \<lparr>oidc_AuthenticationClassName = [], oidc_Config = Some example_oidc_spec,
     oidc_Provider = example_oidc\<rparr>"

definition people_auth :: Ldap where
  "people_auth = \<lparr>ldap_AuthenticationClassName = [], ldap_Provider = example_ldap\<rparr>"

definition users_auth :: Static where
  "users_auth = \<lparr>static_AuthenticationClassName = [], static_Provider = example_static\<rparr>"

lemmas example_specs = sso_spec_def people_spec_def users_spec_def gone_spec_def
lemmas example_auths = sso_auth_def people_auth_def users_auth_def

lemma example_resolve:
  "resolve example_client sso_spec = Inr (AuthenticationTypeOIDC, Some (OidcAuth sso_auth))"
  "resolve example_client people_spec = Inr (AuthenticationTypeLDAP, Some (LdapAuth people_auth))"
  "resolve example_client users_spec = Inr (AuthenticationTypeStatic, Some (StaticAuth users_auth))"
  by (simp_all add: resolve_def fetch_class_def example_client_def example_specs example_auths
      AuthenticatorFectory_def)

lemma example_class_names: "as_AuthenticationClass people_spec = ''people''"
  by (simp add: people_spec_def)

lemma example_complete: "oidc_complete sso_auth" "ldap_complete people_auth" "static_complete users_auth"
  by (simp_all add: oidc_complete_def ldap_complete_def static_complete_def example_auths
      example_ldap_def example_static_def)

lemma example_props_laws: "props_laws example_props"
  by (auto simp: props_laws_def example_props_def)

section \<open>Properties of authentication\<close>

text \<open>
  C8. \<open>NewAuthentication\<close> returns a list exactly when every entry of the authentication list
  resolves to a class with a provider and no two entries resolve to the same authenticator type;
  the list then holds the resolved authenticators in the order in which the loop visits the map of
  them, so that for a fair order none of them is left out or repeated.
\<close>

theorem new_authentication_spec:
  "NewAuthentication K ord specs = Inr as \<longleftrightarrow>
     (\<exists>rs. map_res (resolve K) specs = Inr rs \<and> distinct (map fst (present rs)) \<and>
        as = map snd (range_map ord (present rs)))"
  by (auto simp: NewAuthentication_def go_res collect_eq)

text \<open>
  C27. The iteration order of the map never changes the outcome of \<open>NewAuthentication\<close> beyond the
  order of the list: a fault is the same fault, and two lists are permutations of each other with
  at most one authenticator of each type.
\<close>

theorem new_authentication_order:
  assumes "fair_order o1" and "fair_order o2"
  shows "rel_sum (=) (\<lambda>as bs. mset as = mset bs \<and> distinct (map auth_type as))
    (NewAuthentication K o1 specs) (NewAuthentication K o2 specs)"
proof (cases "NewAuthentication K o1 specs")
  case (Inl f)
  with NewAuthentication_fault [of K o1 specs f o2] show ?thesis by simp
next
  case (Inr as)
  then obtain bs where bs: "NewAuthentication K o2 specs = Inr bs"
    by (metis NewAuthentication_fault obj_sumE)
  obtain m where "typed_map m" "map auth_type as = o1 (map fst m)"
    using assms(1) Inr by (rule NewAuthentication_typed)
  then have "distinct (map auth_type as)"
    using fair_order_distinct [OF assms(1)] by (simp add: typed_map_def wf_map_def)
  with Inr bs NewAuthentication_reorder [OF assms Inr bs] show ?thesis by simp
qed

theorem new_authentication_order_witness:
  "rel_sum (=) (\<lambda>as bs. mset as = mset bs \<and> distinct (map auth_type as))
    (NewAuthentication example_client (\<lambda>ks. ks) [sso_spec, people_spec])
    (NewAuthentication example_client rev [sso_spec, people_spec])"
  by (rule new_authentication_order) simp_all

text \<open>
  The first entry whose type an earlier entry already has makes \<open>NewAuthentication\<close> fail with
  the duplicate error that names the type and that entry's class.
\<close>

theorem new_authentication_duplicate:
  assumes "map_res (resolve K) pre = Inr rs" and "distinct (map fst (present rs))"
    and "resolve K spec = Inr (t, Some a)" and "t \<in> fst ` set (present rs)"
  shows "NewAuthentication K ord (pre @ spec # rest)
    = Inl (Err (duplicate_error t (as_AuthenticationClass spec)))"
proof -
  have "collect_authenticators K [] pre = Inr (present rs)"
    using assms(1,2) by (simp add: collect_eq)
  moreover have "map_of (present rs) t \<noteq> None"
    using assms(4) by (simp add: map_of_eq_None_iff)
  ultimately show ?thesis
    using assms(3)
    by (simp add: NewAuthentication_def collect_append collect_unfold)
qed

theorem new_authentication_duplicate_witness:
  "NewAuthentication example_client rev ([people_spec] @ people_spec # [sso_spec])
    = Inl (Err (duplicate_error ''ldap'' ''people''))"
  using new_authentication_duplicate [of example_client "[people_spec]"
      "[(AuthenticationTypeLDAP, Some (LdapAuth people_auth))]" people_spec AuthenticationTypeLDAP
      "LdapAuth people_auth" rev "[sso_spec]"]
  by (simp add: example_resolve example_class_names AuthenticationTypeLDAP_def)

text \<open>
  C36. An authentication class that does not exist is not reported as an error: the lookup ignores
  not-found, the zero object has no provider, and the factory dereferences the nil provider.
\<close>

theorem new_authentication_missing_class:
  assumes "map_res (resolve K) pre = Inr rs" and "distinct (map fst (present rs))"
    and "Get_AuthenticationClass K (GetOwnerNamespace K) (as_AuthenticationClass spec) = Inl e"
    and "IgnoreNotFound K e = None"
  shows "panics (NewAuthentication K ord (pre @ spec # rest))"
proof -
  have "collect_authenticators K [] pre = Inr (present rs)"
    using assms(1,2) by (simp add: collect_eq)
  moreover have "resolve K spec = Inl (Panic (''nil dereference: '' @ ''AuthenticationProvider''))"
    using assms(3,4) by (simp add: resolve_def fetch_class_def AuthenticatorFectory_def)
  ultimately show ?thesis
    by (simp add: NewAuthentication_def collect_append collect_unfold)
qed

theorem new_authentication_missing_class_witness:
  "panics (NewAuthentication example_client rev ([sso_spec] @ gone_spec # []))"
  using new_authentication_missing_class [of example_client "[sso_spec]"
      "[(AuthenticationTypeOIDC, Some (OidcAuth sso_auth))]" gone_spec "LibError ''not found''" rev "[]"]
  by (simp add: example_resolve) (simp add: example_client_def gone_spec_def)

text \<open>
  C37. With an OIDC and an LDAP class configured together, the run time's choice of map order alone
  decides which \<open>http-server.authentication.type\<close> the coordinator gets: both values occur.
\<close>

theorem authentication_type_depends_on_order:
  assumes "props_laws P" and "oidc_complete x" and "ldap_complete y"
    and "resolve K s1 = Inr (AuthenticationTypeOIDC, Some (OidcAuth x))"
    and "resolve K s2 = Inr (AuthenticationTypeLDAP, Some (LdapAuth y))"
  shows "\<exists>o1 o2 as bs ps qs. fair_order o1 \<and> fair_order o2 \<and>
    NewAuthentication K o1 [s1, s2] = Inr as \<and> NewAuthentication K o2 [s1, s2] = Inr bs \<and>
    trino_GetConfigProperties P as = Inr ps \<and> trino_GetConfigProperties P bs = Inr qs \<and>
    last_value ps type_key = Some ''PASSWORD'' \<and> last_value qs type_key = Some ''OAUTH2''"
proof -
  obtain p q where p: "oidc_GetConfigProperties x = Inr (Some p)" and q: "ldap_GetConfigProperties y = Inr (Some q)"
    using assms(2,3) by (auto simp: oidc_defs ldap_defs)
  let ?copy = "\<lambda>p. map (\<lambda>k. (k, props_Get P p k)) (props_Keys P p)"
  have tp: "last_value (?copy p) type_key = Some ''OAUTH2''" "last_value (?copy q) type_key = Some ''PASSWORD''"
    using copy_keeps_values [OF assms(1)] oidc_type [OF p] ldap_type [OF q] by simp_all
  have c: "collect_authenticators K [] [s1, s2]
      = Inr [(AuthenticationTypeOIDC, OidcAuth x), (AuthenticationTypeLDAP, LdapAuth y)]"
    using assms(4,5) auth_types_distinct by (simp add: collect_unfold)
  have "NewAuthentication K (\<lambda>ks. ks) [s1, s2] = Inr [OidcAuth x, LdapAuth y]"
    "NewAuthentication K rev [s1, s2] = Inr [LdapAuth y, OidcAuth x]"
    using auth_types_distinct by (simp_all add: NewAuthentication_def c range_map_eq)
  moreover have "trino_GetConfigProperties P [OidcAuth x, LdapAuth y] = Inr (?copy p @ ?copy q)"
    "trino_GetConfigProperties P [LdapAuth y, OidcAuth x] = Inr (?copy q @ ?copy p)"
    using p q by (simp_all add: trino_GetConfigProperties_def)
  moreover have "last_value (?copy p @ ?copy q) type_key = Some ''PASSWORD''"
    "last_value (?copy q @ ?copy p) type_key = Some ''OAUTH2''"
    using tp by (simp_all add: last_value_append)
  ultimately show ?thesis using fair_order_id by blast
qed

theorem authentication_type_depends_on_order_witness:
  "\<exists>o1 o2 as bs ps qs. fair_order o1 \<and> fair_order o2 \<and>
    NewAuthentication example_client o1 [sso_spec, people_spec] = Inr as \<and>
    NewAuthentication example_client o2 [sso_spec, people_spec] = Inr bs \<and>
    trino_GetConfigProperties example_props as = Inr ps \<and>
    trino_GetConfigProperties example_props bs = Inr qs \<and>
    last_value ps type_key = Some ''PASSWORD'' \<and> last_value qs type_key = Some ''OAUTH2''"
  using example_props_laws example_complete(1,2) example_resolve(1,2)
  by (rule authentication_type_depends_on_order)

text \<open>
  C35. The issuer URL of an OIDC provider with a host name decodes to the provider's own host, port and path: the
  port is left out exactly when it is 80, a slash is inserted before a relative path, and escaping
  loses nothing.
\<close>

theorem oidc_issuer_roundtrip:
  assumes "op_Hostname prov \<noteq> []"
  shows "url_unescape (url_String (oidc_issuer prov)) =
    ''http://'' @ op_Hostname prov
      @ (if op_Port prov = 80 then [] else '':'' @ strconv_Itoa (op_Port prov))
      @ (if op_RootPath prov = [] \<or> is_rooted (op_RootPath prov) then [] else ''/'') @ op_RootPath prov"
proof -
  have "url_Scheme (oidc_issuer prov) = ''http''" "url_Path (oidc_issuer prov) = op_RootPath prov"
    "url_Host (oidc_issuer prov) = op_Hostname prov
      @ (if op_Port prov = 80 then [] else '':'' @ strconv_Itoa (op_Port prov))"
    by (simp_all add: oidc_issuer_def Let_def)
  with url_String_decodes [of "oidc_issuer prov"] assms show ?thesis by simp
qed

theorem oidc_issuer_roundtrip_witness:
  "url_unescape (url_String (oidc_issuer example_oidc)) = ''http://sso.example:8080/realms/a b''"
  using oidc_issuer_roundtrip [of example_oidc]
  by (simp add: example_oidc_def strconv_Itoa_def nat_digits.simps digit_char_def is_rooted_def)

text \<open>Kubernetes accepts a volume name only if it is a DNS label (RFC 1123).\<close>

definition label_char :: "char \<Rightarrow> bool" where
  "label_char c \<longleftrightarrow> c \<in> set ''abcdefghijklmnopqrstuvwxyz0123456789''"

definition dns_label :: "string \<Rightarrow> bool" where
  "dns_label s \<longleftrightarrow> s \<noteq> [] \<and> length s \<le> 63 \<and> (\<forall>c \<in> set s. label_char c \<or> c = CHR ''-'')
     \<and> label_char (hd s) \<and> label_char (last s)"

text \<open>
  C38. The factory never fills in the class name of a static authenticator, so the volume of every
  static authenticator that \<open>NewAuthentication\<close> returns is named \<open>auth-secrets-\<close>, which is not
  a legal volume name.
\<close>

theorem static_volume_name_not_label:
  assumes "fair_order ord" and "NewAuthentication K ord specs = Inr as" and "StaticAuth a \<in> set as"
    and "trino_GetVolumes C Q as = Inr vs"
  shows "\<exists>v \<in> set vs. vol_Name v = ''auth-secrets-'' \<and> \<not> dns_label (vol_Name v)"
proof -
  have "factory_made (StaticAuth a)" using assms(1-3) by (rule NewAuthentication_made)
  then have name: "static_getVolumeName a = ''auth-secrets-''"
    by (simp add: factory_made_def static_getVolumeName_def)
  have bad: "\<not> dns_label ''auth-secrets-''" by (simp add: dns_label_def label_char_def)
  obtain zs where "static_GetVolumes a = Inr zs" and sub: "set zs \<subseteq> set vs"
    using concat_res_elem [OF assms(4) [unfolded trino_GetVolumes_def] assms(3)] by auto
  then obtain n where "\<lparr>vol_Name = static_getVolumeName a, vol_Source = SecretSource n\<rparr> \<in> set vs"
    by (auto simp: static_GetVolumes_def go_res)
  with name bad show ?thesis by force
qed

definition example_consts :: constants_api where
  "example_consts = \<lparr>KubedoopRoot = ''/kubedoop/'', KubedoopConfigDir = ''/kubedoop/config/'',
     KubedoopConfigDirMount = ''/kubedoop/mount/config/'', KubedoopDataDir = ''/kubedoop/data/'',
     KubedoopLogDir = ''/kubedoop/log/'', KubedoopTlsDir = ''/kubedoop/tls/'',
     KubedoopJmxDir = ''/kubedoop/jmx/'', ClusterInternal = ''cluster-internal'',
     AnnotationSecretsClass = ''class'', AnnotationSecretsScope = ''scope'',
     AnnotationSecretsFormat = ''format'', AnnotationSecretsPKCS12Password = ''password'',
     PodScope = ''pod'', NodeScope = ''node'', ServiceScope = ''service'', CommonDelimiter = '','',
     TLSP12 = ''tls-p12'', SecretStorageClassPtr = Some ''secrets'', VectorConfigFileName = ''vector.yaml''\<rparr>"

text \<open>Quantities of the examples are plain numbers of bytes.\<close>

definition example_quantity :: "int quantity_api" where
  "example_quantity = \<lparr>MustParse = (\<lambda>s. if s = ''2G'' then 2000000000 else if s = ''1Gi'' then 1073741824
       else if s = ''1Mi'' then 1048576 else 0),
     q_Value = (\<lambda>v. v), q_ToDec = (\<lambda>v. v), q_AsApproximateFloat64 = (\<lambda>v. F64 v 0),
     q_String = strconv_Itoa, q_IsZero = (\<lambda>v. v = 0)\<rparr>"

theorem static_volume_name_not_label_witness:
  "\<exists>v \<in> set [\<lparr>vol_Name = ''auth-secrets-'', vol_Source = SecretSource ''users'' :: int VolumeSource\<rparr>].
     vol_Name v = ''auth-secrets-'' \<and> \<not> dns_label (vol_Name v)"
proof (rule static_volume_name_not_label [of rev example_client "[users_spec]" "[StaticAuth users_auth]"
      users_auth example_consts example_quantity])
  show "NewAuthentication example_client rev [users_spec] = Inr [StaticAuth users_auth]"
    by (simp add: NewAuthentication_def collect_unfold example_resolve)
qed (simp_all add: trino_GetVolumes_def static_defs example_auths example_static_def static_getVolumeName_def)

end
