(* ===== verification/Shared_Secret.thy ===== *)
theory Shared_Secret
  imports Authz
begin

text \<open>
  \<open>src/internal/controller/common/secret.go\<close>: the secret shared by the nodes of a cluster for
  internal communication.

  The builder draws 512 random bytes, so \<open>isb_Build\<close> takes the outcome of \<open>rand.Read\<close> as an
  argument. \<open>Reconcile\<close> works on the API server, a state of an arbitrary type with the two
  operations the code uses on it (\<open>secret_world\<close>): the client's \<open>Get\<close> and the framework's generic
  reconciliation, which is handed the outcome of \<open>Build\<close>. A step of the system is one
  reconciliation, with whatever random draw, or a step of somebody else that leaves this secret
  alone; the invariant is that the secret, once there, never changes.
\<close>

section \<open>Names\<close>

definition InternalSharedSecretEnvName :: string where
  "InternalSharedSecretEnvName = ''INTERNAL_SHARED_SECRET''"

definition getInternalSharedSecretName :: "string \<Rightarrow> string" where
  "getInternalSharedSecretName clusterName = clusterName @ ''-internal-shared-secret''"

section \<open>The builder\<close>

record InternalSharedSecretBuilder =
  isb_base :: config_base

definition isb_Build ::
  "('q, 'x) builder_api \<Rightarrow> (nat \<Rightarrow> goerror + byte list) \<Rightarrow> (InternalSharedSecretBuilder, 'x) st" where
  "isb_Build U rand_Read =
     bind_st (lift_st (from_lib (rand_Read 512))) (\<lambda>randomData.
     bind_st (modify_st (\<lambda>b. b\<lparr>isb_base :=
         AddItem (isb_base b) InternalSharedSecretEnvName (base64_Encode randomData)\<rparr>)) (\<lambda>_.
     gets_st (\<lambda>b. Inr (secret_GetObject U (isb_base b)))))"

text \<open>\<open>rand.Read\<close> fills the whole buffer or fails.\<close>

definition fills_buffer :: "(nat \<Rightarrow> goerror + byte list) \<Rightarrow> bool" where
  "fills_buffer rand_Read \<longleftrightarrow> (\<forall>n bs. rand_Read n = Inr bs \<longrightarrow> length bs = n)"

definition secret_options :: "info_api \<Rightarrow> ClusterInfo \<Rightarrow> option_fn" where
  "secret_options I info = (\<lambda>opts. opts
     \<lparr>opt_ClusterName := ci_GetClusterName I info,
      opt_Annotations := ci_GetAnnotations I info,
      opt_Labels := ci_GetLabels I info\<rparr>)"

text \<open>The reconciler is the generic one around the builder.\<close>

definition NewInternalsharedSecretReconciler :: "info_api \<Rightarrow> ClusterInfo \<Rightarrow> InternalSharedSecretBuilder" where
  "NewInternalsharedSecretReconciler I info =
     \<lparr>isb_base = \<lparr>cfb_Name = getInternalSharedSecretName (ci_GetClusterName I info),
        cfb_Options = [secret_options I info], cfb_Items = []\<rparr>\<rparr>"

section \<open>Reconcile\<close>

text \<open>
  The API server as the code uses it: \<open>Get\<close> of a Secret by namespace and name, and the generic
  reconciliation of the object that \<open>Build\<close> returned.
\<close>

record ('w, 'x) secret_world =
  sw_Get :: "'w \<Rightarrow> string \<Rightarrow> string \<Rightarrow> goerror + 'x"
  sw_GenericReconcile :: "'x res \<Rightarrow> 'w \<Rightarrow> Result res \<times> 'w"

definition secret_Reconcile ::
  "client_api \<Rightarrow> ('q, 'x) builder_api \<Rightarrow> ('w, 'x) secret_world \<Rightarrow> (nat \<Rightarrow> goerror + byte list)
     \<Rightarrow> InternalSharedSecretBuilder \<Rightarrow> 'w \<Rightarrow> Result res \<times> 'w" where
  "secret_Reconcile K U W rand_Read b w =
     (case sw_Get W w (GetOwnerNamespace K) (secret_GetName U (isb_base b)) of
        Inl err \<Rightarrow>
          (if IgnoreNotFound K err \<noteq> None then (Inl (Err err), w)
           else sw_GenericReconcile W (fst (isb_Build U rand_Read b)) w)
      | Inr _ \<Rightarrow> (Inr zero_Result, w))"

section \<open>Steps of the system\<close>

inductive secret_step ::
  "client_api \<Rightarrow> ('q, 'x) builder_api \<Rightarrow> ('w, 'x) secret_world \<Rightarrow> InternalSharedSecretBuilder \<Rightarrow> 'w \<Rightarrow> 'w \<Rightarrow> bool"
  for K U W b where
  reconcile: "secret_Reconcile K U W rand b w = (r, w') \<Longrightarrow> secret_step K U W b w w'"
| others: "sw_Get W w' (GetOwnerNamespace K) (secret_GetName U (isb_base b))
      = sw_Get W w (GetOwnerNamespace K) (secret_GetName U (isb_base b)) \<Longrightarrow> secret_step K U W b w w'"

inductive_cases secret_stepE: "secret_step K U W b w w'"

section \<open>Lemmas\<close>

lemma isb_Build_ok:
  "isb_Build U rand_Read b = (Inr obj, b') \<longleftrightarrow> (\<exists>bs. rand_Read 512 = Inr bs \<and>
     b' = b\<lparr>isb_base := AddItem (isb_base b) InternalSharedSecretEnvName (base64_Encode bs)\<rparr> \<and>
     obj = secret_GetObject U (isb_base b'))"
  by (auto simp: isb_Build_def go_res)

lemma isb_Build_error: "rand_Read 512 = Inl e \<Longrightarrow> isb_Build U rand_Read b = (Inl (Err e), b)"
  by (simp add: isb_Build_def bind_lift_st)

lemma secret_Reconcile_present:
  "sw_Get W w (GetOwnerNamespace K) (secret_GetName U (isb_base b)) = Inr s \<Longrightarrow>
    secret_Reconcile K U W rand_Read b w = (Inr zero_Result, w)"
  by (simp add: secret_Reconcile_def)

lemma secret_step_keeps:
  assumes "secret_step K U W b w w'" and "sw_Get W w (GetOwnerNamespace K) (secret_GetName U (isb_base b)) = Inr s"
  shows "sw_Get W w' (GetOwnerNamespace K) (secret_GetName U (isb_base b)) = Inr s"
  using assms by (auto elim!: secret_stepE simp: secret_Reconcile_present)

section \<open>Properties\<close>

text \<open>
  C29. \<open>Build\<close> fails exactly when the random source does, leaving the builder as it was; otherwise
  it adds one item, under the name of the environment variable, whose 684 characters decode to the
  512 random bytes.
\<close>

theorem shared_secret_build:
  assumes "fills_buffer rand_Read"
  shows "case rand_Read 512 of
      Inl e \<Rightarrow> isb_Build U rand_Read b = (Inl (Err e), b)
    | Inr bs \<Rightarrow> \<exists>s b'. isb_Build U rand_Read b = (Inr (secret_GetObject U (isb_base b')), b') \<and>
        cfb_Items (isb_base b') = cfb_Items (isb_base b) @ [(InternalSharedSecretEnvName, s)] \<and>
        length s = 684 \<and> base64_Decode s = bs"
proof (cases "rand_Read 512")
  case (Inl e)
  then show ?thesis by (simp add: isb_Build_error)
next
  case (Inr bs)
  with assms have "length bs = 512" by (simp add: fills_buffer_def)
  then have "length (base64_Encode bs) = 684" by (simp add: base64_Encode_length)
  with Inr show ?thesis
    by (auto simp: isb_Build_ok AddItem_def base64_roundtrip)
qed

theorem shared_secret_build_witness:
  "\<exists>s b'. fst (isb_Build example_builders (\<lambda>n. Inr (replicate n 7))
       \<lparr>isb_base = \<lparr>cfb_Name = ''s'', cfb_Options = [], cfb_Items = []\<rparr>\<rparr>) = Inr (secret_GetObject example_builders b') \<and>
     cfb_Items b' = [(InternalSharedSecretEnvName, s)] \<and> length s = 684 \<and> base64_Decode s = replicate 512 7"
  using shared_secret_build [of "\<lambda>n. Inr (replicate n 7)" example_builders
      "\<lparr>isb_base = \<lparr>cfb_Name = ''s'', cfb_Options = [], cfb_Items = []\<rparr>\<rparr>"]
  by (fastforce simp: fills_buffer_def)

text \<open>What the generic reconciliation promises: when it succeeds, the object it was given is there.\<close>

definition generic_stores :: "('w, 'x) secret_world \<Rightarrow> string \<Rightarrow> string \<Rightarrow> bool" where
  "generic_stores W ns name \<longleftrightarrow>
     (\<forall>obj w r w'. sw_GenericReconcile W (Inr obj) w = (Inr r, w') \<longrightarrow> sw_Get W w' ns name = Inr obj)"

text \<open>
  C4. The shared secret is drawn once: after the first successful reconciliation of a cluster that
  has none, every later state, however often the operator reconciles again and whatever its random
  source returns then, holds the secret of that first draw.
\<close>

theorem shared_secret_created_once:
  assumes "generic_stores W (GetOwnerNamespace K) (secret_GetName U (isb_base b))"
    and "sw_Get W w (GetOwnerNamespace K) (secret_GetName U (isb_base b)) = Inl e" and "IgnoreNotFound K e = None"
    and "rand_Read 512 = Inr bs" and "secret_Reconcile K U W rand_Read b w = (Inr r, w1)"
    and "(secret_step K U W b)\<^sup>*\<^sup>* w1 w2"
  shows "sw_Get W w2 (GetOwnerNamespace K) (secret_GetName U (isb_base b)) =
    Inr (secret_GetObject U (AddItem (isb_base b) InternalSharedSecretEnvName (base64_Encode bs)))"
proof -
  have "fst (isb_Build U rand_Read b) =
      Inr (secret_GetObject U (AddItem (isb_base b) InternalSharedSecretEnvName (base64_Encode bs)))"
    using assms(4) by (simp add: isb_Build_def fst_st)
  with assms(1,2,3,5) have first: "sw_Get W w1 (GetOwnerNamespace K) (secret_GetName U (isb_base b)) =
      Inr (secret_GetObject U (AddItem (isb_base b) InternalSharedSecretEnvName (base64_Encode bs)))"
    by (simp add: secret_Reconcile_def generic_stores_def)
  from assms(6) show ?thesis
    by (induction rule: rtranclp_induct) (simp_all add: first secret_step_keeps)
qed

text \<open>The API server of the examples: a map from namespaces and names to the secret's data.\<close>

definition example_world :: "(string \<times> string \<Rightarrow> string option, string) secret_world" where
  "example_world = \<lparr>sw_Get = (\<lambda>w ns name. case w (ns, name) of None \<Rightarrow> Inl (LibError ''not found'') | Some x \<Rightarrow> Inr x),
     sw_GenericReconcile = (\<lambda>r w. case r of Inl f \<Rightarrow> (Inl f, w)
       | Inr x \<Rightarrow> (Inr zero_Result, w((''prod'', ''trino-internal-shared-secret'') \<mapsto> x)))\<rparr>"

definition example_secret :: InternalSharedSecretBuilder where
  "example_secret = \<lparr>isb_base = \<lparr>cfb_Name = ''trino-internal-shared-secret'', cfb_Options = [], cfb_Items = []\<rparr>\<rparr>"

lemma example_generic_stores:
  "generic_stores example_world (GetOwnerNamespace example_client) (secret_GetName example_builders (isb_base example_secret))"
  by (auto simp: generic_stores_def example_world_def example_client_def example_builders_def example_secret_def)

text \<open>Two reconciliations, the second with another draw.\<close>

theorem shared_secret_created_once_witness:
  "sw_Get example_world
     (snd (secret_Reconcile example_client example_builders example_world (\<lambda>n. Inr (replicate n 9)) example_secret
       (snd (secret_Reconcile example_client example_builders example_world (\<lambda>n. Inr (replicate n 7)) example_secret
         Map.empty)))) ''prod'' ''trino-internal-shared-secret'' = Inr (base64_Encode (replicate 512 7))"
proof -
  define rand :: "byte \<Rightarrow> nat \<Rightarrow> goerror + byte list" where "rand = (\<lambda>x n. Inr (replicate n x))"
  define rec where "rec = (\<lambda>x. secret_Reconcile example_client example_builders example_world (rand x) example_secret)"
  define w1 where "w1 = snd (rec 7 Map.empty)"
  define w2 where "w2 = snd (rec 9 w1)"
  note defs = secret_Reconcile_def example_world_def example_client_def example_builders_def example_secret_def
  have "fst (rec 7 Map.empty) = Inr zero_Result"
    by (simp add: rec_def rand_def defs isb_Build_def fst_st)
  then have run: "rec 7 Map.empty = (Inr zero_Result, w1)" by (simp add: w1_def prod_eq_iff)
  have "secret_step example_client example_builders example_world example_secret w1 w2"
    unfolding w2_def rec_def by (rule secret_step.reconcile) (rule prod.collapse [symmetric])
  then have "(secret_step example_client example_builders example_world example_secret)\<^sup>*\<^sup>* w1 w2" by blast
  from shared_secret_created_once [OF example_generic_stores _ _ _ run [unfolded rec_def] this,
      of "LibError ''not found''" "replicate 512 7"]
  show ?thesis
    unfolding w2_def w1_def rec_def
    by (simp add: rand_def) (simp add: defs AddItem_def)
qed

section \<open>Several replicas\<close>

text \<open>
  \<open>Reconcile\<close> is not atomic: between its \<open>Get\<close> and the creation other replicas of the operator may take
  steps. Here the two halves are separate steps; a replica in the set \<open>L\<close> may take them, and carries
  the decision of the first to the second. The second half draws from a random source of its own.
\<close>

datatype decision = Create | Keep | Fail goerror

definition secret_check ::
  "client_api \<Rightarrow> ('q, 'x) builder_api \<Rightarrow> ('w, 'x) secret_world \<Rightarrow> InternalSharedSecretBuilder \<Rightarrow> 'w \<Rightarrow> decision" where
  "secret_check K U W b w = (case sw_Get W w (GetOwnerNamespace K) (secret_GetName U (isb_base b)) of
     Inl err \<Rightarrow> if IgnoreNotFound K err \<noteq> None then Fail err else Create
   | Inr _ \<Rightarrow> Keep)"

fun secret_act ::
  "('q, 'x) builder_api \<Rightarrow> ('w, 'x) secret_world \<Rightarrow> (nat \<Rightarrow> goerror + byte list) \<Rightarrow> InternalSharedSecretBuilder
     \<Rightarrow> decision \<Rightarrow> 'w \<Rightarrow> Result res \<times> 'w" where
  "secret_act U W rand_Read b Create w = sw_GenericReconcile W (fst (isb_Build U rand_Read b)) w"
| "secret_act U W rand_Read b Keep w = (Inr zero_Result, w)"
| "secret_act U W rand_Read b (Fail err) w = (Inl (Err err), w)"

lemma secret_Reconcile_halves:
  "secret_Reconcile K U W rand_Read b w = secret_act U W rand_Read b (secret_check K U W b w) w"
  by (simp add: secret_Reconcile_def secret_check_def split: sum.splits)

inductive replica_step ::
  "client_api \<Rightarrow> ('q, 'x) builder_api \<Rightarrow> ('w, 'x) secret_world \<Rightarrow> InternalSharedSecretBuilder \<Rightarrow> nat set
     \<Rightarrow> 'w \<times> (nat \<Rightarrow> decision option) \<Rightarrow> 'w \<times> (nat \<Rightarrow> decision option) \<Rightarrow> bool"
  for K U W b L where
  check: "i \<in> L \<Longrightarrow> pend i = None \<Longrightarrow> replica_step K U W b L (w, pend) (w, pend(i \<mapsto> secret_check K U W b w))"
| act: "i \<in> L \<Longrightarrow> pend i = Some d \<Longrightarrow> secret_act U W rand_Read b d w = (r, w') \<Longrightarrow>
    replica_step K U W b L (w, pend) (w', pend(i := None))"
| elsewhere: "sw_Get W w' (GetOwnerNamespace K) (secret_GetName U (isb_base b))
      = sw_Get W w (GetOwnerNamespace K) (secret_GetName U (isb_base b)) \<Longrightarrow> replica_step K U W b L (w, pend) (w', pend)"

definition stored :: "client_api \<Rightarrow> ('q, 'x) builder_api \<Rightarrow> ('w, 'x) secret_world \<Rightarrow> InternalSharedSecretBuilder \<Rightarrow> 'w \<Rightarrow> 'x option" where
  "stored K U W b w = (case sw_Get W w (GetOwnerNamespace K) (secret_GetName U (isb_base b)) of Inl _ \<Rightarrow> None | Inr x \<Rightarrow> Some x)"

text \<open>With one replica, a pending creation means that there is no secret.\<close>

definition replica_inv ::
  "client_api \<Rightarrow> ('q, 'x) builder_api \<Rightarrow> ('w, 'x) secret_world \<Rightarrow> InternalSharedSecretBuilder \<Rightarrow> nat set
     \<Rightarrow> 'w \<times> (nat \<Rightarrow> decision option) \<Rightarrow> bool" where
  "replica_inv K U W b L s \<longleftrightarrow> (\<forall>i \<in> L. snd s i = Some Create \<longrightarrow> stored K U W b (fst s) = None)"

lemma replica_inv_step:
  assumes "replica_step K U W b L s s'" and "\<forall>i \<in> L. \<forall>j \<in> L. i = j" and "replica_inv K U W b L s"
  shows "replica_inv K U W b L s' \<and> (\<forall>x. stored K U W b (fst s) = Some x \<longrightarrow> stored K U W b (fst s') = Some x)"
  using assms
proof (cases rule: replica_step.cases)
  case (check i pend w)
  then show ?thesis using assms(3) by (auto simp: replica_inv_def secret_check_def stored_def split: sum.splits if_splits)
next
  case (act i pend d rand_Read w r w')
  have "replica_inv K U W b L s'" using act assms(2) by (auto simp: replica_inv_def)
  moreover have "stored K U W b w' = Some x" if "stored K U W b w = Some x" for x
    using that act assms(3) by (cases d) (auto simp: replica_inv_def)
  ultimately show ?thesis using act by simp
next
  case (elsewhere w' w pend)
  then show ?thesis using assms(3) by (simp add: replica_inv_def stored_def)
qed

lemma single_replica_keeps:
  assumes "(replica_step K U W b L)\<^sup>*\<^sup>* s s'" and "\<forall>i \<in> L. \<forall>j \<in> L. i = j" and "replica_inv K U W b L s"
  shows "replica_inv K U W b L s' \<and> (\<forall>x. stored K U W b (fst s) = Some x \<longrightarrow> stored K U W b (fst s') = Some x)"
  using assms(1)
proof (induction rule: rtranclp_induct)
  case base
  then show ?case using assms(3) by simp
next
  case (step s1 s2)
  then show ?case using replica_inv_step [OF step.hyps(2) assms(2)] by blast
qed

definition secret_stable ::
  "client_api \<Rightarrow> ('q, 'x) builder_api \<Rightarrow> ('w, 'x) secret_world \<Rightarrow> InternalSharedSecretBuilder \<Rightarrow> nat set \<Rightarrow> bool" where
  "secret_stable K U W b L \<longleftrightarrow> (\<forall>w s1 s2 x. (replica_step K U W b L)\<^sup>*\<^sup>* (w, \<lambda>_. None) s1 \<longrightarrow> stored K U W b (fst s1) = Some x \<longrightarrow>
     (replica_step K U W b L)\<^sup>*\<^sup>* s1 s2 \<longrightarrow> stored K U W b (fst s2) = Some x)"

text \<open>
  The guard of \<open>Reconcile\<close> holds where it matters: in every state that is reached from one with no
  reconciliation under way, a replica that is about to create the secret still finds none.
\<close>

definition creation_guarded ::
  "client_api \<Rightarrow> ('q, 'x) builder_api \<Rightarrow> ('w, 'x) secret_world \<Rightarrow> InternalSharedSecretBuilder \<Rightarrow> nat set \<Rightarrow> bool" where
  "creation_guarded K U W b L \<longleftrightarrow>
     (\<forall>w s. (replica_step K U W b L)\<^sup>*\<^sup>* (w, \<lambda>_. None) s \<longrightarrow> replica_inv K U W b L s)"

lemma replica_inv_start: "replica_inv K U W b L (w, \<lambda>_. None)"
  by (simp add: replica_inv_def)

lemma single_replica_guarded:
  assumes "\<forall>i \<in> L. \<forall>j \<in> L. i = j"
  shows "creation_guarded K U W b L"
  unfolding creation_guarded_def
  by (intro allI impI, rule conjunct1, rule single_replica_keeps [OF _ assms replica_inv_start])

lemma single_replica_stable:
  assumes "\<forall>i \<in> L. \<forall>j \<in> L. i = j"
  shows "secret_stable K U W b L"
  unfolding secret_stable_def
proof (intro allI impI)
  fix w s1 s2 x
  assume run: "(replica_step K U W b L)\<^sup>*\<^sup>* (w, \<lambda>_. None) s1" "stored K U W b (fst s1) = Some x"
    "(replica_step K U W b L)\<^sup>*\<^sup>* s1 s2"
  have "replica_inv K U W b L s1" using single_replica_keeps [OF run(1) assms replica_inv_start] by blast
  from single_replica_keeps [OF run(3) assms this] run(2) show "stored K U W b (fst s2) = Some x" by blast
qed

text \<open>Two replicas that both look before either creates, and the first of which creates.\<close>

lemma two_replicas_race:
  assumes "secret_check K U W b w = Create" and "secret_act U W rand_Read b Create w = (r, w1)"
    and "i \<in> L" "j \<in> L" "i \<noteq> j"
  shows "(replica_step K U W b L)\<^sup>*\<^sup>* (w, \<lambda>_. None) (w1, [j \<mapsto> Create])"
proof -
  let ?p = "(\<lambda>_. None)(i \<mapsto> Create, j \<mapsto> Create)"
  have "replica_step K U W b L (w, \<lambda>_. None) (w, (\<lambda>_. None)(i \<mapsto> Create))"
    using replica_step.check [OF assms(3), where pend = "\<lambda>_. None" and K = K and U = U and W = W and b = b and w = w]
    by (simp add: assms(1))
  moreover have "replica_step K U W b L (w, (\<lambda>_. None)(i \<mapsto> Create)) (w, ?p)"
    using replica_step.check [OF assms(4), where pend = "(\<lambda>_. None)(i \<mapsto> Create)" and K = K and U = U and W = W and b = b and w = w]
      assms(5) by (simp add: assms(1))
  moreover have "replica_step K U W b L (w, ?p) (w1, ?p(i := None))"
    using assms(2,3,5) by (intro replica_step.act) auto
  moreover have "?p(i := None) = [j \<mapsto> Create]" using assms(5) by (auto simp: fun_eq_iff)
  ultimately show ?thesis by (auto intro: converse_rtranclp_into_rtranclp)
qed

text \<open>
  C11. The check before the creation protects the secret for one replica at a time and not for more,
  whatever way the checks and creations of the replicas interleave: that a replica creates the secret
  only while there is none holds if and only if at most one replica reconciles, which is what leader
  election ensures, and then a stored secret keeps its value. With two of them both may find no
  secret, and after the first creation the second is still carried out, with a value of its own.
  The hypotheses are that a successful generic reconciliation leaves the object it was given, and
  that in some state without the secret one reconciliation succeeds.
\<close>

theorem secret_guarded_iff_single:
  assumes "generic_stores W (GetOwnerNamespace K) (secret_GetName U (isb_base b))"
    and "sw_Get W w (GetOwnerNamespace K) (secret_GetName U (isb_base b)) = Inl e" and "IgnoreNotFound K e = None"
    and "rand_Read 512 = Inr bs" and "secret_Reconcile K U W rand_Read b w = (Inr r, w1)"
  shows "(creation_guarded K U W b L \<longleftrightarrow> (\<forall>i \<in> L. \<forall>j \<in> L. i = j)) \<and>
    ((\<forall>i \<in> L. \<forall>j \<in> L. i = j) \<longrightarrow> secret_stable K U W b L)"
proof (intro conjI iffI impI)
  assume guarded: "creation_guarded K U W b L"
  have check: "secret_check K U W b w = Create" using assms(2,3) by (simp add: secret_check_def)
  with assms(5) have act: "secret_act U W rand_Read b Create w = (Inr r, w1)"
    by (simp add: secret_Reconcile_halves)
  have "fst (isb_Build U rand_Read b) =
      Inr (secret_GetObject U (AddItem (isb_base b) InternalSharedSecretEnvName (base64_Encode bs)))"
    using assms(4) by (simp add: isb_Build_def fst_st)
  with act assms(1) have "stored K U W b w1 \<noteq> None" by (simp add: generic_stores_def stored_def)
  then have "\<not> replica_inv K U W b L (w1, [j \<mapsto> Create])" if "j \<in> L" for j
    using that by (auto simp: replica_inv_def)
  with guarded two_replicas_race [OF check act] show "\<forall>i \<in> L. \<forall>j \<in> L. i = j"
    unfolding creation_guarded_def by blast
qed (simp_all add: single_replica_guarded single_replica_stable)

theorem secret_guarded_iff_single_witness:
  "creation_guarded example_client example_builders example_world example_secret {0} \<and>
   secret_stable example_client example_builders example_world example_secret {0} \<and>
   \<not> creation_guarded example_client example_builders example_world example_secret {0, 1}"
proof -
  let ?run = "secret_Reconcile example_client example_builders example_world (\<lambda>n. Inr (replicate n 7)) example_secret Map.empty"
  note defs = secret_Reconcile_def example_world_def example_client_def example_builders_def example_secret_def
  have "fst ?run = Inr zero_Result" by (simp add: defs isb_Build_def fst_st)
  then have run: "?run = (Inr zero_Result, snd ?run)" by (simp add: prod_eq_iff)
  have "sw_Get example_world Map.empty (GetOwnerNamespace example_client)
      (secret_GetName example_builders (isb_base example_secret)) = Inl (LibError ''not found'')"
    "IgnoreNotFound example_client (LibError ''not found'') = None"
    by (simp_all add: defs)
  note iff = secret_guarded_iff_single [OF example_generic_stores this refl run]
  show ?thesis using iff [of "{0}"] iff [of "{0, 1}"] by simp
qed

end
