(* ===== verification/Config_Map.thy ===== *)
theory Config_Map
  imports Authz Shared_Secret
begin

text \<open>
  \<open>src/internal/controller/common/configmap.go\<close>: the ConfigMap of a role group.

  The builder record keeps the fields of the Go struct; its embedded framework builder is the list
  of \<open>AddItem\<close> calls. The properties files are lists of \<open>Add\<close> calls. \<open>cm_Build\<close> follows
  \<open>Build\<close> statement by statement and returns the receiver as well. Its loops over maps take their
  orders from a \<open>cm_orders\<close> record, one order for each loop.

  The lemmas give the items a successful \<open>Build\<close> adds, the independence of the files from the
  orders of the loops over catalogs, files and authenticators, the agreement of discovery URI and server port, and the
  bounds of the computed heap size in float64 arithmetic.
\<close>

section \<open>Constants\<close>

text \<open>The float64 nearest to 0.8.\<close>

definition JvmHeapFactor :: f64 where "JvmHeapFactor = F64 7205759403792794 (-53)"
definition DefaultJvmMem :: string where "DefaultJvmMem = ''2G''"

definition ServerTlsMountPath :: "constants_api \<Rightarrow> string" where
  "ServerTlsMountPath C = path_Join [KubedoopTlsDir C, ''server'']"
definition InternalTlsMountPath :: "constants_api \<Rightarrow> string" where
  "InternalTlsMountPath C = path_Join [KubedoopTlsDir C, ''internal'']"
definition ClientTlsPath :: "constants_api \<Rightarrow> string" where
  "ClientTlsPath C = path_Join [KubedoopTlsDir C, ''client'']"
definition DefaultTlsPassphrase :: string where "DefaultTlsPassphrase = ''changeit''"

section \<open>The builder\<close>

record ('q, 'x) ConfigMapBuilder =
  cmb_base :: config_base
  cmb_TrinoConfig :: "('q, 'x) ConfigSpec option"
  cmb_ClusterConfig :: "'x ClusterConfigSpec option"
  cmb_TrinoConig :: "('q, 'x) ConfigSpec option"
  cmb_CoordiantorSvcFqdn :: string
  cmb_ClusterName :: string
  cmb_RoleName :: string
  cmb_RoleGroupName :: string

definition NewConfigMapBuilder ::
  "string \<Rightarrow> string \<Rightarrow> 'x ClusterConfigSpec option \<Rightarrow> ('q, 'x) ConfigSpec option \<Rightarrow> option_fn list
     \<Rightarrow> ('q, 'x) ConfigMapBuilder" where
  "NewConfigMapBuilder name coordinatorSvcFqdn clusterConfig trinoConfig options =
     (let opts = apply_options options
      in \<lparr>cmb_base = \<lparr>cfb_Name = name, cfb_Options = options, cfb_Items = []\<rparr>,
          cmb_TrinoConfig = trinoConfig,
          cmb_ClusterConfig = clusterConfig,
          cmb_TrinoConig = None,
          cmb_CoordiantorSvcFqdn = coordinatorSvcFqdn,
          cmb_ClusterName = opt_ClusterName opts,
          cmb_RoleName = opt_RoleName opts,
          cmb_RoleGroupName = opt_RoleGroupName opts\<rparr>)"

definition config_options :: "info_api \<Rightarrow> RoleGroupInfo \<Rightarrow> option_fn" where
  "config_options I info = (\<lambda>opts. opts
     \<lparr>opt_ClusterName := ci_ClusterName (ri_ClusterInfo (rgi_RoleInfo info)),
      opt_RoleName := ri_RoleName (rgi_RoleInfo info),
      opt_RoleGroupName := rgi_RoleGroupName info,
      opt_Annotations := rgi_GetAnnotations I info,
      opt_Labels := rgi_GetLabels I info\<rparr>)"

text \<open>\<open>NewConfigReconciler\<close>: the reconciler is the generic one around this builder.\<close>

definition NewConfigReconciler ::
  "info_api \<Rightarrow> string \<Rightarrow> 'x ClusterConfigSpec option \<Rightarrow> ('q, 'x) ConfigSpec option \<Rightarrow> RoleGroupInfo
     \<Rightarrow> ('q, 'x) ConfigMapBuilder" where
  "NewConfigReconciler I coordiantorSvcFqdn clusterConfig trinoConfig info =
     NewConfigMapBuilder (rgi_GetFullName I info) coordiantorSvcFqdn clusterConfig trinoConfig
       [config_options I info]"

definition tls_enabled :: "'x ClusterConfigSpec option \<Rightarrow> bool" where
  "tls_enabled cc = (case cc of None \<Rightarrow> False | Some c \<Rightarrow> cc_Tls c \<noteq> None)"

definition cm_enabledTls :: "('q, 'x) ConfigMapBuilder \<Rightarrow> bool" where
  "cm_enabledTls b = tls_enabled (cmb_ClusterConfig b)"

text \<open>The guard \<open>ClusterConfig != nil && ClusterConfig.Authentication != nil\<close>.\<close>

definition auth_specs :: "'x ClusterConfigSpec option \<Rightarrow> AuthenticationSpec list option" where
  "auth_specs cc = Option.bind cc cc_Authentication"

definition vector_name :: "'x ClusterConfigSpec option \<Rightarrow> string" where
  "vector_name cc = (case cc of None \<Rightarrow> [] | Some c \<Rightarrow> cc_VectorAggregatorConfigMapName c)"

section \<open>Properties files\<close>

definition getDiscoveryUri :: "('q, 'x) ConfigMapBuilder \<Rightarrow> string" where
  "getDiscoveryUri b =
     (let (schema, port) = (if cm_enabledTls b then (HttpsScheme, sint HttpsPort) else (HttpScheme, sint HttpPort))
      in schema @ ''://'' @ cmb_CoordiantorSvcFqdn b @ '':'' @ strconv_Itoa port)"

definition memory_properties :: "('q, 'x) ConfigSpec option \<Rightarrow> properties" where
  "memory_properties cfg = (case cfg of
     Some c \<Rightarrow> [(''query.max-memory'', cs_QueryMaxMemory c),
                (''query.max-memory-per-node'', cs_QueryMaxMemoryPerNode c)]
   | None \<Rightarrow> [(''query.max-memory'', DefaultQueryMaxMemory)])"

definition tls_properties :: "constants_api \<Rightarrow> properties" where
  "tls_properties C =
     [(''internal-communication.https.required'', ''true''),
      (''internal-communication.shared-secret'', ''${ENV:'' @ InternalSharedSecretEnvName @ ''}''),
      (''http-server.https.enabled'', ''true''),
      (''http-server.https.port'', strconv_Itoa (sint HttpsPort)),
      (''http-server.https.keystore.path'', path_Join [ServerTlsMountPath C, ''keystore.p12'']),
      (''http-server.https.keystore.key'', DefaultTlsPassphrase),
      (''http-server.https.truststore.path'', path_Join [ServerTlsMountPath C, ''truststore.p12'']),
      (''http-server.https.truststore.key'', DefaultTlsPassphrase),
      (''internal-communication.https.keystore.path'', path_Join [ServerTlsMountPath C, ''keystore.p12'']),
      (''internal-communication.https.keystore.key'', DefaultTlsPassphrase),
      (''internal-communication.https.truststore.path'', path_Join [ServerTlsMountPath C, ''truststore.p12'']),
      (''internal-communication.https.truststore.key'', DefaultTlsPassphrase)]"

definition base_config_properties :: "constants_api \<Rightarrow> ('q, 'x) ConfigMapBuilder \<Rightarrow> properties" where
  "base_config_properties C b =
     [(''coordinator'', if cmb_RoleName b = ''coordinator'' then ''true'' else ''false''),
      (''node-scheduler.include-coordinator'', ''false'')]
     @ memory_properties (cmb_TrinoConfig b)
     @ [(''node.internal-address-source'', ''FQDN''),
        (''http-server.log.enabled'', ''false''),
        (''discovery.uri'', getDiscoveryUri b)]
     @ (if cm_enabledTls b then tls_properties C
        else [(''http-server.http.port'', strconv_Itoa (sint HttpPort))])
     @ [(''log.compression'', ''none''), (''log.format'', ''json''), (''log.max-size'', ''5MB''),
        (''log.max-total-size'', ''10MB''),
        (''log.path'', path_Join [KubedoopLogDir C, ''trino'', cmb_RoleName b @ ''.airlift.json''])]"

definition getConfigProperties ::
  "constants_api \<Rightarrow> props_api \<Rightarrow> client_api \<Rightarrow> range_order \<Rightarrow> ('q, 'x) ConfigMapBuilder \<Rightarrow> properties res" where
  "getConfigProperties C P K ord b =
     (case auth_specs (cmb_ClusterConfig b) of
        Some specs \<Rightarrow>
          (if cmb_RoleName b = ''coordinator''
           then bind_res (NewAuthentication K ord specs) (\<lambda>authentication.
                bind_res (trino_GetConfigProperties P authentication) (\<lambda>ps.
                bind_res (copy_properties P (Some ps)) (\<lambda>copied.
                  Inr (base_config_properties C b @ copied))))
           else Inr (base_config_properties C b))
      | None \<Rightarrow> Inr (base_config_properties C b))"

definition getNodeProperties :: "('q, 'x) ConfigMapBuilder \<Rightarrow> properties" where
  "getNodeProperties b =
     [(''node.environment'', strings_ReplaceAll1 (cmb_ClusterName b) (CHR ''-'') (CHR ''_''))]"

definition getSecurityProperties :: "properties" where
  "getSecurityProperties =
     [(''networkaddress.cache.negative.ttl'', ''0''), (''networkaddress.cache.ttl'', ''30'')]"

section \<open>JVM configuration\<close>

definition heap_memory :: "'q quantity_api \<Rightarrow> ('q, 'x) ConfigMapBuilder \<Rightarrow> 'q res" where
  "heap_memory Q b = (case cmb_TrinoConfig b of
     None \<Rightarrow> Inr (MustParse Q DefaultJvmMem)
   | Some cfg \<Rightarrow>
       bind_res (deref ''ConfigSpec.RoleGroupConfigSpec'' (cs_RoleGroupConfigSpec cfg)) (\<lambda>rgc.
         Inr (case rgc_Resources rgc of
                None \<Rightarrow> MustParse Q DefaultJvmMem
              | Some r \<Rightarrow> (case rs_MemoryLimit r of None \<Rightarrow> MustParse Q DefaultJvmMem | Some limit \<Rightarrow> limit))))"

definition scale_heap :: "int \<Rightarrow> f64 \<Rightarrow> (f64 \<times> string) option" where
  "scale_heap v heapSize =
     (if v \<ge> 2 ^ 40 then Some (f64_div_pow2 heapSize 30, ''G'')
      else if v \<ge> 2 ^ 30 then Some (f64_div_pow2 heapSize 20, ''M'')
      else if v \<ge> 2 ^ 20 then Some (f64_div_pow2 heapSize 10, ''K'')
      else None)"

definition getHeapSize :: "'q quantity_api \<Rightarrow> ('q, 'x) ConfigMapBuilder \<Rightarrow> f64 \<Rightarrow> string res" where
  "getHeapSize Q b factor =
     bind_res (heap_memory Q b) (\<lambda>memory.
       let v = q_Value Q memory; dec = q_ToDec Q memory
       in case scale_heap v (q_AsApproximateFloat64 Q dec) of
            Some (heapSize, u) \<Rightarrow> Inr (strconv_Itoa (f64_to_int (f64_mult heapSize factor)) @ u)
          | None \<Rightarrow> Inl (Panic (''invalid memory size, must be greater than 1K. current value: '' @ q_String Q dec)))"

definition text_lines :: "string list \<Rightarrow> string" where
  "text_lines ls = concat (map (\<lambda>l. l @ NL) ls)"

definition jvm_text :: "constants_api \<Rightarrow> string \<Rightarrow> string \<Rightarrow> string" where
  "jvm_text C xmx xms = text_lines
     [''-server'',
      ''-Xmx'' @ xmx,
      ''-Xms'' @ xms,
      ''-XX:InitialRAMPercentage=80'',
      ''-XX:MaxRAMPercentage=80'',
      ''-XX:G1HeapRegionSize=32M'',
      ''-XX:+ExplicitGCInvokesConcurrent'',
      ''-XX:+ExitOnOutOfMemoryError'',
      ''-XX:+HeapDumpOnOutOfMemoryError'',
      ''-XX:-OmitStackTraceInFastThrow'',
      ''-XX:ReservedCodeCacheSize=512M'',
      ''-XX:PerMethodRecompilationCutoff=10000'',
      ''-XX:PerBytecodeRecompilationCutoff=10000'',
      ''-Djdk.attach.allowAttachSelf=true'',
      ''-Djdk.nio.maxCachedBufferSize=2000000'',
      ''-Dfile.encoding=UTF-8'',
      ''# Allow loading dynamic agent used by JOL'',
      ''-XX:+EnableDynamicAgentLoading'',
      ''-XX:+UnlockDiagnosticVMOptions'',
      ''-XX:G1NumCollectionsKeepPinned=10000000'',
      ''-Djava.net.ssl.trustStore='' @ path_Join [KubedoopTlsDir C, ''client'', ''truststore.p12''],
      ''-Djava.net.ssl.trustStorePassword='' @ DefaultTlsPassphrase,
      ''-Djava.net.ssl.trustStoreType=PKCS12'',
      ''-Djava.secret.properties='' @ path_Join [KubedoopConfigDir C, ''secret.properties''],
      ''-javaagent:'' @ path_Join [KubedoopJmxDir C, ''jmx_prometheus_javaagent.jar'']
        @ ''='' @ strconv_Itoa (sint MetricsPort) @ '':'' @ path_Join [KubedoopJmxDir C, ''config.yaml'']]"

definition getJvmProperties ::
  "constants_api \<Rightarrow> 'q quantity_api \<Rightarrow> ('q, 'x) builder_api \<Rightarrow> ('q, 'x) ConfigMapBuilder \<Rightarrow> string res" where
  "getJvmProperties C Q U b =
     bind_res (getHeapSize Q b JvmHeapFactor) (\<lambda>xmx.
     bind_res (getHeapSize Q b JvmHeapFactor) (\<lambda>xms.
       Inr (IndentTab4Spaces U (jvm_text C xmx xms))))"

section \<open>Catalogs\<close>

definition catalog_file :: "string \<Rightarrow> string" where
  "catalog_file catalogType = ''catalog-'' @ catalogType @ ''.properties''"

definition catalogs :: "'x ClusterConfigSpec option \<Rightarrow> string gomap gomap" where
  "catalogs cc = (case cc of None \<Rightarrow> [] | Some c \<Rightarrow> map_entries (cc_CatalogProperties c))"

definition add_catalog ::
  "props_api \<Rightarrow> (string \<Rightarrow> range_order) \<Rightarrow> string gomap \<Rightarrow> string \<times> string gomap \<Rightarrow> string gomap" where
  "add_catalog P entry_ord data entry =
     (case entry of (catalogType, catalogProperties) \<Rightarrow>
        (case props_Marshal P (range_map (entry_ord catalogType) catalogProperties) of
           Inl _ \<Rightarrow> data
         | Inr s \<Rightarrow> AList.update (catalog_file catalogType) s data))"

definition getCatalogProperties ::
  "props_api \<Rightarrow> range_order \<Rightarrow> (string \<Rightarrow> range_order) \<Rightarrow> ('q, 'x) ConfigMapBuilder \<Rightarrow> string gomap" where
  "getCatalogProperties P ord entry_ord b =
     foldl (add_catalog P entry_ord) [] (range_map ord (catalogs (cmb_ClusterConfig b)))"

section \<open>Build\<close>

record cm_orders =
  ord_authenticators :: range_order
  ord_catalogs :: range_order
  ord_entries :: "string \<Rightarrow> range_order"
  ord_files :: range_order

definition cm_AddItem :: "string \<Rightarrow> string \<Rightarrow> (('q, 'x) ConfigMapBuilder, unit) st" where
  "cm_AddItem k v = modify_st (\<lambda>b. b\<lparr>cmb_base := AddItem (cmb_base b) k v\<rparr>)"

definition log_properties :: string where "log_properties = ''=info'' @ NL"

definition cm_vector ::
  "constants_api \<Rightarrow> client_api \<Rightarrow> ('q, 'x) builder_api \<Rightarrow> (('q, 'x) ConfigMapBuilder, unit) st" where
  "cm_vector C K U = (\<lambda>b.
     if vector_name (cmb_ClusterConfig b) \<noteq> []
     then bind_st (lift_st (from_lib (MakeVectorYaml U (GetOwnerNamespace K) (cmb_ClusterName b) (cmb_RoleName b)
              (cmb_RoleGroupName b) (vector_name (cmb_ClusterConfig b)))))
            (\<lambda>s. cm_AddItem (VectorConfigFileName C) s) b
     else (Inr (), b))"

definition cm_Build ::
  "constants_api \<Rightarrow> props_api \<Rightarrow> 'q quantity_api \<Rightarrow> client_api \<Rightarrow> ('q, 'x) builder_api \<Rightarrow> cm_orders
     \<Rightarrow> (('q, 'x) ConfigMapBuilder, 'x) st" where
  "cm_Build C P Q K U ords =
     bind_st (gets_st (getConfigProperties C P K (ord_authenticators ords))) (\<lambda>configProperties.
     bind_st (lift_st (from_lib (props_Marshal P configProperties))) (\<lambda>s.
     bind_st (cm_AddItem ''config.properties'' s) (\<lambda>_.
     bind_st (gets_st (\<lambda>b. from_lib (props_Marshal P (getNodeProperties b)))) (\<lambda>s.
     bind_st (cm_AddItem ''node.properties'' s) (\<lambda>_.
     bind_st (lift_st (from_lib (props_Marshal P getSecurityProperties))) (\<lambda>s.
     bind_st (cm_AddItem ''secret.properties'' s) (\<lambda>_.
     bind_st (gets_st (getJvmProperties C Q U)) (\<lambda>s.
     bind_st (cm_AddItem ''jvm.config'' s) (\<lambda>_.
     bind_st (cm_AddItem ''log.properties'' log_properties) (\<lambda>_.
     bind_st (cm_vector C K U) (\<lambda>_.
     bind_st (gets_st (\<lambda>b. Inr (getCatalogProperties P (ord_catalogs ords) (ord_entries ords) b))) (\<lambda>catalogProperties.
     bind_st (modify_st (\<lambda>b. foldl (\<lambda>b (fileName, data). snd (cm_AddItem fileName data b)) b
                (range_map (ord_files ords) catalogProperties))) (\<lambda>_.
     gets_st (\<lambda>b. Inr (cm_GetObject U (cmb_base b))))))))))))))))"

section \<open>The items of a successful Build\<close>

lemma cm_AddItem_run [simp]: "cm_AddItem k v b = (Inr (), b\<lparr>cmb_base := AddItem (cmb_base b) k v\<rparr>)"
  by (simp add: cm_AddItem_def modify_st_def)

lemma bind_cm_AddItem [simp]: "bind_st (cm_AddItem k v) f b = f () (b\<lparr>cmb_base := AddItem (cmb_base b) k v\<rparr>)"
  by (simp add: bind_st_def)

lemma AddItem_items [simp]:
  "cfb_Items (AddItem c k v) = cfb_Items c @ [(k, v)]"
  "cfb_Name (AddItem c k v) = cfb_Name c" "cfb_Options (AddItem c k v) = cfb_Options c"
  by (simp_all add: AddItem_def)

text \<open>The fields of the builder that \<open>Build\<close> reads are not touched by adding items.\<close>

definition with_items :: "('q, 'x) ConfigMapBuilder \<Rightarrow> (string \<times> string) list \<Rightarrow> ('q, 'x) ConfigMapBuilder" where
  "with_items b kvs = b\<lparr>cmb_base := (cmb_base b)\<lparr>cfb_Items := cfb_Items (cmb_base b) @ kvs\<rparr>\<rparr>"

lemma with_items_add:
  "b\<lparr>cmb_base := AddItem (cmb_base b) k v\<rparr> = with_items b [(k, v)]"
  "with_items (with_items b xs) ys = with_items b (xs @ ys)"
  "with_items b [] = b"
  by (simp_all add: with_items_def AddItem_def)

lemma with_items_fields [simp]:
  "cmb_ClusterConfig (with_items b kvs) = cmb_ClusterConfig b"
  "cmb_TrinoConfig (with_items b kvs) = cmb_TrinoConfig b"
  "cmb_RoleName (with_items b kvs) = cmb_RoleName b"
  "cmb_ClusterName (with_items b kvs) = cmb_ClusterName b"
  "cmb_RoleGroupName (with_items b kvs) = cmb_RoleGroupName b"
  "cmb_CoordiantorSvcFqdn (with_items b kvs) = cmb_CoordiantorSvcFqdn b"
  "cfb_Items (cmb_base (with_items b kvs)) = cfb_Items (cmb_base b) @ kvs"
  by (simp_all add: with_items_def)

lemma with_items_reads [simp]:
  "getNodeProperties (with_items b kvs) = getNodeProperties b"
  "getCatalogProperties P co eo (with_items b kvs) = getCatalogProperties P co eo b"
  "heap_memory Q (with_items b kvs) = heap_memory Q b"
  by (simp_all add: getNodeProperties_def getCatalogProperties_def heap_memory_def)

lemma with_items_jvm [simp]: "getJvmProperties C Q U (with_items b kvs) = getJvmProperties C Q U b"
  by (simp add: getJvmProperties_def getHeapSize_def)

lemma foldl_AddItem: "foldl (\<lambda>b (k, v). with_items b [(k, v)]) b kvs = with_items b kvs"
proof (induction kvs arbitrary: b)
  case (Cons kv kvs)
  then show ?case by (cases kv) (simp add: with_items_add)
qed (simp add: with_items_add)

text \<open>The vector file, as the list of the items it adds.\<close>

definition vector_items ::
  "constants_api \<Rightarrow> client_api \<Rightarrow> ('q, 'x) builder_api \<Rightarrow> ('q, 'x) ConfigMapBuilder \<Rightarrow> (string \<times> string) list res" where
  "vector_items C K U b =
     (if vector_name (cmb_ClusterConfig b) = [] then Inr []
      else bind_res (from_lib (MakeVectorYaml U (GetOwnerNamespace K) (cmb_ClusterName b) (cmb_RoleName b)
              (cmb_RoleGroupName b) (vector_name (cmb_ClusterConfig b))))
            (\<lambda>s. Inr [(VectorConfigFileName C, s)]))"

lemma cm_vector_run:
  "bind_st (cm_vector C K U) f (with_items b kvs) = (case vector_items C K U b of
     Inl e \<Rightarrow> (Inl e, with_items b kvs) | Inr vs \<Rightarrow> f () (with_items b (kvs @ vs)))"
  by (cases "MakeVectorYaml U (GetOwnerNamespace K) (cmb_ClusterName b) (cmb_RoleName b)
              (cmb_RoleGroupName b) (vector_name (cmb_ClusterConfig b))")
    (simp_all add: bind_st_def lift_st_def cm_vector_def vector_items_def with_items_add)

text \<open>The first five files with the state taken out, a form of \<open>Build\<close> for the proofs below.\<close>

definition core_items ::
  "constants_api \<Rightarrow> props_api \<Rightarrow> 'q quantity_api \<Rightarrow> client_api \<Rightarrow> ('q, 'x) builder_api \<Rightarrow> cm_orders
     \<Rightarrow> ('q, 'x) ConfigMapBuilder \<Rightarrow> (string \<times> string) list res" where
  "core_items C P Q K U ords b =
     bind_res (getConfigProperties C P K (ord_authenticators ords) b) (\<lambda>cp.
     bind_res (from_lib (props_Marshal P cp)) (\<lambda>config.
     bind_res (from_lib (props_Marshal P (getNodeProperties b))) (\<lambda>node.
     bind_res (from_lib (props_Marshal P getSecurityProperties)) (\<lambda>security.
     bind_res (getJvmProperties C Q U b) (\<lambda>jvm.
       Inr [(''config.properties'', config), (''node.properties'', node), (''secret.properties'', security),
            (''jvm.config'', jvm), (''log.properties'', log_properties)])))))"

lemma cm_Build_ok:
  "cm_Build C P Q K U ords b = (Inr obj, b') \<longleftrightarrow>
     (\<exists>core vec. core_items C P Q K U ords b = Inr core \<and> vector_items C K U b = Inr vec \<and>
        b' = with_items b (core @ vec @ range_map (ord_files ords)
               (getCatalogProperties P (ord_catalogs ords) (ord_entries ords) b)) \<and>
        obj = cm_GetObject U (cmb_base b'))"
  by (cases "vector_items C K U b")
    (auto simp: cm_Build_def core_items_def go_res with_items_add foldl_AddItem cm_vector_run)

lemma cm_Build_fst:
  "fst (cm_Build C P Q K U ords b) =
     bind_res (core_items C P Q K U ords b) (\<lambda>core.
     bind_res (vector_items C K U b) (\<lambda>vec.
       Inr (cm_GetObject U (cmb_base (with_items b (core @ vec @ range_map (ord_files ords)
         (getCatalogProperties P (ord_catalogs ords) (ord_entries ords) b)))))))"
  by (cases "vector_items C K U b")
    (simp_all add: cm_Build_def core_items_def fst_st with_items_add foldl_AddItem cm_vector_run bind_res_assoc)

section \<open>Names of the files\<close>

definition core_files :: "string list" where
  "core_files = [''config.properties'', ''node.properties'', ''secret.properties'', ''jvm.config'', ''log.properties'']"

lemma core_items_keys: "core_items C P Q K U ords b = Inr core \<Longrightarrow> map fst core = core_files"
  by (auto simp: core_items_def core_files_def go_res)

lemma vector_items_keys:
  "vector_items C K U b = Inr vec \<Longrightarrow>
    map fst vec = (if vector_name (cmb_ClusterConfig b) = [] then [] else [VectorConfigFileName C])"
  by (auto simp: vector_items_def go_res split: if_splits)

lemma catalog_file_inj [simp]: "catalog_file s = catalog_file t \<longleftrightarrow> s = t"
  by (simp add: catalog_file_def)

lemma catalog_file_not_core: "catalog_file t \<notin> set core_files"
  by (auto simp: catalog_file_def core_files_def)

section \<open>Catalog files\<close>

lemma foldl_add_catalog_lookup:
  "distinct (map fst es) \<Longrightarrow>
   map_of (foldl (add_catalog P eo) data es) (catalog_file t) =
     (case map_of es t of
        None \<Rightarrow> map_of data (catalog_file t)
      | Some ps \<Rightarrow> (case props_Marshal P (range_map (eo t) ps) of
          Inl _ \<Rightarrow> map_of data (catalog_file t) | Inr s \<Rightarrow> Some s))"
proof (induction es arbitrary: data)
  case (Cons e es)
  obtain u ps where e: "e = (u, ps)" by (cases e)
  have "t = u \<Longrightarrow> map_of es t = None" using Cons.prems e by (simp add: map_of_eq_None_iff)
  with Cons e show ?case
    by (auto simp: add_catalog_def update_conv' split: sum.splits option.splits)
qed simp

lemma foldl_add_catalog_keys:
  "fst ` set (foldl (add_catalog P eo) data es) \<subseteq> fst ` set data \<union> catalog_file ` fst ` set es"
proof (induction es arbitrary: data)
  case (Cons e es)
  have "fst ` set (add_catalog P eo data e) \<subseteq> fst ` set data \<union> {catalog_file (fst e)}"
    by (cases "props_Marshal P (range_map (eo (fst e)) (snd e))"; cases e) (auto simp: add_catalog_def dom_update)
  with Cons.IH [of "add_catalog P eo data e"] show ?case
    unfolding foldl_Cons set_simps(2) image_insert by blast
qed simp

lemma add_catalog_wf: "wf_map data \<Longrightarrow> wf_map (add_catalog P eo data e)"
  by (auto simp: add_catalog_def wf_map_def distinct_update split: sum.splits prod.splits)

lemma foldl_add_catalog_wf: "wf_map data \<Longrightarrow> wf_map (foldl (add_catalog P eo) data es)"
  by (induction es arbitrary: data) (simp_all add: add_catalog_wf)

lemma getCatalogProperties_wf: "wf_map (getCatalogProperties P co eo b)"
  unfolding getCatalogProperties_def by (rule foldl_add_catalog_wf) (simp add: wf_map_def)

lemma getCatalogProperties_keys:
  "k \<in> fst ` set (getCatalogProperties P co eo b) \<Longrightarrow> \<exists>t. k = catalog_file t"
  using foldl_add_catalog_keys [of P eo "[]" "range_map co (catalogs (cmb_ClusterConfig b))"]
  by (auto simp: getCatalogProperties_def)

text \<open>The catalog maps of a cluster configuration are Go maps.\<close>

definition wf_catalogs :: "'x ClusterConfigSpec option \<Rightarrow> bool" where
  "wf_catalogs cc \<longleftrightarrow> wf_map (catalogs cc) \<and> (\<forall>(t, ps) \<in> set (catalogs cc). wf_map ps)"

definition fair_orders :: "cm_orders \<Rightarrow> bool" where
  "fair_orders ords \<longleftrightarrow> fair_order (ord_authenticators ords) \<and> fair_order (ord_catalogs ords) \<and>
     (\<forall>t. fair_order (ord_entries ords t)) \<and> fair_order (ord_files ords)"

text \<open>
  The specification of the catalog files: one for each catalog that can be marshalled, its entries
  added in the order in which the inner loop visits them.
\<close>

definition catalog_content :: "props_api \<Rightarrow> (string \<Rightarrow> range_order) \<Rightarrow> 'x ClusterConfigSpec option \<Rightarrow> string \<Rightarrow> string option" where
  "catalog_content P eo cc t = (case map_of (catalogs cc) t of
     None \<Rightarrow> None | Some ps \<Rightarrow> (case props_Marshal P (range_map (eo t) ps) of Inl _ \<Rightarrow> None | Inr s \<Rightarrow> Some s))"

lemma getCatalogProperties_lookup:
  assumes "fair_order co" and "wf_catalogs (cmb_ClusterConfig b)"
  shows "map_of (getCatalogProperties P co eo b) (catalog_file t) = catalog_content P eo (cmb_ClusterConfig b) t"
proof -
  have wf: "wf_map (catalogs (cmb_ClusterConfig b))" using assms(2) by (simp add: wf_catalogs_def)
  have d: "distinct (map fst (range_map co (catalogs (cmb_ClusterConfig b))))"
    using range_map_wf [OF assms(1) wf] by (simp only: wf_map_def)
  show ?thesis
    unfolding getCatalogProperties_def foldl_add_catalog_lookup [OF d] catalog_content_def range_map_map_of [OF assms(1) wf]
    by (simp split: option.split sum.split)
qed

lemma catalog_content_entries:
  assumes "\<forall>t. fair_order (eo t)" and "wf_catalogs cc" and "(t, ps) \<in> set (catalogs cc)"
  shows "\<exists>qs. mset qs = mset ps \<and> catalog_content P eo cc t = (case props_Marshal P qs of Inl _ \<Rightarrow> None | Inr s \<Rightarrow> Some s)"
proof -
  have "wf_map (catalogs cc)" "wf_map ps" using assms(2,3) by (auto simp: wf_catalogs_def)
  then have "map_of (catalogs cc) t = Some ps" "mset (range_map (eo t) ps) = mset ps"
    using assms(1,3) by (simp_all add: wf_map_def range_map_mset)
  then show ?thesis by (intro exI [of _ "range_map (eo t) ps"]) (simp add: catalog_content_def)
qed

lemma catalog_files:
  fixes P :: props_api
  assumes "fair_orders ords" and "wf_catalogs (cmb_ClusterConfig b)"
  defines "files \<equiv> range_map (ord_files ords) (getCatalogProperties P (ord_catalogs ords) (ord_entries ords) b)"
    and "content \<equiv> catalog_content P (ord_entries ords) (cmb_ClusterConfig b)"
  shows "distinct (map fst files)"
    and "fst ` set files = {catalog_file t | t. content t \<noteq> None}"
    and "map_of files (catalog_file t) = content t"
proof -
  define cats where "cats = getCatalogProperties P (ord_catalogs ords) (ord_entries ords) b"
  have fo: "fair_order (ord_files ords)" and wf: "wf_map cats"
    using assms(1) getCatalogProperties_wf by (auto simp: fair_orders_def cats_def)
  have look: "map_of files (catalog_file t) = content t" for t
    unfolding files_def cats_def [symmetric] range_map_map_of [OF fo wf]
    unfolding cats_def content_def using assms(1,2) by (intro getCatalogProperties_lookup) (simp_all add: fair_orders_def)
  have "set files = set cats" unfolding files_def cats_def [symmetric] by (rule range_map_set [OF fo wf])
  then have named: "\<exists>t. k = catalog_file t" if "k \<in> fst ` set files" for k
    using that unfolding cats_def by (metis getCatalogProperties_keys)
  have present: "catalog_file t \<in> fst ` set files \<longleftrightarrow> content t \<noteq> None" for t
    by (metis look map_of_eq_None_iff)
  show "fst ` set files = {catalog_file t | t. content t \<noteq> None}"
    unfolding set_eq_iff mem_Collect_eq by (metis named present)
  show "distinct (map fst files)"
    using range_map_wf [OF fo wf] by (simp add: wf_map_def files_def cats_def)
  show "map_of files (catalog_file t) = content t" by (rule look)
qed

lemma catalog_files_mset:
  assumes "fair_orders o1" and "fair_orders o2" and "wf_catalogs (cmb_ClusterConfig b)" and "ord_entries o1 = ord_entries o2"
  shows "mset (range_map (ord_files o1) (getCatalogProperties P (ord_catalogs o1) (ord_entries o1) b)) =
    mset (range_map (ord_files o2) (getCatalogProperties P (ord_catalogs o2) (ord_entries o1) b))"
    (is "mset ?f1 = mset ?f2")
proof -
  note f1 = catalog_files [OF assms(1,3), where P = P] and f2 = catalog_files [OF assms(2,3), where P = P, folded assms(4)]
  have "map_of ?f1 k = map_of ?f2 k" for k
  proof (cases "\<exists>t. k = catalog_file t")
    case True
    with f1(3) f2(3) show ?thesis by auto
  next
    case False
    then have "k \<notin> fst ` set ?f1" "k \<notin> fst ` set ?f2" unfolding f1(2) f2(2) by blast+
    then show ?thesis by (simp add: map_of_eq_None_iff [THEN iffD2])
  qed
  then have "map_of ?f1 = map_of ?f2" by blast
  then have "set ?f1 = set ?f2" using f1(1) f2(1) by (metis map_of_inject_set)
  moreover have "distinct ?f1" "distinct ?f2" using f1(1) f2(1) distinct_map by blast+
  ultimately show ?thesis by (metis set_eq_iff_mset_eq_distinct)
qed

section \<open>Keys of config.properties\<close>

definition auth_keys :: "string list" where
  "auth_keys = [''http-server.authentication.type'', ''http-server.authentication.oauth2.scopes'',
     ''http-server.authentication.oauth2.client-id'', ''http-server.authentication.oauth2.client-secret'',
     ''http-server.authentication.oauth2.issuer'', ''http-server.authentication.oauth2.principal-field'',
     ''http-server.authentication.ldap.server'', ''password-authenticator.name'', ''ldap.user-base-dn'',
     ''ldap.group-auth-pattern'', ''ldap.bind-dn'', ''ldap.bind-password'']"

lemmas config_property_defs = base_config_properties_def memory_properties_def tls_properties_def

lemma base_keys_distinct: "distinct (map fst (base_config_properties C b))"
  by (cases "cm_enabledTls b"; cases "cmb_TrinoConfig b") (simp_all add: config_property_defs)

lemma base_keys_not_auth: "k \<in> fst ` set (base_config_properties C b) \<Longrightarrow> k \<notin> set auth_keys"
  by (cases "cm_enabledTls b"; cases "cmb_TrinoConfig b") (auto simp: config_property_defs auth_keys_def)

lemma auth_property_keys:
  "auth_GetConfigProperties a = Inr (Some p) \<Longrightarrow> fst ` set p \<subseteq> set auth_keys"
  by (cases a) (auto simp: oidc_defs static_defs ldap_defs go_res auth_keys_def)

lemma copied_keys:
  "props_laws P \<Longrightarrow> copy_properties P p = Inr ps \<Longrightarrow> fst ` set ps \<subseteq> (case p of None \<Rightarrow> {} | Some q \<Rightarrow> fst ` set q)"
proof (cases p)
  case None
  assume "props_laws P" "copy_properties P p = Inr ps"
  with None show ?thesis
    by (auto simp: copy_properties_def Properties_Keys_def go_res dest: props_laws_nil)
next
  case (Some q)
  assume "props_laws P" "copy_properties P p = Inr ps"
  with Some show ?thesis by (auto simp: props_laws_Keys)
qed

lemma trino_property_keys:
  assumes "props_laws P" and "trino_GetConfigProperties P as = Inr ps"
  shows "fst ` set ps \<subseteq> set auth_keys"
proof
  fix k assume "k \<in> fst ` set ps"
  then obtain v where "(k, v) \<in> set ps" by auto
  then obtain a qs where "bind_res (auth_GetConfigProperties a) (copy_properties P) = Inr qs" "(k, v) \<in> set qs"
    using concat_res_set [OF assms(2) [unfolded trino_GetConfigProperties_def]] by blast
  then obtain p where a: "auth_GetConfigProperties a = Inr p" and c: "copy_properties P p = Inr qs"
    by (auto simp: go_res)
  have "fst ` set qs \<subseteq> set auth_keys"
  proof (cases p)
    case None
    with copied_keys [OF assms(1) c] show ?thesis by simp
  next
    case (Some q)
    with copied_keys [OF assms(1) c] auth_property_keys [of a q] a show ?thesis by simp
  qed
  with \<open>(k, v) \<in> set qs\<close> show "k \<in> set auth_keys" by (metis fst_conv image_subset_iff)
qed

lemma getConfigProperties_ok:
  assumes "props_laws P" and "getConfigProperties C P K ord b = Inr ps"
  obtains auth where "ps = base_config_properties C b @ auth" "fst ` set auth \<subseteq> set auth_keys"
    "cmb_RoleName b \<noteq> ''coordinator'' \<or> auth_specs (cmb_ClusterConfig b) = None \<longrightarrow> auth = []"
proof (cases "cmb_RoleName b = ''coordinator'' \<and> auth_specs (cmb_ClusterConfig b) \<noteq> None")
  case True
  then obtain as qs rs where "trino_GetConfigProperties P as = Inr qs" and r: "copy_properties P (Some qs) = Inr rs"
    and "ps = base_config_properties C b @ rs"
    using assms(2) by (auto simp: getConfigProperties_def go_res)
  with trino_property_keys [OF assms(1)] copied_keys [OF assms(1) r] True that show thesis by force
next
  case False
  then have "ps = base_config_properties C b"
    using assms(2) by (auto simp: getConfigProperties_def split: option.splits if_splits)
  with that [of "[]"] show thesis by simp
qed

lemma config_last_value:
  assumes "props_laws P" and "getConfigProperties C P K ord b = Inr ps" and "(k, v) \<in> set (base_config_properties C b)"
  shows "props_Get P ps k = v"
proof -
  obtain auth where ps: "ps = base_config_properties C b @ auth" and "fst ` set auth \<subseteq> set auth_keys"
    using assms(1,2) by (rule getConfigProperties_ok)
  moreover have "k \<notin> set auth_keys" using assms(3) by (intro base_keys_not_auth [of _ C b]) force
  ultimately have "last_value auth k = None" by (auto simp: last_value_None_iff)
  with last_value_distinct [OF base_keys_distinct assms(3)] have "last_value ps k = Some v"
    by (simp add: ps last_value_append)
  with assms(1) show ?thesis by (rule props_laws_Get)
qed

section \<open>Heap size\<close>

text \<open>The unit of the heap size, as a letter and as a number of bytes.\<close>

definition heap_unit :: "int \<Rightarrow> string \<times> nat" where
  "heap_unit v = (if v \<ge> 2 ^ 40 then (''G'', 30) else if v \<ge> 2 ^ 30 then (''M'', 20) else (''K'', 10))"

lemma JvmHeapFactor_bounds: "0.8 \<le> f64_val JvmHeapFactor" "f64_val JvmHeapFactor \<le> 0.8 + 1 / 2 ^ 50"
  by (simp_all add: f64_val_def JvmHeapFactor_def power_int_minus)

text \<open>
  The accumulated error of the approximation, the constant and the product, for a quotient below
  \<open>2 ^ 33\<close>, is less than 1/256.
\<close>

lemma heap_product_error:
  fixes v h f p unit :: real
  assumes v: "0 \<le> v" "v / unit \<le> 2 ^ 33" and unit: "2 ^ 10 \<le> unit"
    and h: "\<bar>h - v\<bar> \<le> 1 + v / 2 ^ 50" and f: "0.8 \<le> f" "f \<le> 0.8 + 1 / 2 ^ 50"
    and p: "\<bar>p - h / unit * f\<bar> \<le> h / unit * f / 2 ^ 53" and pos: "0 \<le> h"
  shows "\<bar>p - 0.8 * (v / unit)\<bar> \<le> 1 / 256"
proof -
  define a x where "a = v / unit" and "x = h / unit"
  have a: "0 \<le> a" "a \<le> 2 ^ 33" using v unit by (simp_all add: a_def)
  have x0: "0 \<le> x" using pos unit by (simp add: x_def)
  have u: "1 / unit \<le> 1 / 2 ^ 10" using unit by (simp add: field_simps)
  have "\<bar>x - a\<bar> = \<bar>h - v\<bar> / unit" using unit by (simp add: a_def x_def flip: diff_divide_distrib)
  also have "\<dots> \<le> (1 + v / 2 ^ 50) / unit" using h unit by (intro divide_right_mono) simp_all
  also have "\<dots> = 1 / unit + a / 2 ^ 50" by (simp add: a_def add_divide_distrib)
  finally have xa: "\<bar>x - a\<bar> \<le> 1 / 2 ^ 10 + a / 2 ^ 50" using u by linarith
  have lo: "x * 0.8 \<le> x * f" and hi: "x * f \<le> x * (0.8 + 1 / 2 ^ 50)"
    using f x0 by (simp_all only: mult_left_mono)
  then have prod: "x * 0.8 \<le> x * f" "x * f \<le> x * 0.8 + x / 2 ^ 50" by (simp_all add: algebra_simps)
  define y where "y = x * f"
  have "\<bar>p - y\<bar> \<le> y / 2 ^ 53" using p by (simp add: x_def y_def)
  with prod [folded y_def] xa a x0 show ?thesis
    unfolding a_def [symmetric] abs_le_iff by simp
qed

lemma getHeapSize_eq:
  assumes "heap_memory Q b = Inr m" and "q_Value Q m \<ge> 2 ^ 20"
  shows "getHeapSize Q b factor = (case heap_unit (q_Value Q m) of (letter, k) \<Rightarrow>
    Inr (strconv_Itoa (f64_to_int (f64_mult (f64_div_pow2 (q_AsApproximateFloat64 Q (q_ToDec Q m)) k) factor)) @ letter))"
  using assms by (auto simp: getHeapSize_def scale_heap_def heap_unit_def Let_def)

lemma heap_unit_range:
  assumes "heap_unit v = (letter, k)" and "2 ^ 20 \<le> v" and "v < 2 ^ 63"
  shows "real_of_int v / 2 ^ k \<le> 2 ^ 33" "(2::real) ^ 10 \<le> 2 ^ k" "2 ^ 10 \<le> real_of_int v / 2 ^ k"
  using assms by (auto simp: heap_unit_def split: if_splits)

lemma getHeapSize_value:
  assumes "quantity_laws Q" and "heap_memory Q b = Inr m" and "2 ^ 20 \<le> q_Value Q m" and "q_Value Q m < 2 ^ 63"
    and k: "heap_unit (q_Value Q m) = (letter, k)"
  obtains n where "getHeapSize Q b JvmHeapFactor = Inr (strconv_Itoa n @ letter)"
    and "real_of_int n \<le> 0.8 * (real_of_int (q_Value Q m) / 2 ^ k) + 1 / 256"
    and "0.8 * (real_of_int (q_Value Q m) / 2 ^ k) - 1 - 1 / 256 < real_of_int n"
proof -
  define h where "h = q_AsApproximateFloat64 Q (q_ToDec Q m)"
  define p where "p = f64_mult (f64_div_pow2 h k) JvmHeapFactor"
  define v where "v = real_of_int (q_Value Q m)"
  have h: "0 < significand h" "\<bar>f64_val h - v\<bar> \<le> 1 + v / 2 ^ 50"
    using assms(1,3) by (simp_all add: quantity_laws_def h_def v_def)
  have "0 \<le> f64_val h" using h(1) by (simp add: f64_val_def)
  have f: "0 < significand JvmHeapFactor" by (simp add: JvmHeapFactor_def)
  have "\<bar>f64_val p - f64_val h / 2 ^ k * f64_val JvmHeapFactor\<bar> \<le> f64_val h / 2 ^ k * f64_val JvmHeapFactor / 2 ^ 53"
    unfolding p_def using f64_mult_error [of "f64_div_pow2 h k" JvmHeapFactor] h(1) f
    by (simp add: f64_div_pow2_val)
  then have close: "\<bar>f64_val p - 0.8 * (v / 2 ^ k)\<bar> \<le> 1 / 256"
    using heap_unit_range [OF k assms(3,4)] assms(3) h(2) JvmHeapFactor_bounds \<open>0 \<le> f64_val h\<close>
    by (intro heap_product_error [of v "2 ^ k" "f64_val h" "f64_val JvmHeapFactor"]) (simp_all add: v_def)
  have "f64_to_int p = \<lfloor>f64_val p\<rfloor>"
    unfolding p_def using h(1) f by (intro f64_to_int_floor f64_mult_significand) simp_all
  then have "real_of_int (f64_to_int p) \<le> f64_val p" "f64_val p - 1 < real_of_int (f64_to_int p)"
    by linarith+
  with close have "real_of_int (f64_to_int p) \<le> 0.8 * (v / 2 ^ k) + 1 / 256"
    "0.8 * (v / 2 ^ k) - 1 - 1 / 256 < real_of_int (f64_to_int p)"
    by linarith+
  moreover have "getHeapSize Q b JvmHeapFactor = Inr (strconv_Itoa (f64_to_int p) @ letter)"
    using getHeapSize_eq [OF assms(2,3)] k by (simp add: p_def h_def)
  ultimately show thesis using that unfolding v_def by blast
qed

section \<open>A small world for the examples\<close>

definition example_cluster_config :: "string ClusterConfigSpec" where
  "example_cluster_config = \<lparr>cc_Authentication = Some [sso_spec], cc_CatalogLabelSelector = None,
     cc_CatalogProperties = Some [(''tpch'', [(''connector.name'', ''tpch'')]), (''oops'', [(''bad'', ''value'')])],
     cc_ListenerClass = ''cluster-internal'',
     cc_Tls = Some \<lparr>tls_ServerSecretClass = ''tls'', tls_InternalSecretClass = ''tls''\<rparr>,
     cc_VectorAggregatorConfigMapName = ''vector-aggregator''\<rparr>"

definition example_config :: "(int, string) ConfigSpec" where
  "example_config = \<lparr>cs_RoleGroupConfigSpec = Some \<lparr>rgc_Resources = None, rgc_rest = []\<rparr>,
     cs_QueryMaxMemory = ''5GB'', cs_QueryMaxMemoryPerNode = ''1000MB''\<rparr>"

definition example_cm :: "string \<Rightarrow> (int, string) ConfigMapBuilder" where
  "example_cm role = NewConfigMapBuilder ''trino-coordinator-default'' ''trino-coordinator-default.prod.svc.cluster.local''
     (Some example_cluster_config) (Some example_config)
     [\<lambda>opts. opts\<lparr>opt_ClusterName := ''trino'', opt_RoleName := role, opt_RoleGroupName := ''default''\<rparr>]"

definition example_orders :: "range_order \<Rightarrow> cm_orders" where
  "example_orders ord = \<lparr>ord_authenticators = ord, ord_catalogs = ord, ord_entries = (\<lambda>_. ord), ord_files = ord\<rparr>"

lemmas example_cm_defs = example_cm_def NewConfigMapBuilder_def example_cluster_config_def example_config_def zero_Options_def

lemma example_orders_fair: "fair_orders (example_orders (\<lambda>ks. ks))" "fair_orders (example_orders rev)"
  by (simp_all add: fair_orders_def example_orders_def)

lemma example_catalogs_wf: "wf_catalogs (Some example_cluster_config)"
  by (simp add: wf_catalogs_def catalogs_def example_cluster_config_def wf_map_def)

lemma example_cm_fields [simp]:
  "cmb_ClusterConfig (example_cm role) = Some example_cluster_config"
  "cmb_TrinoConfig (example_cm role) = Some example_config" "cmb_RoleName (example_cm role) = role"
  "cfb_Items (cmb_base (example_cm role)) = []" "auth_specs (Some example_cluster_config) = Some [sso_spec]"
  by (simp_all add: example_cm_defs auth_specs_def)

lemma example_quantity_laws: "quantity_laws example_quantity"
  by (simp add: quantity_laws_def example_quantity_def f64_val_def)

lemma example_heap: "heap_memory example_quantity (example_cm role) = Inr 2000000000"
  by (simp add: heap_memory_def example_config_def example_quantity_def DefaultJvmMem_def)

lemma example_sso: "fair_order ord \<Longrightarrow> NewAuthentication example_client ord [sso_spec] = Inr [OidcAuth sso_auth]"
  by (simp add: NewAuthentication_def collect_unfold example_resolve)

lemma example_marshals: "''bad'' \<notin> fst ` set p \<Longrightarrow> props_Marshal example_props p = Inr []"
  by (simp add: example_props_def last_value_None_iff)

lemma example_config_properties:
  assumes "fair_order ord"
  obtains ps where "getConfigProperties example_consts example_props example_client ord (example_cm role) = Inr ps"
    and "props_Marshal example_props ps = Inr []"
proof -
  obtain ps where ps: "getConfigProperties example_consts example_props example_client ord (example_cm role) = Inr ps"
    using assms
    by (cases "role = ''coordinator''")
      (auto simp: getConfigProperties_def example_sso trino_GetConfigProperties_def oidc_defs example_auths)
  with example_props_laws obtain auth where
    "ps = base_config_properties example_consts (example_cm role) @ auth" "fst ` set auth \<subseteq> set auth_keys"
    by (rule getConfigProperties_ok)
  moreover have "''bad'' \<notin> set auth_keys" by (simp add: auth_keys_def)
  moreover have "''bad'' \<notin> fst ` set (base_config_properties example_consts (example_cm role))"
    by (cases "cm_enabledTls (example_cm role)") (simp_all add: config_property_defs)
  ultimately have "''bad'' \<notin> fst ` set ps" by auto
  with that ps example_marshals show thesis by blast
qed

lemma example_jvm: "\<exists>s. getJvmProperties example_consts example_quantity example_builders (example_cm role) = Inr s"
  using getHeapSize_eq [OF example_heap [of role]]
  by (simp add: getJvmProperties_def example_quantity_def split: prod.splits)

lemma example_build:
  assumes "fair_order ord"
  shows "\<exists>obj. fst (cm_Build example_consts example_props example_quantity example_client example_builders
    (example_orders ord) (example_cm role)) = Inr obj"
proof -
  obtain ps where "getConfigProperties example_consts example_props example_client ord (example_cm role) = Inr ps"
    "props_Marshal example_props ps = Inr []"
    using assms by (rule example_config_properties)
  moreover obtain s where "getJvmProperties example_consts example_quantity example_builders (example_cm role) = Inr s"
    using example_jvm by auto
  ultimately show ?thesis
    by (simp add: cm_Build_fst core_items_def example_orders_def example_marshals getNodeProperties_def
        getSecurityProperties_def vector_items_def example_builders_def)
qed

section \<open>Properties of the config map\<close>

text \<open>
  C17. A successful \<open>Build\<close> on a fresh builder never writes a file twice: the five core files, each
  with what its function returned, the vector file exactly when an aggregator is configured, and one
  file for each catalog that can be marshalled. Its content is the marshalled property file to which all
  entries of the catalog, and nothing else, were added, in the order in which the loop over them
  visited them; the vector file must not be called like one of the others.
\<close>

theorem config_map_items:
  assumes "fair_orders ords" and "wf_catalogs (cmb_ClusterConfig b)"
    and "VectorConfigFileName C \<notin> set core_files" and "\<forall>t. VectorConfigFileName C \<noteq> catalog_file t"
    and "cfb_Items (cmb_base b) = []" and "cm_Build C P Q K U ords b = (Inr obj, b')"
  defines "items \<equiv> cfb_Items (cmb_base b')"
    and "content \<equiv> catalog_content P (ord_entries ords) (cmb_ClusterConfig b)"
  shows "distinct (map fst items) \<and>
    fst ` set items = set core_files
       \<union> (if vector_name (cmb_ClusterConfig b) = [] then {} else {VectorConfigFileName C})
       \<union> {catalog_file t | t. content t \<noteq> None} \<and>
    (\<exists>ps config node security jvm. getConfigProperties C P K (ord_authenticators ords) b = Inr ps \<and>
       props_Marshal P ps = Inr config \<and> map_of items ''config.properties'' = Some config \<and>
       props_Marshal P (getNodeProperties b) = Inr node \<and> map_of items ''node.properties'' = Some node \<and>
       props_Marshal P getSecurityProperties = Inr security \<and> map_of items ''secret.properties'' = Some security \<and>
       getJvmProperties C Q U b = Inr jvm \<and> map_of items ''jvm.config'' = Some jvm) \<and>
    (\<forall>t. map_of items (catalog_file t) = content t) \<and>
    (\<forall>(t, ps) \<in> set (catalogs (cmb_ClusterConfig b)). \<exists>qs. mset qs = mset ps \<and>
       content t = (case props_Marshal P qs of Inl _ \<Rightarrow> None | Inr s \<Rightarrow> Some s))"
proof -
  define files where
    "files = range_map (ord_files ords) (getCatalogProperties P (ord_catalogs ords) (ord_entries ords) b)"
  note files = catalog_files [OF assms(1,2), where P = P, folded files_def content_def]
  from assms(5,6) obtain core vec where core: "core_items C P Q K U ords b = Inr core"
    and vec: "vector_items C K U b = Inr vec" and items: "items = core @ vec @ files"
    by (auto simp: cm_Build_ok files_def items_def)
  note keys = core_items_keys [OF core] vector_items_keys [OF vec]
  have k: "fst ` set core = set core_files"
    "fst ` set vec = (if vector_name (cmb_ClusterConfig b) = [] then {} else {VectorConfigFileName C})"
    using keys by (metis list.set_map, simp flip: list.set_map)
  have "distinct core_files" by (simp add: core_files_def)
  moreover have nc: "catalog_file t \<notin> set core_files" for t by (rule catalog_file_not_core)
  ultimately have d: "distinct (map fst items)"
    using assms(3,4) files(1,2) unfolding items map_append distinct_append keys set_append set_map k
    by (auto simp: keys)
  have look: "map_of items (catalog_file t) = content t" for t
  proof -
    have "catalog_file t \<notin> fst ` set core" "catalog_file t \<notin> fst ` set vec"
      using assms(4) [rule_format, of t, symmetric] nc [of t] k by (simp_all split: if_splits)
    then have "map_of core (catalog_file t) = None" "map_of vec (catalog_file t) = None"
      by (simp_all add: map_of_eq_None_iff)
    then show ?thesis using files(3) [of t] by (simp add: items map_add_def split: option.splits)
  qed
  have core_look: "map_of items n = Some x" if "(n, x) \<in> set core" for n x
    using that d by (simp add: items)
  from core obtain ps config node security jvm where c: "getConfigProperties C P K (ord_authenticators ords) b = Inr ps"
    "props_Marshal P ps = Inr config" "props_Marshal P (getNodeProperties b) = Inr node"
    "props_Marshal P getSecurityProperties = Inr security" "getJvmProperties C Q U b = Inr jvm"
    and "core = [(''config.properties'', config), (''node.properties'', node), (''secret.properties'', security),
      (''jvm.config'', jvm), (''log.properties'', log_properties)]"
    by (auto simp: core_items_def go_res)
  then have "map_of items ''config.properties'' = Some config" "map_of items ''node.properties'' = Some node"
    "map_of items ''secret.properties'' = Some security" "map_of items ''jvm.config'' = Some jvm"
    by (simp_all only: core_look list.set_intros)
  moreover have "\<forall>(t, ps) \<in> set (catalogs (cmb_ClusterConfig b)). \<exists>qs. mset qs = mset ps \<and>
      content t = (case props_Marshal P qs of Inl _ \<Rightarrow> None | Inr s \<Rightarrow> Some s)"
    using assms(1,2) catalog_content_entries unfolding content_def fair_orders_def by blast
  moreover have "fst ` set items = set core_files
      \<union> (if vector_name (cmb_ClusterConfig b) = [] then {} else {VectorConfigFileName C}) \<union> {catalog_file t | t. content t \<noteq> None}"
    unfolding items set_append image_Un k files(2) by blast
  ultimately show ?thesis using d look c by blast
qed

theorem config_map_items_witness:
  "\<exists>items. items = cfb_Items (cmb_base (snd (cm_Build example_consts example_props example_quantity
     example_client example_builders (example_orders rev) (example_cm ''coordinator'')))) \<and>
   distinct (map fst items) \<and> ''jvm.config'' \<in> fst ` set items \<and>
   map_of items ''catalog-tpch.properties'' = Some [] \<and> map_of items ''catalog-oops.properties'' = None"
proof -
  let ?r = "cm_Build example_consts example_props example_quantity example_client example_builders
    (example_orders rev) (example_cm ''coordinator'')"
  obtain obj where "fst ?r = Inr obj" using example_build [of rev "''coordinator''"] by auto
  then have r: "?r = (Inr obj, snd ?r)" by (metis prod.collapse)
  define items where "items = cfb_Items (cmb_base (snd ?r))"
  have cats: "catalogs (Some example_cluster_config) = [(''tpch'', [(''connector.name'', ''tpch'')]), (''oops'', [(''bad'', ''value'')])]"
    by (simp add: catalogs_def example_cluster_config_def)
  have "catalog_content example_props (ord_entries (example_orders rev)) (Some example_cluster_config) ''tpch'' = Some []"
    "catalog_content example_props (ord_entries (example_orders rev)) (Some example_cluster_config) ''oops'' = None"
    by (simp_all add: catalog_content_def cats example_orders_def range_map_eq example_props_def last_value_def)
  moreover have hyps: "wf_catalogs (cmb_ClusterConfig (example_cm ''coordinator''))"
    "VectorConfigFileName example_consts \<notin> set core_files" "\<forall>t. VectorConfigFileName example_consts \<noteq> catalog_file t"
    "cfb_Items (cmb_base (example_cm ''coordinator'')) = []"
    by (simp_all add: example_catalogs_wf example_consts_def core_files_def catalog_file_def)
  note main = config_map_items [OF example_orders_fair(2) hyps r, folded items_def, unfolded example_cm_fields(1)]
  from main have "map_of items (catalog_file t) =
      catalog_content example_props (ord_entries (example_orders rev)) (Some example_cluster_config) t" for t
    by blast
  moreover have "''jvm.config'' \<in> set core_files" by (simp add: core_files_def)
  with main have "distinct (map fst items)" "''jvm.config'' \<in> fst ` set items" by blast+
  moreover have "catalog_file ''tpch'' = ''catalog-tpch.properties''" "catalog_file ''oops'' = ''catalog-oops.properties''"
    by (simp_all add: catalog_file_def)
  ultimately show ?thesis unfolding items_def by metis
qed

text \<open>
  C28. Where no authentication is rendered, the orders in which the loops over the catalogs, over the
  catalog files and over the authenticators visit their maps never change the config map: both runs
  end with the same fault, or with the same files holding the same data. The order of the loop over
  the entries of one catalog is the same in both runs, since it is the order in which they are added
  to the catalog's property file.
\<close>

theorem config_map_order_independent:
  assumes "fair_orders o1" and "fair_orders o2" and "wf_catalogs (cmb_ClusterConfig b)" and "ord_entries o1 = ord_entries o2"
    and "cmb_RoleName b \<noteq> ''coordinator'' \<or> auth_specs (cmb_ClusterConfig b) = None"
    and "cm_Build C P Q K U o1 b = (r1, b1)" and "cm_Build C P Q K U o2 b = (r2, b2)"
  shows "rel_sum (=) (\<lambda>_ _. mset (cfb_Items (cmb_base b1)) = mset (cfb_Items (cmb_base b2))) r1 r2"
proof -
  have core: "core_items C P Q K U o1 b = core_items C P Q K U o2 b"
    using assms(5) by (auto simp: core_items_def getConfigProperties_def split: option.splits)
  have r: "r1 = fst (cm_Build C P Q K U o1 b)" "r2 = fst (cm_Build C P Q K U o2 b)"
    using assms(6,7) by simp_all
  show ?thesis
  proof (cases "core_items C P Q K U o2 b")
    case (Inl f)
    then show ?thesis by (simp add: r cm_Build_fst core)
  next
    case c: (Inr c)
    show ?thesis
    proof (cases "vector_items C K U b")
      case (Inl f)
      with c show ?thesis by (simp add: r cm_Build_fst core)
    next
      case (Inr vec)
      with c obtain x y where xy: "r1 = Inr x" "r2 = Inr y" by (simp add: r cm_Build_fst core)
      with assms(6,7) c core catalog_files_mset [OF assms(1-4)] show ?thesis
        by (auto simp: cm_Build_ok assms(4))
    qed
  qed
qed

theorem config_map_order_independent_witness:
  "rel_sum (=) (\<lambda>_ _. mset (cfb_Items (cmb_base (snd (cm_Build example_consts example_props example_quantity
       example_client example_builders (example_orders rev\<lparr>ord_catalogs := \<lambda>ks. ks\<rparr>) (example_cm ''worker''))))) =
     mset (cfb_Items (cmb_base (snd (cm_Build example_consts example_props example_quantity
       example_client example_builders (example_orders rev) (example_cm ''worker''))))))
   (fst (cm_Build example_consts example_props example_quantity example_client example_builders
     (example_orders rev\<lparr>ord_catalogs := \<lambda>ks. ks\<rparr>) (example_cm ''worker'')))
   (fst (cm_Build example_consts example_props example_quantity example_client example_builders
     (example_orders rev) (example_cm ''worker'')))"
  by (rule config_map_order_independent [OF _ example_orders_fair(2), of _ "example_cm ''worker''"])
    (simp_all add: example_catalogs_wf fair_orders_def example_orders_def)

text \<open>
  C20. The authentication properties, appended last, never displace a property of the operator's own:
  every base property keeps its value in the rendered file, and keys of the authentication
  vocabulary appear only in the file of a coordinator of a cluster with authentication.
\<close>

theorem config_properties_effective:
  assumes "props_laws P" and "getConfigProperties C P K ord b = Inr ps"
  shows "(\<forall>(k, v) \<in> set (base_config_properties C b). props_Get P ps k = v) \<and>
    (\<forall>k \<in> fst ` set ps. k \<in> fst ` set (base_config_properties C b) \<or>
       (k \<in> set auth_keys \<and> cmb_RoleName b = ''coordinator'' \<and> auth_specs (cmb_ClusterConfig b) \<noteq> None))"
proof
  show "\<forall>(k, v) \<in> set (base_config_properties C b). props_Get P ps k = v"
    using config_last_value [OF assms] by blast
  obtain auth where "ps = base_config_properties C b @ auth" "fst ` set auth \<subseteq> set auth_keys"
    "cmb_RoleName b \<noteq> ''coordinator'' \<or> auth_specs (cmb_ClusterConfig b) = None \<longrightarrow> auth = []"
    using assms by (rule getConfigProperties_ok)
  then show "\<forall>k \<in> fst ` set ps. k \<in> fst ` set (base_config_properties C b) \<or>
       (k \<in> set auth_keys \<and> cmb_RoleName b = ''coordinator'' \<and> auth_specs (cmb_ClusterConfig b) \<noteq> None)"
    by (cases "auth = []") auto
qed

theorem config_properties_effective_witness:
  "\<exists>ps. getConfigProperties example_consts example_props example_client rev (example_cm ''coordinator'') = Inr ps \<and>
     (\<forall>(k, v) \<in> set (base_config_properties example_consts (example_cm ''coordinator'')).
        props_Get example_props ps k = v)"
proof -
  obtain ps where "getConfigProperties example_consts example_props example_client rev (example_cm ''coordinator'') = Inr ps"
    using example_config_properties [OF fair_order_id(2)] by blast
  with config_properties_effective [OF example_props_laws this] show ?thesis by blast
qed

text \<open>
  C21. The discovery URI of every node names the coordinator service with the scheme and the very port
  the server is configured to listen on: https and its port exactly when TLS is enabled.
\<close>

theorem discovery_uri_matches_server:
  assumes "props_laws P" and "getConfigProperties C P K ord b = Inr ps"
  shows "\<exists>scheme port. scheme = (if tls_enabled (cmb_ClusterConfig b) then ''https'' else ''http'') \<and>
    props_Get P ps (''http-server.'' @ scheme @ ''.port'') = port \<and>
    props_Get P ps ''discovery.uri'' = scheme @ ''://'' @ cmb_CoordiantorSvcFqdn b @ '':'' @ port"
proof -
  have "(''discovery.uri'', getDiscoveryUri b) \<in> set (base_config_properties C b)"
    by (simp add: base_config_properties_def)
  then have uri: "props_Get P ps ''discovery.uri'' = getDiscoveryUri b" by (rule config_last_value [OF assms])
  have "(''http-server.https.port'', strconv_Itoa 8443) \<in> set (base_config_properties C b)" if "cm_enabledTls b"
    using that by (simp add: base_config_properties_def tls_properties_def)
  then have tls: "props_Get P ps ''http-server.https.port'' = strconv_Itoa 8443" if "cm_enabledTls b"
    using that config_last_value [OF assms] by blast
  have "(''http-server.http.port'', strconv_Itoa 8080) \<in> set (base_config_properties C b)" if "\<not> cm_enabledTls b"
    using that by (simp add: base_config_properties_def)
  then have plain: "props_Get P ps ''http-server.http.port'' = strconv_Itoa 8080" if "\<not> cm_enabledTls b"
    using that config_last_value [OF assms] by blast
  from uri tls plain show ?thesis
    by (simp add: getDiscoveryUri_def cm_enabledTls_def HttpScheme_def HttpsScheme_def Let_def)
qed

theorem discovery_uri_matches_server_witness:
  "\<exists>ps. getConfigProperties example_consts example_props example_client rev (example_cm ''worker'') = Inr ps \<and>
     props_Get example_props ps ''discovery.uri'' =
       ''https://trino-coordinator-default.prod.svc.cluster.local:'' @ props_Get example_props ps ''http-server.https.port''"
proof -
  obtain ps where "getConfigProperties example_consts example_props example_client rev (example_cm ''worker'') = Inr ps"
    using example_config_properties [OF fair_order_id(2)] by blast
  moreover from discovery_uri_matches_server [OF example_props_laws this]
  have "props_Get example_props ps ''discovery.uri'' =
       ''https://trino-coordinator-default.prod.svc.cluster.local:'' @ props_Get example_props ps ''http-server.https.port''"
    by (simp add: tls_enabled_def) (simp add: example_cm_defs)
  ultimately show ?thesis by blast
qed

text \<open>
  C15. For every memory limit from 1Mi up to the int64 range the heap size is a whole number of the
  unit chosen for the limit, at least 818 of them, never above the limit, and within one unit (and
  1/256 for the rounding of float64) of 80% of it.
\<close>

theorem heap_size_bounds:
  assumes "quantity_laws Q" and "heap_memory Q b = Inr m" and "2 ^ 20 \<le> q_Value Q m" and "q_Value Q m < 2 ^ 63"
    and "heap_unit (q_Value Q m) = (letter, k)"
  shows "\<exists>n. getHeapSize Q b JvmHeapFactor = Inr (strconv_Itoa n @ letter) \<and>
    818 \<le> n \<and> n * 2 ^ k \<le> q_Value Q m \<and>
    real_of_int n \<le> 0.8 * (real_of_int (q_Value Q m) / 2 ^ k) + 1 / 256 \<and>
    0.8 * (real_of_int (q_Value Q m) / 2 ^ k) - 1 - 1 / 256 < real_of_int n"
proof -
  define x where "x = real_of_int (q_Value Q m) / 2 ^ k"
  obtain n where n: "getHeapSize Q b JvmHeapFactor = Inr (strconv_Itoa n @ letter)"
    and hi: "real_of_int n \<le> 0.8 * x + 1 / 256" and lo: "0.8 * x - 1 - 1 / 256 < real_of_int n"
    unfolding x_def using assms by (rule getHeapSize_value)
  have x: "2 ^ 10 \<le> x" unfolding x_def by (rule heap_unit_range(3) [OF assms(5,3,4)])
  then have "real_of_int n \<le> x" using hi by simp
  then have "real_of_int n * 2 ^ k \<le> real_of_int (q_Value Q m)" by (simp add: x_def le_divide_eq)
  then have "n * 2 ^ k \<le> q_Value Q m"
    by (metis of_int_le_iff of_int_mult of_int_numeral of_int_power)
  moreover have "818 \<le> n" using x lo by simp
  ultimately show ?thesis using n hi lo unfolding x_def by blast
qed

theorem heap_size_bounds_witness:
  "getHeapSize example_quantity (example_cm ''coordinator'') JvmHeapFactor = Inr ''1525M''"
proof -
  have "\<exists>n. getHeapSize example_quantity (example_cm ''coordinator'') JvmHeapFactor = Inr (strconv_Itoa n @ ''M'') \<and>
    818 \<le> n \<and> n * 2 ^ 20 \<le> q_Value example_quantity 2000000000 \<and>
    real_of_int n \<le> 0.8 * (real_of_int (q_Value example_quantity 2000000000) / 2 ^ 20) + 1 / 256 \<and>
    0.8 * (real_of_int (q_Value example_quantity 2000000000) / 2 ^ 20) - 1 - 1 / 256 < real_of_int n"
    by (rule heap_size_bounds [OF example_quantity_laws example_heap])
      (simp_all add: example_quantity_def heap_unit_def)
  then obtain n where n: "getHeapSize example_quantity (example_cm ''coordinator'') JvmHeapFactor = Inr (strconv_Itoa n @ ''M'')"
    and "real_of_int n \<le> 1525.9" "1524.8 < real_of_int n"
    by (auto simp: example_quantity_def)
  then have "n = 1525" by linarith
  with n show ?thesis by (simp add: strconv_Itoa_def nat_digits.simps digit_char_def)
qed

text \<open>
  C32. The heap computation never returns an error, for any memory limit and factor, and panics in
  exactly two situations: the memory limit is below 1Mi, although the message asks for more than 1K
  only, or the configuration is present without its embedded role group configuration. So in every
  other situation it returns a heap size.
\<close>

theorem heap_size_panics_iff:
  "(\<forall>e. getHeapSize Q b factor \<noteq> Inl (Err e)) \<and>
   (panics (getHeapSize Q b factor) \<longleftrightarrow>
     (\<exists>cfg. cmb_TrinoConfig b = Some cfg \<and> cs_RoleGroupConfigSpec cfg = None) \<or>
     (\<exists>m. heap_memory Q b = Inr m \<and> q_Value Q m < 2 ^ 20)) \<and>
   (panics (getHeapSize Q b factor) \<or> (\<exists>s. getHeapSize Q b factor = Inr s))"
proof (cases "heap_memory Q b")
  case (Inl f)
  then obtain cfg where "cmb_TrinoConfig b = Some cfg" "cs_RoleGroupConfigSpec cfg = None" and "\<exists>msg. f = Panic msg"
    by (auto simp: heap_memory_def go_res deref_def split: option.splits)
  then show ?thesis by (auto simp: getHeapSize_def Inl panics_def)
next
  case (Inr m)
  then have "\<not> (\<exists>cfg. cmb_TrinoConfig b = Some cfg \<and> cs_RoleGroupConfigSpec cfg = None)"
    by (auto simp: heap_memory_def deref_def split: option.splits)
  then show ?thesis by (simp add: getHeapSize_def Inr scale_heap_def Let_def panics_def)
qed

end
