(* ===== verification/Stateful_Set.thy ===== *)
theory Stateful_Set
  imports Config_Map
begin

text \<open>
  \<open>src/internal/controller/common/statefulset.go\<close>: the StatefulSet of a role group.

  The builder record keeps the fields of the Go struct; its embedded framework builder is the
  constructor arguments and the list of calls. \<open>ss_Build\<close> is a state transformer on it. Each of the
  four methods that consult the authentication makes its own \<open>NewAuthentication\<close> call, so each has
  its own iteration order (\<open>ss_orders\<close>). The container is the list of calls on the framework's
  container builder, the start script is the text the source concatenates.

  The lemmas show that volumes, mounts and the claim template fit together for every choice of the
  four orders, which faults \<open>Build\<close> returns, and which parts of the specification it ignores.
\<close>

section \<open>Constants\<close>

definition TrinoConfigDir :: "constants_api \<Rightarrow> string" where "TrinoConfigDir C = KubedoopConfigDir C"
definition TrinoConfigMountDir :: "constants_api \<Rightarrow> string" where "TrinoConfigMountDir C = KubedoopConfigDirMount C"
definition TrinoDataDir :: "constants_api \<Rightarrow> string" where "TrinoDataDir C = KubedoopDataDir C"
definition TrinoLogDir :: "constants_api \<Rightarrow> string" where "TrinoLogDir C = KubedoopLogDir C"

definition TrinoConfigVolumeName :: string where "TrinoConfigVolumeName = ''config''"
definition TrinoDataVolumeName :: string where "TrinoDataVolumeName = ''data''"
definition TrinoLogVolumeName :: string where "TrinoLogVolumeName = ''log''"
definition TrinoServerTlsVolumeName :: string where "TrinoServerTlsVolumeName = ''server-tls''"
definition TrinoInternalTlsVolumeName :: string where "TrinoInternalTlsVolumeName = ''internal-tls''"
definition TrinoClientTlsVolumeName :: string where "TrinoClientTlsVolumeName = ''client-tls''"

lemmas volume_names = TrinoConfigVolumeName_def TrinoDataVolumeName_def TrinoLogVolumeName_def
  TrinoServerTlsVolumeName_def TrinoInternalTlsVolumeName_def TrinoClientTlsVolumeName_def

section \<open>The builder\<close>

record ('q, 'x) StatefulSetBuilder =
  ssb_base :: "('q, 'x) statefulset_base"
  ssb_ClusterConfig :: "'x ClusterConfigSpec option"
  ssb_Resource :: "'q ResourcesSpec option"
  ssb_Image :: Image
  ssb_ClusterName :: string
  ssb_RoleName :: string
  ssb_ports :: "ContainerPort list"

definition NewStatefulSetBuilder ::
  "string \<Rightarrow> int32 option \<Rightarrow> Image \<Rightarrow> 'x ClusterConfigSpec option \<Rightarrow> ContainerPort list \<Rightarrow> 'x option
     \<Rightarrow> ('q, 'x) RoleGroupConfigSpec option \<Rightarrow> option_fn list \<Rightarrow> ('q, 'x) StatefulSetBuilder" where
  "NewStatefulSetBuilder name replicas img clusterConfig ports overrides roleGroupConfig options =
     (let opts = apply_options options
      in \<lparr>ssb_base = \<lparr>sb_Name = name, sb_Replicas = replicas, sb_Image = img, sb_Overrides = overrides,
            sb_RoleGroupConfig = roleGroupConfig, sb_Options = options, sb_calls = []\<rparr>,
          ssb_ClusterConfig = clusterConfig,
          ssb_Resource = None,
          ssb_Image = img,
          ssb_ClusterName = opt_ClusterName opts,
          ssb_RoleName = opt_RoleName opts,
          ssb_ports = ports\<rparr>)"

text \<open>The StatefulSet reconciler of the framework: the builder and whether the cluster is stopped.\<close>

record ('q, 'x) StatefulSetReconciler =
  ssr_builder :: "('q, 'x) StatefulSetBuilder"
  ssr_stopped :: bool

definition NewStatefulSetReconciler ::
  "info_api \<Rightarrow> 'x ClusterConfigSpec option \<Rightarrow> RoleGroupInfo \<Rightarrow> Image \<Rightarrow> bool \<Rightarrow> int32 option
     \<Rightarrow> ContainerPort list \<Rightarrow> 'x option \<Rightarrow> ('q, 'x) ConfigSpec option \<Rightarrow> option_fn list
     \<Rightarrow> ('q, 'x) StatefulSetReconciler res" where
  "NewStatefulSetReconciler I clusterConfig roleGroupInfo img stopped replicas ports overrides roleGroupConfig options =
     (let commonsRoleGroupConfig = Option.bind roleGroupConfig cs_RoleGroupConfigSpec
      in Inr \<lparr>ssr_builder = NewStatefulSetBuilder (rgi_GetFullName I roleGroupInfo) replicas img clusterConfig ports
                overrides commonsRoleGroupConfig options,
              ssr_stopped = stopped\<rparr>)"

definition ss_enabledTls :: "('q, 'x) StatefulSetBuilder \<Rightarrow> bool" where
  "ss_enabledTls b = tls_enabled (ssb_ClusterConfig b)"

section \<open>Volumes and claims\<close>

record ss_orders =
  ord_volumes :: range_order
  ord_args :: range_order
  ord_mounts :: range_order
  ord_envs :: range_order

text \<open>
  The block \<open>if b.ClusterConfig != nil && b.ClusterConfig.Authentication != nil\<close> that the four methods
  share: what a method takes from the authentication, and the zero value without one.
\<close>

definition with_auth ::
  "client_api \<Rightarrow> range_order \<Rightarrow> ('q, 'x) StatefulSetBuilder \<Rightarrow> 'a list \<Rightarrow> (TrinoAuthentication \<Rightarrow> 'a list res)
     \<Rightarrow> 'a list res" where
  "with_auth K ord b zero get = (case auth_specs (ssb_ClusterConfig b) of
     None \<Rightarrow> Inr zero
   | Some specs \<Rightarrow> bind_res (NewAuthentication K ord specs) get)"

definition buildTlsVolume :: "constants_api \<Rightarrow> 'q quantity_api \<Rightarrow> string \<Rightarrow> string \<Rightarrow> 'q Volume" where
  "buildTlsVolume C Q name secretClassName =
     \<lparr>vol_Name = name,
      vol_Source = EphemeralSource
        \<lparr>ct_Annotations =
           [(AnnotationSecretsClass C, secretClassName),
            (AnnotationSecretsScope C, strings_Join [PodScope C, NodeScope C] '',''),
            (AnnotationSecretsFormat C, TLSP12 C),
            (AnnotationSecretsPKCS12Password C, DefaultTlsPassphrase)],
         ct_AccessModes = [''ReadWriteOnce''],
         ct_StorageClassName = SecretStorageClassPtr C,
         ct_StorageRequest = MustParse Q ''1Mi''\<rparr>\<rparr>"

definition tls_volumes :: "constants_api \<Rightarrow> 'q quantity_api \<Rightarrow> 'x ClusterConfigSpec option \<Rightarrow> 'q Volume list" where
  "tls_volumes C Q cc = (case Option.bind cc cc_Tls of
     None \<Rightarrow> []
   | Some tls \<Rightarrow>
       (let secretClassName = (if tls_ServerSecretClass tls = [] then ''tls'' else tls_ServerSecretClass tls)
        in [buildTlsVolume C Q TrinoServerTlsVolumeName secretClassName,
            buildTlsVolume C Q TrinoInternalTlsVolumeName secretClassName]))"

definition getVolumes ::
  "constants_api \<Rightarrow> 'q quantity_api \<Rightarrow> client_api \<Rightarrow> ('q, 'x) builder_api \<Rightarrow> range_order
     \<Rightarrow> ('q, 'x) StatefulSetBuilder \<Rightarrow> 'q Volume list res" where
  "getVolumes C Q K U ord b =
     (let volumes =
        [\<lparr>vol_Name = TrinoConfigVolumeName, vol_Source = ConfigMapSource (ss_GetName U (ssb_base b))\<rparr>,
         \<lparr>vol_Name = TrinoLogVolumeName, vol_Source = EmptyDirSource (MustParse Q ''1Gi'')\<rparr>,
         \<lparr>vol_Name = TrinoClientTlsVolumeName, vol_Source = EmptyDirSource (MustParse Q ''1Mi'')\<rparr>]
        @ tls_volumes C Q (ssb_ClusterConfig b)
      in bind_res (with_auth K ord b [] (trino_GetVolumes C Q)) (\<lambda>vs. Inr (volumes @ vs)))"

definition getDataStorageSize :: "'q quantity_api \<Rightarrow> ('q, 'x) StatefulSetBuilder \<Rightarrow> 'q" where
  "getDataStorageSize Q b =
     (case Option.bind (ssb_Resource b) rs_StorageCapacity of
        Some capacity \<Rightarrow> (if \<not> q_IsZero Q capacity then capacity else MustParse Q ''1Gi'')
      | None \<Rightarrow> MustParse Q ''1Gi'')"

definition getPvcTemplates :: "'q quantity_api \<Rightarrow> ('q, 'x) StatefulSetBuilder \<Rightarrow> 'q PersistentVolumeClaim list" where
  "getPvcTemplates Q b =
     [\<lparr>pvc_Name = TrinoDataVolumeName, pvc_VolumeMode = Some ''Filesystem'', pvc_AccessModes = [''ReadWriteOnce''],
       pvc_StorageRequest = getDataStorageSize Q b\<rparr>]"

section \<open>The main container\<close>

definition getMainContainerEnvVars ::
  "client_api \<Rightarrow> range_order \<Rightarrow> ('q, 'x) StatefulSetBuilder \<Rightarrow> EnvVar list res" where
  "getMainContainerEnvVars K ord b = with_auth K ord b [] trino_GetEnvVars"

definition TAB :: string where "TAB = [CHR 0x09]"
definition DQ :: string where "DQ = [CHR 0x22]"
definition SQ :: string where "SQ = [CHR 0x27]"
definition BS :: string where "BS = [CHR 0x5C]"

definition main_script :: "constants_api \<Rightarrow> string \<Rightarrow> string" where
  "main_script C authCommands = text_lines
     ['''',
      ''set -ex'',
      ''mkdir -p '' @ TrinoConfigDir C,
      ''cp '' @ path_Join [TrinoConfigMountDir C, ''*''] @ '' '' @ TrinoConfigDir C,
      '''',
      ''# TODO: remove this in futrue ,Move catalog files to catalog directory'',
      ''mkdir -p '' @ TrinoConfigDir C @ ''catalog'',
      ''for f in '' @ path_Join [TrinoConfigDir C, ''catalog-*''] @ ''; do'',
      ''  if [ -f '' @ DQ @ ''$f'' @ DQ @ '' ]; then'',
      TAB @ ''echo '' @ DQ @ ''Moving $f to catalog directory'' @ DQ,
      ''    filename=$(basename '' @ DQ @ ''$f'' @ DQ @ '')'',
      ''    newname=$(echo '' @ DQ @ ''$filename'' @ DQ @ '' | sed '' @ SQ @ ''s/^catalog-//'' @ SQ @ '')'',
      ''    mv '' @ DQ @ ''$f'' @ DQ @ '' '' @ path_Join [TrinoConfigDir C, ''catalog'', ''$newname''],
      ''  fi'',
      ''done'',
      '''',
      ''prepare_signal_handlers()'',
      ''{'',
      ''    unset term_child_pid'',
      ''    unset term_kill_needed'',
      ''    trap '' @ SQ @ ''handle_term_signal'' @ SQ @ '' TERM'',
      ''}'',
      '''',
      ''handle_term_signal()'',
      ''{'',
      ''    if [ '' @ DQ @ ''${term_child_pid}'' @ DQ @ '' ]; then'',
      ''        kill -TERM '' @ DQ @ ''${term_child_pid}'' @ DQ @ '' 2>/dev/null'',
      ''    else'',
      ''        term_kill_needed='' @ DQ @ ''yes'' @ DQ,
      ''    fi'',
      ''}'',
      '''',
      ''wait_for_termination()'',
      ''{'',
      ''    set +e'',
      ''    term_child_pid=$1'',
      ''    if [[ -v term_kill_needed ]]; then'',
      ''        kill -TERM '' @ DQ @ ''${term_child_pid}'' @ DQ @ '' 2>/dev/null'',
      ''    fi'',
      ''    wait ${term_child_pid} 2>/dev/null'',
      ''    trap - TERM'',
      ''    wait ${term_child_pid} 2>/dev/null'',
      ''    set -e'',
      ''}'',
      '''',
      ''rm -f /kubedoop/log/_vector/shutdown'',
      ''prepare_signal_handlers'',
      '''',
      ''keytool '' @ BS,
      TAB @ ''-importkeystore '' @ BS,
      TAB @ ''-srckeystore /etc/pki/java/cacerts '' @ BS,
      TAB @ ''-srcstoretype JKS '' @ BS,
      TAB @ ''-srcstorepass '' @ DefaultTlsPassphrase @ BS,
      TAB @ ''-destkeystore '' @ path_Join [ClientTlsPath C, ''truststore.p12''] @ BS,
      TAB @ ''-deststoretype PKCS12 '' @ BS,
      TAB @ ''-deststorepass '' @ DefaultTlsPassphrase @ BS,
      TAB @ ''-noprompt'',
      '''',
      authCommands,
      '''',
      ''bin/launcher run --etc-dir '' @ TrinoConfigDir C @ '' --data-dir '' @ TrinoDataDir C,
      ''wait_for_termination $!'',
      ''mkdir -p /kubedoop/log/_vector && touch /kubedoop/log/_vector/shutdown'']"

definition auth_commands ::
  "constants_api \<Rightarrow> client_api \<Rightarrow> ('q, 'x) builder_api \<Rightarrow> range_order \<Rightarrow> ('q, 'x) StatefulSetBuilder \<Rightarrow> string res" where
  "auth_commands C K U ord b =
     bind_res (with_auth K ord b [] (trino_GetCommands C (IndentTab4Spaces U)))
       (\<lambda>commands. Inr (strings_Join commands NL))"

definition getMainContainerArgs ::
  "constants_api \<Rightarrow> client_api \<Rightarrow> ('q, 'x) builder_api \<Rightarrow> range_order \<Rightarrow> ('q, 'x) StatefulSetBuilder \<Rightarrow> string list res" where
  "getMainContainerArgs C K U ord b =
     bind_res (auth_commands C K U ord b) (\<lambda>authCommands. Inr [IndentTab4Spaces U (main_script C authCommands)])"

definition getMainContainerVolumeMounts ::
  "constants_api \<Rightarrow> client_api \<Rightarrow> range_order \<Rightarrow> ('q, 'x) StatefulSetBuilder \<Rightarrow> VolumeMount list res" where
  "getMainContainerVolumeMounts C K ord b =
     (let volumes =
        [\<lparr>vm_Name = TrinoConfigVolumeName, vm_MountPath = TrinoConfigMountDir C\<rparr>,
         \<lparr>vm_Name = TrinoDataVolumeName, vm_MountPath = TrinoDataDir C\<rparr>,
         \<lparr>vm_Name = TrinoLogVolumeName, vm_MountPath = TrinoLogDir C\<rparr>,
         \<lparr>vm_Name = TrinoClientTlsVolumeName, vm_MountPath = ClientTlsPath C\<rparr>]
        @ (if ss_enabledTls b
           then [\<lparr>vm_Name = TrinoServerTlsVolumeName, vm_MountPath = ServerTlsMountPath C\<rparr>,
                 \<lparr>vm_Name = TrinoInternalTlsVolumeName, vm_MountPath = InternalTlsMountPath C\<rparr>]
           else [])
      in bind_res (with_auth K ord b [] (trino_GetVolumeMounts C)) (\<lambda>ms. Inr (volumes @ ms)))"

definition main_probe :: "('q, 'x) StatefulSetBuilder \<Rightarrow> Probe" where
  "main_probe b =
     (let (portName, schema) = (if ss_enabledTls b then (''https'', ''HTTPS'') else (''http'', ''HTTP''))
      in \<lparr>pr_Path = ''/v1/info'', pr_Port = portName, pr_Scheme = schema,
          pr_InitialDelaySeconds = 30, pr_TimeoutSeconds = 5, pr_PeriodSeconds = 10,
          pr_FailureThreshold = 6, pr_SuccessThreshold = 1\<rparr>)"

definition main_container_builder ::
  "constants_api \<Rightarrow> client_api \<Rightarrow> ('q, 'x) builder_api \<Rightarrow> ss_orders \<Rightarrow> ('q, 'x) StatefulSetBuilder
     \<Rightarrow> container_builder res" where
  "main_container_builder C K U ords b =
     bind_res (getMainContainerArgs C K U (ord_args ords) b) (\<lambda>args.
     bind_res (getMainContainerVolumeMounts C K (ord_mounts ords) b) (\<lambda>volumeMounts.
     bind_res (getMainContainerEnvVars K (ord_envs ords) b) (\<lambda>envVars.
       Inr \<lparr>cb_Name = ssb_RoleName b, cb_Image = ssb_Image b,
            cb_calls = [SetCommand [''sh'', ''-c''], SetArgs args, AddVolumeMounts volumeMounts]
              @ (if ss_enabledTls b then [AddEnvFromSecret (getInternalSharedSecretName (ssb_ClusterName b))] else [])
              @ [AddEnvVars envVars, AddPorts (ssb_ports b),
                 SetLivenessProbe (main_probe b), SetReadinessProbe (main_probe b)]\<rparr>)))"

definition getMainContainer ::
  "constants_api \<Rightarrow> client_api \<Rightarrow> ('q, 'x) builder_api \<Rightarrow> ss_orders \<Rightarrow> ('q, 'x) StatefulSetBuilder \<Rightarrow> 'x res" where
  "getMainContainer C K U ords b =
     bind_res (main_container_builder C K U ords b) (\<lambda>container. Inr (container_Build U container))"

section \<open>Build\<close>

definition ss_call :: "('q, 'x) statefulset_call \<Rightarrow> (('q, 'x) StatefulSetBuilder, unit) st" where
  "ss_call c = modify_st (\<lambda>b. b\<lparr>ssb_base := (ssb_base b)\<lparr>sb_calls := sb_calls (ssb_base b) @ [c]\<rparr>\<rparr>)"

definition add_vector ::
  "('q, 'x) builder_api \<Rightarrow> ('q, 'x) StatefulSetBuilder \<Rightarrow> ('q, 'x) StatefulSetObject \<Rightarrow> ('q, 'x) StatefulSetObject" where
  "add_vector U b obj =
     (if vector_name (ssb_ClusterConfig b) \<noteq> []
      then obj\<lparr>so_Volumes := so_Volumes obj
                 @ vector_GetVolumes U TrinoConfigVolumeName TrinoLogVolumeName (ss_GetImage U (ssb_base b)),
               so_Containers := so_Containers obj
                 @ [vector_GetContainer U TrinoConfigVolumeName TrinoLogVolumeName (ss_GetImage U (ssb_base b))]\<rparr>
      else obj)"

definition ss_Build ::
  "constants_api \<Rightarrow> 'q quantity_api \<Rightarrow> client_api \<Rightarrow> ('q, 'x) builder_api \<Rightarrow> ss_orders
     \<Rightarrow> (('q, 'x) StatefulSetBuilder, ('q, 'x) StatefulSetObject) st" where
  "ss_Build C Q K U ords =
     bind_st (gets_st (\<lambda>b. Inr (getPvcTemplates Q b))) (\<lambda>pvcs.
     bind_st (ss_call (AddVolumeClaimTemplates pvcs)) (\<lambda>_.
     bind_st (gets_st (getVolumes C Q K U (ord_volumes ords))) (\<lambda>volumes.
     bind_st (ss_call (AddVolumes volumes)) (\<lambda>_.
     bind_st (gets_st (getMainContainer C K U ords)) (\<lambda>container.
     bind_st (ss_call (AddContainer container)) (\<lambda>_.
     bind_st (gets_st (\<lambda>b. from_lib (ss_GetObject U (ssb_base b)))) (\<lambda>obj.
     gets_st (\<lambda>b. Inr (add_vector U b obj)))))))))"

section \<open>Lemmas on volumes\<close>

lemma with_auth_Inr:
  "with_auth K ord b zero get = Inr xs \<longleftrightarrow>
     (auth_specs (ssb_ClusterConfig b) = None \<and> xs = zero) \<or>
     (\<exists>specs as. auth_specs (ssb_ClusterConfig b) = Some specs \<and> NewAuthentication K ord specs = Inr as \<and> get as = Inr xs)"
  by (auto simp: with_auth_def go_res split: option.splits)

lemma tls_volumes_names:
  "map vol_Name (tls_volumes C Q (ssb_ClusterConfig b)) =
     (if ss_enabledTls b then [TrinoServerTlsVolumeName, TrinoInternalTlsVolumeName] else [])"
  by (cases "ssb_ClusterConfig b")
    (auto simp: tls_volumes_def ss_enabledTls_def tls_enabled_def buildTlsVolume_def Let_def split: option.splits)

definition base_volume_names :: "('q, 'x) StatefulSetBuilder \<Rightarrow> string list" where
  "base_volume_names b = [TrinoConfigVolumeName, TrinoLogVolumeName, TrinoClientTlsVolumeName]
     @ (if ss_enabledTls b then [TrinoServerTlsVolumeName, TrinoInternalTlsVolumeName] else [])"

lemma getVolumes_Inr:
  assumes "getVolumes C Q K U ord b = Inr vs"
  obtains avs where "with_auth K ord b [] (trino_GetVolumes C Q) = Inr avs"
    "map vol_Name vs = base_volume_names b @ map vol_Name avs"
  using assms by (auto simp: getVolumes_def Let_def go_res tls_volumes_names base_volume_names_def)

lemma getMounts_Inr:
  assumes "getMainContainerVolumeMounts C K ord b = Inr ms"
  obtains ams where "with_auth K ord b [] (trino_GetVolumeMounts C) = Inr ams"
    "set (map vm_Name ms) = insert TrinoDataVolumeName (set (base_volume_names b)) \<union> set (map vm_Name ams)"
  using assms
  by (cases "ss_enabledTls b")
    (auto simp: getMainContainerVolumeMounts_def Let_def go_res base_volume_names_def insert_commute)

lemma auth_volumes_mounted:
  assumes "fair_order o1" and "fair_order o2"
    and "with_auth K o1 b [] (trino_GetVolumes C Q) = Inr avs"
    and "with_auth K o2 b [] (trino_GetVolumeMounts C) = Inr ams"
  shows "vm_Name ` set ams = vol_Name ` set avs"
proof (cases "auth_specs (ssb_ClusterConfig b)")
  case None
  with assms(3,4) show ?thesis by (simp add: with_auth_def)
next
  case (Some specs)
  with assms(3,4) obtain as bs where n: "NewAuthentication K o1 specs = Inr as" "NewAuthentication K o2 specs = Inr bs"
    and "concat_res (auth_GetVolumes C Q) as = Inr avs" "concat_res (auth_GetVolumeMounts C) bs = Inr ams"
    by (auto simp: with_auth_Inr trino_GetVolumes_def trino_GetVolumeMounts_def)
  moreover have "set as = set bs"
    using NewAuthentication_reorder [OF assms(1,2) n] by (rule mset_eq_setD)
  ultimately show ?thesis by (intro auth.reordered_mounts_backed)
qed

text \<open>The names of the volumes of the authenticators: at most one of each kind.\<close>

fun auth_volume_names :: "authenticator \<Rightarrow> string list" where
  "auth_volume_names (OidcAuth a) = []"
| "auth_volume_names (StaticAuth a) = [static_getVolumeName a]"
| "auth_volume_names (LdapAuth a) = [''ldap-bind-credentials'']"

lemma auth_GetVolumes_names: "auth_GetVolumes C Q a = Inr vs \<Longrightarrow> map vol_Name vs = auth_volume_names a"
  by (cases a) (auto simp: oidc_defs static_defs ldap_defs go_res ldap_getBindCredentialsVolumeName_def)

lemma trino_GetVolumes_names:
  "trino_GetVolumes C Q as = Inr vs \<Longrightarrow> map vol_Name vs = concat (map auth_volume_names as)"
  unfolding trino_GetVolumes_def
  by (induction as arbitrary: vs) (auto simp: go_res auth_GetVolumes_names)

lemma auth_GetVolumeMounts_names: "auth_GetVolumeMounts C a = Inr ms \<Longrightarrow> map vm_Name ms = auth_volume_names a"
  by (cases a) (auto simp: oidc_defs static_defs ldap_defs go_res ldap_getBindCredentialsVolumeName_def)

lemma trino_GetVolumeMounts_names:
  "trino_GetVolumeMounts C as = Inr ms \<Longrightarrow> map vm_Name ms = concat (map auth_volume_names as)"
  unfolding trino_GetVolumeMounts_def
  by (induction as arbitrary: ms) (auto simp: go_res auth_GetVolumeMounts_names)

text \<open>A volume name determines the type of its authenticator.\<close>

definition name_type :: "string \<Rightarrow> string" where
  "name_type n = (if n = ''ldap-bind-credentials'' then AuthenticationTypeLDAP else AuthenticationTypeStatic)"

lemma auth_volume_name_type: "n \<in> set (auth_volume_names a) \<Longrightarrow> name_type n = auth_type a"
  by (cases a) (auto simp: name_type_def static_getVolumeName_def)

lemma auth_volume_names_distinct:
  "distinct (map auth_type as) \<Longrightarrow> distinct (concat (map auth_volume_names as))"
proof (induction as)
  case (Cons a as)
  have "distinct (auth_volume_names a)" by (cases a) simp_all
  moreover have "set (auth_volume_names a) \<inter> set (concat (map auth_volume_names as)) = {}"
  proof (rule ccontr)
    assume "set (auth_volume_names a) \<inter> set (concat (map auth_volume_names as)) \<noteq> {}"
    then obtain n c where "n \<in> set (auth_volume_names a)" "c \<in> set as" "n \<in> set (auth_volume_names c)" by auto
    then have "auth_type a = auth_type c" "c \<in> set as" by (metis auth_volume_name_type)+
    with Cons.prems show False by auto
  qed
  ultimately show ?case using Cons by simp
qed simp

lemma auth_volumes_listed:
  assumes "fair_order ord" and "with_auth K ord b [] (trino_GetVolumes C Q) = Inr avs"
  shows "\<exists>as. distinct (map auth_type as) \<and> map vol_Name avs = concat (map auth_volume_names as)"
  using assms(2)
proof (cases "auth_specs (ssb_ClusterConfig b)")
  case None
  with assms(2) show ?thesis by (auto simp: with_auth_def intro: exI [of _ "[]"])
next
  case (Some specs)
  with assms(2) obtain as where n: "NewAuthentication K ord specs = Inr as" and g: "trino_GetVolumes C Q as = Inr avs"
    by (auto simp: with_auth_Inr)
  obtain m where "typed_map m" "map auth_type as = ord (map fst m)"
    using assms(1) n by (rule NewAuthentication_typed)
  then have "distinct (map auth_type as)"
    using fair_order_distinct [OF assms(1)] by (simp add: typed_map_def wf_map_def)
  with trino_GetVolumes_names [OF g] show ?thesis by blast
qed

lemma auth_volume_name_not_base:
  "n \<in> set (auth_volume_names a) \<Longrightarrow> n \<notin> insert TrinoDataVolumeName (set (base_volume_names b))"
  by (cases a) (auto simp: base_volume_names_def static_getVolumeName_def volume_names)

text \<open>No authenticator brings a volume, or a mount, of the names of the TLS volumes.\<close>

definition tls_names :: "string set" where
  "tls_names = {TrinoServerTlsVolumeName, TrinoInternalTlsVolumeName, TrinoClientTlsVolumeName}"

lemma auth_volume_name_not_tls: "n \<in> set (auth_volume_names a) \<Longrightarrow> n \<notin> tls_names"
  by (cases a) (auto simp: tls_names_def static_getVolumeName_def volume_names)

lemma auth_volumes_not_tls:
  assumes "with_auth K ord b [] (trino_GetVolumes C Q) = Inr vs" and "v \<in> set vs"
  shows "vol_Name v \<notin> tls_names"
proof -
  from assms obtain as where "trino_GetVolumes C Q as = Inr vs" by (auto simp: with_auth_Inr)
  with assms(2) have "vol_Name v \<in> set (concat (map auth_volume_names as))"
    by (metis trino_GetVolumes_names image_eqI list.set_map)
  then show ?thesis using auth_volume_name_not_tls by auto
qed

lemma auth_mounts_not_tls:
  assumes "with_auth K ord b [] (trino_GetVolumeMounts C) = Inr ms" and "m \<in> set ms"
  shows "vm_Name m \<notin> tls_names"
proof -
  from assms obtain as where "trino_GetVolumeMounts C as = Inr ms" by (auto simp: with_auth_Inr)
  with assms(2) have "vm_Name m \<in> set (concat (map auth_volume_names as))"
    by (metis trino_GetVolumeMounts_names image_eqI list.set_map)
  then show ?thesis using auth_volume_name_not_tls by auto
qed

lemma base_volume_names_distinct: "distinct (TrinoDataVolumeName # base_volume_names b)"
  by (simp add: base_volume_names_def volume_names)

section \<open>Lemmas on Build\<close>

text \<open>The builder after some calls; what the methods read of it stays the same.\<close>

definition with_calls :: "('q, 'x) StatefulSetBuilder \<Rightarrow> ('q, 'x) statefulset_call list \<Rightarrow> ('q, 'x) StatefulSetBuilder" where
  "with_calls b cs = b\<lparr>ssb_base := (ssb_base b)\<lparr>sb_calls := sb_calls (ssb_base b) @ cs\<rparr>\<rparr>"

lemma ss_call_run [simp]: "bind_st (ss_call c) f b = f () (with_calls b [c])"
  by (simp add: ss_call_def with_calls_def)

lemma with_calls_add: "with_calls (with_calls b cs) ds = with_calls b (cs @ ds)"
  by (simp add: with_calls_def)

lemma with_calls_fields [simp]:
  "ssb_ClusterConfig (with_calls b cs) = ssb_ClusterConfig b"
  "ssb_RoleName (with_calls b cs) = ssb_RoleName b" "ssb_ClusterName (with_calls b cs) = ssb_ClusterName b"
  "ssb_Image (with_calls b cs) = ssb_Image b" "ssb_ports (with_calls b cs) = ssb_ports b"
  "sb_calls (ssb_base (with_calls b cs)) = sb_calls (ssb_base b) @ cs"
  "sb_Name (ssb_base (with_calls b cs)) = sb_Name (ssb_base b)"
  by (simp_all add: with_calls_def)

lemma with_calls_auth [simp]: "with_auth K ord (with_calls b cs) = with_auth K ord b"
  by (simp add: with_auth_def fun_eq_iff)

lemma with_calls_container [simp]:
  "getMainContainer C K U ords (with_calls b cs) = getMainContainer C K U ords b"
  by (simp add: getMainContainer_def main_container_builder_def getMainContainerArgs_def auth_commands_def
      getMainContainerVolumeMounts_def getMainContainerEnvVars_def ss_enabledTls_def main_probe_def)

lemma with_calls_volumes:
  "builder_laws U \<Longrightarrow> getVolumes C Q K U ord (with_calls b cs) = getVolumes C Q K U ord b"
  by (simp add: getVolumes_def builder_laws_def)

lemma ss_Build_fst:
  assumes "builder_laws U"
  shows "fst (ss_Build C Q K U ords b) =
    bind_res (getVolumes C Q K U (ord_volumes ords) b) (\<lambda>volumes.
    bind_res (getMainContainer C K U ords b) (\<lambda>container.
      let b' = with_calls b [AddVolumeClaimTemplates (getPvcTemplates Q b), AddVolumes volumes, AddContainer container]
      in bind_res (from_lib (ss_GetObject U (ssb_base b'))) (\<lambda>obj. Inr (add_vector U b' obj))))"
  by (simp add: ss_Build_def fst_st with_calls_add with_calls_volumes [OF assms] Let_def)

lemma ss_Build_ok:
  assumes "builder_laws U" and "ss_Build C Q K U ords b = (Inr obj, b')"
  obtains volumes container obj0 where "getVolumes C Q K U (ord_volumes ords) b = Inr volumes"
    "getMainContainer C K U ords b = Inr container"
    "b' = with_calls b [AddVolumeClaimTemplates (getPvcTemplates Q b), AddVolumes volumes, AddContainer container]"
    "ss_GetObject U (ssb_base b') = Inr obj0" "obj = add_vector U b' obj0"
  using assms(2) by (auto simp: ss_Build_def go_res with_calls_add with_calls_volumes [OF assms(1)])

section \<open>Properties of the StatefulSet\<close>

text \<open>
  C2. Volumes and mounts fit together: whatever orders the four authentication lookups of one
  \<open>Build\<close> see, the main container mounts exactly the declared volumes and the volume of the claim
  template, and no name is declared twice.
\<close>

theorem volumes_match_mounts:
  assumes "fair_order o1" and "fair_order o2"
    and "getVolumes C Q K U o1 b = Inr vs" and "getMainContainerVolumeMounts C K o2 b = Inr ms"
  shows "vm_Name ` set ms = vol_Name ` set vs \<union> pvc_Name ` set (getPvcTemplates Q b) \<and>
    distinct (map vol_Name vs @ map pvc_Name (getPvcTemplates Q b))"
proof -
  obtain avs where avs: "with_auth K o1 b [] (trino_GetVolumes C Q) = Inr avs"
    and vs: "map vol_Name vs = base_volume_names b @ map vol_Name avs"
    using assms(3) by (rule getVolumes_Inr)
  obtain ams where ams: "with_auth K o2 b [] (trino_GetVolumeMounts C) = Inr ams"
    and ms: "set (map vm_Name ms) = insert TrinoDataVolumeName (set (base_volume_names b)) \<union> set (map vm_Name ams)"
    using assms(4) by (rule getMounts_Inr)
  have "vol_Name ` set vs = set (base_volume_names b) \<union> vol_Name ` set avs"
    using arg_cong [OF vs, of set] by simp
  then have "vm_Name ` set ms = vol_Name ` set vs \<union> pvc_Name ` set (getPvcTemplates Q b)"
    using ms auth_volumes_mounted [OF assms(1,2) avs ams] by (simp add: getPvcTemplates_def insert_commute)
  moreover have "distinct (map vol_Name vs @ map pvc_Name (getPvcTemplates Q b))"
  proof -
    obtain as where d: "distinct (map auth_type as)" and n: "map vol_Name avs = concat (map auth_volume_names as)"
      using auth_volumes_listed [OF assms(1) avs] by blast
    have "set (map vol_Name avs) \<inter> insert TrinoDataVolumeName (set (base_volume_names b)) = {}"
      unfolding n using auth_volume_name_not_base by fastforce
    then show ?thesis
      using auth_volume_names_distinct [OF d] base_volume_names_distinct [of b]
      by (auto simp: vs n getPvcTemplates_def)
  qed
  ultimately show ?thesis by blast
qed

text \<open>A role group of a cluster with TLS, LDAP and OIDC.\<close>

definition example_ss_config :: "string ClusterConfigSpec" where
  "example_ss_config = example_cluster_config\<lparr>cc_Authentication := Some [people_spec, sso_spec]\<rparr>"

definition example_image :: Image where
  "example_image = \<lparr>img_ProductName = ''trino'', img_KubedoopVersion = ''0.0.0-dev'', img_ProductVersion = ''451'',
     img_Custom = [], img_Repo = ''quay.io/zncdatadev'', img_PullPolicy = ''IfNotPresent''\<rparr>"

definition example_ss :: "(int, string) StatefulSetBuilder" where
  "example_ss = NewStatefulSetBuilder ''trino-coordinator-default'' (Some 1) example_image (Some example_ss_config)
     [\<lparr>cp_Name = ''https'', cp_ContainerPort = HttpsPort, cp_Protocol = []\<rparr>] None None
     [\<lambda>opts. opts\<lparr>opt_ClusterName := ''trino'', opt_RoleName := ''coordinator''\<rparr>]"

lemma example_ss_auth: "auth_specs (ssb_ClusterConfig example_ss) = Some [people_spec, sso_spec]"
  by (simp add: example_ss_def NewStatefulSetBuilder_def example_ss_config_def auth_specs_def)

lemma example_people_sso:
  assumes "fair_order ord"
  obtains as where "NewAuthentication example_client ord [people_spec, sso_spec] = Inr as"
    "set as = {LdapAuth people_auth, OidcAuth sso_auth}"
proof -
  have c: "collect_authenticators example_client [] [people_spec, sso_spec]
      = Inr [(AuthenticationTypeLDAP, LdapAuth people_auth), (AuthenticationTypeOIDC, OidcAuth sso_auth)]"
    using auth_types_distinct by (simp add: collect_unfold example_resolve)
  then obtain as where as: "NewAuthentication example_client ord [people_spec, sso_spec] = Inr as"
    by (simp add: NewAuthentication_def)
  with assms obtain m where m: "collect_authenticators example_client [] [people_spec, sso_spec] = Inr m"
    "mset as = mset (map snd m)"
    by (rule NewAuthentication_typed)
  with c have "set as = {LdapAuth people_auth, OidcAuth sso_auth}"
    by (metis (no_types, lifting) Inr_inject list.map(1,2) list.simps(15) empty_set mset_eq_setD snd_conv)
  with that as show thesis by blast
qed

lemma example_auth_total:
  assumes "fair_order ord"
  shows "\<exists>vs. with_auth example_client ord example_ss [] (trino_GetVolumes C Q) = Inr vs"
    and "\<exists>ms. with_auth example_client ord example_ss [] (trino_GetVolumeMounts C) = Inr ms"
    and "\<exists>es. with_auth example_client ord example_ss [] trino_GetEnvVars = Inr es"
    and "\<exists>cs. with_auth example_client ord example_ss [] (trino_GetCommands C ind) = Inr cs"
proof -
  obtain as where as: "NewAuthentication example_client ord [people_spec, sso_spec] = Inr as"
    "set as = {LdapAuth people_auth, OidcAuth sso_auth}"
    using assms by (rule example_people_sso)
  then have "list_all auth_complete as" using example_complete by (auto simp: list_all_iff)
  with as(1) show "\<exists>vs. with_auth example_client ord example_ss [] (trino_GetVolumes C Q) = Inr vs"
    "\<exists>ms. with_auth example_client ord example_ss [] (trino_GetVolumeMounts C) = Inr ms"
    "\<exists>es. with_auth example_client ord example_ss [] trino_GetEnvVars = Inr es"
    "\<exists>cs. with_auth example_client ord example_ss [] (trino_GetCommands C ind) = Inr cs"
    using trino.volumes_total trino.mounts_total trino.env_total trino.commands_total
    by (simp_all add: with_auth_def example_ss_auth)
qed

theorem volumes_match_mounts_witness:
  "\<exists>vs ms. getVolumes example_consts example_quantity example_client example_builders rev example_ss = Inr vs \<and>
     getMainContainerVolumeMounts example_consts example_client (\<lambda>ks. ks) example_ss = Inr ms \<and>
     vm_Name ` set ms = vol_Name ` set vs \<union> pvc_Name ` set (getPvcTemplates example_quantity example_ss)"
proof -
  obtain vs ms where "getVolumes example_consts example_quantity example_client example_builders rev example_ss = Inr vs"
    "getMainContainerVolumeMounts example_consts example_client (\<lambda>ks. ks) example_ss = Inr ms"
    using example_auth_total(1) [of rev example_consts example_quantity]
      example_auth_total(2) [of "\<lambda>ks. ks" example_consts]
    by (auto simp: getVolumes_def getMainContainerVolumeMounts_def Let_def)
  with volumes_match_mounts [OF _ _ this] show ?thesis by auto
qed

text \<open>
  C26. A fault of the authentication lookup (an unreachable API server, two classes of one type, a
  missing class) is the fault of \<open>Build\<close>: no volume and no container has been added when it returns.
\<close>

theorem statefulset_authentication_fault:
  assumes "auth_specs (ssb_ClusterConfig b) = Some specs" and "NewAuthentication K (ord_volumes ords) specs = Inl f"
  shows "ss_Build C Q K U ords b = (Inl f, with_calls b [AddVolumeClaimTemplates (getPvcTemplates Q b)])"
proof -
  let ?b = "with_calls b [AddVolumeClaimTemplates (getPvcTemplates Q b)]"
  have "getVolumes C Q K U (ord_volumes ords) ?b = Inl f"
    using assms by (simp add: getVolumes_def with_auth_def Let_def)
  then show ?thesis by (simp add: ss_Build_def bind_gets_st)
qed

theorem statefulset_authentication_fault_witness:
  "ss_Build example_consts example_quantity (example_client\<lparr>Get_AuthenticationClass := \<lambda>_ _. Inl (LibError ''timeout'')\<rparr>)
     example_builders \<lparr>ord_volumes = rev, ord_args = rev, ord_mounts = rev, ord_envs = rev\<rparr> example_ss
   = (Inl (Err (LibError ''timeout'')),
      with_calls example_ss [AddVolumeClaimTemplates (getPvcTemplates example_quantity example_ss)])"
  by (rule statefulset_authentication_fault [OF example_ss_auth])
    (simp add: NewAuthentication_def collect_unfold resolve_def fetch_class_def example_client_def)

text \<open>
  C25. The vector sidecar sees what the main container writes. A successful \<open>Build\<close> on a builder of the
  framework makes three calls, claim template, volumes and main container, and returns the
  framework's object of them, extended exactly when an aggregator is configured, and then by one
  container and its volumes. These are made for the image of the stateful set and for two
  volumes that are declared and that the main container mounts: as configuration the volume of the
  role group's config map, mounted at the configuration directory, and as logs an empty volume, mounted at the
  log directory.
\<close>

theorem statefulset_build_calls:
  assumes "builder_laws U" and "ss_Build C Q K U ords b = (Inr obj, b')"
  shows "\<exists>vs cb ms obj0. getVolumes C Q K U (ord_volumes ords) b = Inr vs \<and>
    main_container_builder C K U ords b = Inr cb \<and> AddVolumeMounts ms \<in> set (cb_calls cb) \<and>
    sb_calls (ssb_base b') = sb_calls (ssb_base b)
      @ [AddVolumeClaimTemplates (getPvcTemplates Q b), AddVolumes vs, AddContainer (container_Build U cb)] \<and>
    ss_GetObject U (ssb_base b') = Inr obj0 \<and>
    (if vector_name (ssb_ClusterConfig b) = [] then obj = obj0
     else \<exists>config log size. so_rest obj = so_rest obj0 \<and>
       so_Volumes obj = so_Volumes obj0 @ vector_GetVolumes U config log (ss_GetImage U (ssb_base b')) \<and>
       so_Containers obj = so_Containers obj0 @ [vector_GetContainer U config log (ss_GetImage U (ssb_base b'))] \<and>
       \<lparr>vol_Name = config, vol_Source = ConfigMapSource (sb_Name (ssb_base b))\<rparr> \<in> set vs \<and>
       \<lparr>vm_Name = config, vm_MountPath = KubedoopConfigDirMount C\<rparr> \<in> set ms \<and>
       \<lparr>vol_Name = log, vol_Source = EmptyDirSource size\<rparr> \<in> set vs \<and>
       \<lparr>vm_Name = log, vm_MountPath = KubedoopLogDir C\<rparr> \<in> set ms)"
proof -
  obtain vs c obj0 where vs: "getVolumes C Q K U (ord_volumes ords) b = Inr vs" and c: "getMainContainer C K U ords b = Inr c"
    and b': "b' = with_calls b [AddVolumeClaimTemplates (getPvcTemplates Q b), AddVolumes vs, AddContainer c]"
    and obj: "ss_GetObject U (ssb_base b') = Inr obj0" "obj = add_vector U b' obj0"
    using assms by (rule ss_Build_ok)
  from c obtain cb ms where cb: "main_container_builder C K U ords b = Inr cb" "c = container_Build U cb"
    and ms: "getMainContainerVolumeMounts C K (ord_mounts ords) b = Inr ms" "AddVolumeMounts ms \<in> set (cb_calls cb)"
    by (auto simp: getMainContainer_def main_container_builder_def go_res)
  have vols: "\<lparr>vol_Name = TrinoConfigVolumeName, vol_Source = ConfigMapSource (sb_Name (ssb_base b))\<rparr> \<in> set vs"
    "\<lparr>vol_Name = TrinoLogVolumeName, vol_Source = EmptyDirSource (MustParse Q ''1Gi'')\<rparr> \<in> set vs"
    using vs assms(1) by (auto simp: getVolumes_def go_res Let_def builder_laws_def)
  have mounts: "\<lparr>vm_Name = TrinoConfigVolumeName, vm_MountPath = KubedoopConfigDirMount C\<rparr> \<in> set ms"
    "\<lparr>vm_Name = TrinoLogVolumeName, vm_MountPath = KubedoopLogDir C\<rparr> \<in> set ms"
    using ms(1) by (auto simp: getMainContainerVolumeMounts_def go_res Let_def TrinoConfigMountDir_def TrinoLogDir_def)
  have "obj = obj0" if "vector_name (ssb_ClusterConfig b) = []"
    using that by (simp add: obj(2) b' add_vector_def)
  moreover have "so_rest obj = so_rest obj0 \<and>
      so_Volumes obj = so_Volumes obj0 @ vector_GetVolumes U TrinoConfigVolumeName TrinoLogVolumeName (ss_GetImage U (ssb_base b')) \<and>
      so_Containers obj = so_Containers obj0 @ [vector_GetContainer U TrinoConfigVolumeName TrinoLogVolumeName (ss_GetImage U (ssb_base b'))]"
    if "vector_name (ssb_ClusterConfig b) \<noteq> []"
    using that by (simp add: obj(2) b' add_vector_def)
  moreover have "sb_calls (ssb_base b') = sb_calls (ssb_base b)
      @ [AddVolumeClaimTemplates (getPvcTemplates Q b), AddVolumes vs, AddContainer (container_Build U cb)]"
    by (simp add: b' cb(2))
  ultimately show ?thesis using vs cb(1) ms(2) obj(1) vols mounts by (cases "vector_name (ssb_ClusterConfig b) = []") auto
qed

lemma example_builder_laws: "builder_laws example_builders"
  by (simp add: builder_laws_def example_builders_def)

lemma example_ss_container:
  "\<exists>c. getMainContainer example_consts example_client example_builders
     \<lparr>ord_volumes = rev, ord_args = rev, ord_mounts = rev, ord_envs = rev\<rparr> example_ss = Inr c"
  using example_auth_total(2) [of rev example_consts] example_auth_total(3) [of rev]
    example_auth_total(4) [of rev example_consts "IndentTab4Spaces example_builders"]
  by (auto simp: getMainContainer_def main_container_builder_def getMainContainerArgs_def auth_commands_def
      getMainContainerVolumeMounts_def getMainContainerEnvVars_def Let_def)

theorem statefulset_build_calls_witness:
  "\<exists>obj. fst (ss_Build example_consts example_quantity example_client example_builders
      \<lparr>ord_volumes = rev, ord_args = rev, ord_mounts = rev, ord_envs = rev\<rparr> example_ss) = Inr obj \<and>
    so_Containers obj = [''coordinator'', ''vector'']"
proof -
  let ?r = "ss_Build example_consts example_quantity example_client example_builders
    \<lparr>ord_volumes = rev, ord_args = rev, ord_mounts = rev, ord_envs = rev\<rparr> example_ss"
  obtain vs c where "getVolumes example_consts example_quantity example_client example_builders rev example_ss = Inr vs"
    "getMainContainer example_consts example_client example_builders
     \<lparr>ord_volumes = rev, ord_args = rev, ord_mounts = rev, ord_envs = rev\<rparr> example_ss = Inr c"
    using example_auth_total(1) [of rev example_consts example_quantity] example_ss_container
    by (auto simp: getVolumes_def Let_def)
  then obtain obj where obj: "fst ?r = Inr obj"
    using example_builder_laws by (simp add: ss_Build_fst Let_def) (simp add: example_builders_def)
  then have "?r = (Inr obj, snd ?r)" by (metis prod.collapse)
  note built = statefulset_build_calls [OF example_builder_laws this]
  have ex: "vector_name (ssb_ClusterConfig example_ss) \<noteq> []" "sb_calls (ssb_base example_ss) = []" "ssb_RoleName example_ss = ''coordinator''"
    by (simp_all add: example_ss_def NewStatefulSetBuilder_def example_ss_config_def example_cluster_config_def vector_name_def zero_Options_def)
  from built ex(1) obtain cb obj0 config log where cb: "main_container_builder example_consts example_client example_builders
      \<lparr>ord_volumes = rev, ord_args = rev, ord_mounts = rev, ord_envs = rev\<rparr> example_ss = Inr cb"
    and calls: "\<exists>pvcs vs. sb_calls (ssb_base (snd ?r)) = sb_calls (ssb_base example_ss) @
      [AddVolumeClaimTemplates pvcs, AddVolumes vs, AddContainer (container_Build example_builders cb)]"
    and obj0: "ss_GetObject example_builders (ssb_base (snd ?r)) = Inr obj0"
    and side: "so_Containers obj = so_Containers obj0 @ [vector_GetContainer example_builders config log
      (ss_GetImage example_builders (ssb_base (snd ?r)))]"
    by auto
  from cb ex(3) have "cb_Name cb = ''coordinator''" by (auto simp: main_container_builder_def go_res)
  with calls obj0 side ex(2) have "so_Containers obj = [''coordinator'', ''vector'']" by (auto simp: example_builders_def)
  with obj show ?thesis by blast
qed

text \<open>
  The storage capacity a user configures never reaches the claim template: \<open>NewStatefulSetBuilder\<close>
  leaves the \<open>Resource\<close> field nil, so the data volume of every role group requests 1Gi.
\<close>

theorem storage_capacity_ignored:
  "\<exists>r. NewStatefulSetReconciler I cc info img stopped replicas ports overrides cfg options = Inr r \<and>
     map pvc_StorageRequest (getPvcTemplates Q (ssr_builder r)) = [MustParse Q ''1Gi'']"
  by (simp add: NewStatefulSetReconciler_def NewStatefulSetBuilder_def getPvcTemplates_def getDataStorageSize_def Let_def)

text \<open>
  C39. The secret class for internal TLS has no effect: the volumes of the server's and of the internal
  TLS store are exactly one each, both of the server's class (or \<open>tls\<close> where it is empty), and
  changing \<open>internalSecretClass\<close> changes no volume.
\<close>

theorem internal_secret_class_ignored:
  assumes "ssb_ClusterConfig b = Some cc" and "cc_Tls cc = Some tls"
  shows "getVolumes C Q K U ord (b\<lparr>ssb_ClusterConfig := Some (cc\<lparr>cc_Tls := Some (tls\<lparr>tls_InternalSecretClass := s\<rparr>)\<rparr>)\<rparr>)
      = getVolumes C Q K U ord b \<and>
    (\<forall>vs. getVolumes C Q K U ord b = Inr vs \<longrightarrow>
       filter (\<lambda>v. vol_Name v \<in> {TrinoServerTlsVolumeName, TrinoInternalTlsVolumeName}) vs =
         map (\<lambda>name. buildTlsVolume C Q name (if tls_ServerSecretClass tls = [] then ''tls'' else tls_ServerSecretClass tls))
           [TrinoServerTlsVolumeName, TrinoInternalTlsVolumeName])"
proof (intro conjI allI impI)
  show "getVolumes C Q K U ord (b\<lparr>ssb_ClusterConfig := Some (cc\<lparr>cc_Tls := Some (tls\<lparr>tls_InternalSecretClass := s\<rparr>)\<rparr>)\<rparr>)
      = getVolumes C Q K U ord b"
    using assms by (simp add: getVolumes_def with_auth_def auth_specs_def tls_volumes_def Let_def)
  fix vs assume "getVolumes C Q K U ord b = Inr vs"
  with assms obtain avs where avs: "with_auth K ord b [] (trino_GetVolumes C Q) = Inr avs"
    and vs: "vs = [\<lparr>vol_Name = TrinoConfigVolumeName, vol_Source = ConfigMapSource (ss_GetName U (ssb_base b))\<rparr>,
         \<lparr>vol_Name = TrinoLogVolumeName, vol_Source = EmptyDirSource (MustParse Q ''1Gi'')\<rparr>,
         \<lparr>vol_Name = TrinoClientTlsVolumeName, vol_Source = EmptyDirSource (MustParse Q ''1Mi'')\<rparr>]
      @ map (\<lambda>name. buildTlsVolume C Q name (if tls_ServerSecretClass tls = [] then ''tls'' else tls_ServerSecretClass tls))
         [TrinoServerTlsVolumeName, TrinoInternalTlsVolumeName] @ avs"
    by (auto simp: getVolumes_def tls_volumes_def Let_def go_res)
  have "filter (\<lambda>v. vol_Name v \<in> {TrinoServerTlsVolumeName, TrinoInternalTlsVolumeName}) avs = []"
    using auth_volumes_not_tls [OF avs] by (auto simp: filter_empty_conv tls_names_def)
  then show "filter (\<lambda>v. vol_Name v \<in> {TrinoServerTlsVolumeName, TrinoInternalTlsVolumeName}) vs =
      map (\<lambda>name. buildTlsVolume C Q name (if tls_ServerSecretClass tls = [] then ''tls'' else tls_ServerSecretClass tls))
        [TrinoServerTlsVolumeName, TrinoInternalTlsVolumeName]"
    by (simp add: vs) (simp add: buildTlsVolume_def volume_names)
qed

theorem internal_secret_class_ignored_witness:
  "\<forall>s. getVolumes example_consts example_quantity example_client example_builders rev
     (example_ss\<lparr>ssb_ClusterConfig := Some (example_ss_config
        \<lparr>cc_Tls := Some \<lparr>tls_ServerSecretClass = ''tls'', tls_InternalSecretClass = s\<rparr>\<rparr>)\<rparr>)
   = getVolumes example_consts example_quantity example_client example_builders rev example_ss"
proof
  fix s
  show "getVolumes example_consts example_quantity example_client example_builders rev
     (example_ss\<lparr>ssb_ClusterConfig := Some (example_ss_config
        \<lparr>cc_Tls := Some \<lparr>tls_ServerSecretClass = ''tls'', tls_InternalSecretClass = s\<rparr>\<rparr>)\<rparr>)
   = getVolumes example_consts example_quantity example_client example_builders rev example_ss"
    using internal_secret_class_ignored [of example_ss example_ss_config
        "\<lparr>tls_ServerSecretClass = ''tls'', tls_InternalSecretClass = ''tls''\<rparr>" example_consts example_quantity
        example_client example_builders rev s]
    by (simp add: example_ss_def NewStatefulSetBuilder_def example_ss_config_def example_cluster_config_def)
qed

text \<open>
  C40. The main container of a cluster with LDAP mounts the bind credentials below the TLS directory,
  under the name of their secret class, next to the TLS stores. For a secret class whose name is a
  single path element, this mount point is also that of a TLS store exactly in these cases: the class
  is called \<open>client\<close>, or TLS is enabled and it is called \<open>server\<close> or \<open>internal\<close>.
\<close>

theorem ldap_mount_path_collision:
  assumes "auth_specs (ssb_ClusterConfig b) = Some specs" and "NewAuthentication K ord specs = Inr as"
    and "LdapAuth a \<in> set as" and "lp_BindCredentials (ldap_Provider a) = Some cr" and "plain_name (cr_SecretClass cr)"
    and "getMainContainerVolumeMounts C K ord b = Inr ms"
  shows "\<exists>m \<in> set ms. vm_Name m = ''ldap-bind-credentials'' \<and> vm_MountPath m = path_Join [KubedoopTlsDir C, cr_SecretClass cr] \<and>
    ((\<exists>m' \<in> set ms. vm_Name m' \<in> {''server-tls'', ''internal-tls'', ''client-tls''} \<and> vm_MountPath m' = vm_MountPath m) \<longleftrightarrow>
      cr_SecretClass cr = ''client'' \<or> tls_enabled (ssb_ClusterConfig b) \<and> cr_SecretClass cr \<in> {''server'', ''internal''})"
proof -
  let ?path = "path_Join [KubedoopTlsDir C, cr_SecretClass cr]"
  have tls: "tls_names = {''server-tls'', ''internal-tls'', ''client-tls''}" by (simp add: tls_names_def volume_names)
  obtain ams where ams: "with_auth K ord b [] (trino_GetVolumeMounts C) = Inr ams"
    and ms: "ms = [\<lparr>vm_Name = ''config'', vm_MountPath = TrinoConfigMountDir C\<rparr>, \<lparr>vm_Name = ''data'', vm_MountPath = TrinoDataDir C\<rparr>,
      \<lparr>vm_Name = ''log'', vm_MountPath = TrinoLogDir C\<rparr>, \<lparr>vm_Name = ''client-tls'', vm_MountPath = ClientTlsPath C\<rparr>]
      @ (if tls_enabled (ssb_ClusterConfig b) then [\<lparr>vm_Name = ''server-tls'', vm_MountPath = ServerTlsMountPath C\<rparr>,
          \<lparr>vm_Name = ''internal-tls'', vm_MountPath = InternalTlsMountPath C\<rparr>] else []) @ ams"
    using assms(6) by (auto simp: getMainContainerVolumeMounts_def go_res Let_def ss_enabledTls_def volume_names cong: if_cong)
  have "trino_GetVolumeMounts C as = Inr ams" using ams assms(1,2) by (simp add: with_auth_def)
  then obtain zs where "auth_GetVolumeMounts C (LdapAuth a) = Inr zs" "set zs \<subseteq> set ams"
    unfolding trino_GetVolumeMounts_def using assms(3) by (rule concat_res_elem)
  then have m: "\<lparr>vm_Name = ''ldap-bind-credentials'', vm_MountPath = ?path\<rparr> \<in> set ms"
    using assms(4) by (auto simp: ldap_defs ldap_getBindCredentialsVolumeName_def ms)
  have plain: "plain_name ''server''" "plain_name ''internal''" "plain_name ''client''"
    by (simp_all add: plain_name_def dotdot_def)
  have "(\<exists>m' \<in> set ms. vm_Name m' \<in> tls_names \<and> vm_MountPath m' = ?path) \<longleftrightarrow>
      ClientTlsPath C = ?path \<or> tls_enabled (ssb_ClusterConfig b) \<and> (ServerTlsMountPath C = ?path \<or> InternalTlsMountPath C = ?path)"
    unfolding ms set_append bex_Un using auth_mounts_not_tls [OF ams] by (auto simp: tls)
  moreover have "ClientTlsPath C = ?path \<longleftrightarrow> cr_SecretClass cr = ''client''"
    "ServerTlsMountPath C = ?path \<longleftrightarrow> cr_SecretClass cr = ''server''"
    "InternalTlsMountPath C = ?path \<longleftrightarrow> cr_SecretClass cr = ''internal''"
    using assms(5) plain by (auto simp: ServerTlsMountPath_def InternalTlsMountPath_def ClientTlsPath_def path_Join_plain_inj)
  ultimately show ?thesis unfolding tls [symmetric] by (intro bexI [OF _ m]) simp
qed

text \<open>An LDAP class whose bind credentials are in the secret class \<open>server\<close>, in a cluster with TLS.\<close>

definition colliding_ldap :: LDAPProvider where
  "colliding_ldap = example_ldap\<lparr>lp_BindCredentials := Some \<lparr>cr_SecretClass = ''server'', cr_Scope = None\<rparr>\<rparr>"

definition colliding_client :: client_api where
  "colliding_client = example_client\<lparr>Get_AuthenticationClass := \<lambda>_ _. Inr \<lparr>ac_AuthenticationProvider = Some
     \<lparr>ap_OIDC = None, ap_Static = None, ap_LDAP = Some colliding_ldap\<rparr>\<rparr>\<rparr>"

definition colliding_ss :: "(int, string) StatefulSetBuilder" where
  "colliding_ss = example_ss\<lparr>ssb_ClusterConfig := Some (example_cluster_config\<lparr>cc_Authentication := Some [people_spec]\<rparr>)\<rparr>"

theorem ldap_mount_path_collision_witness:
  "\<exists>ms m m'. getMainContainerVolumeMounts example_consts colliding_client rev colliding_ss = Inr ms \<and> m \<in> set ms \<and> m' \<in> set ms \<and>
     vm_Name m = ''ldap-bind-credentials'' \<and> vm_Name m' \<in> {''server-tls'', ''internal-tls'', ''client-tls''} \<and>
     vm_MountPath m' = vm_MountPath m"
proof -
  let ?a = "\<lparr>ldap_AuthenticationClassName = [], ldap_Provider = colliding_ldap\<rparr>"
  have specs: "auth_specs (ssb_ClusterConfig colliding_ss) = Some [people_spec]"
    by (simp add: colliding_ss_def auth_specs_def)
  have new: "NewAuthentication colliding_client rev [people_spec] = Inr [LdapAuth ?a]"
    by (simp add: NewAuthentication_def collect_unfold resolve_def fetch_class_def colliding_client_def people_spec_def AuthenticatorFectory_def)
  obtain ms where ms: "getMainContainerVolumeMounts example_consts colliding_client rev colliding_ss = Inr ms"
    by (auto simp: getMainContainerVolumeMounts_def with_auth_def specs new trino_GetVolumeMounts_def ldap_defs colliding_ldap_def Let_def)
  have tls: "tls_enabled (ssb_ClusterConfig colliding_ss)"
    by (simp add: colliding_ss_def tls_enabled_def example_cluster_config_def)
  from ldap_mount_path_collision [OF specs new _ _ _ ms, of ?a "\<lparr>cr_SecretClass = ''server'', cr_Scope = None\<rparr>"]
  show ?thesis using ms tls by (auto simp: colliding_ldap_def plain_name_def dotdot_def)
qed

end
