(* ===== verification/Metrics_Service.thy ===== *)
theory Metrics_Service
  imports Operator_Go Go_Strings
begin

text \<open>
  \<open>src/internal/controller/common/service.go\<close>: the headless service through which Prometheus
  scrapes a role group. The two copy loops over the labels and annotations take the orders of their
  maps as arguments; the copies are independent of them.
\<close>

definition CreateServiceMetricsName :: "info_api \<Rightarrow> RoleGroupInfo \<Rightarrow> string" where
  "CreateServiceMetricsName I roleGroupInfo = rgi_GetFullName I roleGroupInfo @ ''-metrics''"

text \<open>The loop \<open>for k, v := range m { copy[k] = v }\<close> into a fresh map.\<close>

definition copy_map :: "range_order \<Rightarrow> 'v gomap \<Rightarrow> 'v gomap" where
  "copy_map ord m = foldl (\<lambda>acc (k, v). AList.update k v acc) [] (range_map ord m)"

definition metrics_ports :: "ContainerPort list" where
  "metrics_ports = [\<lparr>cp_Name = MetricsPortName, cp_ContainerPort = MetricsPort, cp_Protocol = ''TCP''\<rparr>]"

definition metrics_labels :: "info_api \<Rightarrow> range_order \<Rightarrow> RoleGroupInfo \<Rightarrow> string gomap" where
  "metrics_labels I ord info = AList.update ''prometheus.io/scrape'' ''true'' (copy_map ord (rgi_GetLabels I info))"

definition metrics_annotations :: "info_api \<Rightarrow> range_order \<Rightarrow> RoleGroupInfo \<Rightarrow> string gomap" where
  "metrics_annotations I ord info =
     AList.update ''prometheus.io/scheme'' HttpScheme
       (AList.update ''prometheus.io/port'' (strconv_Itoa (sint MetricsPort))
         (AList.update ''prometheus.io/scrape'' ''true'' (copy_map ord (rgi_GetAnnotations I info))))"

definition NewRoleGroupMetricsService ::
  "constants_api \<Rightarrow> info_api \<Rightarrow> range_order \<Rightarrow> range_order \<Rightarrow> RoleGroupInfo \<Rightarrow> service_builder" where
  "NewRoleGroupMetricsService C I label_ord annotation_ord roleGroupInfo =
     \<lparr>svc_Name = CreateServiceMetricsName I roleGroupInfo,
      svc_Ports = metrics_ports,
      svc_Option = (\<lambda>sbo. sbo
        \<lparr>sbo_Headless := True,
         sbo_ListenerClass := ClusterInternal C,
         sbo_Labels := metrics_labels I label_ord roleGroupInfo,
         sbo_MatchingLabels := rgi_GetLabels I roleGroupInfo,
         sbo_Annotations := metrics_annotations I annotation_ord roleGroupInfo\<rparr>)\<rparr>"

section \<open>Lemmas\<close>

lemma foldl_update_map_of:
  "distinct (map fst es) \<Longrightarrow>
    map_of (foldl (\<lambda>acc (k, v). AList.update k v acc) acc es) = map_of acc ++ map_of es"
proof (induction es arbitrary: acc)
  case (Cons e es)
  obtain k v where e: "e = (k, v)" by (cases e)
  with Cons.prems have "map_of es k = None" by (simp add: map_of_eq_None_iff)
  with Cons e show ?case by (auto simp: update_conv map_add_def fun_eq_iff split: option.splits)
qed simp

lemma copy_map_of: "fair_order ord \<Longrightarrow> wf_map m \<Longrightarrow> map_of (copy_map ord m) = map_of m"
  using range_map_wf [of ord m] by (simp add: copy_map_def foldl_update_map_of wf_map_def range_map_map_of)

lemma metrics_labels_map_of:
  "fair_order ord \<Longrightarrow> wf_map (rgi_GetLabels I info) \<Longrightarrow>
    map_of (metrics_labels I ord info) = (map_of (rgi_GetLabels I info))(''prometheus.io/scrape'' \<mapsto> ''true'')"
  by (simp add: metrics_labels_def update_conv' copy_map_of)

lemma metrics_annotations_map_of:
  "fair_order ord \<Longrightarrow> wf_map (rgi_GetAnnotations I info) \<Longrightarrow>
    map_of (metrics_annotations I ord info) = (map_of (rgi_GetAnnotations I info))
      (''prometheus.io/scrape'' \<mapsto> ''true'', ''prometheus.io/port'' \<mapsto> ''8081'', ''prometheus.io/scheme'' \<mapsto> ''http'')"
  by (simp add: metrics_annotations_def HttpScheme_def update_conv' copy_map_of strconv_Itoa_def nat_digits.simps digit_char_def)

section \<open>Properties\<close>

text \<open>
  C34. The metrics service selects exactly the pods of its role group (the original labels, without the
  scrape label it adds to its own), announces the port that it forwards, and keeps every label and
  annotation of the role group but the Prometheus ones, whatever order the maps are visited in.
\<close>

theorem metrics_service_spec:
  assumes "fair_order lo" and "fair_order ao" and "wf_map (rgi_GetLabels I info)" and "wf_map (rgi_GetAnnotations I info)"
  shows "let svc = NewRoleGroupMetricsService C I lo ao info; opts = svc_Option svc sbo
    in sbo_MatchingLabels opts = rgi_GetLabels I info \<and> sbo_Headless opts \<and>
    map_of (sbo_Labels opts) = (map_of (rgi_GetLabels I info))(''prometheus.io/scrape'' \<mapsto> ''true'') \<and>
    (\<exists>p. svc_Ports svc = [p] \<and>
       map_of (sbo_Annotations opts) ''prometheus.io/port'' = Some (strconv_Itoa (sint (cp_ContainerPort p)))) \<and>
    (\<forall>k. k \<notin> {''prometheus.io/scrape'', ''prometheus.io/port'', ''prometheus.io/scheme''} \<longrightarrow>
       map_of (sbo_Annotations opts) k = map_of (rgi_GetAnnotations I info) k)"
proof -
  have "strconv_Itoa 8081 = ''8081''"
    by (simp add: strconv_Itoa_def nat_digits.simps digit_char_def)
  with assms show ?thesis
    by (simp add: NewRoleGroupMetricsService_def metrics_ports_def metrics_labels_map_of metrics_annotations_map_of)
qed

theorem metrics_service_spec_witness:
  "\<forall>C sbo. map_of (sbo_Labels (svc_Option (NewRoleGroupMetricsService C example_infos rev rev (example_group ''worker'' ''default'')) sbo))
     = [''component'' \<mapsto> ''worker'', ''role-group'' \<mapsto> ''default'', ''prometheus.io/scrape'' \<mapsto> ''true'']"
  using metrics_service_spec [of rev rev example_infos "example_group ''worker'' ''default''"]
  by (simp add: Let_def example_infos_def example_group_def wf_map_def fun_eq_iff)

end
