(* ===== verification/Roles.thy ===== *)
theory Roles
  imports Stateful_Set Metrics_Service
begin

text \<open>
  \<open>src/internal/controller/coordinator/role.go\<close> and \<open>src/internal/controller/worker/role.go\<close>: the
  reconcilers of the two roles. A role reconciler registers four resources for each role group, in
  the iteration order of the map of role groups; a fault stops the loop and leaves the resources of
  the earlier groups registered.

  Each file has its own record and definitions. What they share is the contract \<open>role_contract\<close>:
  registering is a loop that appends, for every role group, the resources computed for it. The
  lemmas on the loop are proved in the locale and interpreted for both roles.
\<close>

section \<open>Resources of a role\<close>

datatype ('q, 'x) resource =
    ConfigMapResource "('q, 'x) ConfigMapBuilder"
  | ServiceResource service_builder
  | MetricsServiceResource service_builder
  | StatefulSetResource "('q, 'x) StatefulSetReconciler"

text \<open>\<open>util.MergeObject\<close> at its two instances.\<close>

record ('q, 'x) merge_api =
  merge_config :: "('q, 'x) ConfigSpec option \<Rightarrow> ('q, 'x) ConfigSpec option \<Rightarrow> goerror + ('q, 'x) ConfigSpec option"
  merge_overrides :: "'x option \<Rightarrow> 'x option \<Rightarrow> goerror + 'x option"

record role_orders =
  ord_groups :: range_order
  ord_labels :: "string \<Rightarrow> range_order"
  ord_annotations :: "string \<Rightarrow> range_order"

section \<open>The parts common to both files\<close>

definition role_ports :: "'x ClusterConfigSpec option \<Rightarrow> ContainerPort list" where
  "role_ports cc =
     (if tls_enabled cc then [\<lparr>cp_Name = ''https'', cp_ContainerPort = HttpsPort, cp_Protocol = []\<rparr>]
      else [\<lparr>cp_Name = ''http'', cp_ContainerPort = HttpPort, cp_Protocol = []\<rparr>])"

definition role_service_option :: "info_api \<Rightarrow> RoleGroupInfo \<Rightarrow> ServiceBuilderOptions \<Rightarrow> ServiceBuilderOptions" where
  "role_service_option I info = (\<lambda>sbo. sbo
     \<lparr>sbo_ClusterName := rgi_GetClusterName I info,
      sbo_RoleName := rgi_GetRoleName I info,
      sbo_RoleGroupName := rgi_GetGroupName I info,
      sbo_Labels := rgi_GetLabels I info,
      sbo_Annotations := rgi_GetAnnotations I info\<rparr>)"

definition role_statefulset_option :: "info_api \<Rightarrow> RoleGroupInfo \<Rightarrow> option_fn" where
  "role_statefulset_option I info = (\<lambda>opts. opts
     \<lparr>opt_ClusterName := rgi_GetClusterName I info,
      opt_RoleName := rgi_GetRoleName I info,
      opt_RoleGroupName := rgi_GetGroupName I info,
      opt_Labels := rgi_GetLabels I info,
      opt_Annotations := rgi_GetAnnotations I info\<rparr>)"

section \<open>Coordinators\<close>

record ('q, 'x) coordinator_Reconciler =
  cor_ClusterStopped :: bool
  cor_RoleInfo :: RoleInfo
  cor_Spec :: "('q, 'x) CoordinatorsSpec option"
  cor_ClusterConfig :: "'x ClusterConfigSpec option"
  cor_Image :: Image
  cor_CoordiantorSvcFqdn :: string
  cor_resources :: "('q, 'x) resource list"

definition coordinator_NewWorkerReconciler ::
  "bool \<Rightarrow> 'x ClusterConfigSpec option \<Rightarrow> RoleInfo \<Rightarrow> Image \<Rightarrow> string \<Rightarrow> ('q, 'x) CoordinatorsSpec option
     \<Rightarrow> ('q, 'x) coordinator_Reconciler" where
  "coordinator_NewWorkerReconciler clusterStopped clusterConfig roleInfo img coordiantorSvcFqdn spec =
     \<lparr>cor_ClusterStopped = clusterStopped, cor_RoleInfo = roleInfo, cor_Spec = spec,
      cor_ClusterConfig = clusterConfig, cor_Image = img, cor_CoordiantorSvcFqdn = coordiantorSvcFqdn,
      cor_resources = []\<rparr>"

definition coordinator_registerResourceWithRoleGroup ::
  "constants_api \<Rightarrow> info_api \<Rightarrow> role_orders \<Rightarrow> ('q, 'x) coordinator_Reconciler \<Rightarrow> RoleGroupInfo
     \<Rightarrow> ('q, 'x) ConfigSpec option \<Rightarrow> 'x option \<Rightarrow> int32 option \<Rightarrow> ('q, 'x) resource list res" where
  "coordinator_registerResourceWithRoleGroup C I ords r info roleGroupConfig overrideSpec replicas =
     (let ports = role_ports (cor_ClusterConfig r);
          configMap = NewConfigReconciler I (cor_CoordiantorSvcFqdn r) (cor_ClusterConfig r) roleGroupConfig info;
          service = \<lparr>svc_Name = rgi_GetFullName I info, svc_Ports = ports, svc_Option = role_service_option I info\<rparr>;
          metricsService = NewRoleGroupMetricsService C I (ord_labels ords (rgi_RoleGroupName info))
            (ord_annotations ords (rgi_RoleGroupName info)) info
      in bind_res (NewStatefulSetReconciler I (cor_ClusterConfig r) info (cor_Image r) (cor_ClusterStopped r) replicas
              ports overrideSpec roleGroupConfig [role_statefulset_option I info]) (\<lambda>statefulSet.
           Inr [ConfigMapResource configMap, ServiceResource service, MetricsServiceResource metricsService,
                StatefulSetResource statefulSet]))"

definition coordinator_AddResource ::
  "('q, 'x) coordinator_Reconciler \<Rightarrow> ('q, 'x) resource list \<Rightarrow> ('q, 'x) coordinator_Reconciler" where
  "coordinator_AddResource r rs = r\<lparr>cor_resources := cor_resources r @ rs\<rparr>"

definition coordinator_group_resources ::
  "('q, 'x) merge_api \<Rightarrow> constants_api \<Rightarrow> info_api \<Rightarrow> role_orders \<Rightarrow> ('q, 'x) coordinator_Reconciler
     \<Rightarrow> string \<times> ('q, 'x) RoleGroupSpec option \<Rightarrow> ('q, 'x) resource list res" where
  "coordinator_group_resources M C I ords r entry =
     (case entry of (name, roleGroup) \<Rightarrow>
        bind_res (deref ''coordinator Spec'' (cor_Spec r)) (\<lambda>spec.
        bind_res (deref ''roleGroup'' roleGroup) (\<lambda>group.
        bind_res (from_lib (merge_config M (br_Config (co_BaseRoleSpec spec)) (rg_Config group))) (\<lambda>mergedConfig.
        bind_res (from_lib (merge_overrides M (br_OverridesSpec (co_BaseRoleSpec spec)) (rg_OverridesSpec group))) (\<lambda>mergedOverrides.
          coordinator_registerResourceWithRoleGroup C I ords r
            \<lparr>rgi_RoleInfo = cor_RoleInfo r, rgi_RoleGroupName = name\<rparr>
            mergedConfig mergedOverrides (rg_Replicas group))))))"

definition coordinator_RegisterResources ::
  "('q, 'x) merge_api \<Rightarrow> constants_api \<Rightarrow> info_api \<Rightarrow> role_orders \<Rightarrow> (('q, 'x) coordinator_Reconciler, unit) st" where
  "coordinator_RegisterResources M C I ords =
     bind_st (gets_st (\<lambda>r. deref ''coordinator Spec'' (cor_Spec r))) (\<lambda>spec.
     for_st (\<lambda>entry.
       bind_st (gets_st (\<lambda>r. coordinator_group_resources M C I ords r entry)) (\<lambda>reconcilers.
       modify_st (\<lambda>r. coordinator_AddResource r reconcilers)))
       (range_map (ord_groups ords) (map_entries (co_RoleGroups spec))))"

section \<open>Workers\<close>

record ('q, 'x) worker_Reconciler =
  wor_ClusterStopped :: bool
  wor_RoleInfo :: RoleInfo
  wor_Spec :: "('q, 'x) WorkersSpec option"
  wor_ClusterConfig :: "'x ClusterConfigSpec option"
  wor_Image :: Image
  wor_CoordiantorSvcFqdn :: string
  wor_resources :: "('q, 'x) resource list"

definition worker_NewReconciler ::
  "bool \<Rightarrow> 'x ClusterConfigSpec option \<Rightarrow> RoleInfo \<Rightarrow> Image \<Rightarrow> string \<Rightarrow> ('q, 'x) WorkersSpec option
     \<Rightarrow> ('q, 'x) worker_Reconciler" where
  "worker_NewReconciler clusterStopped clusterConfig roleInfo img coordiantorSvcFqdn spec =
     \<lparr>wor_ClusterStopped = clusterStopped, wor_RoleInfo = roleInfo, wor_Spec = spec,
      wor_ClusterConfig = clusterConfig, wor_Image = img, wor_CoordiantorSvcFqdn = coordiantorSvcFqdn,
      wor_resources = []\<rparr>"

definition worker_registerResourceWithRoleGroup ::
  "constants_api \<Rightarrow> info_api \<Rightarrow> role_orders \<Rightarrow> ('q, 'x) worker_Reconciler \<Rightarrow> RoleGroupInfo
     \<Rightarrow> ('q, 'x) ConfigSpec option \<Rightarrow> 'x option \<Rightarrow> int32 option \<Rightarrow> ('q, 'x) resource list res" where
  "worker_registerResourceWithRoleGroup C I ords r info roleGroupConfig overrideSpec replicas =
     (let ports = role_ports (wor_ClusterConfig r);
          configMap = NewConfigReconciler I (wor_CoordiantorSvcFqdn r) (wor_ClusterConfig r) roleGroupConfig info;
          service = \<lparr>svc_Name = rgi_GetFullName I info, svc_Ports = ports, svc_Option = role_service_option I info\<rparr>;
          metricsService = NewRoleGroupMetricsService C I (ord_labels ords (rgi_RoleGroupName info))
            (ord_annotations ords (rgi_RoleGroupName info)) info
      in bind_res (NewStatefulSetReconciler I (wor_ClusterConfig r) info (wor_Image r) (wor_ClusterStopped r) replicas
              ports overrideSpec roleGroupConfig [role_statefulset_option I info]) (\<lambda>statefulSet.
           Inr [ConfigMapResource configMap, ServiceResource service, MetricsServiceResource metricsService,
                StatefulSetResource statefulSet]))"

definition worker_AddResource ::
  "('q, 'x) worker_Reconciler \<Rightarrow> ('q, 'x) resource list \<Rightarrow> ('q, 'x) worker_Reconciler" where
  "worker_AddResource r rs = r\<lparr>wor_resources := wor_resources r @ rs\<rparr>"

definition worker_group_resources ::
  "('q, 'x) merge_api \<Rightarrow> constants_api \<Rightarrow> info_api \<Rightarrow> role_orders \<Rightarrow> ('q, 'x) worker_Reconciler
     \<Rightarrow> string \<times> ('q, 'x) RoleGroupSpec option \<Rightarrow> ('q, 'x) resource list res" where
  "worker_group_resources M C I ords r entry =
     (case entry of (name, roleGroup) \<Rightarrow>
        bind_res (deref ''worker Spec'' (wor_Spec r)) (\<lambda>spec.
        bind_res (deref ''roleGroup'' roleGroup) (\<lambda>group.
        bind_res (from_lib (merge_config M (br_Config (wo_BaseRoleSpec spec)) (rg_Config group))) (\<lambda>mergedConfig.
        bind_res (from_lib (merge_overrides M (br_OverridesSpec (wo_BaseRoleSpec spec)) (rg_OverridesSpec group))) (\<lambda>mergedOverrides.
          worker_registerResourceWithRoleGroup C I ords r
            \<lparr>rgi_RoleInfo = wor_RoleInfo r, rgi_RoleGroupName = name\<rparr>
            mergedConfig mergedOverrides (rg_Replicas group))))))"

definition worker_RegisterResources ::
  "('q, 'x) merge_api \<Rightarrow> constants_api \<Rightarrow> info_api \<Rightarrow> role_orders \<Rightarrow> (('q, 'x) worker_Reconciler, unit) st" where
  "worker_RegisterResources M C I ords =
     bind_st (gets_st (\<lambda>r. deref ''worker Spec'' (wor_Spec r))) (\<lambda>spec.
     for_st (\<lambda>entry.
       bind_st (gets_st (\<lambda>r. worker_group_resources M C I ords r entry)) (\<lambda>reconcilers.
       modify_st (\<lambda>r. worker_AddResource r reconcilers)))
       (range_map (ord_groups ords) (map_entries (wo_RoleGroups spec))))"

section \<open>Identities of resources\<close>

text \<open>The API server identifies a resource by its kind and name.\<close>

fun resource_id :: "('q, 'x) resource \<Rightarrow> string \<times> string" where
  "resource_id (ConfigMapResource b) = (''ConfigMap'', cfb_Name (cmb_base b))"
| "resource_id (ServiceResource s) = (''Service'', svc_Name s)"
| "resource_id (MetricsServiceResource s) = (''Service'', svc_Name s)"
| "resource_id (StatefulSetResource r) = (''StatefulSet'', sb_Name (ssb_base (ssr_builder r)))"

definition group_ids :: "info_api \<Rightarrow> RoleInfo \<Rightarrow> string \<Rightarrow> (string \<times> string) list" where
  "group_ids I role n =
     (let full = rgi_GetFullName I \<lparr>rgi_RoleInfo = role, rgi_RoleGroupName = n\<rparr>
      in [(''ConfigMap'', full), (''Service'', full), (''Service'', full @ ''-metrics''), (''StatefulSet'', full)])"

lemma distinct_concat_iff:
  "distinct ns \<Longrightarrow> distinct (concat (map f ns)) \<longleftrightarrow>
     (\<forall>n \<in> set ns. distinct (f n)) \<and> (\<forall>m \<in> set ns. \<forall>n \<in> set ns. m \<noteq> n \<longrightarrow> set (f m) \<inter> set (f n) = {})"
proof (induction ns)
  case (Cons a ns)
  define X where "X m n \<longleftrightarrow> set (f m) \<inter> set (f n) = {}" for m n
  have sym: "X m n \<longleftrightarrow> X n m" for m n by (auto simp: X_def)
  have "set (f a) \<inter> set (concat (map f ns)) = {} \<longleftrightarrow> (\<forall>n \<in> set ns. X a n)" by (auto simp: X_def)
  then have "distinct (concat (map f (a # ns))) \<longleftrightarrow>
      distinct (f a) \<and> distinct (concat (map f ns)) \<and> (\<forall>n \<in> set ns. X a n)"
    by simp
  moreover have "a \<notin> set ns" using Cons.prems by simp
  ultimately show ?case
    using Cons unfolding X_def [symmetric] by (auto simp: sym)
qed simp

section \<open>The contract of a role\<close>

locale role_contract =
  fixes register :: "role_orders \<Rightarrow> ('r, unit) st"
    and entries :: "'r \<Rightarrow> 'g gomap res"
    and group_resources :: "role_orders \<Rightarrow> 'r \<Rightarrow> string \<times> 'g \<Rightarrow> 'e list res"
    and add :: "'r \<Rightarrow> 'e list \<Rightarrow> 'r"
    and resources :: "'r \<Rightarrow> 'e list"
    and ident :: "'e \<Rightarrow> 'i"
    and idents :: "'r \<Rightarrow> string \<Rightarrow> 'i list"
  assumes register_loop: "register ords r = bind_st (gets_st entries) (\<lambda>es.
      for_st (\<lambda>e. bind_st (gets_st (\<lambda>r. group_resources ords r e)) (\<lambda>rs. modify_st (\<lambda>r. add r rs)))
        (range_map (ord_groups ords) es)) r"
    and group_add: "group_resources ords (add r rs) e = group_resources ords r e"
    and resources_add: "resources (add r rs) = resources r @ rs"
    and add_nil: "add r [] = r"
    and add_append: "add (add r xs) ys = add r (xs @ ys)"
    and group_idents: "group_resources ords r e = Inr rs \<Longrightarrow> map ident rs = idents r (fst e)"
begin

abbreviation loop :: "role_orders \<Rightarrow> (string \<times> 'g) list \<Rightarrow> ('r, unit) st" where
  "loop ords \<equiv> for_st (\<lambda>e. bind_st (gets_st (\<lambda>r. group_resources ords r e)) (\<lambda>rs. modify_st (\<lambda>r. add r rs)))"

lemma group_add_fun: "group_resources ords (add r rs) = group_resources ords r"
  by (rule ext) (rule group_add)

lemma loop_append:
  "concat_res (group_resources ords r) pre = Inr rs \<Longrightarrow> loop ords (pre @ es) r = loop ords es (add r rs)"
proof (induction pre arbitrary: r rs)
  case Nil
  then show ?case by (simp add: add_nil)
next
  case (Cons e pre)
  then obtain x y where x: "group_resources ords r e = Inr x" and y: "concat_res (group_resources ords r) pre = Inr y"
    and rs: "rs = x @ y"
    by (auto simp: go_res)
  have "concat_res (group_resources ords (add r x)) pre = Inr y"
    using y by (simp add: group_add_fun)
  from Cons.IH [OF this] x show ?case
    by (simp add: bind_st_def gets_st_def modify_st_def add_append rs)
qed

lemma loop_ok:
  "concat_res (group_resources ords r) es = Inr rs \<Longrightarrow> loop ords es r = (Inr (), add r rs)"
  using loop_append [of ords r es rs "[]"] by (simp add: lift_st_def)

lemma loop_fault:
  assumes "concat_res (group_resources ords r) es = Inl f"
  shows "\<exists>pre e post rs. es = pre @ e # post \<and> concat_res (group_resources ords r) pre = Inr rs \<and>
    group_resources ords r e = Inl f \<and> loop ords es r = (Inl f, add r rs)"
proof -
  have "\<exists>pre e post rs. es = pre @ e # post \<and> concat_res (group_resources ords r) pre = Inr rs \<and>
    group_resources ords r e = Inl f"
    using assms
  proof (induction es)
    case (Cons e es)
    show ?case
    proof (cases "group_resources ords r e")
      case (Inl g)
      with Cons.prems have "group_resources ords r e = Inl f" by simp
      then show ?thesis by (intro exI [of _ "[]"]) simp
    next
      case (Inr x)
      with Cons obtain pre e' post rs where "es = pre @ e' # post" "concat_res (group_resources ords r) pre = Inr rs"
        "group_resources ords r e' = Inl f"
        by (auto simp: go_res)
      with Inr show ?thesis by (intro exI [of _ "e # pre"] exI [of _ e'] exI [of _ post]) simp
    qed
  qed simp
  then obtain pre e post rs where split: "es = pre @ e # post" "concat_res (group_resources ords r) pre = Inr rs"
    "group_resources ords r e = Inl f"
    by blast
  then have "loop ords es r = (Inl f, add r rs)"
    unfolding split(1) loop_append [OF split(2)] by (simp add: bind_st_def gets_st_def group_add)
  with split show ?thesis by blast
qed

lemma register_cases:
  assumes "entries r = Inr es"
  shows "register ords r = (case concat_res (group_resources ords r) (range_map (ord_groups ords) es) of
      Inr rs \<Rightarrow> (Inr (), add r rs)
    | Inl f \<Rightarrow> loop ords (range_map (ord_groups ords) es) r)"
  using assms by (simp add: register_loop bind_gets_st loop_ok split: sum.split)

lemma register_ok:
  assumes "entries r = Inr es" and "register ords r = (Inr (), r')"
  shows "\<exists>rs. concat_res (group_resources ords r) (range_map (ord_groups ords) es) = Inr rs \<and> r' = add r rs"
proof (cases "concat_res (group_resources ords r) (range_map (ord_groups ords) es)")
  case (Inl f)
  with loop_fault [OF Inl] register_cases [OF assms(1), of ords] assms(2) show ?thesis by auto
next
  case (Inr rs)
  with register_cases [OF assms(1), of ords] assms(2) show ?thesis by simp
qed

text \<open>Registration succeeds if and only if that of every group does.\<close>

lemma register_succeeds_iff:
  assumes "fair_order (ord_groups ords)" and "entries r = Inr es" and "wf_map es"
  shows "(\<exists>r'. register ords r = (Inr (), r')) \<longleftrightarrow> (\<forall>e \<in> set es. \<exists>rs. group_resources ords r e = Inr rs)"
proof -
  have "(\<exists>r'. register ords r = (Inr (), r')) \<longleftrightarrow>
      (\<exists>rs. concat_res (group_resources ords r) (range_map (ord_groups ords) es) = Inr rs)"
    using register_ok [OF assms(2)] register_cases [OF assms(2)] by fastforce
  then show ?thesis by (simp add: concat_res_defined_iff range_map_set [OF assms(1,3)])
qed

lemma register_no_entries: "entries r = Inl f \<Longrightarrow> register ords r = (Inl f, r)"
  by (simp add: register_loop bind_gets_st)

lemma register_fault:
  assumes "entries r = Inr es" and "register ords r = (Inl f, r')"
  shows "\<exists>pre e post rs. range_map (ord_groups ords) es = pre @ e # post \<and>
    concat_res (group_resources ords r) pre = Inr rs \<and> group_resources ords r e = Inl f \<and> r' = add r rs"
proof (cases "concat_res (group_resources ords r) (range_map (ord_groups ords) es)")
  case (Inl g)
  with loop_fault [OF Inl] register_cases [OF assms(1), of ords] assms(2) show ?thesis by fastforce
next
  case (Inr rs)
  with register_cases [OF assms(1), of ords] assms(2) show ?thesis by simp
qed

lemma register_members:
  assumes "fair_order (ord_groups ords)" and "entries r = Inr es" and "wf_map es" and "resources r = []"
    and "register ords r = (Inr (), r')"
  shows "x \<in> set (resources r') \<Longrightarrow> \<exists>e \<in> set es. \<exists>zs. group_resources ords r e = Inr zs \<and>
      x \<in> set zs \<and> set zs \<subseteq> set (resources r')"
    and "e \<in> set es \<Longrightarrow> \<exists>zs. group_resources ords r e = Inr zs \<and> set zs \<subseteq> set (resources r')"
proof -
  obtain rs where rs: "concat_res (group_resources ords r) (range_map (ord_groups ords) es) = Inr rs"
    and r': "resources r' = rs"
    using register_ok [OF assms(2,5)] assms(4) by (auto simp: resources_add)
  have keys: "set (range_map (ord_groups ords) es) = set es" using assms(1,3) by (rule range_map_set)
  have sub: "\<exists>zs. group_resources ords r e = Inr zs \<and> set zs \<subseteq> set (resources r')" if "e \<in> set es" for e
    using that concat_res_elem [OF rs] keys r' by metis
  show "\<exists>e \<in> set es. \<exists>zs. group_resources ords r e = Inr zs \<and> x \<in> set zs \<and> set zs \<subseteq> set (resources r')"
    if "x \<in> set (resources r')"
  proof -
    from that r' keys concat_res_set [OF rs, of x] obtain e zs where "e \<in> set es" "group_resources ords r e = Inr zs" "x \<in> set zs"
      by auto
    with sub [of e] show ?thesis by fastforce
  qed
  show "\<exists>zs. group_resources ords r e = Inr zs \<and> set zs \<subseteq> set (resources r')" if "e \<in> set es"
    using that by (rule sub)
qed

lemma concat_idents:
  "concat_res (group_resources ords r) es = Inr rs \<Longrightarrow> map ident rs = concat (map (idents r \<circ> fst) es)"
  by (induction es arbitrary: rs) (auto simp: go_res group_idents)

lemma register_idents:
  assumes "fair_order (ord_groups ords)" and "entries r = Inr es" and "wf_map es" and "register ords r = (Inr (), r')"
  shows "mset (map ident (resources r')) = mset (map ident (resources r)) + mset (concat (map (idents r) (map fst es)))"
proof -
  obtain rs where rs: "concat_res (group_resources ords r) (range_map (ord_groups ords) es) = Inr rs"
    and r': "r' = add r rs"
    using register_ok [OF assms(2,4)] by blast
  have "mset (map ident rs) = mset (concat (map (idents r) (ord_groups ords (map fst es))))"
    using concat_idents [OF rs] assms(1) by (simp add: range_map_keys flip: map_map)
  also have "\<dots> = mset (concat (map (idents r) (map fst es)))"
    using assms(1) by (simp add: mset_concat fair_order_def multiset.map_comp comp_assoc flip: sum_mset_sum_list)
  finally show ?thesis by (simp add: r' resources_add)
qed

end

section \<open>Both roles fulfil the contract\<close>

lemma for_entries_coordinator:
  "coordinator_RegisterResources M C I ords r =
     bind_st (gets_st (\<lambda>r. bind_res (deref ''coordinator Spec'' (cor_Spec r)) (\<lambda>spec. Inr (map_entries (co_RoleGroups spec))))) (\<lambda>es.
       for_st (\<lambda>e. bind_st (gets_st (\<lambda>r. coordinator_group_resources M C I ords r e))
         (\<lambda>rs. modify_st (\<lambda>r. coordinator_AddResource r rs))) (range_map (ord_groups ords) es)) r"
  by (cases "cor_Spec r") (simp_all add: coordinator_RegisterResources_def bind_gets_st)

lemma for_entries_worker:
  "worker_RegisterResources M C I ords r =
     bind_st (gets_st (\<lambda>r. bind_res (deref ''worker Spec'' (wor_Spec r)) (\<lambda>spec. Inr (map_entries (wo_RoleGroups spec))))) (\<lambda>es.
       for_st (\<lambda>e. bind_st (gets_st (\<lambda>r. worker_group_resources M C I ords r e))
         (\<lambda>rs. modify_st (\<lambda>r. worker_AddResource r rs))) (range_map (ord_groups ords) es)) r"
  by (cases "wor_Spec r") (simp_all add: worker_RegisterResources_def bind_gets_st)

lemmas registered_group_defs = NewStatefulSetReconciler_def NewStatefulSetBuilder_def NewConfigReconciler_def
  NewConfigMapBuilder_def NewRoleGroupMetricsService_def CreateServiceMetricsName_def

interpretation coordinator: role_contract "coordinator_RegisterResources M C I"
  "\<lambda>r. bind_res (deref ''coordinator Spec'' (cor_Spec r)) (\<lambda>spec. Inr (map_entries (co_RoleGroups spec)))"
  "coordinator_group_resources M C I" coordinator_AddResource cor_resources resource_id
  "\<lambda>r. group_ids I (cor_RoleInfo r)" for M C I
proof unfold_locales
  fix ords and r :: "('a, 'b) coordinator_Reconciler" and e rs
  assume "coordinator_group_resources M C I ords r e = Inr rs"
  then show "map resource_id rs = group_ids I (cor_RoleInfo r) (fst e)"
    by (cases e) (auto simp: coordinator_group_resources_def coordinator_registerResourceWithRoleGroup_def
        group_ids_def registered_group_defs Let_def go_res)
qed (simp_all only: for_entries_coordinator,
    simp_all add: coordinator_AddResource_def coordinator_group_resources_def
      coordinator_registerResourceWithRoleGroup_def)

interpretation worker: role_contract "worker_RegisterResources M C I"
  "\<lambda>r. bind_res (deref ''worker Spec'' (wor_Spec r)) (\<lambda>spec. Inr (map_entries (wo_RoleGroups spec)))"
  "worker_group_resources M C I" worker_AddResource wor_resources resource_id
  "\<lambda>r. group_ids I (wor_RoleInfo r)" for M C I
proof unfold_locales
  fix ords and r :: "('a, 'b) worker_Reconciler" and e rs
  assume "worker_group_resources M C I ords r e = Inr rs"
  then show "map resource_id rs = group_ids I (wor_RoleInfo r) (fst e)"
    by (cases e) (auto simp: worker_group_resources_def worker_registerResourceWithRoleGroup_def
        group_ids_def registered_group_defs Let_def go_res)
qed (simp_all only: for_entries_worker,
    simp_all add: worker_AddResource_def worker_group_resources_def worker_registerResourceWithRoleGroup_def)

section \<open>The resources of a role group\<close>

text \<open>
  The four resources that both files make for a role group, in terms of what a role reconciler
  knows: the cluster configuration, the image, the coordinator's host name and whether it is
  stopped.
\<close>

definition group_bundle ::
  "constants_api \<Rightarrow> info_api \<Rightarrow> role_orders \<Rightarrow> 'x ClusterConfigSpec option \<Rightarrow> Image \<Rightarrow> string \<Rightarrow> bool \<Rightarrow> RoleGroupInfo
     \<Rightarrow> ('q, 'x) ConfigSpec option \<Rightarrow> 'x option \<Rightarrow> int32 option \<Rightarrow> ('q, 'x) resource list" where
  "group_bundle C I ords cc img fqdn stopped info cfg overrides replicas =
     [ConfigMapResource (NewConfigReconciler I fqdn cc cfg info),
      ServiceResource \<lparr>svc_Name = rgi_GetFullName I info, svc_Ports = role_ports cc, svc_Option = role_service_option I info\<rparr>,
      MetricsServiceResource (NewRoleGroupMetricsService C I (ord_labels ords (rgi_RoleGroupName info))
        (ord_annotations ords (rgi_RoleGroupName info)) info),
      StatefulSetResource \<lparr>ssr_builder = NewStatefulSetBuilder (rgi_GetFullName I info) replicas img cc (role_ports cc)
          overrides (Option.bind cfg cs_RoleGroupConfigSpec) [role_statefulset_option I info],
        ssr_stopped = stopped\<rparr>]"

lemma coordinator_group_bundle:
  "coordinator_group_resources M C I ords r (n, g) = Inr rs \<Longrightarrow> \<exists>cfg overrides replicas. rs =
     group_bundle C I ords (cor_ClusterConfig r) (cor_Image r) (cor_CoordiantorSvcFqdn r) (cor_ClusterStopped r)
       \<lparr>rgi_RoleInfo = cor_RoleInfo r, rgi_RoleGroupName = n\<rparr> cfg overrides replicas"
  by (auto simp: coordinator_group_resources_def coordinator_registerResourceWithRoleGroup_def group_bundle_def
      NewStatefulSetReconciler_def go_res Let_def)

lemma worker_group_bundle:
  "worker_group_resources M C I ords r (n, g) = Inr rs \<Longrightarrow> \<exists>cfg overrides replicas. rs =
     group_bundle C I ords (wor_ClusterConfig r) (wor_Image r) (wor_CoordiantorSvcFqdn r) (wor_ClusterStopped r)
       \<lparr>rgi_RoleInfo = wor_RoleInfo r, rgi_RoleGroupName = n\<rparr> cfg overrides replicas"
  by (auto simp: worker_group_resources_def worker_registerResourceWithRoleGroup_def group_bundle_def
      NewStatefulSetReconciler_def go_res Let_def)

text \<open>A group can be registered if it is there and both merges of its settings with the role's succeed.\<close>

definition group_merges :: "('q, 'x) merge_api \<Rightarrow> ('q, 'x) BaseRoleSpec \<Rightarrow> ('q, 'x) RoleGroupSpec option \<Rightarrow> bool" where
  "group_merges M base g = (case g of None \<Rightarrow> False | Some rg \<Rightarrow>
     \<not> isl (merge_config M (br_Config base) (rg_Config rg)) \<and>
     \<not> isl (merge_overrides M (br_OverridesSpec base) (rg_OverridesSpec rg)))"

lemma coordinator_group_succeeds:
  "cor_Spec r = Some spec \<Longrightarrow> (\<exists>rs. coordinator_group_resources M C I ords r (n, g) = Inr rs) \<longleftrightarrow> group_merges M (co_BaseRoleSpec spec) g"
  by (auto simp: coordinator_group_resources_def coordinator_registerResourceWithRoleGroup_def NewStatefulSetReconciler_def
      group_merges_def go_res Let_def isl_def split: option.splits) (metis sum.exhaust)+

lemma worker_group_succeeds:
  "wor_Spec r = Some spec \<Longrightarrow> (\<exists>rs. worker_group_resources M C I ords r (n, g) = Inr rs) \<longleftrightarrow> group_merges M (wo_BaseRoleSpec spec) g"
  by (auto simp: worker_group_resources_def worker_registerResourceWithRoleGroup_def NewStatefulSetReconciler_def
      group_merges_def go_res Let_def isl_def split: option.splits) (metis sum.exhaust)+

text \<open>
  The fault of a group that cannot be registered: a panic for a nil group, else the error of the
  first of the two merges that fails.
\<close>

definition group_fault :: "('q, 'x) merge_api \<Rightarrow> ('q, 'x) BaseRoleSpec \<Rightarrow> ('q, 'x) RoleGroupSpec option \<Rightarrow> fault \<Rightarrow> bool" where
  "group_fault M base g f = (case g of None \<Rightarrow> panics (Inl f :: unit res) | Some rg \<Rightarrow>
     (case merge_config M (br_Config base) (rg_Config rg) of Inl e \<Rightarrow> f = Err e
      | Inr _ \<Rightarrow> (case merge_overrides M (br_OverridesSpec base) (rg_OverridesSpec rg) of Inl e \<Rightarrow> f = Err e | Inr _ \<Rightarrow> False)))"

lemma coordinator_group_fault:
  "cor_Spec r = Some spec \<Longrightarrow> coordinator_group_resources M C I ords r (n, g) = Inl f \<Longrightarrow> group_fault M (co_BaseRoleSpec spec) g f"
  by (cases g) (auto simp: coordinator_group_resources_def coordinator_registerResourceWithRoleGroup_def
      NewStatefulSetReconciler_def group_fault_def go_res Let_def from_lib_def deref_def split: sum.splits)

lemma worker_group_fault:
  "wor_Spec r = Some spec \<Longrightarrow> worker_group_resources M C I ords r (n, g) = Inl f \<Longrightarrow> group_fault M (wo_BaseRoleSpec spec) g f"
  by (cases g) (auto simp: worker_group_resources_def worker_registerResourceWithRoleGroup_def
      NewStatefulSetReconciler_def group_fault_def go_res Let_def from_lib_def deref_def split: sum.splits)

lemma coordinator_fault_state:
  assumes "coordinator_RegisterResources M C I ords r = (Inl f, r')"
  shows "case cor_Spec r of None \<Rightarrow> panics (Inl f :: unit res) \<and> r' = r
    | Some spec \<Rightarrow> \<exists>pre name group post rs.
       range_map (ord_groups ords) (map_entries (co_RoleGroups spec)) = pre @ (name, group) # post \<and>
       concat_res (coordinator_group_resources M C I ords r) pre = Inr rs \<and>
       r' = r\<lparr>cor_resources := cor_resources r @ rs\<rparr> \<and> group_fault M (co_BaseRoleSpec spec) group f"
proof (cases "cor_Spec r")
  case None
  with assms coordinator.register_no_entries [of r _ M C I ords] show ?thesis by (auto simp: deref_def panics_def)
next
  case (Some spec)
  with assms coordinator.register_fault [of r "map_entries (co_RoleGroups spec)" M C I ords f r'] obtain pre e post rs where
    "range_map (ord_groups ords) (map_entries (co_RoleGroups spec)) = pre @ e # post"
    "concat_res (coordinator_group_resources M C I ords r) pre = Inr rs"
    and e: "coordinator_group_resources M C I ords r e = Inl f" and "r' = coordinator_AddResource r rs"
    by auto
  moreover obtain name group where "e = (name, group)" by (cases e)
  ultimately show ?thesis using Some coordinator_group_fault [OF Some, of M C I ords name group f]
    by (auto simp: coordinator_AddResource_def)
qed

lemma worker_fault_state:
  assumes "worker_RegisterResources M C I ords r = (Inl f, r')"
  shows "case wor_Spec r of None \<Rightarrow> panics (Inl f :: unit res) \<and> r' = r
    | Some spec \<Rightarrow> \<exists>pre name group post rs.
       range_map (ord_groups ords) (map_entries (wo_RoleGroups spec)) = pre @ (name, group) # post \<and>
       concat_res (worker_group_resources M C I ords r) pre = Inr rs \<and>
       r' = r\<lparr>wor_resources := wor_resources r @ rs\<rparr> \<and> group_fault M (wo_BaseRoleSpec spec) group f"
proof (cases "wor_Spec r")
  case None
  with assms worker.register_no_entries [of r _ M C I ords] show ?thesis by (auto simp: deref_def panics_def)
next
  case (Some spec)
  with assms worker.register_fault [of r "map_entries (wo_RoleGroups spec)" M C I ords f r'] obtain pre e post rs where
    "range_map (ord_groups ords) (map_entries (wo_RoleGroups spec)) = pre @ e # post"
    "concat_res (worker_group_resources M C I ords r) pre = Inr rs"
    and e: "worker_group_resources M C I ords r e = Inl f" and "r' = worker_AddResource r rs"
    by auto
  moreover obtain name group where "e = (name, group)" by (cases e)
  ultimately show ?thesis using Some worker_group_fault [OF Some, of M C I ords name group f]
    by (auto simp: worker_AddResource_def)
qed

lemma coordinator_succeeds_iff:
  assumes "fair_order (ord_groups ords)" and "cor_Spec r = Some spec" and "wf_map (map_entries (co_RoleGroups spec))"
  shows "(\<exists>r'. coordinator_RegisterResources M C I ords r = (Inr (), r')) \<longleftrightarrow>
    (\<forall>(n, g) \<in> set (map_entries (co_RoleGroups spec)). group_merges M (co_BaseRoleSpec spec) g)"
proof -
  have "(\<exists>r'. coordinator_RegisterResources M C I ords r = (Inr (), r')) \<longleftrightarrow>
      (\<forall>e \<in> set (map_entries (co_RoleGroups spec)). \<exists>rs. coordinator_group_resources M C I ords r e = Inr rs)"
    using assms by (intro coordinator.register_succeeds_iff) simp_all
  also have "\<dots> \<longleftrightarrow> (\<forall>(n, g) \<in> set (map_entries (co_RoleGroups spec)). group_merges M (co_BaseRoleSpec spec) g)"
    by (intro ball_cong refl) (clarsimp simp: coordinator_group_succeeds [OF assms(2)])
  finally show ?thesis .
qed

lemma worker_succeeds_iff:
  assumes "fair_order (ord_groups ords)" and "wor_Spec r = Some spec" and "wf_map (map_entries (wo_RoleGroups spec))"
  shows "(\<exists>r'. worker_RegisterResources M C I ords r = (Inr (), r')) \<longleftrightarrow>
    (\<forall>(n, g) \<in> set (map_entries (wo_RoleGroups spec)). group_merges M (wo_BaseRoleSpec spec) g)"
proof -
  have "(\<exists>r'. worker_RegisterResources M C I ords r = (Inr (), r')) \<longleftrightarrow>
      (\<forall>e \<in> set (map_entries (wo_RoleGroups spec)). \<exists>rs. worker_group_resources M C I ords r e = Inr rs)"
    using assms by (intro worker.register_succeeds_iff) simp_all
  also have "\<dots> \<longleftrightarrow> (\<forall>(n, g) \<in> set (map_entries (wo_RoleGroups spec)). group_merges M (wo_BaseRoleSpec spec) g)"
    by (intro ball_cong refl) (clarsimp simp: worker_group_succeeds [OF assms(2)])
  finally show ?thesis .
qed

text \<open>Every resource of a role comes from a group, and every group contributes its four resources.\<close>

lemma coordinator_resources:
  assumes "fair_order (ord_groups ords)" and "cor_Spec r = Some spec" and "wf_map (map_entries (co_RoleGroups spec))"
    and "cor_resources r = []" and "coordinator_RegisterResources M C I ords r = (Inr (), r')"
  defines "bundle \<equiv> \<lambda>n. group_bundle C I ords (cor_ClusterConfig r) (cor_Image r) (cor_CoordiantorSvcFqdn r)
    (cor_ClusterStopped r) \<lparr>rgi_RoleInfo = cor_RoleInfo r, rgi_RoleGroupName = n\<rparr>"
  shows "x \<in> set (cor_resources r') \<Longrightarrow> \<exists>n \<in> fst ` set (map_entries (co_RoleGroups spec)). \<exists>cfg overrides replicas.
      x \<in> set (bundle n cfg overrides replicas) \<and> set (bundle n cfg overrides replicas) \<subseteq> set (cor_resources r')"
    and "n \<in> fst ` set (map_entries (co_RoleGroups spec)) \<Longrightarrow> \<exists>cfg overrides replicas.
      set (bundle n cfg overrides replicas) \<subseteq> set (cor_resources r')"
proof -
  have es: "bind_res (deref ''coordinator Spec'' (cor_Spec r)) (\<lambda>spec. Inr (map_entries (co_RoleGroups spec)))
      = Inr (map_entries (co_RoleGroups spec))"
    using assms(2) by simp
  note members = coordinator.register_members [OF assms(1) es assms(3,4,5)]
  have shape: "\<exists>cfg overrides replicas. zs = bundle n cfg overrides replicas"
    if "coordinator_group_resources M C I ords r (n, g) = Inr zs" for n g zs
    unfolding bundle_def using that by (rule coordinator_group_bundle)
  show "\<exists>n \<in> fst ` set (map_entries (co_RoleGroups spec)). \<exists>cfg overrides replicas.
      x \<in> set (bundle n cfg overrides replicas) \<and> set (bundle n cfg overrides replicas) \<subseteq> set (cor_resources r')"
    if "x \<in> set (cor_resources r')"
  proof -
    from members(1) [OF that] obtain n g zs where ng: "(n, g) \<in> set (map_entries (co_RoleGroups spec))"
      "coordinator_group_resources M C I ords r (n, g) = Inr zs" "x \<in> set zs" "set zs \<subseteq> set (cor_resources r')"
      by auto
    then have "n \<in> fst ` set (map_entries (co_RoleGroups spec))" by (metis fst_conv image_eqI)
    with ng shape [OF ng(2)] show ?thesis by blast
  qed
  show "\<exists>cfg overrides replicas. set (bundle n cfg overrides replicas) \<subseteq> set (cor_resources r')"
    if "n \<in> fst ` set (map_entries (co_RoleGroups spec))"
  proof -
    from that obtain g where "(n, g) \<in> set (map_entries (co_RoleGroups spec))" by auto
    from members(2) [OF this] show ?thesis using shape by metis
  qed
qed

lemma worker_resources:
  assumes "fair_order (ord_groups ords)" and "wor_Spec r = Some spec" and "wf_map (map_entries (wo_RoleGroups spec))"
    and "wor_resources r = []" and "worker_RegisterResources M C I ords r = (Inr (), r')" and "x \<in> set (wor_resources r')"
  defines "bundle \<equiv> \<lambda>n. group_bundle C I ords (wor_ClusterConfig r) (wor_Image r) (wor_CoordiantorSvcFqdn r)
    (wor_ClusterStopped r) \<lparr>rgi_RoleInfo = wor_RoleInfo r, rgi_RoleGroupName = n\<rparr>"
  shows "\<exists>n \<in> fst ` set (map_entries (wo_RoleGroups spec)). \<exists>cfg overrides replicas.
      x \<in> set (bundle n cfg overrides replicas) \<and> set (bundle n cfg overrides replicas) \<subseteq> set (wor_resources r')"
proof -
  have "bind_res (deref ''worker Spec'' (wor_Spec r)) (\<lambda>spec. Inr (map_entries (wo_RoleGroups spec)))
      = Inr (map_entries (wo_RoleGroups spec))"
    using assms(2) by simp
  from worker.register_members(1) [OF assms(1) this assms(3-6)] obtain n g zs where
    ng: "(n, g) \<in> set (map_entries (wo_RoleGroups spec))" "worker_group_resources M C I ords r (n, g) = Inr zs"
    "x \<in> set zs" "set zs \<subseteq> set (wor_resources r')"
    by auto
  then have "n \<in> fst ` set (map_entries (wo_RoleGroups spec))" by (metis fst_conv image_eqI)
  with ng worker_group_bundle [OF ng(2)] show ?thesis unfolding bundle_def by blast
qed

lemma group_ids_distinct:
  assumes "full_name_laws I" and "distinct ns"
  shows "distinct (concat (map (group_ids I role) ns)) \<longleftrightarrow> (\<forall>n \<in> set ns. n @ ''-metrics'' \<notin> set ns)"
proof -
  define pre where "pre = ci_ClusterName (ri_ClusterInfo role) @ ''-'' @ ri_RoleName role @ ''-''"
  have ids: "group_ids I role n = [(''ConfigMap'', pre @ n), (''Service'', pre @ n), (''Service'', pre @ n @ ''-metrics''),
      (''StatefulSet'', pre @ n)]" for n
    using assms(1) by (simp add: group_ids_def full_name_laws_def pre_def Let_def)
  have one: "distinct (group_ids I role n)" for n by (simp add: ids)
  have "set (group_ids I role m) \<inter> set (group_ids I role n) = {} \<longleftrightarrow> m @ ''-metrics'' \<noteq> n \<and> n @ ''-metrics'' \<noteq> m"
    if "m \<noteq> n" for m n
    using that by (auto simp: ids)
  moreover have "n @ ''-metrics'' \<noteq> n" for n :: string by simp
  ultimately show ?thesis
    unfolding distinct_concat_iff [OF assms(2)] using one by metis
qed

section \<open>A small world for the examples\<close>

definition example_merge :: "(int, string) merge_api" where
  "example_merge = \<lparr>merge_config = (\<lambda>a b. Inr (case b of None \<Rightarrow> a | Some c \<Rightarrow> Some c)),
     merge_overrides = (\<lambda>a b. if b = Some ''broken'' then Inl (LibError ''merge'') else Inr b)\<rparr>"

definition example_role_group :: "string option \<Rightarrow> (int, string) RoleGroupSpec option" where
  "example_role_group overrides = Some \<lparr>rg_Replicas = Some 1, rg_Config = Some example_config, rg_OverridesSpec = overrides\<rparr>"

definition example_base_role :: "(int, string) BaseRoleSpec" where
  "example_base_role = \<lparr>br_Replicas = Some 1, br_OverridesSpec = None, br_RoleConfig = None, br_Config = None\<rparr>"

definition example_coordinators :: "(int, string) CoordinatorsSpec" where
  "example_coordinators = \<lparr>co_RoleGroups = Some [(''default'', example_role_group None)], co_BaseRoleSpec = example_base_role\<rparr>"

definition example_workers :: "(int, string) WorkersSpec" where
  "example_workers = \<lparr>wo_RoleGroups = Some [(''small'', example_role_group None), (''large'', example_role_group None)],
     wo_BaseRoleSpec = example_base_role\<rparr>"

definition example_role_orders :: "role_orders" where
  "example_role_orders = \<lparr>ord_groups = rev, ord_labels = (\<lambda>_. rev), ord_annotations = (\<lambda>_. rev)\<rparr>"

definition example_role_info :: "string \<Rightarrow> RoleInfo" where
  "example_role_info role = \<lparr>ri_ClusterInfo = \<lparr>ci_GVK = (''trino.kubedoop.dev'', ''v1alpha1'', ''TrinoCluster''),
     ci_ClusterName = ''trino''\<rparr>, ri_RoleName = role\<rparr>"

definition example_coordinator :: "(int, string) coordinator_Reconciler" where
  "example_coordinator = coordinator_NewWorkerReconciler False (Some example_ss_config) (example_role_info ''coordinator'')
     example_image ''trino-coordinator-default.prod.svc.cluster.local'' (Some example_coordinators)"

definition example_worker :: "(int, string) WorkersSpec option \<Rightarrow> (int, string) worker_Reconciler" where
  "example_worker spec = worker_NewReconciler False (Some example_ss_config) (example_role_info ''worker'')
     example_image ''trino-coordinator-default.prod.svc.cluster.local'' spec"

lemmas example_role_defs = example_merge_def example_role_group_def example_base_role_def example_role_orders_def
  coordinator_group_resources_def worker_group_resources_def coordinator_registerResourceWithRoleGroup_def
  worker_registerResourceWithRoleGroup_def NewStatefulSetReconciler_def Let_def

lemma example_coordinator_group:
  "cor_Spec r = Some spec \<Longrightarrow> \<exists>rs. coordinator_group_resources example_merge C I ords r (n, example_role_group None) = Inr rs"
  by (simp add: example_role_defs)

lemma example_worker_group:
  "wor_Spec r = Some spec \<Longrightarrow> \<exists>rs. worker_group_resources example_merge C I ords r (n, example_role_group None) = Inr rs"
  by (simp add: example_role_defs)

lemma example_range:
  "range_map (ord_groups example_role_orders) (map_entries (co_RoleGroups example_coordinators))
    = [(''default'', example_role_group None)]"
  "range_map (ord_groups example_role_orders) (map_entries (wo_RoleGroups example_workers))
    = [(''large'', example_role_group None), (''small'', example_role_group None)]"
  by (simp_all add: example_role_orders_def example_coordinators_def example_workers_def range_map_eq)

lemma example_coordinator_ok:
  assumes "cor_Spec r = Some example_coordinators"
  shows "fst (coordinator_RegisterResources example_merge C I example_role_orders r) = Inr ()"
  using coordinator.register_cases [of r "map_entries (co_RoleGroups example_coordinators)" example_merge C I example_role_orders]
    example_coordinator_group [OF assms, of C I example_role_orders "''default''"] assms
  by (auto simp: example_range)

lemma example_worker_ok:
  assumes "wor_Spec r = Some example_workers"
  shows "fst (worker_RegisterResources example_merge C I example_role_orders r) = Inr ()"
  using worker.register_cases [of r "map_entries (wo_RoleGroups example_workers)" example_merge C I example_role_orders]
    example_worker_group [OF assms, of C I example_role_orders "''large''"]
    example_worker_group [OF assms, of C I example_role_orders "''small''"] assms
  by (auto simp: example_range)

section \<open>Properties of the roles\<close>

text \<open>
  C22. A coordinator that registers its resources without a fault has, for each role group of its
  specification, a config map, a service, a metrics service and a stateful set, all named after the
  group, and nothing else, in whatever order the map of role groups is visited.
\<close>

theorem coordinator_registers:
  assumes "fair_order (ord_groups ords)" and "cor_Spec r = Some spec" and "wf_map (map_entries (co_RoleGroups spec))"
    and "coordinator_RegisterResources M C I ords r = (Inr (), r')"
  shows "mset (map resource_id (cor_resources r')) = mset (map resource_id (cor_resources r))
    + mset (concat (map (group_ids I (cor_RoleInfo r)) (map fst (map_entries (co_RoleGroups spec)))))"
  using assms by (intro coordinator.register_idents) simp_all

theorem coordinator_registers_witness:
  "mset (map resource_id (cor_resources (snd (coordinator_RegisterResources example_merge example_consts example_infos
     example_role_orders example_coordinator)))) =
   mset [(''ConfigMap'', ''trino-coordinator-default''), (''Service'', ''trino-coordinator-default''),
     (''Service'', ''trino-coordinator-default-metrics''), (''StatefulSet'', ''trino-coordinator-default'')]"
proof -
  let ?r = "coordinator_RegisterResources example_merge example_consts example_infos example_role_orders example_coordinator"
  have spec: "cor_Spec example_coordinator = Some example_coordinators" "cor_resources example_coordinator = []"
    "cor_RoleInfo example_coordinator = example_role_info ''coordinator''"
    by (simp_all add: example_coordinator_def coordinator_NewWorkerReconciler_def)
  have "fst ?r = Inr ()"
    using spec(1) by (rule example_coordinator_ok)
  then have ok: "?r = (Inr (), snd ?r)" by (metis prod.collapse)
  show ?thesis
    using coordinator_registers [OF _ spec(1) _ ok]
    by (simp add: spec example_coordinators_def wf_map_def example_role_orders_def)
      (simp add: group_ids_def example_infos_def example_role_info_def Let_def)
qed

text \<open>
  C23. A worker that registers its resources without a fault has, for each role group of its
  specification, a config map, a service, a metrics service and a stateful set, all named after the
  group, and nothing else, in whatever order the map of role groups is visited.
\<close>

theorem worker_registers:
  assumes "fair_order (ord_groups ords)" and "wor_Spec r = Some spec" and "wf_map (map_entries (wo_RoleGroups spec))"
    and "worker_RegisterResources M C I ords r = (Inr (), r')"
  shows "mset (map resource_id (wor_resources r')) = mset (map resource_id (wor_resources r))
    + mset (concat (map (group_ids I (wor_RoleInfo r)) (map fst (map_entries (wo_RoleGroups spec)))))"
  using assms by (intro worker.register_idents) simp_all

theorem worker_registers_witness:
  "size (mset (map resource_id (wor_resources (snd (worker_RegisterResources example_merge example_consts example_infos
     example_role_orders (example_worker (Some example_workers))))))) = 8"
proof -
  let ?r = "worker_RegisterResources example_merge example_consts example_infos example_role_orders (example_worker (Some example_workers))"
  have spec: "wor_Spec (example_worker (Some example_workers)) = Some example_workers"
    "wor_resources (example_worker (Some example_workers)) = []"
    by (simp_all add: example_worker_def worker_NewReconciler_def)
  have "fst ?r = Inr ()"
    using spec(1) by (rule example_worker_ok)
  then have ok: "?r = (Inr (), snd ?r)" by (metis prod.collapse)
  have "fair_order (ord_groups example_role_orders)" "wf_map (map_entries (wo_RoleGroups example_workers))"
    by (simp_all add: example_role_orders_def example_workers_def wf_map_def)
  from worker_registers [OF this(1) spec(1) this(2) ok] show ?thesis
    by (simp only: spec size_union size_mset) (simp add: example_workers_def group_ids_def Let_def)
qed

text \<open>
  C24. When registration of a role fails, of the coordinators as of the workers, it fails at one role
  group with that group's fault: a panic for a nil group, or the error of the first of the two merges
  that fails. The resources of the groups visited before it stay registered, those of the group itself
  and of later groups are not, and nothing else of the role's reconciler changes. A role without a
  specification panics and registers nothing.
\<close>

theorem role_register_fault:
  "(\<forall>r f r'. coordinator_RegisterResources M C I ords r = (Inl f, r') \<longrightarrow>
     (case cor_Spec r of None \<Rightarrow> panics (Inl f :: unit res) \<and> r' = r
      | Some spec \<Rightarrow> \<exists>pre name group post rs.
         range_map (ord_groups ords) (map_entries (co_RoleGroups spec)) = pre @ (name, group) # post \<and>
         concat_res (coordinator_group_resources M C I ords r) pre = Inr rs \<and>
         r' = r\<lparr>cor_resources := cor_resources r @ rs\<rparr> \<and> group_fault M (co_BaseRoleSpec spec) group f)) \<and>
   (\<forall>r f r'. worker_RegisterResources M C I ords r = (Inl f, r') \<longrightarrow>
     (case wor_Spec r of None \<Rightarrow> panics (Inl f :: unit res) \<and> r' = r
      | Some spec \<Rightarrow> \<exists>pre name group post rs.
         range_map (ord_groups ords) (map_entries (wo_RoleGroups spec)) = pre @ (name, group) # post \<and>
         concat_res (worker_group_resources M C I ords r) pre = Inr rs \<and>
         r' = r\<lparr>wor_resources := wor_resources r @ rs\<rparr> \<and> group_fault M (wo_BaseRoleSpec spec) group f))"
  using coordinator_fault_state worker_fault_state by (intro conjI allI impI) blast+

text \<open>A worker with a nil role group, and a coordinator without a specification.\<close>

theorem role_register_fault_witness:
  "(\<exists>f. fst (worker_RegisterResources example_merge example_consts example_infos example_role_orders
      (example_worker (Some (example_workers\<lparr>wo_RoleGroups := Some [(''a'', None)]\<rparr>)))) = Inl f \<and>
     panics (Inl f :: unit res)) \<and>
   (\<exists>f. fst (coordinator_RegisterResources example_merge example_consts example_infos example_role_orders
      (example_coordinator\<lparr>cor_Spec := None\<rparr>)) = Inl f \<and> panics (Inl f :: unit res))"
proof
  let ?spec = "example_workers\<lparr>wo_RoleGroups := Some [(''a'', None)]\<rparr>"
  let ?r = "worker_RegisterResources example_merge example_consts example_infos example_role_orders (example_worker (Some ?spec))"
  have spec: "wor_Spec (example_worker (Some ?spec)) = Some ?spec"
    by (simp add: example_worker_def worker_NewReconciler_def)
  have fold: "concat_res (worker_group_resources example_merge example_consts example_infos example_role_orders
      (example_worker (Some ?spec))) (range_map (ord_groups example_role_orders) (map_entries (wo_RoleGroups ?spec)))
      = Inl (Panic (''nil dereference: '' @ ''roleGroup''))"
    by (simp add: worker_group_resources_def example_role_orders_def spec)
  obtain f where f: "fst ?r = Inl f"
    using worker.loop_fault [OF fold] worker.register_cases [of "example_worker (Some ?spec)" "map_entries (wo_RoleGroups ?spec)"] fold
    by (auto simp: spec)
  then have r: "?r = (Inl f, snd ?r)" by (metis prod.collapse)
  from conjunct2 [OF role_register_fault, rule_format, OF r] have "panics (Inl f :: unit res)"
    by (auto simp: spec group_fault_def example_role_orders_def Cons_eq_append_conv)
  with f show "\<exists>f. fst ?r = Inl f \<and> panics (Inl f :: unit res)" by blast
next
  let ?r = "coordinator_RegisterResources example_merge example_consts example_infos example_role_orders
    (example_coordinator\<lparr>cor_Spec := None\<rparr>)"
  have "?r = (Inl (Panic (''nil dereference: '' @ ''coordinator Spec'')), example_coordinator\<lparr>cor_Spec := None\<rparr>)"
    by (rule coordinator.register_no_entries) (simp add: deref_def)
  then obtain f where r: "?r = (Inl f, snd ?r)" by (metis snd_conv)
  from conjunct1 [OF role_register_fault, rule_format, OF r] have "panics (Inl f :: unit res)" by simp
  with r show "\<exists>f. fst ?r = Inl f \<and> panics (Inl f :: unit res)" by (metis fst_conv)
qed

text \<open>
  Within a role the resources of different role groups never share an identity, unless one group
  is called like another with \<open>-metrics\<close> appended: then, and only then, the metrics service of the
  one is the service of the other.
\<close>

theorem group_ids_distinct_iff:
  assumes "full_name_laws I" and "distinct ns"
  shows "distinct (concat (map (group_ids I role) ns)) \<longleftrightarrow> (\<forall>n \<in> set ns. n @ ''-metrics'' \<notin> set ns)"
  using assms by (rule group_ids_distinct)

theorem group_ids_distinct_iff_witness:
  "\<not> distinct (concat (map (group_ids example_infos (example_role_info ''worker'')) [''default'', ''default-metrics'']))"
  using group_ids_distinct_iff [OF example_info_laws(2), of "[''default'', ''default-metrics'']"] by simp

end
