(* ===== verification/Cluster.thy ===== *)
theory Cluster
  imports Roles Shared_Secret
begin

text \<open>
  \<open>src/internal/controller/cluster/cluster.go\<close> and \<open>src/internal/controller/trino_controller.go\<close>: the
  reconciler of a cluster, which registers the two roles, the shared secret and the coordinator
  service, and the controller's \<open>Reconcile\<close>, which is called for every change of a TrinoCluster.

  The framework's \<open>IsStopped\<close> and \<open>Run\<close>, the API server's \<open>Get\<close> and the client built for an
  instance are parameters. The order in which the loop of \<open>getCoordinatorSvcFqdn\<close> visits the map
  of coordinator role groups is an argument of its own, next to the orders of the two roles.
\<close>

section \<open>The cluster reconciler\<close>

datatype ('q, 'x) cluster_resource =
    CoordinatorRole "('q, 'x) coordinator_Reconciler"
  | WorkerRole "('q, 'x) worker_Reconciler"
  | SharedSecretResource InternalSharedSecretBuilder
  | ClusterServiceResource service_builder

record ('q, 'x) cluster_Reconciler =
  clr_ClusterInfo :: ClusterInfo
  clr_ClusterOperation :: "'x option"
  clr_Spec :: "('q, 'x) TrinoClusterSpec"
  clr_ClusterConfig :: "'x ClusterConfigSpec option"
  clr_resources :: "('q, 'x) cluster_resource list"

record cluster_orders =
  ord_fqdn :: range_order
  ord_coordinators :: role_orders
  ord_workers :: role_orders

text \<open>\<open>version.BuildVersion\<close>, set at link time, and the framework's reading of the cluster operation.\<close>

record 'x cluster_api =
  BuildVersion :: string
  IsStopped :: "'x option \<Rightarrow> bool"

definition NewClusterReconciler ::
  "ClusterInfo \<Rightarrow> ('q, 'x) TrinoClusterSpec \<Rightarrow> ('q, 'x) cluster_Reconciler" where
  "NewClusterReconciler clusterInfo spec =
     \<lparr>clr_ClusterInfo = clusterInfo, clr_ClusterOperation = tcs_ClusterOperation spec, clr_Spec = spec,
      clr_ClusterConfig = tcs_ClusterConfig spec, clr_resources = []\<rparr>"

definition GetImage :: "'x cluster_api \<Rightarrow> ('q, 'x) cluster_Reconciler \<Rightarrow> Image res" where
  "GetImage A r =
     bind_res (deref ''Spec.Image'' (tcs_Image (clr_Spec r))) (\<lambda>spec.
       let productVersion = (if is_ProductVersion spec \<noteq> [] then is_ProductVersion spec else DefaultProductVersion)
       in Inr \<lparr>img_ProductName = DefaultProductName, img_KubedoopVersion = BuildVersion A,
               img_ProductVersion = productVersion, img_Custom = is_Custom spec, img_Repo = is_Repo spec,
               img_PullPolicy = is_PullPolicy spec\<rparr>)"

definition coordinator_role_info :: "('q, 'x) cluster_Reconciler \<Rightarrow> RoleInfo" where
  "coordinator_role_info r = \<lparr>ri_ClusterInfo = clr_ClusterInfo r, ri_RoleName = RoleCoordinator\<rparr>"

definition worker_role_info :: "('q, 'x) cluster_Reconciler \<Rightarrow> RoleInfo" where
  "worker_role_info r = \<lparr>ri_ClusterInfo = clr_ClusterInfo r, ri_RoleName = RoleWorker\<rparr>"

definition coordinator_fqdn ::
  "info_api \<Rightarrow> client_api \<Rightarrow> ('q, 'x) cluster_Reconciler \<Rightarrow> string \<Rightarrow> string" where
  "coordinator_fqdn I K r name =
     strings_Join [rgi_GetFullName I \<lparr>rgi_RoleInfo = coordinator_role_info r, rgi_RoleGroupName = name\<rparr>,
       GetOwnerNamespace K, ''svc.cluster.local''] ''.''"

definition getCoordinatorSvcFqdn ::
  "info_api \<Rightarrow> client_api \<Rightarrow> range_order \<Rightarrow> ('q, 'x) cluster_Reconciler \<Rightarrow> string res" where
  "getCoordinatorSvcFqdn I K ord r =
     bind_res (deref ''Spec.Coordinators'' (tcs_Coordinators (clr_Spec r))) (\<lambda>coordinator.
       let fqdns = map (\<lambda>(name, _). coordinator_fqdn I K r name) (range_map ord (map_entries (co_RoleGroups coordinator)))
       in Inr (case fqdns of [] \<Rightarrow> [] | f # _ \<Rightarrow> f))"

definition cluster_AddResource ::
  "('q, 'x) cluster_resource \<Rightarrow> (('q, 'x) cluster_Reconciler, unit) st" where
  "cluster_AddResource x = modify_st (\<lambda>r. r\<lparr>clr_resources := clr_resources r @ [x]\<rparr>)"

definition listener_class :: "constants_api \<Rightarrow> 'x ClusterConfigSpec option \<Rightarrow> string" where
  "listener_class C cc = (case cc of None \<Rightarrow> ClusterInternal C | Some c \<Rightarrow> cc_ListenerClass c)"

definition cluster_service_option ::
  "constants_api \<Rightarrow> info_api \<Rightarrow> ('q, 'x) cluster_Reconciler \<Rightarrow> ServiceBuilderOptions \<Rightarrow> ServiceBuilderOptions" where
  "cluster_service_option C I r = (\<lambda>sbo. sbo
     \<lparr>sbo_Labels := ri_GetLabels I (coordinator_role_info r),
      sbo_Annotations := ri_GetAnnotations I (coordinator_role_info r),
      sbo_ClusterName := ci_GetClusterName I (clr_ClusterInfo r),
      sbo_RoleName := ri_RoleName (coordinator_role_info r),
      sbo_ListenerClass := listener_class C (clr_ClusterConfig r),
      sbo_MatchingLabels := ri_GetLabels I (coordinator_role_info r)\<rparr>)"

definition cluster_service :: "constants_api \<Rightarrow> info_api \<Rightarrow> ('q, 'x) cluster_Reconciler \<Rightarrow> service_builder" where
  "cluster_service C I r =
     \<lparr>svc_Name = ri_GetFullName I (coordinator_role_info r),
      svc_Ports = (if tls_enabled (clr_ClusterConfig r)
        then [\<lparr>cp_Name = ''https'', cp_ContainerPort = HttpsPort, cp_Protocol = []\<rparr>]
        else [\<lparr>cp_Name = ''http'', cp_ContainerPort = HttpPort, cp_Protocol = []\<rparr>]),
      svc_Option = cluster_service_option C I r\<rparr>"

text \<open>
  A role reconciler is built, registers its resources and is added to the cluster's own resources
  only if that succeeded.
\<close>

definition register_coordinators ::
  "'x cluster_api \<Rightarrow> ('q, 'x) merge_api \<Rightarrow> constants_api \<Rightarrow> info_api \<Rightarrow> role_orders \<Rightarrow> string
     \<Rightarrow> (('q, 'x) cluster_Reconciler, unit) st" where
  "register_coordinators A M C I ords fqdn =
     bind_st (gets_st (\<lambda>r. bind_res (GetImage A r) (\<lambda>img. Inr
       (coordinator_NewWorkerReconciler (IsStopped A (clr_ClusterOperation r)) (clr_ClusterConfig r)
          (coordinator_role_info r) img fqdn (tcs_Coordinators (clr_Spec r)))))) (\<lambda>role.
     case coordinator_RegisterResources M C I ords role of (result, role') \<Rightarrow>
       bind_st (lift_st result) (\<lambda>_. cluster_AddResource (CoordinatorRole role')))"

definition register_workers ::
  "'x cluster_api \<Rightarrow> ('q, 'x) merge_api \<Rightarrow> constants_api \<Rightarrow> info_api \<Rightarrow> role_orders \<Rightarrow> string
     \<Rightarrow> (('q, 'x) cluster_Reconciler, unit) st" where
  "register_workers A M C I ords fqdn =
     bind_st (gets_st (\<lambda>r. bind_res (GetImage A r) (\<lambda>img. Inr
       (worker_NewReconciler (IsStopped A (clr_ClusterOperation r)) (clr_ClusterConfig r)
          (worker_role_info r) img fqdn (tcs_Workers (clr_Spec r)))))) (\<lambda>role.
     case worker_RegisterResources M C I ords role of (result, role') \<Rightarrow>
       bind_st (lift_st result) (\<lambda>_. cluster_AddResource (WorkerRole role')))"

definition register_secret :: "info_api \<Rightarrow> (('q, 'x) cluster_Reconciler, unit) st" where
  "register_secret I = (\<lambda>r.
     if tls_enabled (clr_ClusterConfig r)
     then cluster_AddResource (SharedSecretResource (NewInternalsharedSecretReconciler I (clr_ClusterInfo r))) r
     else (Inr (), r))"

definition cluster_RegisterResources ::
  "'x cluster_api \<Rightarrow> ('q, 'x) merge_api \<Rightarrow> constants_api \<Rightarrow> info_api \<Rightarrow> client_api \<Rightarrow> cluster_orders
     \<Rightarrow> (('q, 'x) cluster_Reconciler, unit) st" where
  "cluster_RegisterResources A M C I K ords =
     bind_st (gets_st (getCoordinatorSvcFqdn I K (ord_fqdn ords))) (\<lambda>coordinatorSvcFqdn.
     bind_st (register_coordinators A M C I (ord_coordinators ords) coordinatorSvcFqdn) (\<lambda>_.
     bind_st (register_workers A M C I (ord_workers ords) coordinatorSvcFqdn) (\<lambda>_.
     bind_st (register_secret I) (\<lambda>_.
     bind_st (gets_st (\<lambda>r. Inr (cluster_service C I r))) (\<lambda>service.
     cluster_AddResource (ClusterServiceResource service))))))"

section \<open>The controller\<close>

text \<open>
  The API server as the controller uses it: \<open>Get\<close> of a TrinoCluster, \<open>IgnoreNotFound\<close>, the client
  of an instance, and the framework's \<open>Run\<close> of a cluster reconciler.
\<close>

record ('w, 'q, 'x) controller_api =
  ctl_Get :: "'w \<Rightarrow> string \<times> string \<Rightarrow> goerror + ('q, 'x) TrinoCluster"
  ctl_IgnoreNotFound :: "goerror \<Rightarrow> goerror option"
  ctl_client :: "('q, 'x) TrinoCluster \<Rightarrow> client_api"
  ctl_Run :: "('q, 'x) cluster_Reconciler \<Rightarrow> 'w \<Rightarrow> Result res \<times> 'w"

definition TrinoReconciler_Reconcile ::
  "('w, 'q, 'x) controller_api \<Rightarrow> 'x cluster_api \<Rightarrow> ('q, 'x) merge_api \<Rightarrow> constants_api \<Rightarrow> info_api \<Rightarrow> cluster_orders
     \<Rightarrow> string \<times> string \<Rightarrow> 'w \<Rightarrow> Result res \<times> 'w" where
  "TrinoReconciler_Reconcile W A M C I ords req w =
     (case ctl_Get W w req of
        Inl err \<Rightarrow>
          (if ctl_IgnoreNotFound W err \<noteq> None then (Inl (Err err), w) else (Inr zero_Result, w))
      | Inr inst \<Rightarrow>
          (let clusterReconciler = NewClusterReconciler
             \<lparr>ci_GVK = tc_GVK inst, ci_ClusterName = tc_Name inst\<rparr> (tc_Spec inst)
           in case cluster_RegisterResources A M C I (ctl_client W inst) ords clusterReconciler of
                (Inl f, _) \<Rightarrow> (Inl f, w)
              | (Inr _, r) \<Rightarrow> ctl_Run W r w))"

section \<open>Lemmas on registration\<close>

lemma clr_resources_reads [simp]:
  "GetImage A (r\<lparr>clr_resources := xs\<rparr>) = GetImage A r"
  "coordinator_role_info (r\<lparr>clr_resources := xs\<rparr>) = coordinator_role_info r"
  "worker_role_info (r\<lparr>clr_resources := xs\<rparr>) = worker_role_info r"
  "cluster_service C I (r\<lparr>clr_resources := xs\<rparr>) = cluster_service C I r"
  by (simp_all add: GetImage_def coordinator_role_info_def worker_role_info_def cluster_service_def
      cluster_service_option_def)

lemma cluster_AddResource_run [simp]:
  "cluster_AddResource x r = (Inr (), r\<lparr>clr_resources := clr_resources r @ [x]\<rparr>)"
  by (simp add: cluster_AddResource_def modify_st_def)

text \<open>The two role reconcilers of a cluster before they register anything.\<close>

definition coordinator_role ::
  "'x cluster_api \<Rightarrow> ('q, 'x) cluster_Reconciler \<Rightarrow> Image \<Rightarrow> string \<Rightarrow> ('q, 'x) coordinator_Reconciler" where
  "coordinator_role A r img fqdn = coordinator_NewWorkerReconciler (IsStopped A (clr_ClusterOperation r))
     (clr_ClusterConfig r) (coordinator_role_info r) img fqdn (tcs_Coordinators (clr_Spec r))"

definition worker_role ::
  "'x cluster_api \<Rightarrow> ('q, 'x) cluster_Reconciler \<Rightarrow> Image \<Rightarrow> string \<Rightarrow> ('q, 'x) worker_Reconciler" where
  "worker_role A r img fqdn = worker_NewReconciler (IsStopped A (clr_ClusterOperation r))
     (clr_ClusterConfig r) (worker_role_info r) img fqdn (tcs_Workers (clr_Spec r))"

lemma register_coordinators_run:
  "register_coordinators A M C I ords fqdn r = (case GetImage A r of
     Inl f \<Rightarrow> (Inl f, r)
   | Inr img \<Rightarrow> (case coordinator_RegisterResources M C I ords (coordinator_role A r img fqdn) of
       (Inl f, _) \<Rightarrow> (Inl f, r)
     | (Inr _, role) \<Rightarrow> (Inr (), r\<lparr>clr_resources := clr_resources r @ [CoordinatorRole role]\<rparr>)))"
  by (simp add: register_coordinators_def bind_gets_st bind_lift_st coordinator_role_def bind_res_assoc
      split: sum.splits prod.splits)

lemma register_workers_run:
  "register_workers A M C I ords fqdn r = (case GetImage A r of
     Inl f \<Rightarrow> (Inl f, r)
   | Inr img \<Rightarrow> (case worker_RegisterResources M C I ords (worker_role A r img fqdn) of
       (Inl f, _) \<Rightarrow> (Inl f, r)
     | (Inr _, role) \<Rightarrow> (Inr (), r\<lparr>clr_resources := clr_resources r @ [WorkerRole role]\<rparr>)))"
  by (simp add: register_workers_def bind_gets_st bind_lift_st worker_role_def split: sum.splits prod.splits)

lemma register_secret_run:
  "bind_st (register_secret I) k r = k () (if tls_enabled (clr_ClusterConfig r)
     then r\<lparr>clr_resources := clr_resources r
       @ [SharedSecretResource (NewInternalsharedSecretReconciler I (clr_ClusterInfo r))]\<rparr> else r)"
  by (simp add: bind_st_def register_secret_def)

lemma worker_role_reads [simp]: "worker_role A (r\<lparr>clr_resources := xs\<rparr>) img fqdn = worker_role A r img fqdn"
  by (simp add: worker_role_def)

lemma role_fields:
  "cor_ClusterConfig (coordinator_role A r img fqdn) = clr_ClusterConfig r"
  "cor_Image (coordinator_role A r img fqdn) = img" "cor_CoordiantorSvcFqdn (coordinator_role A r img fqdn) = fqdn"
  "cor_ClusterStopped (coordinator_role A r img fqdn) = IsStopped A (clr_ClusterOperation r)"
  "cor_RoleInfo (coordinator_role A r img fqdn) = coordinator_role_info r"
  "cor_Spec (coordinator_role A r img fqdn) = tcs_Coordinators (clr_Spec r)"
  "cor_resources (coordinator_role A r img fqdn) = []"
  "wor_ClusterConfig (worker_role A r img fqdn) = clr_ClusterConfig r"
  "wor_Image (worker_role A r img fqdn) = img" "wor_CoordiantorSvcFqdn (worker_role A r img fqdn) = fqdn"
  "wor_ClusterStopped (worker_role A r img fqdn) = IsStopped A (clr_ClusterOperation r)"
  "wor_RoleInfo (worker_role A r img fqdn) = worker_role_info r"
  "wor_Spec (worker_role A r img fqdn) = tcs_Workers (clr_Spec r)"
  "wor_resources (worker_role A r img fqdn) = []"
  by (simp_all add: coordinator_role_def coordinator_NewWorkerReconciler_def worker_role_def worker_NewReconciler_def)

text \<open>What the cluster adds after the two roles.\<close>

definition tail_resources :: "constants_api \<Rightarrow> info_api \<Rightarrow> ('q, 'x) cluster_Reconciler \<Rightarrow> ('q, 'x) cluster_resource list" where
  "tail_resources C I r =
     (if tls_enabled (clr_ClusterConfig r)
      then [SharedSecretResource (NewInternalsharedSecretReconciler I (clr_ClusterInfo r))] else [])
     @ [ClusterServiceResource (cluster_service C I r)]"

lemma cluster_register_run:
  "cluster_RegisterResources A M C I K ords r =
     (case getCoordinatorSvcFqdn I K (ord_fqdn ords) r of
        Inl f \<Rightarrow> (Inl f, r)
      | Inr fqdn \<Rightarrow> (case GetImage A r of
          Inl f \<Rightarrow> (Inl f, r)
        | Inr img \<Rightarrow> (case coordinator_RegisterResources M C I (ord_coordinators ords) (coordinator_role A r img fqdn) of
            (Inl f, _) \<Rightarrow> (Inl f, r)
          | (Inr _, cr) \<Rightarrow> (case worker_RegisterResources M C I (ord_workers ords) (worker_role A r img fqdn) of
              (Inl f, _) \<Rightarrow> (Inl f, r\<lparr>clr_resources := clr_resources r @ [CoordinatorRole cr]\<rparr>)
            | (Inr _, wr) \<Rightarrow> (Inr (), r\<lparr>clr_resources := clr_resources r
                @ [CoordinatorRole cr, WorkerRole wr] @ tail_resources C I r\<rparr>)))))"
  by (auto simp: cluster_RegisterResources_def bind_gets_st bind_st_def [of "register_coordinators _ _ _ _ _ _"]
      bind_st_def [of "register_workers _ _ _ _ _ _"] register_secret_run
      register_coordinators_run register_workers_run tail_resources_def
      split: sum.splits prod.splits)

lemma cluster_register_ok:
  assumes "cluster_RegisterResources A M C I K ords r = (Inr u, r')"
  obtains fqdn img cr wr where "getCoordinatorSvcFqdn I K (ord_fqdn ords) r = Inr fqdn" "GetImage A r = Inr img"
    "coordinator_RegisterResources M C I (ord_coordinators ords) (coordinator_role A r img fqdn) = (Inr (), cr)"
    "worker_RegisterResources M C I (ord_workers ords) (worker_role A r img fqdn) = (Inr (), wr)"
    "clr_resources r' = clr_resources r @ [CoordinatorRole cr, WorkerRole wr] @ tail_resources C I r"
  using assms unfolding cluster_register_run by (auto split: sum.splits prod.splits)

text \<open>The resources of the role groups of a registered cluster.\<close>

fun role_resources :: "('q, 'x) cluster_resource \<Rightarrow> ('q, 'x) resource list" where
  "role_resources (CoordinatorRole role) = cor_resources role"
| "role_resources (WorkerRole role) = wor_resources role"
| "role_resources _ = []"

definition group_resources_of :: "('q, 'x) cluster_Reconciler \<Rightarrow> ('q, 'x) resource list" where
  "group_resources_of r = concat (map role_resources (clr_resources r))"

definition fair_cluster_orders :: "cluster_orders \<Rightarrow> bool" where
  "fair_cluster_orders ords \<longleftrightarrow> fair_order (ord_fqdn ords) \<and> fair_order (ord_groups (ord_coordinators ords)) \<and>
     fair_order (ord_groups (ord_workers ords))"

text \<open>A cluster specification as the API server delivers it: both roles present, their groups maps.\<close>

definition wf_spec :: "('q, 'x) TrinoClusterSpec \<Rightarrow> bool" where
  "wf_spec spec \<longleftrightarrow> (\<exists>co wo. tcs_Coordinators spec = Some co \<and> tcs_Workers spec = Some wo \<and>
     wf_map (map_entries (co_RoleGroups co)) \<and> wf_map (map_entries (wo_RoleGroups wo)))"

definition wf_groups :: "('q, 'x) TrinoClusterSpec \<Rightarrow> bool" where
  "wf_groups spec \<longleftrightarrow> (\<forall>co. tcs_Coordinators spec = Some co \<longrightarrow> wf_map (map_entries (co_RoleGroups co))) \<and>
     (\<forall>wo. tcs_Workers spec = Some wo \<longrightarrow> wf_map (map_entries (wo_RoleGroups wo)))"

definition coordinator_groups :: "('q, 'x) TrinoClusterSpec \<Rightarrow> string list" where
  "coordinator_groups spec = (case tcs_Coordinators spec of None \<Rightarrow> [] | Some co \<Rightarrow> map fst (map_entries (co_RoleGroups co)))"

definition worker_groups :: "('q, 'x) TrinoClusterSpec \<Rightarrow> string list" where
  "worker_groups spec = (case tcs_Workers spec of None \<Rightarrow> [] | Some wo \<Rightarrow> map fst (map_entries (wo_RoleGroups wo)))"

text \<open>What registration leaves behind, role group by role group.\<close>

definition cluster_bundle ::
  "'x cluster_api \<Rightarrow> constants_api \<Rightarrow> info_api \<Rightarrow> ('q, 'x) cluster_Reconciler \<Rightarrow> string \<Rightarrow> RoleInfo \<Rightarrow> string
     \<Rightarrow> ('q, 'x) resource list \<Rightarrow> bool" where
  "cluster_bundle A C I r fqdn role n xs \<longleftrightarrow> (\<exists>os img cfg overrides replicas.
     xs = group_bundle C I os (clr_ClusterConfig r) img fqdn (IsStopped A (clr_ClusterOperation r))
       \<lparr>rgi_RoleInfo = role, rgi_RoleGroupName = n\<rparr> cfg overrides replicas)"

definition cluster_group :: "('q, 'x) cluster_Reconciler \<Rightarrow> RoleInfo \<Rightarrow> string \<Rightarrow> bool" where
  "cluster_group r role n \<longleftrightarrow> role = coordinator_role_info r \<and> n \<in> set (coordinator_groups (clr_Spec r)) \<or>
     role = worker_role_info r \<and> n \<in> set (worker_groups (clr_Spec r))"

lemma cluster_registered:
  assumes "fair_cluster_orders ords" and "wf_spec (clr_Spec r)" and "clr_resources r = []"
    and "cluster_RegisterResources A M C I K ords r = (Inr u, r')"
  obtains fqdn where "getCoordinatorSvcFqdn I K (ord_fqdn ords) r = Inr fqdn"
    "\<forall>x \<in> set (group_resources_of r'). \<exists>role n xs. cluster_group r role n \<and> cluster_bundle A C I r fqdn role n xs \<and>
       x \<in> set xs \<and> set xs \<subseteq> set (group_resources_of r')"
    "\<exists>cr. CoordinatorRole cr \<in> set (clr_resources r') \<and> set (cor_resources cr) \<subseteq> set (group_resources_of r') \<and>
       (\<forall>n \<in> set (coordinator_groups (clr_Spec r)). \<exists>xs. cluster_bundle A C I r fqdn (coordinator_role_info r) n xs \<and>
          set xs \<subseteq> set (cor_resources cr))"
proof -
  obtain fqdn img cr wr where ok: "getCoordinatorSvcFqdn I K (ord_fqdn ords) r = Inr fqdn"
    and cr: "coordinator_RegisterResources M C I (ord_coordinators ords) (coordinator_role A r img fqdn) = (Inr (), cr)"
    and wr: "worker_RegisterResources M C I (ord_workers ords) (worker_role A r img fqdn) = (Inr (), wr)"
    and res: "clr_resources r' = clr_resources r @ [CoordinatorRole cr, WorkerRole wr] @ tail_resources C I r"
    using assms(4) by (rule cluster_register_ok)
  obtain co wo where co: "tcs_Coordinators (clr_Spec r) = Some co" "wf_map (map_entries (co_RoleGroups co))"
    and wo: "tcs_Workers (clr_Spec r) = Some wo" "wf_map (map_entries (wo_RoleGroups wo))"
    using assms(2) by (auto simp: wf_spec_def)
  have all: "set (group_resources_of r') = set (cor_resources cr) \<union> set (wor_resources wr)"
    by (auto simp: group_resources_of_def res assms(3) tail_resources_def split: if_splits)
  have fair: "fair_order (ord_groups (ord_coordinators ords))" "fair_order (ord_groups (ord_workers ords))"
    using assms(1) by (simp_all add: fair_cluster_orders_def)
  have cs: "cor_Spec (coordinator_role A r img fqdn) = Some co" "wor_Spec (worker_role A r img fqdn) = Some wo"
    by (simp_all add: role_fields co wo)
  note c = coordinator_resources [OF fair(1) cs(1) co(2) role_fields(7) cr, unfolded role_fields]
  note w = worker_resources [OF fair(2) cs(2) wo(2) role_fields(14) wr, unfolded role_fields]
  have groups: "set (coordinator_groups (clr_Spec r)) = fst ` set (map_entries (co_RoleGroups co))"
    "set (worker_groups (clr_Spec r)) = fst ` set (map_entries (wo_RoleGroups wo))"
    by (simp_all add: coordinator_groups_def worker_groups_def co(1) wo(1))
  have "CoordinatorRole cr \<in> set (clr_resources r')" by (simp add: res)
  moreover have "\<exists>xs. cluster_bundle A C I r fqdn (coordinator_role_info r) n xs \<and> set xs \<subseteq> set (cor_resources cr)"
    if "n \<in> set (coordinator_groups (clr_Spec r))" for n
    using that c(2) [of n] unfolding cluster_bundle_def groups by blast
  ultimately have "\<exists>cr. CoordinatorRole cr \<in> set (clr_resources r') \<and> set (cor_resources cr) \<subseteq> set (group_resources_of r') \<and>
       (\<forall>n \<in> set (coordinator_groups (clr_Spec r)). \<exists>xs. cluster_bundle A C I r fqdn (coordinator_role_info r) n xs \<and>
          set xs \<subseteq> set (cor_resources cr))"
    unfolding all by blast
  moreover have "\<exists>role n xs. cluster_group r role n \<and> cluster_bundle A C I r fqdn role n xs \<and>
       x \<in> set xs \<and> set xs \<subseteq> set (group_resources_of r')" if "x \<in> set (group_resources_of r')" for x
  proof -
    from that consider "x \<in> set (cor_resources cr)" | "x \<in> set (wor_resources wr)" unfolding all by blast
    then show ?thesis
      unfolding cluster_group_def cluster_bundle_def all groups using c(1) [of x] w [of x] by cases blast+
  qed
  ultimately show thesis using that [OF ok] by blast
qed

section \<open>Identities\<close>

text \<open>Kind and name of everything a cluster reconciler has registered.\<close>

fun cluster_resource_ids :: "('q, 'x) cluster_resource \<Rightarrow> (string \<times> string) list" where
  "cluster_resource_ids (CoordinatorRole role) = map resource_id (cor_resources role)"
| "cluster_resource_ids (WorkerRole role) = map resource_id (wor_resources role)"
| "cluster_resource_ids (SharedSecretResource b) = [(''Secret'', cfb_Name (isb_base b))]"
| "cluster_resource_ids (ClusterServiceResource s) = [(''Service'', svc_Name s)]"

definition cluster_ids :: "('q, 'x) cluster_Reconciler \<Rightarrow> (string \<times> string) list" where
  "cluster_ids r = concat (map cluster_resource_ids (clr_resources r))"

lemma cluster_ids_mset:
  assumes "fair_cluster_orders ords" and "wf_spec (clr_Spec r)" and "clr_resources r = []"
    and "cluster_RegisterResources A M C I K ords r = (Inr u, r')"
  shows "mset (cluster_ids r') = mset (concat (map (group_ids I (coordinator_role_info r)) (coordinator_groups (clr_Spec r)))
    @ concat (map (group_ids I (worker_role_info r)) (worker_groups (clr_Spec r)))
    @ concat (map cluster_resource_ids (tail_resources C I r)))"
proof -
  obtain fqdn img cr wr where
    cr: "coordinator_RegisterResources M C I (ord_coordinators ords) (coordinator_role A r img fqdn) = (Inr (), cr)"
    and wr: "worker_RegisterResources M C I (ord_workers ords) (worker_role A r img fqdn) = (Inr (), wr)"
    and res: "clr_resources r' = clr_resources r @ [CoordinatorRole cr, WorkerRole wr] @ tail_resources C I r"
    using assms(4) by (rule cluster_register_ok)
  obtain co wo where spec: "tcs_Coordinators (clr_Spec r) = Some co" "wf_map (map_entries (co_RoleGroups co))"
    "tcs_Workers (clr_Spec r) = Some wo" "wf_map (map_entries (wo_RoleGroups wo))"
    using assms(2) by (auto simp: wf_spec_def)
  have fair: "fair_order (ord_groups (ord_coordinators ords))" "fair_order (ord_groups (ord_workers ords))"
    using assms(1) by (simp_all add: fair_cluster_orders_def)
  have "mset (map resource_id (cor_resources cr)) =
      mset (concat (map (group_ids I (coordinator_role_info r)) (coordinator_groups (clr_Spec r))))"
    using coordinator.register_idents [OF fair(1) _ spec(2) cr] spec(1)
    by (simp add: role_fields coordinator_groups_def)
  moreover have "mset (map resource_id (wor_resources wr)) =
      mset (concat (map (group_ids I (worker_role_info r)) (worker_groups (clr_Spec r))))"
    using worker.register_idents [OF fair(2) _ spec(4) wr] spec(3)
    by (simp add: role_fields worker_groups_def)
  ultimately show ?thesis by (simp add: cluster_ids_def res assms(3))
qed

lemma group_ids_names:
  "full_name_laws I \<Longrightarrow> (k, n) \<in> set (group_ids I role g) \<Longrightarrow> k \<noteq> ''Secret'' \<and>
     (\<exists>s. n = ci_ClusterName (ri_ClusterInfo role) @ ''-'' @ ri_RoleName role @ ''-'' @ s)"
  by (auto simp: group_ids_def full_name_laws_def Let_def)

lemma tail_ids:
  "full_name_laws I \<Longrightarrow> info_laws I \<Longrightarrow> concat (map cluster_resource_ids (tail_resources C I r)) =
     (if tls_enabled (clr_ClusterConfig r)
      then [(''Secret'', ci_ClusterName (clr_ClusterInfo r) @ ''-internal-shared-secret'')] else [])
     @ [(''Service'', ci_ClusterName (clr_ClusterInfo r) @ ''-coordinator'')]"
  by (simp add: tail_resources_def NewInternalsharedSecretReconciler_def getInternalSharedSecretName_def cluster_service_def
      full_name_laws_def info_laws_def coordinator_role_info_def RoleCoordinator_def)

section \<open>Success\<close>

text \<open>A specification from which everything can be registered.\<close>

definition deployable :: "('q, 'x) merge_api \<Rightarrow> ('q, 'x) TrinoClusterSpec \<Rightarrow> bool" where
  "deployable M spec \<longleftrightarrow> tcs_Image spec \<noteq> None \<and>
     (\<exists>co. tcs_Coordinators spec = Some co \<and>
        (\<forall>(n, g) \<in> set (map_entries (co_RoleGroups co)). group_merges M (co_BaseRoleSpec co) g)) \<and>
     (\<exists>wo. tcs_Workers spec = Some wo \<and>
        (\<forall>(n, g) \<in> set (map_entries (wo_RoleGroups wo)). group_merges M (wo_BaseRoleSpec wo) g))"

lemma cluster_succeeds_iff:
  assumes "fair_cluster_orders ords" and "wf_groups (clr_Spec r)"
  shows "(\<exists>r'. cluster_RegisterResources A M C I K ords r = (Inr (), r')) \<longleftrightarrow> deployable M (clr_Spec r)"
proof (cases "tcs_Coordinators (clr_Spec r) = None \<or> tcs_Image (clr_Spec r) = None")
  case True
  then show ?thesis unfolding deployable_def by (auto simp: cluster_register_run getCoordinatorSvcFqdn_def GetImage_def split: sum.splits)
next
  case False
  then obtain co img fqdn where co: "tcs_Coordinators (clr_Spec r) = Some co" "tcs_Image (clr_Spec r) \<noteq> None"
    and img: "GetImage A r = Inr img" and fqdn: "getCoordinatorSvcFqdn I K (ord_fqdn ords) r = Inr fqdn"
    by (auto simp: getCoordinatorSvcFqdn_def GetImage_def Let_def)
  let ?cr = "coordinator_role A r img fqdn" and ?wr = "worker_role A r img fqdn"
  have "(\<exists>r'. cluster_RegisterResources A M C I K ords r = (Inr (), r')) \<longleftrightarrow>
      (\<exists>cr. coordinator_RegisterResources M C I (ord_coordinators ords) ?cr = (Inr (), cr)) \<and>
      (\<exists>wr. worker_RegisterResources M C I (ord_workers ords) ?wr = (Inr (), wr))"
    by (auto simp: cluster_register_run img fqdn split: sum.splits prod.splits)
  moreover have "(\<exists>cr. coordinator_RegisterResources M C I (ord_coordinators ords) ?cr = (Inr (), cr)) \<longleftrightarrow>
      (\<forall>(n, g) \<in> set (map_entries (co_RoleGroups co)). group_merges M (co_BaseRoleSpec co) g)"
    using assms co by (intro coordinator_succeeds_iff) (simp_all add: fair_cluster_orders_def wf_groups_def role_fields)
  moreover have "(\<exists>wr. worker_RegisterResources M C I (ord_workers ords) ?wr = (Inr (), wr)) \<longleftrightarrow>
      (\<exists>wo. tcs_Workers (clr_Spec r) = Some wo \<and>
         (\<forall>(n, g) \<in> set (map_entries (wo_RoleGroups wo)). group_merges M (wo_BaseRoleSpec wo) g))"
  proof (cases "tcs_Workers (clr_Spec r)")
    case None
    then show ?thesis using worker.register_no_entries [of ?wr _ M C I "ord_workers ords"] by (simp add: role_fields)
  next
    case (Some wo)
    then show ?thesis
      using assms worker_succeeds_iff [of "ord_workers ords" ?wr wo M C I]
      by (simp add: fair_cluster_orders_def wf_groups_def role_fields)
  qed
  ultimately show ?thesis unfolding deployable_def using co by simp
qed

section \<open>The coordinator's host name\<close>

lemma coordinator_fqdn_inj:
  "full_name_laws I \<Longrightarrow> coordinator_fqdn I K r m = coordinator_fqdn I K r n \<longleftrightarrow> m = n"
  by (simp add: coordinator_fqdn_def full_name_laws_def)

lemma fqdn_head:
  assumes "tcs_Coordinators (clr_Spec r) = Some co" and "fair_order ord"
  shows "getCoordinatorSvcFqdn I K ord r = Inr (case ord (coordinator_groups (clr_Spec r)) of
    [] \<Rightarrow> [] | n # _ \<Rightarrow> coordinator_fqdn I K r n)"
  using assms by (simp add: getCoordinatorSvcFqdn_def coordinator_groups_def range_map_eq Let_def split: list.split)

lemma fqdn_of_group:
  assumes "fair_cluster_orders ords" and "wf_spec (clr_Spec r)" and "coordinator_groups (clr_Spec r) \<noteq> []"
    and "getCoordinatorSvcFqdn I K (ord_fqdn ords) r = Inr fqdn"
  obtains n where "n \<in> set (coordinator_groups (clr_Spec r))" "fqdn = coordinator_fqdn I K r n"
proof -
  have f: "fair_order (ord_fqdn ords)" using assms(1) by (simp add: fair_cluster_orders_def)
  obtain co where co: "tcs_Coordinators (clr_Spec r) = Some co" using assms(2) by (auto simp: wf_spec_def)
  obtain n ns where n: "ord_fqdn ords (coordinator_groups (clr_Spec r)) = n # ns"
    using fair_order_set [OF f, of "coordinator_groups (clr_Spec r)"] assms(3)
    by (cases "ord_fqdn ords (coordinator_groups (clr_Spec r))") auto
  then have "n \<in> set (coordinator_groups (clr_Spec r))"
    using fair_order_set [OF f, of "coordinator_groups (clr_Spec r)"] by auto
  moreover have "fqdn = coordinator_fqdn I K r n" using assms(4) n by (simp add: fqdn_head [OF co f])
  ultimately show thesis by (rule that)
qed

text \<open>Every group can come first in some fair order.\<close>

lemma fair_order_first:
  assumes "n \<in> set ks"
  shows "\<exists>ord rest. fair_order ord \<and> ord ks = n # rest"
proof -
  define ord where "ord ks' = (if ks' = ks then n # remove1 n ks else ks')" for ks'
  have "mset (n # remove1 n ks) = mset ks" using assms by simp
  then have "fair_order ord" by (simp add: fair_order_def ord_def)
  moreover have "ord ks = n # remove1 n ks" by (simp add: ord_def)
  ultimately show ?thesis by blast
qed

section \<open>A small world for the examples\<close>

definition example_cluster_api :: "string cluster_api" where
  "example_cluster_api = \<lparr>BuildVersion = ''0.0.0-dev'', IsStopped = (\<lambda>op. op = Some ''stopped'')\<rparr>"

definition example_spec :: "(int, string) CoordinatorsSpec \<Rightarrow> (int, string) WorkersSpec \<Rightarrow> (int, string) TrinoClusterSpec" where
  "example_spec co wo = \<lparr>tcs_ClusterConfig = Some example_ss_config, tcs_ClusterOperation = None,
     tcs_Image = Some \<lparr>is_Custom = [], is_Repo = ''quay.io/zncdatadev'', is_KubedoopVersion = [], is_ProductVersion = [],
       is_PullPolicy = ''IfNotPresent'', is_PullSecretName = []\<rparr>,
     tcs_Coordinators = Some co, tcs_Workers = Some wo\<rparr>"

definition example_cluster :: "(int, string) CoordinatorsSpec \<Rightarrow> (int, string) WorkersSpec \<Rightarrow> (int, string) cluster_Reconciler" where
  "example_cluster co wo = NewClusterReconciler \<lparr>ci_GVK = (''trino.kubedoop.dev'', ''v1alpha1'', ''TrinoCluster''),
     ci_ClusterName = ''trino''\<rparr> (example_spec co wo)"

definition example_cluster_orders :: cluster_orders where
  "example_cluster_orders = \<lparr>ord_fqdn = rev, ord_coordinators = example_role_orders, ord_workers = example_role_orders\<rparr>"

lemma example_cluster_fields:
  "tcs_Coordinators (clr_Spec (example_cluster co wo)) = Some co" "tcs_Workers (clr_Spec (example_cluster co wo)) = Some wo"
  "clr_ClusterConfig (example_cluster co wo) = Some example_ss_config" "clr_resources (example_cluster co wo) = []"
  "\<exists>img. GetImage example_cluster_api (example_cluster co wo) = Inr img"
  "\<exists>fqdn. getCoordinatorSvcFqdn I K ord (example_cluster co wo) = Inr fqdn"
  by (simp_all add: example_cluster_def NewClusterReconciler_def example_spec_def GetImage_def getCoordinatorSvcFqdn_def Let_def)

lemma example_cluster_fair: "fair_cluster_orders example_cluster_orders"
  by (simp add: fair_cluster_orders_def example_cluster_orders_def example_role_orders_def)

lemma example_cluster_wf: "wf_spec (clr_Spec (example_cluster example_coordinators example_workers))"
  by (simp add: wf_spec_def example_cluster_fields example_coordinators_def example_workers_def wf_map_def)

lemma example_register:
  obtains r' where "cluster_RegisterResources example_cluster_api example_merge example_consts example_infos example_client
    example_cluster_orders (example_cluster example_coordinators example_workers) = (Inr (), r')"
proof -
  let ?r = "example_cluster example_coordinators example_workers"
  obtain img fqdn where img: "GetImage example_cluster_api ?r = Inr img"
    and fqdn: "getCoordinatorSvcFqdn example_infos example_client rev ?r = Inr fqdn"
    using example_cluster_fields(5,6) by blast
  obtain cr wr where "coordinator_RegisterResources example_merge example_consts example_infos example_role_orders
      (coordinator_role example_cluster_api ?r img fqdn) = (Inr (), cr)"
    and "worker_RegisterResources example_merge example_consts example_infos example_role_orders
      (worker_role example_cluster_api ?r img fqdn) = (Inr (), wr)"
    using example_coordinator_ok [of "coordinator_role example_cluster_api ?r img fqdn" example_consts example_infos]
      example_worker_ok [of "worker_role example_cluster_api ?r img fqdn" example_consts example_infos]
    by (metis role_fields(6,13) example_cluster_fields(1,2) prod.collapse)
  with img fqdn that show thesis by (simp add: cluster_register_run example_cluster_orders_def)
qed

section \<open>Properties of the cluster\<close>

text \<open>
  C6. A cluster that registers without a fault has exactly these resources, in this order: the
  coordinator role, the worker role, the shared secret if and only if TLS is configured, and the
  coordinator service on the port that matches; both roles were given the same image, configuration
  and coordinator host name.
\<close>

theorem cluster_registers:
  assumes "cluster_RegisterResources A M C I K ords r = (Inr u, r')"
  shows "\<exists>fqdn img cr wr. getCoordinatorSvcFqdn I K (ord_fqdn ords) r = Inr fqdn \<and> GetImage A r = Inr img \<and>
    coordinator_RegisterResources M C I (ord_coordinators ords) (coordinator_role A r img fqdn) = (Inr (), cr) \<and>
    worker_RegisterResources M C I (ord_workers ords) (worker_role A r img fqdn) = (Inr (), wr) \<and>
    clr_resources r' = clr_resources r @ [CoordinatorRole cr, WorkerRole wr]
      @ (if tls_enabled (clr_ClusterConfig r)
         then [SharedSecretResource (NewInternalsharedSecretReconciler I (clr_ClusterInfo r))] else [])
      @ [ClusterServiceResource (cluster_service C I r)] \<and>
    svc_Ports (cluster_service C I r) = role_ports (clr_ClusterConfig r)"
proof -
  have "svc_Ports (cluster_service C I r) = role_ports (clr_ClusterConfig r)"
    by (simp add: cluster_service_def role_ports_def)
  with assms show ?thesis by (elim cluster_register_ok) (auto simp: tail_resources_def)
qed

theorem cluster_registers_witness:
  "\<exists>r' cr wr sec svc. cluster_RegisterResources example_cluster_api example_merge example_consts example_infos example_client
      example_cluster_orders (example_cluster example_coordinators example_workers) = (Inr (), r') \<and>
    clr_resources r' = [CoordinatorRole cr, WorkerRole wr, SharedSecretResource sec, ClusterServiceResource svc]"
proof -
  obtain r' where r': "cluster_RegisterResources example_cluster_api example_merge example_consts example_infos example_client
    example_cluster_orders (example_cluster example_coordinators example_workers) = (Inr (), r')"
    by (rule example_register)
  have "tls_enabled (Some example_ss_config)"
    by (simp add: tls_enabled_def example_ss_config_def example_cluster_config_def)
  with cluster_registers [OF r'] r' show ?thesis by (auto simp: example_cluster_fields)
qed

text \<open>
  C7. Registration of a cluster succeeds if and only if an image section, coordinators and workers are
  given and, in both roles, every role group is there and its configuration and overrides can be
  merged with those of the role. Neither the orders of the map loops nor anything else decides.
\<close>

theorem cluster_registration_succeeds_iff:
  assumes "fair_cluster_orders ords" and "wf_groups (clr_Spec r)"
  shows "(\<exists>r'. cluster_RegisterResources A M C I K ords r = (Inr (), r')) \<longleftrightarrow>
    tcs_Image (clr_Spec r) \<noteq> None \<and>
    (\<exists>co. tcs_Coordinators (clr_Spec r) = Some co \<and>
       (\<forall>(n, g) \<in> set (map_entries (co_RoleGroups co)). group_merges M (co_BaseRoleSpec co) g)) \<and>
    (\<exists>wo. tcs_Workers (clr_Spec r) = Some wo \<and>
       (\<forall>(n, g) \<in> set (map_entries (wo_RoleGroups wo)). group_merges M (wo_BaseRoleSpec wo) g))"
  using cluster_succeeds_iff [OF assms] unfolding deployable_def .

theorem cluster_registration_succeeds_iff_witness:
  "\<not> (\<exists>r'. cluster_RegisterResources example_cluster_api example_merge example_consts example_infos example_client
       example_cluster_orders (example_cluster example_coordinators (example_workers\<lparr>wo_RoleGroups := Some [(''a'', None)]\<rparr>)) = (Inr (), r'))"
proof -
  let ?r = "example_cluster example_coordinators (example_workers\<lparr>wo_RoleGroups := Some [(''a'', None)]\<rparr>)"
  have "wf_groups (clr_Spec ?r)" by (simp add: wf_groups_def example_cluster_fields example_coordinators_def wf_map_def)
  from cluster_registration_succeeds_iff [OF example_cluster_fair this] show ?thesis
    by (simp add: example_cluster_fields group_merges_def)
qed

text \<open>
  C19. A cluster whose registration fails has registered nothing, or its coordinator role alone: a
  fault of the coordinators keeps the workers, the secret and the service out, a fault of the
  workers keeps the secret and the service out.
\<close>

theorem cluster_register_fault:
  assumes "cluster_RegisterResources A M C I K ords r = (Inl f, r')"
  shows "r' = r \<or> (\<exists>cr fqdn img. r' = r\<lparr>clr_resources := clr_resources r @ [CoordinatorRole cr]\<rparr> \<and>
    coordinator_RegisterResources M C I (ord_coordinators ords) (coordinator_role A r img fqdn) = (Inr (), cr) \<and>
    fst (worker_RegisterResources M C I (ord_workers ords) (worker_role A r img fqdn)) = Inl f)"
  using assms unfolding cluster_register_run by (auto split: sum.splits prod.splits) (metis fst_conv)

text \<open>A worker role with a nil role group.\<close>

theorem cluster_register_fault_witness:
  "\<exists>f r'. cluster_RegisterResources example_cluster_api example_merge example_consts example_infos example_client
      example_cluster_orders (example_cluster example_coordinators (example_workers\<lparr>wo_RoleGroups := Some [(''a'', None)]\<rparr>)) = (Inl f, r') \<and>
    length (clr_resources r') \<le> 1"
proof -
  let ?wo = "example_workers\<lparr>wo_RoleGroups := Some [(''a'', None)]\<rparr>"
  let ?r = "example_cluster example_coordinators ?wo"
  have no: "worker_RegisterResources example_merge example_consts example_infos example_role_orders
      (worker_role example_cluster_api ?r img fqdn) \<noteq> (Inr (), wr)" for img fqdn wr
    using worker.register_ok [of "worker_role example_cluster_api ?r img fqdn" "[(''a'', None)]" example_merge
        example_consts example_infos example_role_orders wr]
    by (auto simp: role_fields example_cluster_fields example_role_orders_def worker_group_resources_def)
  obtain res r' where run: "cluster_RegisterResources example_cluster_api example_merge example_consts example_infos
      example_client example_cluster_orders ?r = (res, r')"
    by fastforce
  have "res \<noteq> Inr u" for u
    using run no by (auto elim!: cluster_register_ok simp: example_cluster_orders_def)
  then obtain f where fail: "cluster_RegisterResources example_cluster_api example_merge example_consts example_infos
      example_client example_cluster_orders ?r = (Inl f, r')"
    using run by (cases res) auto
  with cluster_register_fault [OF fail] show ?thesis by (auto simp: example_cluster_fields)
qed

text \<open>
  C33. The coordinator host name given to every node is that of one coordinator role group, and any of
  them: the run time's choice of map order decides which. So the discovery address is determined
  exactly when there is at most one coordinator role group.
\<close>

theorem coordinator_fqdn_choice:
  assumes "tcs_Coordinators (clr_Spec r) = Some co" and "coordinator_groups (clr_Spec r) \<noteq> []"
  shows "{fqdn. \<exists>ord. fair_order ord \<and> getCoordinatorSvcFqdn I K ord r = Inr fqdn}
    = coordinator_fqdn I K r ` set (coordinator_groups (clr_Spec r))"
proof (intro set_eqI iffI)
  fix x assume "x \<in> {fqdn. \<exists>ord. fair_order ord \<and> getCoordinatorSvcFqdn I K ord r = Inr fqdn}"
  then obtain ord where f: "fair_order ord" and x: "getCoordinatorSvcFqdn I K ord r = Inr x" by blast
  have "ord (coordinator_groups (clr_Spec r)) \<noteq> []"
    using fair_order_set [OF f, of "coordinator_groups (clr_Spec r)"] assms(2) by auto
  then obtain n ns where n: "ord (coordinator_groups (clr_Spec r)) = n # ns" by (cases "ord (coordinator_groups (clr_Spec r))") auto
  then have "n \<in> set (coordinator_groups (clr_Spec r))"
    using fair_order_set [OF f, of "coordinator_groups (clr_Spec r)"] by auto
  moreover have "x = coordinator_fqdn I K r n" using x n by (simp add: fqdn_head [OF assms(1) f])
  ultimately show "x \<in> coordinator_fqdn I K r ` set (coordinator_groups (clr_Spec r))" by blast
next
  fix x assume "x \<in> coordinator_fqdn I K r ` set (coordinator_groups (clr_Spec r))"
  then obtain n where n: "n \<in> set (coordinator_groups (clr_Spec r))" and x: "x = coordinator_fqdn I K r n" by blast
  obtain ord rest where "fair_order ord" "ord (coordinator_groups (clr_Spec r)) = n # rest"
    using fair_order_first [OF n] by blast
  then show "x \<in> {fqdn. \<exists>ord. fair_order ord \<and> getCoordinatorSvcFqdn I K ord r = Inr fqdn}"
    using x by (auto simp: fqdn_head [OF assms(1)])
qed

theorem coordinator_fqdn_choice_witness:
  "{fqdn. \<exists>ord. fair_order ord \<and> getCoordinatorSvcFqdn example_infos example_client ord
      (example_cluster (example_coordinators\<lparr>co_RoleGroups := Some [(''a'', None), (''b'', None)]\<rparr>) example_workers) = Inr fqdn}
    = {''trino-coordinator-a.prod.svc.cluster.local'', ''trino-coordinator-b.prod.svc.cluster.local''}"
  using coordinator_fqdn_choice [of "example_cluster (example_coordinators\<lparr>co_RoleGroups := Some [(''a'', None), (''b'', None)]\<rparr>)
      example_workers" _ example_infos example_client]
  by (simp add: example_cluster_fields coordinator_groups_def)
    (simp add: coordinator_fqdn_def coordinator_role_info_def example_infos_def example_client_def example_cluster_def
      NewClusterReconciler_def RoleCoordinator_def)

text \<open>
  C16. No two resources that a cluster registers share kind and name, across both roles, the secret and
  the coordinator service, unless some role has two groups one of which is named like the other with
  \<open>-metrics\<close> appended.
\<close>

theorem cluster_ids_distinct:
  assumes "fair_cluster_orders ords" and "wf_spec (clr_Spec r)" and "clr_resources r = []"
    and "cluster_RegisterResources A M C I K ords r = (Inr u, r')" and "full_name_laws I" and "info_laws I"
  shows "distinct (cluster_ids r') \<longleftrightarrow>
    (\<forall>n \<in> set (coordinator_groups (clr_Spec r)). n @ ''-metrics'' \<notin> set (coordinator_groups (clr_Spec r))) \<and>
    (\<forall>n \<in> set (worker_groups (clr_Spec r)). n @ ''-metrics'' \<notin> set (worker_groups (clr_Spec r)))"
proof -
  define cs where "cs = concat (map (group_ids I (coordinator_role_info r)) (coordinator_groups (clr_Spec r)))"
  define ws where "ws = concat (map (group_ids I (worker_role_info r)) (worker_groups (clr_Spec r)))"
  define ts where "ts = concat (map cluster_resource_ids (tail_resources C I r))"
  let ?c = "ci_ClusterName (clr_ClusterInfo r)"
  have c: "k \<noteq> ''Secret'' \<and> (\<exists>s. n = ?c @ ''-coordinator-'' @ s)" if "(k, n) \<in> set cs" for k n
    using that group_ids_names [OF assms(5)]
    by (fastforce simp: cs_def coordinator_role_info_def RoleCoordinator_def)
  have w: "k \<noteq> ''Secret'' \<and> (\<exists>s. n = ?c @ ''-worker-'' @ s)" if "(k, n) \<in> set ws" for k n
    using that group_ids_names [OF assms(5)]
    by (fastforce simp: ws_def worker_role_info_def RoleWorker_def)
  have t: "(k, n) = (''Secret'', ?c @ ''-internal-shared-secret'') \<or> (k, n) = (''Service'', ?c @ ''-coordinator'')"
    if "(k, n) \<in> set ts" for k n
    using that by (auto simp: ts_def tail_ids [OF assms(5,6)] split: if_splits)
  have "set cs \<inter> set ws = {}" using c w by fastforce
  moreover have "(set cs \<union> set ws) \<inter> set ts = {}" using c w t by fastforce
  moreover have "distinct ts" by (simp add: ts_def tail_ids [OF assms(5,6)])
  moreover have "distinct (coordinator_groups (clr_Spec r))" "distinct (worker_groups (clr_Spec r))"
    using assms(2) by (auto simp: wf_spec_def coordinator_groups_def worker_groups_def wf_map_def)
  moreover have "distinct (cluster_ids r') \<longleftrightarrow> distinct (cs @ ws @ ts)"
    using cluster_ids_mset [OF assms(1-4)] unfolding cs_def ws_def ts_def by (rule mset_eq_imp_distinct_iff)
  ultimately show ?thesis
    using group_ids_distinct [OF assms(5)] by (auto simp: cs_def ws_def)
qed

theorem cluster_ids_distinct_witness:
  "\<exists>r'. cluster_RegisterResources example_cluster_api example_merge example_consts example_infos example_client
      example_cluster_orders (example_cluster example_coordinators example_workers) = (Inr (), r') \<and> distinct (cluster_ids r')"
proof -
  obtain r' where r': "cluster_RegisterResources example_cluster_api example_merge example_consts example_infos example_client
    example_cluster_orders (example_cluster example_coordinators example_workers) = (Inr (), r')"
    by (rule example_register)
  with cluster_ids_distinct [OF example_cluster_fair example_cluster_wf _ r' example_info_laws(2,1)] show ?thesis
    by (auto simp: example_cluster_fields coordinator_groups_def worker_groups_def example_coordinators_def example_workers_def)
qed

text \<open>
  C18. For an existing cluster the controller runs what the specification asks for, whatever orders the
  run time chose for the map loops: if image, coordinators and workers are given and every role group
  can be merged with its role, then \<open>Reconcile\<close> is \<open>Run\<close> of a reconciler whose resources are, by kind
  and name, those of each coordinator and each worker role group, the shared secret if and only if TLS
  is configured, and the coordinator service, each once. Otherwise nothing is run and a fault is
  returned. Role groups are Go maps, and full names are cluster, role and group joined by dashes.
\<close>

theorem reconcile_runs_specification:
  assumes "fair_cluster_orders ords" and "wf_groups (tc_Spec inst)" and "full_name_laws I" and "info_laws I"
    and "ctl_Get W w req = Inr inst"
  defines "info \<equiv> \<lparr>ci_GVK = tc_GVK inst, ci_ClusterName = tc_Name inst\<rparr>"
  shows "if deployable M (tc_Spec inst)
    then \<exists>r. TrinoReconciler_Reconcile W A M C I ords req w = ctl_Run W r w \<and>
      mset (cluster_ids r) =
        mset (concat (map (group_ids I \<lparr>ri_ClusterInfo = info, ri_RoleName = ''coordinator''\<rparr>) (coordinator_groups (tc_Spec inst)))
          @ concat (map (group_ids I \<lparr>ri_ClusterInfo = info, ri_RoleName = ''worker''\<rparr>) (worker_groups (tc_Spec inst)))
          @ (if tls_enabled (tcs_ClusterConfig (tc_Spec inst)) then [(''Secret'', tc_Name inst @ ''-internal-shared-secret'')] else [])
          @ [(''Service'', tc_Name inst @ ''-coordinator'')])
    else \<exists>f. TrinoReconciler_Reconcile W A M C I ords req w = (Inl f, w)"
proof -
  let ?K = "ctl_client W inst" and ?r = "NewClusterReconciler info (tc_Spec inst)"
  have r: "clr_Spec ?r = tc_Spec inst" "clr_resources ?r = []" "clr_ClusterInfo ?r = info"
    "clr_ClusterConfig ?r = tcs_ClusterConfig (tc_Spec inst)"
    "coordinator_role_info ?r = \<lparr>ri_ClusterInfo = info, ri_RoleName = ''coordinator''\<rparr>"
    "worker_role_info ?r = \<lparr>ri_ClusterInfo = info, ri_RoleName = ''worker''\<rparr>"
    by (simp_all add: NewClusterReconciler_def coordinator_role_info_def worker_role_info_def RoleCoordinator_def RoleWorker_def)
  have name: "ci_ClusterName info = tc_Name inst" by (simp add: info_def)
  have reconcile: "TrinoReconciler_Reconcile W A M C I ords req w =
      (case cluster_RegisterResources A M C I ?K ords ?r of (Inl f, _) \<Rightarrow> (Inl f, w) | (Inr _, r) \<Rightarrow> ctl_Run W r w)"
    using assms(5) by (simp add: TrinoReconciler_Reconcile_def info_def)
  have iff: "(\<exists>r'. cluster_RegisterResources A M C I ?K ords ?r = (Inr (), r')) \<longleftrightarrow> deployable M (tc_Spec inst)"
    using cluster_succeeds_iff [OF assms(1), of ?r] assms(2) by (simp add: r)
  show ?thesis
  proof (cases "deployable M (tc_Spec inst)")
    case True
    with iff obtain r' where r': "cluster_RegisterResources A M C I ?K ords ?r = (Inr (), r')" by blast
    have "wf_spec (clr_Spec ?r)" using True assms(2) by (auto simp: r deployable_def wf_spec_def wf_groups_def)
    note ids = cluster_ids_mset [OF assms(1) this r(2) r', unfolded tail_ids [OF assms(3,4)] r name]
    have "TrinoReconciler_Reconcile W A M C I ords req w = ctl_Run W r' w" by (simp add: reconcile r')
    with ids True show ?thesis by (simp only: if_True) blast
  next
    case False
    with iff reconcile show ?thesis
      by (cases "fst (cluster_RegisterResources A M C I ?K ords ?r)") (auto split: prod.splits sum.splits)
  qed
qed

text \<open>A world that records the identities it was last asked to run.\<close>

definition example_controller :: "((string \<times> string) list, int, string) controller_api" where
  "example_controller = \<lparr>ctl_Get = (\<lambda>w req. if req = (''prod'', ''trino'') then Inr \<lparr>tc_Name = ''trino'',
       tc_GVK = (''trino.kubedoop.dev'', ''v1alpha1'', ''TrinoCluster''),
       tc_Spec = example_spec example_coordinators example_workers, tc_Status = []\<rparr> else Inl (LibError ''not found'')),
     ctl_IgnoreNotFound = IgnoreNotFound example_client, ctl_client = (\<lambda>_. example_client),
     ctl_Run = (\<lambda>r w. (Inr zero_Result, cluster_ids r))\<rparr>"

theorem reconcile_runs_specification_witness:
  "\<exists>ids. TrinoReconciler_Reconcile example_controller example_cluster_api example_merge example_consts example_infos
     example_cluster_orders (''prod'', ''trino'') [] = (Inr zero_Result, ids) \<and>
   set ids = {(''ConfigMap'', ''trino-coordinator-default''), (''Service'', ''trino-coordinator-default''),
     (''Service'', ''trino-coordinator-default-metrics''), (''StatefulSet'', ''trino-coordinator-default''),
     (''ConfigMap'', ''trino-worker-small''), (''Service'', ''trino-worker-small''),
     (''Service'', ''trino-worker-small-metrics''), (''StatefulSet'', ''trino-worker-small''),
     (''ConfigMap'', ''trino-worker-large''), (''Service'', ''trino-worker-large''),
     (''Service'', ''trino-worker-large-metrics''), (''StatefulSet'', ''trino-worker-large''),
     (''Secret'', ''trino-internal-shared-secret''), (''Service'', ''trino-coordinator'')}"
proof -
  define inst :: "(int, string) TrinoCluster" where "inst = \<lparr>tc_Name = ''trino'',
       tc_GVK = (''trino.kubedoop.dev'', ''v1alpha1'', ''TrinoCluster''),
       tc_Spec = example_spec example_coordinators example_workers, tc_Status = []\<rparr>"
  have get: "ctl_Get example_controller w (''prod'', ''trino'') = Inr inst" for w
    by (simp add: example_controller_def inst_def)
  have spec: "tc_Spec inst = example_spec example_coordinators example_workers" "tc_Name inst = ''trino''"
    by (simp_all add: inst_def)
  have wf: "wf_groups (tc_Spec inst)"
    by (simp add: spec wf_groups_def example_spec_def example_coordinators_def example_workers_def wf_map_def)
  have dep: "deployable example_merge (tc_Spec inst)"
    by (simp add: spec deployable_def example_spec_def example_coordinators_def example_workers_def group_merges_def
        example_role_group_def example_merge_def)
  have groups: "coordinator_groups (tc_Spec inst) = [''default'']" "worker_groups (tc_Spec inst) = [''small'', ''large'']"
    "tls_enabled (tcs_ClusterConfig (tc_Spec inst))"
    by (simp_all add: spec coordinator_groups_def worker_groups_def example_spec_def example_coordinators_def
        example_workers_def tls_enabled_def example_ss_config_def example_cluster_config_def)
  have ids: "group_ids example_infos \<lparr>ri_ClusterInfo = \<lparr>ci_GVK = gvk, ci_ClusterName = ''trino''\<rparr>, ri_RoleName = role\<rparr> n =
      (let full = ''trino-'' @ role @ ''-'' @ n in [(''ConfigMap'', full), (''Service'', full),
        (''Service'', full @ ''-metrics''), (''StatefulSet'', full)])" for gvk role n
    by (simp add: group_ids_def example_infos_def Let_def)
  from reconcile_runs_specification [OF example_cluster_fair wf example_info_laws(2,1) get, of example_merge
      example_cluster_api example_consts "[]"] dep
  obtain r where run: "TrinoReconciler_Reconcile example_controller example_cluster_api example_merge example_consts example_infos
      example_cluster_orders (''prod'', ''trino'') [] = ctl_Run example_controller r []"
    and m: "mset (cluster_ids r) = mset (concat (map (group_ids example_infos \<lparr>ri_ClusterInfo = \<lparr>ci_GVK = tc_GVK inst,
        ci_ClusterName = ''trino''\<rparr>, ri_RoleName = ''coordinator''\<rparr>) [''default''])
      @ concat (map (group_ids example_infos \<lparr>ri_ClusterInfo = \<lparr>ci_GVK = tc_GVK inst,
        ci_ClusterName = ''trino''\<rparr>, ri_RoleName = ''worker''\<rparr>) [''small'', ''large''])
      @ [(''Secret'', ''trino-internal-shared-secret''), (''Service'', ''trino-coordinator'')])"
    by (auto simp: groups spec(2))
  from run have "TrinoReconciler_Reconcile example_controller example_cluster_api example_merge example_consts example_infos
      example_cluster_orders (''prod'', ''trino'') [] = (Inr zero_Result, cluster_ids r)"
    by (simp add: example_controller_def)
  with mset_eq_setD [OF m] show ?thesis by (simp add: ids Let_def insert_commute)
qed

end
