(* ===== verification/Go_Heap.thy ===== *)
theory Go_Heap
  imports Trino_Prelude
begin

text \<open>
  Go memory, as far as aliasing matters. The heap is the list of the cells allocated so far, and an
  address is a position in it: allocation appends a cell, so an address at or beyond the length of
  an earlier heap is fresh with respect to it. A cell holds a struct, a scalar, the array behind
  slices or the entries of a map; a location is an address with a path of struct fields and array
  indices, so that the address of a field (\<open>&out.Spec\<close>) or of an element (\<open>&(*out)[i]\<close>) is a
  location too. Slices have an offset and a length; capacity is not modelled, since nothing here
  appends.

  A \<open>gotree\<close> is the value that a Go value denotes once all references are followed, and \<open>reads A h v t\<close>
  says that \<open>v\<close> denotes \<open>t\<close> in the heap \<open>h\<close> by following only references to cells in \<open>A\<close>. A deep copy
  is then a value that denotes the same tree through fresh cells alone.
\<close>

section \<open>Values, types and trees\<close>

datatype lit = Str string | Num int | Flag bool

datatype gotype =
    TyString
  | TyInt
  | TyBool
  | TyStruct "(string \<times> gotype) list"
  | TyPtr gotype
  | TySlice gotype
  | TyMap gotype

datatype step = Fld string | Idx nat

type_synonym loc = "nat \<times> step list"

datatype goval =
    Lit lit
  | Struct "(string \<times> goval) list"
  | Ptr "loc option"
  | Slice "(nat \<times> nat \<times> nat) option"
  | MapRef "nat option"
  | Arr "goval list"
  | Entries "(string \<times> goval) list"

datatype gotree =
    TLit lit
  | TStruct "(string \<times> gotree) list"
  | TPtr "gotree option"
  | TSlice "gotree list option"
  | TMap "(string \<Rightarrow> gotree option) option"

type_synonym heap = "goval list"

text \<open>The zero value of a type, which \<open>new\<close> and \<open>make\<close> store.\<close>

primrec zero_val :: "gotype \<Rightarrow> goval" where
  "zero_val TyString = Lit (Str [])"
| "zero_val TyInt = Lit (Num 0)"
| "zero_val TyBool = Lit (Flag False)"
| "zero_val (TyStruct fs) = Struct (map (map_prod id zero_val) fs)"
| "zero_val (TyPtr ty) = Ptr None"
| "zero_val (TySlice ty) = Slice None"
| "zero_val (TyMap ty) = MapRef None"

text \<open>Types without pointers, slices and maps: assignment copies all of their values.\<close>

primrec flat :: "gotype \<Rightarrow> bool" where
  "flat TyString = True"
| "flat TyInt = True"
| "flat TyBool = True"
| "flat (TyStruct fs) = list_all snd (map (map_prod id flat) fs)"
| "flat (TyPtr ty) = False"
| "flat (TySlice ty) = False"
| "flat (TyMap ty) = False"

inductive conforms :: "gotype \<Rightarrow> gotree \<Rightarrow> bool" where
  conforms_string: "conforms TyString (TLit (Str s))"
| conforms_int: "conforms TyInt (TLit (Num i))"
| conforms_bool: "conforms TyBool (TLit (Flag b))"
| conforms_struct: "list_all2 (rel_prod (=) conforms) tys ts \<Longrightarrow> conforms (TyStruct tys) (TStruct ts)"
| conforms_nil_ptr: "conforms (TyPtr ty) (TPtr None)"
| conforms_ptr: "conforms ty t \<Longrightarrow> conforms (TyPtr ty) (TPtr (Some t))"
| conforms_nil_slice: "conforms (TySlice ty) (TSlice None)"
| conforms_slice: "list_all (conforms ty) ts \<Longrightarrow> conforms (TySlice ty) (TSlice (Some ts))"
| conforms_nil_map: "conforms (TyMap ty) (TMap None)"
| conforms_map: "(\<And>k t. m k = Some t \<Longrightarrow> conforms ty t) \<Longrightarrow> conforms (TyMap ty) (TMap (Some m))"
  monos list_all2_mono list.pred_mono prod.rel_mono

inductive_cases conforms_flatE [elim!]:
  "conforms TyString t" "conforms TyInt t" "conforms TyBool t"
inductive_cases conforms_structE [elim!]: "conforms (TyStruct tys) t"
inductive_cases conforms_ptrE [elim!]: "conforms (TyPtr ty) t"
inductive_cases conforms_sliceE [elim!]: "conforms (TySlice ty) t"
inductive_cases conforms_mapE [elim!]: "conforms (TyMap ty) t"

section \<open>Locations\<close>

primrec sub :: "step list \<Rightarrow> goval \<Rightarrow> goval option" where
  "sub [] v = Some v"
| "sub (s # p) v = (case (s, v) of
     (Fld f, Struct fs) \<Rightarrow> (case map_of fs f of None \<Rightarrow> None | Some w \<Rightarrow> sub p w)
   | (Idx i, Arr vs) \<Rightarrow> (if i < length vs then sub p (vs ! i) else None)
   | _ \<Rightarrow> None)"

primrec subst :: "step list \<Rightarrow> goval \<Rightarrow> goval \<Rightarrow> goval" where
  "subst [] w v = w"
| "subst (s # p) w v = (case (s, v) of
     (Fld f, Struct fs) \<Rightarrow> (case map_of fs f of None \<Rightarrow> v | Some x \<Rightarrow> Struct (AList.update f (subst p w x) fs))
   | (Idx i, Arr vs) \<Rightarrow> Arr (vs[i := subst p w (vs ! i)])
   | _ \<Rightarrow> v)"

definition load :: "heap \<Rightarrow> loc \<Rightarrow> goval option" where
  "load h l = (if fst l < length h then sub (snd l) (h ! fst l) else None)"

definition put :: "heap \<Rightarrow> loc \<Rightarrow> goval \<Rightarrow> heap" where
  "put h l w = h[fst l := subst (snd l) w (h ! fst l)]"

definition dot :: "loc \<Rightarrow> string \<Rightarrow> loc" where
  "dot l f = (fst l, snd l @ [Fld f])"

definition load_st :: "loc \<Rightarrow> (heap, goval) st" where
  "load_st l = gets_st (\<lambda>h. deref ''memory'' (load h l))"

definition store :: "loc \<Rightarrow> goval \<Rightarrow> (heap, unit) st" where
  "store l w = bind_st (load_st l) (\<lambda>_. modify_st (\<lambda>h. put h l w))"

definition new_st :: "goval \<Rightarrow> (heap, loc) st" where
  "new_st v = (\<lambda>h. (Inr (length h, []), h @ [v]))"

text \<open>\<open>m[key] = val\<close> on the map in the cell \<open>n\<close>.\<close>

definition map_put :: "nat \<Rightarrow> string \<Rightarrow> goval \<Rightarrow> (heap, unit) st" where
  "map_put n k v = bind_st (load_st (n, [])) (\<lambda>c.
     case c of Entries es \<Rightarrow> store (n, []) (Entries (AList.update k v es))
     | _ \<Rightarrow> lift_st (Inl (Panic ''not a map'')))"

section \<open>What a value denotes\<close>

inductive reads :: "nat set \<Rightarrow> heap \<Rightarrow> goval \<Rightarrow> gotree \<Rightarrow> bool" for A :: "nat set" and h :: heap where
  reads_lit: "reads A h (Lit x) (TLit x)"
| reads_struct: "list_all2 (rel_prod (=) (reads A h)) fs ts \<Longrightarrow> reads A h (Struct fs) (TStruct ts)"
| reads_nil_ptr: "reads A h (Ptr None) (TPtr None)"
| reads_ptr: "fst l \<in> A \<Longrightarrow> load h l = Some v \<Longrightarrow> reads A h v t \<Longrightarrow> reads A h (Ptr (Some l)) (TPtr (Some t))"
| reads_nil_slice: "reads A h (Slice None) (TSlice None)"
| reads_slice: "a \<in> A \<Longrightarrow> load h (a, []) = Some (Arr vs) \<Longrightarrow> off + len \<le> length vs \<Longrightarrow>
    list_all2 (reads A h) (take len (drop off vs)) ts \<Longrightarrow>
    reads A h (Slice (Some (a, off, len))) (TSlice (Some ts))"
| reads_nil_map: "reads A h (MapRef None) (TMap None)"
| reads_map: "a \<in> A \<Longrightarrow> load h (a, []) = Some (Entries es) \<Longrightarrow> wf_map es \<Longrightarrow>
    (\<And>k. rel_option (reads A h) (map_of es k) (m k)) \<Longrightarrow>
    reads A h (MapRef (Some a)) (TMap (Some m))"
  monos list_all2_mono prod.rel_mono option.rel_mono

inductive_cases reads_litE [elim!]: "reads A h v (TLit x)"
inductive_cases reads_structE [elim!]: "reads A h v (TStruct ts)"
inductive_cases reads_ptrE [elim!]: "reads A h v (TPtr t)"
inductive_cases reads_sliceE [elim!]: "reads A h v (TSlice t)"
inductive_cases reads_mapE [elim!]: "reads A h v (TMap t)"

section \<open>Lemmas on fields\<close>

lemma rel_fields_keys: "list_all2 (rel_prod (=) R) xs ys \<Longrightarrow> map fst xs = map fst ys"
  by (induction rule: list_all2_induct) auto

lemma rel_fields_map_of: "list_all2 (rel_prod (=) R) xs ys \<Longrightarrow> rel_option R (map_of xs f) (map_of ys f)"
  by (induction rule: list_all2_induct) auto

lemma rel_fieldsI:
  assumes "map fst xs = map fst ys" and "distinct (map fst ys)"
    and "\<And>f x y. map_of xs f = Some x \<Longrightarrow> map_of ys f = Some y \<Longrightarrow> R x y"
  shows "list_all2 (rel_prod (=) R) xs ys"
proof (rule list_all2_all_nthI)
  show len: "length xs = length ys" using arg_cong [OF assms(1), of length] by simp
  fix i assume i: "i < length xs"
  obtain f x where x: "xs ! i = (f, x)" by fastforce
  obtain g y where y: "ys ! i = (g, y)" by fastforce
  have "fst (xs ! i) = fst (ys ! i)" using i len arg_cong [OF assms(1), of "\<lambda>zs. zs ! i"] by simp
  then have fg: "f = g" using x y by simp
  have "(f, x) \<in> set xs" "(f, y) \<in> set ys" using i len x y fg by (metis nth_mem)+
  then have "map_of xs f = Some x" "map_of ys f = Some y" using assms(1,2) by simp_all
  with assms(3) x y fg show "rel_prod (=) R (xs ! i) (ys ! i)" by simp
qed

section \<open>Lemmas on locations\<close>

lemma update_twice: "AList.update k x (AList.update k y es) = AList.update k x es"
  by (induction es) auto

lemma sub_append: "sub (p @ q) v = (case sub p v of None \<Rightarrow> None | Some w \<Rightarrow> sub q w)"
proof (induction p arbitrary: v)
  case (Cons s p)
  then show ?case by (cases s; cases v) (auto split: option.splits)
qed simp

lemma sub_subst: "sub p v \<noteq> None \<Longrightarrow> sub p (subst p w v) = Some w"
proof (induction p arbitrary: v)
  case (Cons s p)
  then show ?case by (cases s; cases v) (auto simp: update_conv' split: option.splits if_splits)
qed simp

lemma subst_subst: "sub p v \<noteq> None \<Longrightarrow> subst p w (subst p u v) = subst p w v"
proof (induction p arbitrary: v)
  case (Cons s p)
  then show ?case
    by (cases s; cases v) (auto simp: update_conv' update_twice split: option.splits if_splits)
qed simp

lemma subst_append: "sub p v = Some u \<Longrightarrow> subst (p @ q) w v = subst p (subst q w u) v"
proof (induction p arbitrary: v)
  case (Cons s p)
  then show ?case by (cases s; cases v) (auto split: option.splits if_splits)
qed simp

lemma update_same: "map_of es k = Some x \<Longrightarrow> AList.update k x es = es"
  by (induction es) (auto split: if_splits)

lemma subst_same: "sub p v = Some w \<Longrightarrow> subst p w v = v"
proof (induction p arbitrary: v)
  case (Cons s p)
  then show ?case by (cases s; cases v) (auto simp: update_same split: option.splits if_splits)
qed simp

lemma load_less: "load h l = Some v \<Longrightarrow> fst l < length h"
  by (simp add: load_def split: if_splits)

lemma length_put [simp]: "length (put h l w) = length h"
  by (simp add: put_def)

lemma nth_put: "a \<noteq> fst l \<Longrightarrow> put h l w ! a = h ! a"
  by (simp add: put_def)

lemma load_put_same [simp]: "load h l \<noteq> None \<Longrightarrow> load (put h l w) l = Some w"
  by (auto simp: load_def put_def sub_subst split: if_splits)

lemma load_put_other: "fst k \<noteq> fst l \<Longrightarrow> load (put h l w) k = load h k"
  by (simp add: load_def nth_put)

lemma put_put [simp]: "load h l \<noteq> None \<Longrightarrow> put (put h l w) l u = put h l u"
  by (auto simp: load_def put_def subst_subst split: if_splits)

lemma put_same: "load h l = Some v \<Longrightarrow> put h l v = h"
  by (auto simp: load_def put_def subst_same split: if_splits)

lemma load_append [simp]: "load h l \<noteq> None \<Longrightarrow> load (h @ e) l = load h l"
  by (auto simp: load_def nth_append split: if_splits)

lemma load_appendI: "load h l = Some v \<Longrightarrow> load (h @ e) l = Some v"
  by simp

lemma put_append: "fst l < length h \<Longrightarrow> put (h @ e) l w = put h l w @ e"
  by (simp add: put_def nth_append list_update_append1)

lemma load_new [simp]: "load (h @ [v]) (length h, []) = Some v" "load (h @ v # e) (length h, []) = Some v"
  by (simp_all add: load_def)

lemma put_new [simp]: "put (h @ v # e) (length h, []) w = h @ w # e"
  by (simp add: put_def)

lemma load_dot: "load h (dot l f) = (case load h l of Some (Struct fs) \<Rightarrow> map_of fs f | _ \<Rightarrow> None)"
  by (auto simp: load_def dot_def sub_append split: option.splits goval.splits)

lemma put_dot:
  "load h l = Some (Struct fs) \<Longrightarrow> map_of fs f = Some x \<Longrightarrow> put h (dot l f) w = put h l (Struct (AList.update f w fs))"
  by (auto simp: load_def put_def dot_def subst_append split: if_splits)

lemma fst_dot [simp]: "fst (dot l f) = fst l"
  by (simp add: dot_def)

lemma load_Idx: "load h (a, [Idx i]) = (case load h (a, []) of Some (Arr vs) \<Rightarrow> if i < length vs then Some (vs ! i) else None | _ \<Rightarrow> None)"
  by (auto simp: load_def split: goval.splits)

lemma put_Idx:
  "load h (a, []) = Some (Arr vs) \<Longrightarrow> put h (a, [Idx i]) w = put h (a, []) (Arr (vs[i := w]))"
  by (auto simp: load_def put_def split: if_splits)

lemma load_st_run: "load h l = Some v \<Longrightarrow> load_st l h = (Inr v, h)"
  by (simp add: load_st_def gets_st_def)

lemma bind_load_st: "load h l = Some v \<Longrightarrow> bind_st (load_st l) k h = k v h"
  by (simp add: load_st_def bind_gets_st)

lemma store_run: "load h l \<noteq> None \<Longrightarrow> store l w h = (Inr (), put h l w)"
  by (auto simp: store_def bind_load_st modify_st_def)

lemma bind_store: "load h l \<noteq> None \<Longrightarrow> bind_st (store l w) k h = k () (put h l w)"
  by (simp add: bind_st_def store_run)

lemma bind_new_st [simp]: "bind_st (new_st v) k h = k (length h, []) (h @ [v])"
  by (simp add: bind_st_def new_st_def)

lemma map_put_run:
  "load h (n, []) = Some (Entries es) \<Longrightarrow> map_put n k v h = (Inr (), put h (n, []) (Entries (AList.update k v es)))"
  by (simp add: map_put_def bind_load_st store_run)

section \<open>Lemmas on what values denote\<close>

text \<open>
  A value denotes the same tree in every heap that has the same contents in the cells followed.
  This one fact covers weakening of the set, growth of the heap and writes elsewhere.
\<close>

lemma reads_transfer:
  assumes "reads A h v t" and "\<And>a. a \<in> A \<Longrightarrow> a < length h \<Longrightarrow> a \<in> B \<and> a < length h' \<and> h' ! a = h ! a"
  shows "reads B h' v t"
  using assms(1)
proof (induction rule: reads.induct)
  case (reads_struct fs ts)
  then have "list_all2 (rel_prod (=) (reads B h')) fs ts"
    by (auto elim!: list_all2_mono simp: rel_prod_sel)
  then show ?case by (rule reads.reads_struct)
next
  case (reads_ptr l v t)
  then have "load h' l = Some v" "fst l \<in> B" using assms(2) [of "fst l"] by (auto simp: load_def split: if_splits)
  with reads_ptr show ?case by (auto intro: reads.reads_ptr)
next
  case (reads_slice a vs off len ts)
  then have "load h' (a, []) = Some (Arr vs)" "a \<in> B" using assms(2) [of a] by (auto simp: load_def split: if_splits)
  moreover have "list_all2 (reads B h') (take len (drop off vs)) ts"
    using reads_slice.IH by (auto elim: list_all2_mono)
  ultimately show ?case using reads_slice by (intro reads.reads_slice)
next
  case (reads_map a es m)
  then have "load h' (a, []) = Some (Entries es)" "a \<in> B" using assms(2) [of a] by (auto simp: load_def split: if_splits)
  moreover have "rel_option (reads B h') (map_of es k) (m k)" for k
    using reads_map.IH(1) [of k] by (auto elim: option.rel_mono_strong)
  ultimately show ?case using reads_map by (intro reads.reads_map)
qed (auto intro: reads.intros)

lemma reads_flat: "conforms ty t \<Longrightarrow> flat ty \<Longrightarrow> reads A h v t \<Longrightarrow> reads B h' v t"
proof (induction ty t arbitrary: v rule: conforms.induct)
  case (conforms_struct tys ts)
  from conforms_struct.prems obtain fs where v: "v = Struct fs" and fs: "list_all2 (rel_prod (=) (reads A h)) fs ts" by auto
  have "rel_prod (=) (reads B h') (fs ! i) (ts ! i)" if "i < length ts" for i
    using that list_all2_nthD2 [OF fs that] list_all2_nthD2 [OF conforms_struct.IH that] conforms_struct.prems(1)
      list_all2_lengthD [OF conforms_struct.IH]
    by (cases "fs ! i"; cases "ts ! i"; cases "tys ! i") (force simp: list_all_length rel_prod_sel)
  with v fs show ?case by (auto intro!: reads.reads_struct simp: list_all2_conv_all_nth)
qed (auto intro: reads.intros)

end
