(* ===== verification/Go_Copy.thy ===== *)
theory Go_Copy
  imports Go_Heap
begin

text \<open>
  The building blocks of generated deep copy functions (\<open>src/api/v1alpha1/zz_generated.deepcopy.go\<close>).
  Every \<open>DeepCopyInto\<close> there is the assignment \<open>*out = *in\<close> followed by one block for each field that
  is not flat, and the blocks have one of a few forms; each form is a definition here, taking the
  locations of the field in \<open>in\<close> and in \<open>out\<close>.

  The interface is the locale \<open>copier\<close>: into any location of another cell it writes a value that
  denotes the same tree through fresh cells only, and it changes nothing else. A block may rely on
  \<open>out\<close> holding the shallow copy already (the locale \<open>copy_block\<close>), which a nil field needs.

  The orders of loops over maps are arguments; the loop that fills the map at address \<open>n\<close> follows
  \<open>ords n\<close>, so that no two loops are forced to agree.
\<close>

type_synonym copier_fn = "loc \<Rightarrow> loc \<Rightarrow> (heap, unit) st"
type_synonym loop_orders = "nat \<Rightarrow> range_order"

section \<open>The blocks\<close>

text \<open>\<open>*out = *in\<close>\<close>

definition assign :: copier_fn where
  "assign inn out = bind_st (load_st inn) (store out)"

text \<open>\<open>*out = *in\<close> and then the blocks of the fields, in their order.\<close>

definition struct_into :: "(string \<times> copier_fn) list \<Rightarrow> copier_fn" where
  "struct_into blks inn out = bind_st (assign inn out) (\<lambda>_. for_st (\<lambda>(f, blk). blk (dot inn f) (dot out f)) blks)"

text \<open>\<open>if in.F != nil { in, out := &in.F, &out.F; *out = new(T); (*in).DeepCopyInto(*out) }\<close>\<close>

definition ptr_into :: "gotype \<Rightarrow> copier_fn \<Rightarrow> copier_fn" where
  "ptr_into ty into inn out = bind_st (load_st inn) (\<lambda>p. case p of
     Ptr (Some src) \<Rightarrow> bind_st (new_st (zero_val ty)) (\<lambda>dst. bind_st (store out (Ptr (Some dst))) (\<lambda>_. into src dst))
   | _ \<Rightarrow> lift_st (Inr ()))"

text \<open>The same with \<open>**out = **in\<close>.\<close>

definition ptr_assign :: "gotype \<Rightarrow> copier_fn" where
  "ptr_assign ty = ptr_into ty assign"

text \<open>
  \<open>if in.F != nil { in, out := &in.F, &out.F; *out = make([]T, len(*in));
  for i := range *in { (*in)[i].DeepCopyInto(&(*out)[i]) } }\<close>
\<close>

definition slice_into :: "gotype \<Rightarrow> copier_fn \<Rightarrow> copier_fn" where
  "slice_into ty into inn out = bind_st (load_st inn) (\<lambda>s. case s of
     Slice (Some (a, off, len)) \<Rightarrow> bind_st (new_st (Arr (replicate len (zero_val ty)))) (\<lambda>dst.
       bind_st (store out (Slice (Some (fst dst, 0, len)))) (\<lambda>_.
       for_st (\<lambda>i. into (a, [Idx (off + i)]) (fst dst, [Idx i])) [0..<len]))
   | _ \<Rightarrow> lift_st (Inr ()))"

text \<open>The same with \<open>copy(*out, *in)\<close>, which assigns the elements.\<close>

definition slice_copy :: "gotype \<Rightarrow> copier_fn" where
  "slice_copy ty = slice_into ty assign"

text \<open>
  \<open>if in.F != nil { in, out := &in.F, &out.F; *out = make(map[string]T, len(*in));
  for key, val := range *in { ... } }\<close>, where the body stores the entry for \<open>key\<close> in the new map.
\<close>

definition map_loop :: "loop_orders \<Rightarrow> (nat \<Rightarrow> string \<Rightarrow> goval \<Rightarrow> (heap, unit) st) \<Rightarrow> nat \<Rightarrow> goval gomap \<Rightarrow> (heap, unit) st" where
  "map_loop ords body n es = for_st (\<lambda>(key, val). body n key val) (range_map (ords n) es)"

definition map_into :: "loop_orders \<Rightarrow> (nat \<Rightarrow> string \<Rightarrow> goval \<Rightarrow> (heap, unit) st) \<Rightarrow> copier_fn" where
  "map_into ords body inn out = bind_st (load_st inn) (\<lambda>m. case m of
     MapRef (Some a) \<Rightarrow> bind_st (load_st (a, [])) (\<lambda>c. case c of
       Entries es \<Rightarrow> bind_st (new_st (Entries [])) (\<lambda>dst.
         bind_st (store out (MapRef (Some (fst dst)))) (\<lambda>_. map_loop ords body (fst dst) es))
     | _ \<Rightarrow> lift_st (Inl (Panic ''not a map'')))
   | _ \<Rightarrow> lift_st (Inr ()))"

text \<open>\<open>(*out)[key] = val\<close>\<close>

definition string_entry :: "nat \<Rightarrow> string \<Rightarrow> goval \<Rightarrow> (heap, unit) st" where
  "string_entry n key val = map_put n key val"

text \<open>
  \<open>var outVal *T; if val == nil { (*out)[key] = nil } else { inVal := (*in)[key];
  in, out := &inVal, &outVal; *out = new(T); (*in).DeepCopyInto(*out) }; (*out)[key] = outVal\<close>
\<close>

definition ptr_entry :: "gotype \<Rightarrow> copier_fn \<Rightarrow> nat \<Rightarrow> string \<Rightarrow> goval \<Rightarrow> (heap, unit) st" where
  "ptr_entry ty into n key val = (case val of
     Ptr None \<Rightarrow> bind_st (map_put n key (Ptr None)) (\<lambda>_. map_put n key (Ptr None))
   | Ptr (Some src) \<Rightarrow> bind_st (new_st (zero_val ty)) (\<lambda>dst. bind_st (into src dst) (\<lambda>_. map_put n key (Ptr (Some dst))))
   | _ \<Rightarrow> lift_st (Inl (Panic ''not a pointer'')))"

text \<open>The same for a map of maps: \<open>*out = make(map[string]string, len(*in))\<close> and the inner loop.\<close>

definition map_entry :: "loop_orders \<Rightarrow> nat \<Rightarrow> string \<Rightarrow> goval \<Rightarrow> (heap, unit) st" where
  "map_entry ords n key val = (case val of
     MapRef None \<Rightarrow> bind_st (map_put n key (MapRef None)) (\<lambda>_. map_put n key (MapRef None))
   | MapRef (Some a) \<Rightarrow> bind_st (load_st (a, [])) (\<lambda>c. case c of
       Entries es \<Rightarrow> bind_st (new_st (Entries [])) (\<lambda>dst.
         bind_st (map_loop ords string_entry (fst dst) es) (\<lambda>_. map_put n key (MapRef (Some (fst dst)))))
     | _ \<Rightarrow> lift_st (Inl (Panic ''not a map'')))
   | _ \<Rightarrow> lift_st (Inl (Panic ''not a map'')))"

text \<open>\<open>if in == nil { return nil }; out := new(T); in.DeepCopyInto(out); return out\<close>\<close>

definition deep_copy :: "gotype \<Rightarrow> copier_fn \<Rightarrow> loc option \<Rightarrow> (heap, loc option) st" where
  "deep_copy ty into inn = (case inn of
     None \<Rightarrow> lift_st (Inr None)
   | Some l \<Rightarrow> bind_st (new_st (zero_val ty)) (\<lambda>out. bind_st (into l out) (\<lambda>_. lift_st (Inr (Some out)))))"

text \<open>\<open>(*out)[key] = *val.DeepCopy()\<close>, where \<open>val\<close> is the loop's variable with a cell of its own.\<close>

definition value_entry :: "gotype \<Rightarrow> copier_fn \<Rightarrow> nat \<Rightarrow> string \<Rightarrow> goval \<Rightarrow> (heap, unit) st" where
  "value_entry ty into n key val = bind_st (new_st val) (\<lambda>l. bind_st (deep_copy ty into (Some l)) (\<lambda>c.
     bind_st (lift_st (deref ''*val.DeepCopy()'' c)) (\<lambda>l'. bind_st (load_st l') (map_put n key))))"

text \<open>
  \<open>if c := in.DeepCopy(); c != nil { return c }; return nil\<close>: an interface value is nil or a dynamic
  type with a pointer, and a nil pointer does not become a non-nil interface.
\<close>

definition deep_copy_object :: "string \<Rightarrow> (loc option \<Rightarrow> (heap, loc option) st) \<Rightarrow> loc option \<Rightarrow> (heap, (string \<times> loc) option) st" where
  "deep_copy_object dyn dc inn = bind_st (dc inn) (\<lambda>c. lift_st (Inr (map_option (Pair dyn) c)))"

section \<open>The contracts\<close>

locale copy_block =
  fixes ty :: gotype and blk :: copier_fn
  assumes block: "\<And>h inn out v t. load h inn = Some v \<Longrightarrow> fst inn \<noteq> fst out \<Longrightarrow> reads (- {fst out}) h v t \<Longrightarrow>
    conforms ty t \<Longrightarrow> load h out = Some v \<Longrightarrow>
    \<exists>v' e. blk inn out h = (Inr (), put h out v' @ e) \<and> reads {length h..} (put h out v' @ e) v' t"

locale copier =
  fixes ty :: gotype and into :: copier_fn
  assumes copies: "\<And>h inn out v t. load h inn = Some v \<Longrightarrow> fst inn \<noteq> fst out \<Longrightarrow> reads (- {fst out}) h v t \<Longrightarrow>
    conforms ty t \<Longrightarrow> load h out \<noteq> None \<Longrightarrow>
    \<exists>v' e. into inn out h = (Inr (), put h out v' @ e) \<and> reads {length h..} (put h out v' @ e) v' t"

lemma block_of_copier: "copier ty into \<Longrightarrow> copy_block ty into"
  unfolding copier_def copy_block_def by (metis option.distinct(1))

sublocale copier \<subseteq> copy_block ty into
  by (rule block_of_copier) (rule copier_axioms)

locale entry_copier =
  fixes ty :: gotype and body :: "nat \<Rightarrow> string \<Rightarrow> goval \<Rightarrow> (heap, unit) st"
  assumes entry: "\<And>h n k es v t. load h (n, []) = Some (Entries es) \<Longrightarrow> reads (- {n}) h v t \<Longrightarrow> conforms ty t \<Longrightarrow>
    \<exists>v' e. body n k v h = (Inr (), put h (n, []) (Entries (AList.update k v' es)) @ e) \<and>
      reads {length h..} (put h (n, []) (Entries (AList.update k v' es)) @ e) v' t"

section \<open>Framing\<close>

lemma reads_source:
  assumes "reads (- {fst out}) h v t"
  shows "reads (- {fst out}) (put h out w @ e) v t"
  by (rule reads_transfer [OF assms]) (auto simp: nth_append nth_put)

lemma reads_grow:
  assumes "reads A h v t" and "A \<inter> {..<length h} \<subseteq> B"
  shows "reads B (h @ e) v t"
  by (rule reads_transfer [OF assms(1)]) (use assms(2) in \<open>auto simp: nth_append\<close>)

lemma reads_fresh:
  assumes "reads {n..} h v t" and "m \<le> n" and "fst out < n"
  shows "reads {m..} (put h out w @ e) v t"
  by (rule reads_transfer [OF assms(1)]) (use assms(2,3) in \<open>auto simp: nth_append nth_put\<close>)

lemma load_source: "load h l = Some v \<Longrightarrow> fst l \<noteq> fst out \<Longrightarrow> load (put h out w @ e) l = Some v"
  by (simp add: load_put_other)

lemma put_again:
  assumes "load h out \<noteq> None"
  shows "put (put h out w @ e) out u = put h out u @ e"
  using assms load_less [of h out] by (auto simp: put_append)

section \<open>Structs\<close>

lemma assign_run: "load h inn = Some v \<Longrightarrow> load h out \<noteq> None \<Longrightarrow> assign inn out h = (Inr (), put h out v)"
  by (simp add: assign_def bind_load_st store_run)

lemma assign_copier: "flat ty \<Longrightarrow> copier ty assign"
proof unfold_locales
  fix h inn out v t
  assume "flat ty" "load h inn = Some v" "reads (- {fst out}) h v t" "conforms ty t" "load h out \<noteq> None"
  then have "assign inn out h = (Inr (), put h out v @ [])" "reads {length h..} (put h out v @ []) v t"
    by (auto simp: assign_run intro: reads_flat)
  then show "\<exists>v' e. assign inn out h = (Inr (), put h out v' @ e) \<and> reads {length h..} (put h out v' @ e) v' t" by blast
qed

text \<open>The fields of a struct, and which of them have a block.\<close>

definition covers :: "(string \<times> gotype) list \<Rightarrow> (string \<times> copier_fn) list \<Rightarrow> bool" where
  "covers tys blks \<longleftrightarrow> distinct (map fst tys) \<and> distinct (map fst blks) \<and> set (map fst blks) \<subseteq> set (map fst tys) \<and>
     (\<forall>(f, ty) \<in> set tys. case map_of blks f of None \<Rightarrow> flat ty | Some blk \<Rightarrow> copy_block ty blk)"

text \<open>One block, as an update of the struct that \<open>out\<close> holds.\<close>

lemma field_block:
  assumes "copy_block ty blk" and "load h inn = Some (Struct fs)" and "load h out = Some (Struct ws)"
    and "fst inn \<noteq> fst out" and "map_of fs f = Some x" and "map_of ws f = Some x"
    and "conforms ty t" and "reads (- {fst out}) h x t"
  obtains x' e where "blk (dot inn f) (dot out f) h = (Inr (), put h out (Struct (AList.update f x' ws)) @ e)"
    and "reads {length h..} (put h out (Struct (AList.update f x' ws)) @ e) x' t"
    and "map fst (AList.update f x' ws) = map fst ws"
proof -
  have "load h (dot inn f) = Some x" "load h (dot out f) = Some x"
    using assms by (simp_all add: load_dot)
  moreover have "map fst (AList.update f x' ws) = map fst ws" for x'
    using assms(6) by (auto simp: update_keys dest: map_of_SomeD intro: rev_image_eqI)
  ultimately show thesis
    using copy_block.block [OF assms(1), of h "dot inn f" x "dot out f" t] assms that by (auto simp: put_dot)
qed

definition deep_field :: "nat \<Rightarrow> heap \<Rightarrow> (string \<times> goval) list \<Rightarrow> (string \<times> gotree) list \<Rightarrow> string \<Rightarrow> bool" where
  "deep_field n h ws ts f \<longleftrightarrow> (\<exists>x t. map_of ws f = Some x \<and> map_of ts f = Some t \<and> reads {n..} h x t)"

lemma blocks_run:
  assumes "distinct (map fst blks)" and "load h inn = Some (Struct fs)" and "fst inn \<noteq> fst out"
    and "load h out = Some (Struct ws)"
    and "\<And>f blk. (f, blk) \<in> set blks \<Longrightarrow> \<exists>ty x t. copy_block ty blk \<and> map_of fs f = Some x \<and> map_of ws f = Some x \<and>
      map_of ts f = Some t \<and> conforms ty t \<and> reads (- {fst out}) h x t"
  shows "\<exists>ws' e. for_st (\<lambda>(f, blk). blk (dot inn f) (dot out f)) blks h = (Inr (), put h out (Struct ws') @ e) \<and>
    map fst ws' = map fst ws \<and>
    (\<forall>f. if f \<in> set (map fst blks) then deep_field (length h) (put h out (Struct ws') @ e) ws' ts f
       else map_of ws' f = map_of ws f)"
  using assms
proof (induction blks arbitrary: h ws)
  case Nil
  then show ?case by (intro exI [of _ ws] exI [of _ "[]"]) (simp add: lift_st_def put_same)
next
  case (Cons fb blks)
  obtain f blk where fb: "fb = (f, blk)" by (cases fb)
  from Cons.prems(5) [of f blk] obtain ty x t where blk: "copy_block ty blk" and x: "map_of fs f = Some x"
    "map_of ws f = Some x" and t: "map_of ts f = Some t" "conforms ty t" "reads (- {fst out}) h x t"
    by (auto simp: fb)
  obtain x' e us h1 where us: "us = AList.update f x' ws" and h1: "h1 = put h out (Struct us) @ e"
    and run: "blk (dot inn f) (dot out f) h = (Inr (), h1)" and x': "reads {length h..} h1 x' t"
    and keys: "map fst us = map fst ws"
    by (metis field_block [OF blk Cons.prems(2,4,3) x t(2,3)])
  have "\<exists>ty x t. copy_block ty b \<and> map_of fs g = Some x \<and> map_of us g = Some x \<and> map_of ts g = Some t \<and> conforms ty t \<and>
      reads (- {fst out}) h1 x t" if "(g, b) \<in> set blks" for g b
  proof -
    from that Cons.prems(1) have "g \<noteq> f" by (force simp: fb)
    with Cons.prems(5) [of g b] that show ?thesis by (auto simp: us h1 update_conv' intro: reads_source)
  qed
  moreover have "load h1 out = Some (Struct us)" "load h1 inn = Some (Struct fs)"
    using Cons.prems(2-4) by (simp_all add: h1 load_put_other)
  ultimately obtain ws' e' where
    rest: "for_st (\<lambda>(f, blk). blk (dot inn f) (dot out f)) blks h1 = (Inr (), put h1 out (Struct ws') @ e')"
    "map fst ws' = map fst us"
    and fields: "\<And>g. if g \<in> set (map fst blks) then deep_field (length h1) (put h1 out (Struct ws') @ e') ws' ts g
       else map_of ws' g = map_of us g"
    using Cons.IH [of h1 us] Cons.prems(1,3) fb by auto
  have h2: "put h1 out (Struct ws') @ e' = put h out (Struct ws') @ e @ e'"
    using Cons.prems(4) by (simp add: h1 put_again)
  have "reads {length h..} (put h1 out (Struct ws') @ e') x' t"
    using x' load_less [OF Cons.prems(4)] by (intro reads_fresh) auto
  moreover have "deep_field (length h1) H ws' ts g \<Longrightarrow> deep_field (length h) H ws' ts g" for H g
    unfolding deep_field_def by (fastforce simp: h1 intro: reads_transfer)
  ultimately have "if g \<in> set (map fst (fb # blks)) then deep_field (length h) (put h1 out (Struct ws') @ e') ws' ts g
       else map_of ws' g = map_of ws g" for g
    using fields [of g] Cons.prems(1) t(1) by (auto simp: fb us update_conv' deep_field_def split: if_splits)
  moreover have "for_st (\<lambda>(f, blk). blk (dot inn f) (dot out f)) (fb # blks) h = (Inr (), put h out (Struct ws') @ e @ e')"
    using rest(1) by (simp add: fb bind_st_def run h2)
  ultimately show ?case using rest(2) keys unfolding h2 by (intro exI [of _ ws'] exI [of _ "e @ e'"]) simp
qed

lemma struct_field:
  assumes "list_all2 (rel_prod (=) conforms) tys ts" and "list_all2 (rel_prod (=) (reads A h)) fs ts"
    and "f \<in> set (map fst tys)"
  obtains ty x t where "map_of tys f = Some ty" "map_of fs f = Some x" "map_of ts f = Some t" "conforms ty t" "reads A h x t"
proof -
  from assms(3) obtain ty where "map_of tys f = Some ty" by (metis map_of_eq_None_iff list.set_map not_Some_eq)
  then show thesis
    using that rel_fields_map_of [OF assms(1), of f] rel_fields_map_of [OF assms(2), of f]
    by (auto simp: option_rel_Some1 option_rel_Some2)
qed

lemma covers_block:
  assumes "covers tys blks" and "(f, blk) \<in> set blks" and "map_of tys f = Some ty"
  shows "copy_block ty blk"
proof -
  have "map_of blks f = Some blk" using assms(1,2) by (simp add: covers_def)
  moreover have "(f, ty) \<in> set tys" using assms(3) by (rule map_of_SomeD)
  ultimately show ?thesis using assms(1) by (auto simp: covers_def)
qed

lemma covers_flat: "covers tys blks \<Longrightarrow> f \<notin> set (map fst blks) \<Longrightarrow> map_of tys f = Some ty \<Longrightarrow> flat ty"
proof -
  assume "covers tys blks" and none: "f \<notin> set (map fst blks)" and "map_of tys f = Some ty"
  then have "(f, ty) \<in> set tys" "map_of blks f = None" by (auto simp: map_of_eq_None_iff dest: map_of_SomeD)
  with \<open>covers tys blks\<close> show "flat ty" by (auto simp: covers_def)
qed

theorem struct_copier:
  assumes "covers tys blks"
  shows "copier (TyStruct tys) (struct_into blks)"
proof unfold_locales
  fix h inn out v t
  assume v: "load h inn = Some v" and ne: "fst inn \<noteq> fst out" and rd: "reads (- {fst out}) h v t"
    and cf: "conforms (TyStruct tys) t" and out: "load h out \<noteq> None"
  from cf obtain ts where ts: "t = TStruct ts" "list_all2 (rel_prod (=) conforms) tys ts" by auto
  with rd obtain fs where fs: "v = Struct fs" "list_all2 (rel_prod (=) (reads (- {fst out}) h)) fs ts" by auto
  define h1 where "h1 = put h out v"
  have keys: "map fst fs = map fst ts" "map fst ts = map fst tys"
    using fs(2) ts(2) by (auto dest: rel_fields_keys)
  have fs1: "list_all2 (rel_prod (=) (reads (- {fst out}) h1)) fs ts"
    using fs(2) reads_source [of out h _ _ v "[]"] by (auto simp: h1_def rel_prod_sel elim!: list_all2_mono)
  note field = struct_field [OF ts(2) fs1]
  have blks: "distinct (map fst blks)" "set (map fst blks) \<subseteq> set (map fst tys)" using assms by (simp_all add: covers_def)
  have "\<exists>ty x t. copy_block ty blk \<and> map_of fs f = Some x \<and> map_of fs f = Some x \<and> map_of ts f = Some t \<and> conforms ty t \<and>
      reads (- {fst out}) h1 x t" if "(f, blk) \<in> set blks" for f blk
  proof -
    have "f \<in> set (map fst tys)" using that blks(2) by force
    with field [of f] covers_block [OF assms that] show ?thesis by metis
  qed
  then obtain ws e where run: "for_st (\<lambda>(f, blk). blk (dot inn f) (dot out f)) blks h1 = (Inr (), put h1 out (Struct ws) @ e)"
    and ws: "map fst ws = map fst fs" "\<And>f. if f \<in> set (map fst blks)
       then deep_field (length h1) (put h1 out (Struct ws) @ e) ws ts f else map_of ws f = map_of fs f"
    using blocks_run [OF blks(1), of h1 inn fs out fs ts] v fs(1) ne out by (auto simp: h1_def load_put_other)
  have h2: "put h1 out (Struct ws) @ e = put h out (Struct ws) @ e" using out by (simp add: h1_def)
  have "reads {length h..} (put h out (Struct ws) @ e) x t" if "map_of ws f = Some x" "map_of ts f = Some t" for f x t
  proof (cases "f \<in> set (map fst blks)")
    case True
    then show ?thesis using ws(2) [of f, unfolded h2] that by (auto simp: deep_field_def h1_def)
  next
    case False
    from that(2) keys have "f \<in> set (map fst tys)" by (metis domI dom_map_of_conv_image_fst list.set_map)
    then obtain ty y u where "map_of tys f = Some ty" "map_of fs f = Some y" "map_of ts f = Some u" "conforms ty u"
      "reads (- {fst out}) h1 y u" by (rule field)
    moreover have "map_of fs f = Some x" using False ws(2) [of f] that(1) by simp
    ultimately have "map_of tys f = Some ty" "conforms ty t" "reads (- {fst out}) h1 x t" using that(2) by simp_all
    with covers_flat [OF assms False] show ?thesis by (auto intro: reads_flat)
  qed
  then have "reads {length h..} (put h out (Struct ws) @ e) (Struct ws) t"
    using keys ws(1) assms unfolding ts(1) covers_def by (intro reads_struct rel_fieldsI) auto
  moreover have "struct_into blks inn out h = (Inr (), put h out (Struct ws) @ e)"
    using run v out by (simp add: struct_into_def bind_st_def assign_run h1_def [symmetric] h2)
  ultimately show "\<exists>v' e. struct_into blks inn out h = (Inr (), put h out v' @ e) \<and> reads {length h..} (put h out v' @ e) v' t"
    by blast
qed

section \<open>Pointers, and DeepCopy\<close>

context copier
begin

text \<open>Copying into a cell just allocated.\<close>

lemma into_new:
  assumes "load h src = Some v" and "reads A h v t" and "conforms ty t"
  obtains v' e where "into src (length h, []) (h @ [z]) = (Inr (), h @ v' # e)"
    and "reads {Suc (length h)..} (h @ v' # e) v' t"
proof -
  have "reads (- {length h}) (h @ [z]) v t" using assms(2) by (rule reads_transfer) (auto simp: nth_append)
  moreover have "fst src \<noteq> length h" using load_less [OF assms(1)] by simp
  ultimately show thesis
    using copies [of "h @ [z]" src v "(length h, [])" t] assms(1,3) that by (auto simp: load_appendI)
qed

lemma ptr_block: "copy_block (TyPtr ty) (ptr_into ty into)"
proof unfold_locales
  fix h inn out v t
  assume v: "load h inn = Some v" and rd: "reads (- {fst out}) h v t" and cf: "conforms (TyPtr ty) t"
    and out: "load h out = Some v"
  show "\<exists>v' e. ptr_into ty into inn out h = (Inr (), put h out v' @ e) \<and> reads {length h..} (put h out v' @ e) v' t"
  proof (cases "\<exists>u. t = TPtr (Some u)")
    case False
    then have "v = Ptr None" "t = TPtr None" using cf rd by auto
    then have "ptr_into ty into inn out h = (Inr (), put h out v @ [])" "reads {length h..} (put h out v @ []) v t"
      using v out by (auto simp: ptr_into_def bind_load_st lift_st_def put_same intro: reads_nil_ptr)
    then show ?thesis by blast
  next
    case True
    then obtain u where u: "t = TPtr (Some u)" by blast
    with rd obtain src w where src: "v = Ptr (Some src)" "fst src \<noteq> fst out" "load h src = Some w" "reads (- {fst out}) h w u"
      by auto
    define p where "p = Ptr (Some (length h, []))"
    have "load (put h out p) src = Some w" "reads (- {fst out}) (put h out p) w u" "conforms ty u"
      using src load_source [of h src w out p "[]"] reads_source [of out h w u p "[]"] cf u by auto
    then obtain w' e where run: "into src (length h, []) (put h out p @ [zero_val ty]) = (Inr (), put h out p @ w' # e)"
      and w': "reads {Suc (length h)..} (put h out p @ w' # e) w' u"
      using into_new [of "put h out p" src w _ u "zero_val ty"] by (metis length_put)
    have "load (put h out p @ w' # e) (length h, []) = Some w'"
      using load_new(2) [of "put h out p"] by simp
    then have "reads {length h..} (put h out p @ w' # e) p t"
      using reads_transfer [OF w', of "{length h..}"] unfolding p_def u by (auto intro: reads_ptr)
    moreover have "ptr_into ty into inn out h = (Inr (), put h out p @ w' # e)"
      using v out load_less [OF out] src(1) run
      by (simp add: ptr_into_def bind_load_st bind_store put_append p_def)
    ultimately show ?thesis by blast
  qed
qed

lemma deep_copy_run:
  assumes "load h l = Some v" and "reads A h v t" and "conforms ty t"
  obtains v' e where "deep_copy ty into (Some l) h = (Inr (Some (length h, [])), h @ v' # e)"
    and "reads {Suc (length h)..} (h @ v' # e) v' t"
  using into_new [OF assms, of "zero_val ty"] that by (fastforce simp: deep_copy_def bind_st_def new_st_def lift_st_def)

end

lemma ptr_assign_block: "flat ty \<Longrightarrow> copy_block (TyPtr ty) (ptr_assign ty)"
  unfolding ptr_assign_def by (rule copier.ptr_block) (rule assign_copier)

section \<open>Slices\<close>

lemma for_st_append: "for_st f (xs @ ys) = bind_st (for_st f xs) (\<lambda>_. for_st f ys)"
  by (induction xs) (auto simp: fun_eq_iff bind_st_def lift_st_def split: prod.splits sum.splits)

context copier
begin

text \<open>The loop over the elements: the first \<open>j\<close> cells of the new array are copied.\<close>

lemma elements_run:
  assumes "load h (a, []) = Some (Arr vs)" and "off + len \<le> length vs" and "a \<noteq> n"
    and "\<And>i. i < len \<Longrightarrow> reads (- {n}) h (vs ! (off + i)) (ts ! i) \<and> conforms ty (ts ! i)"
    and "load h (n, []) = Some (Arr zs)" and "length zs = len" and "j \<le> len"
  shows "\<exists>ws e. for_st (\<lambda>i. into (a, [Idx (off + i)]) (n, [Idx i])) [0..<j] h = (Inr (), put h (n, []) (Arr ws) @ e) \<and>
    length ws = len \<and> (\<forall>i < j. reads {length h..} (put h (n, []) (Arr ws) @ e) (ws ! i) (ts ! i))"
  using assms(7)
proof (induction j)
  case 0
  then show ?case using assms(5,6) by (intro exI [of _ zs] exI [of _ "[]"]) (simp add: lift_st_def put_same)
next
  case (Suc j)
  then obtain ws e where run: "for_st (\<lambda>i. into (a, [Idx (off + i)]) (n, [Idx i])) [0..<j] h = (Inr (), put h (n, []) (Arr ws) @ e)"
    and ws: "length ws = len" "\<And>i. i < j \<Longrightarrow> reads {length h..} (put h (n, []) (Arr ws) @ e) (ws ! i) (ts ! i)"
    by auto
  define h1 where "h1 = put h (n, []) (Arr ws) @ e"
  have n: "n < length h" using load_less [OF assms(5)] by simp
  have el: "reads (- {n}) h (vs ! (off + j)) (ts ! j)" "conforms ty (ts ! j)"
    using Suc.prems assms(4) by simp_all
  have "load h1 (a, [Idx (off + j)]) = Some (vs ! (off + j))"
    using Suc.prems assms(1-3) load_source [of h "(a, [])" _ "(n, [])"] by (simp add: load_Idx h1_def)
  moreover have arr: "load h1 (n, []) = Some (Arr ws)"
    using assms(5) by (simp add: h1_def)
  then have "load h1 (n, [Idx j]) \<noteq> None" using Suc.prems ws(1) by (simp add: load_Idx)
  moreover have "reads (- {n}) h1 (vs ! (off + j)) (ts ! j)"
    using reads_source [of "(n, [])"] el(1) by (simp add: h1_def)
  ultimately obtain x e' where step: "into (a, [Idx (off + j)]) (n, [Idx j]) h1 = (Inr (), put h1 (n, [Idx j]) x @ e')"
    and x: "reads {length h1..} (put h1 (n, [Idx j]) x @ e') x (ts ! j)"
    using copies [of h1 "(a, [Idx (off + j)])" "vs ! (off + j)" "(n, [Idx j])" "ts ! j"] el(2) assms(3) by auto
  have h2: "put h1 (n, [Idx j]) x @ e' = put h (n, []) (Arr (ws[j := x])) @ e @ e'"
    using arr assms(5) by (simp add: put_Idx put_again) (simp add: h1_def put_again)
  have "reads {length h..} (put h1 (n, [Idx j]) x @ e') (ws[j := x] ! i) (ts ! i)" if "i < Suc j" for i
  proof (cases "i = j")
    case True
    then show ?thesis using Suc.prems ws(1) reads_transfer [OF x, of "{length h..}"] by (auto simp: h1_def)
  next
    case False
    then show ?thesis using that ws(2) [of i] n by (auto simp: h1_def [symmetric] intro!: reads_fresh)
  qed
  then show ?case using run ws(1) step unfolding h2
    by (intro exI [of _ "ws[j := x]"] exI [of _ "e @ e'"]) (simp add: for_st_append bind_st_def h1_def lift_st_def)
qed

text \<open>Filling an array just allocated.\<close>

lemma array_run:
  assumes "reads A h (Slice (Some (a, off, len))) (TSlice (Some ts))" and "conforms (TySlice ty) (TSlice (Some ts))"
  obtains ws e where "for_st (\<lambda>i. into (a, [Idx (off + i)]) (length h, [Idx i])) [0..<len] (h @ [Arr (replicate len z)])
      = (Inr (), h @ Arr ws # e)"
    and "reads {length h..} (h @ Arr ws # e) (Slice (Some (length h, 0, len))) (TSlice (Some ts))"
proof -
  let ?h = "h @ [Arr (replicate len z)]"
  from assms(1) obtain vs where vs: "load h (a, []) = Some (Arr vs)" "off + len \<le> length vs"
    and el: "list_all2 (reads A h) (take len (drop off vs)) ts" by auto
  have len: "length ts = len" using list_all2_lengthD [OF el] vs(2) by simp
  have a: "a \<noteq> length h" using load_less [OF vs(1)] by simp
  have "reads (- {length h}) ?h (vs ! (off + i)) (ts ! i) \<and> conforms ty (ts ! i)" if "i < len" for i
  proof -
    have "reads A h (vs ! (off + i)) (ts ! i)" using list_all2_nthD2 [OF el, of i] that len vs(2) by simp
    then have "reads (- {length h}) ?h (vs ! (off + i)) (ts ! i)" by (rule reads_transfer) (auto simp: nth_append)
    moreover have "conforms ty (ts ! i)" using assms(2) that len by (auto simp: list_all_length)
    ultimately show ?thesis ..
  qed
  then obtain ws e where run: "for_st (\<lambda>i. into (a, [Idx (off + i)]) (length h, [Idx i])) [0..<len] ?h = (Inr (), h @ Arr ws # e)"
    and ws: "length ws = len" "\<And>i. i < len \<Longrightarrow> reads {Suc (length h)..} (h @ Arr ws # e) (ws ! i) (ts ! i)"
    using elements_run [of ?h a vs off len "length h" ts "replicate len z" len] a vs by (auto simp: load_appendI)
  have "reads {length h..} (h @ Arr ws # e) (ws ! i) (ts ! i)" if "i < len" for i
    using ws(2) [OF that] by (rule reads_transfer) auto
  then have "reads {length h..} (h @ Arr ws # e) (Slice (Some (length h, 0, len))) (TSlice (Some ts))"
    using ws(1) len by (intro reads_slice) (auto simp: list_all2_conv_all_nth)
  from that [OF run this] show thesis .
qed

lemma slice_block: "copy_block (TySlice ty) (slice_into ty into)"
proof unfold_locales
  fix h inn out v t
  assume v: "load h inn = Some v" and rd: "reads (- {fst out}) h v t" and cf: "conforms (TySlice ty) t"
    and out: "load h out = Some v"
  show "\<exists>v' e. slice_into ty into inn out h = (Inr (), put h out v' @ e) \<and> reads {length h..} (put h out v' @ e) v' t"
  proof (cases "\<exists>ts. t = TSlice (Some ts)")
    case False
    then have "v = Slice None" "t = TSlice None" using cf rd by auto
    then have "slice_into ty into inn out h = (Inr (), put h out v @ [])" "reads {length h..} (put h out v @ []) v t"
      using v out by (auto simp: slice_into_def bind_load_st lift_st_def put_same intro: reads_nil_slice)
    then show ?thesis by blast
  next
    case True
    then obtain ts where t: "t = TSlice (Some ts)" by blast
    with rd obtain a off len where s: "v = Slice (Some (a, off, len))" by auto
    define p where "p = Slice (Some (length h, 0, len))"
    have "reads (- {fst out}) (put h out p) (Slice (Some (a, off, len))) (TSlice (Some ts))"
      using rd reads_source [of out h _ _ p "[]"] by (simp add: s t)
    from array_run [OF this cf [unfolded t], of "zero_val ty"] obtain ws e where
      run: "for_st (\<lambda>i. into (a, [Idx (off + i)]) (length h, [Idx i])) [0..<len] (put h out p @ [Arr (replicate len (zero_val ty))])
        = (Inr (), put h out p @ Arr ws # e)"
      and p: "reads {length h..} (put h out p @ Arr ws # e) p t"
      unfolding length_put p_def [symmetric] t .
    have "slice_into ty into inn out h = (Inr (), put h out p @ Arr ws # e)"
      using v out load_less [OF out] s run by (simp add: slice_into_def bind_load_st bind_store put_append p_def)
    with p show ?thesis by blast
  qed
qed

end

lemma slice_copy_block: "flat ty \<Longrightarrow> copy_block (TySlice ty) (slice_copy ty)"
  unfolding slice_copy_def by (rule copier.slice_block) (rule assign_copier)

section \<open>Maps\<close>

definition fair_loops :: "loop_orders \<Rightarrow> bool" where
  "fair_loops ords \<longleftrightarrow> (\<forall>n. fair_order (ords n))"

context entry_copier
begin

lemma entries_run:
  assumes "load h (n, []) = Some (Entries es)" and "distinct (map fst kvs)"
    and "\<forall>k v. (k, v) \<in> set kvs \<longrightarrow> (\<exists>t. m k = Some t \<and> reads (- {n}) h v t \<and> conforms ty t)"
  shows "\<exists>es' e. for_st (\<lambda>(k, v). body n k v) kvs h = (Inr (), put h (n, []) (Entries es') @ e) \<and>
    (wf_map es \<longrightarrow> wf_map es') \<and>
    (\<forall>k. if k \<in> set (map fst kvs)
      then \<exists>v t. map_of es' k = Some v \<and> m k = Some t \<and> reads {length h..} (put h (n, []) (Entries es') @ e) v t
      else map_of es' k = map_of es k)"
  using assms
proof (induction kvs arbitrary: h es)
  case Nil
  then show ?case by (intro exI [of _ es] exI [of _ "[]"]) (simp add: lift_st_def put_same)
next
  case (Cons kv kvs)
  obtain k v where kv: "kv = (k, v)" by (cases kv)
  from Cons.prems(3) obtain t where t: "m k = Some t" "reads (- {n}) h v t" "conforms ty t" by (auto simp: kv)
  obtain x e us h1 where us: "us = AList.update k x es" and h1: "h1 = put h (n, []) (Entries us) @ e"
    and run: "body n k v h = (Inr (), h1)" and x: "reads {length h..} h1 x t"
    using entry [OF Cons.prems(1) t(2,3), of k] by blast
  have "\<exists>t. m k = Some t \<and> reads (- {n}) h1 v t \<and> conforms ty t" if "(k, v) \<in> set kvs" for k v
    using Cons.prems(3) that reads_source [of "(n, [])" h] by (fastforce simp: h1)
  moreover have "load h1 (n, []) = Some (Entries us)" using Cons.prems(1) by (simp add: h1)
  ultimately obtain es' e' where rest: "for_st (\<lambda>(k, v). body n k v) kvs h1 = (Inr (), put h1 (n, []) (Entries es') @ e')"
    "wf_map us \<longrightarrow> wf_map es'"
    and ent: "\<And>k. if k \<in> set (map fst kvs)
      then \<exists>v t. map_of es' k = Some v \<and> m k = Some t \<and> reads {length h1..} (put h1 (n, []) (Entries es') @ e') v t
      else map_of es' k = map_of us k"
    using Cons.IH [of h1 us] Cons.prems(2) by auto
  have h2: "put h1 (n, []) (Entries es') @ e' = put h (n, []) (Entries es') @ e @ e'"
    using Cons.prems(1) by (simp add: h1 put_again)
  have "reads {length h..} (put h1 (n, []) (Entries es') @ e') x t"
    using x load_less [OF Cons.prems(1)] by (intro reads_fresh) auto
  moreover have "reads {length h1..} H w u \<Longrightarrow> reads {length h..} H w u" for H w u
    by (rule reads_transfer) (auto simp: h1)
  ultimately have "if g \<in> set (map fst (kv # kvs))
      then \<exists>v t. map_of es' g = Some v \<and> m g = Some t \<and> reads {length h..} (put h1 (n, []) (Entries es') @ e') v t
      else map_of es' g = map_of es g" for g
    using ent [of g] Cons.prems(2) t(1) by (auto simp: kv us update_conv' split: if_splits)
  moreover have "wf_map es \<longrightarrow> wf_map es'" using rest(2) by (simp add: us wf_map_def distinct_update)
  moreover have "for_st (\<lambda>(k, v). body n k v) (kv # kvs) h = (Inr (), put h (n, []) (Entries es') @ e @ e')"
    using rest(1) by (simp add: kv bind_st_def run h2)
  ultimately show ?case unfolding h2 by blast
qed

text \<open>Filling a map just allocated.\<close>

lemma fill_run:
  assumes "fair_loops ords" and "reads A h (MapRef (Some a)) (TMap (Some m))" and "conforms (TyMap ty) (TMap (Some m))"
    and "load h (a, []) = Some (Entries es)"
  obtains es' e where "map_loop ords body (length h) es (h @ [Entries []]) = (Inr (), h @ Entries es' # e)"
    and "reads {length h..} (h @ Entries es' # e) (MapRef (Some (length h))) (TMap (Some m))"
proof -
  let ?kvs = "range_map (ords (length h)) es"
  have fair: "fair_order (ords (length h))" using assms(1) by (simp add: fair_loops_def)
  from assms(2,4) have es: "wf_map es" "\<And>k. rel_option (reads A h) (map_of es k) (m k)" by auto
  have kvs: "distinct (map fst ?kvs)" "map_of ?kvs = map_of es"
    using range_map_wf [OF fair es(1)] range_map_map_of [OF fair es(1)] by (simp_all add: wf_map_def)
  have "\<forall>k v. (k, v) \<in> set ?kvs \<longrightarrow> (\<exists>t. m k = Some t \<and> reads (- {length h}) (h @ [Entries []]) v t \<and> conforms ty t)"
  proof (intro allI impI)
    fix k v assume that: "(k, v) \<in> set ?kvs"
    have "map_of es k = Some v" using that kvs by (metis map_of_is_SomeI)
    with es(2) [of k] obtain t where "m k = Some t" "reads A h v t" by (auto simp: option_rel_Some1)
    moreover from this(2) have "reads (- {length h}) (h @ [Entries []]) v t"
      by (rule reads_transfer) (auto simp: nth_append)
    ultimately show "\<exists>t. m k = Some t \<and> reads (- {length h}) (h @ [Entries []]) v t \<and> conforms ty t" using assms(3) by auto
  qed
  from entries_run [OF load_new(1) kvs(1) this]
  obtain es' e where run: "for_st (\<lambda>(k, v). body (length h) k v) ?kvs (h @ [Entries []])
      = (Inr (), put (h @ [Entries []]) (length h, []) (Entries es') @ e)" and wf: "wf_map ([] :: goval gomap) \<longrightarrow> wf_map es'"
    and all: "\<forall>k. if k \<in> set (map fst ?kvs) then \<exists>v t. map_of es' k = Some v \<and> m k = Some t \<and>
        reads {length (h @ [Entries []])..} (put (h @ [Entries []]) (length h, []) (Entries es') @ e) v t
      else map_of es' k = map_of [] k"
    by blast
  note ent = all [THEN spec]
  have "rel_option (reads {length h..} (h @ Entries es' # e)) (map_of es' k) (m k)" for k
  proof (cases "k \<in> set (map fst ?kvs)")
    case True
    with ent [of k] obtain v t where "map_of es' k = Some v" "m k = Some t" "reads {Suc (length h)..} (h @ Entries es' # e) v t"
      by auto
    then show ?thesis using reads_transfer [of "{Suc (length h)..}" "h @ Entries es' # e" v t "{length h..}"] by simp
  next
    case False
    then have "map_of es k = None" using kvs(2) by (metis map_of_eq_None_iff list.set_map)
    then show ?thesis using ent [of k] False es(2) [of k] by (auto simp: option.rel_sel)
  qed
  then have "reads {length h..} (h @ Entries es' # e) (MapRef (Some (length h))) (TMap (Some m))"
    using wf by (intro reads_map) (auto simp: wf_map_def)
  with run that show thesis by (simp add: map_loop_def)
qed

lemma map_block:
  assumes "fair_loops ords"
  shows "copy_block (TyMap ty) (map_into ords body)"
proof unfold_locales
  fix h inn out v t
  assume v: "load h inn = Some v" and rd: "reads (- {fst out}) h v t" and cf: "conforms (TyMap ty) t"
    and out: "load h out = Some v"
  show "\<exists>v' e. map_into ords body inn out h = (Inr (), put h out v' @ e) \<and> reads {length h..} (put h out v' @ e) v' t"
  proof (cases "\<exists>m. t = TMap (Some m)")
    case False
    then have "v = MapRef None" "t = TMap None" using cf rd by auto
    then have "map_into ords body inn out h = (Inr (), put h out v @ [])" "reads {length h..} (put h out v @ []) v t"
      using v out by (auto simp: map_into_def bind_load_st lift_st_def put_same intro: reads_nil_map)
    then show ?thesis by blast
  next
    case True
    then obtain m where t: "t = TMap (Some m)" by blast
    with rd obtain a es where a: "v = MapRef (Some a)" "load h (a, []) = Some (Entries es)" "a \<noteq> fst out" by auto
    define p where "p = MapRef (Some (length h))"
    have "load (put h out p) (a, []) = Some (Entries es)" "reads (- {fst out}) (put h out p) (MapRef (Some a)) (TMap (Some m))"
      using a rd t load_source [OF a(2), of out p "[]"] reads_source [of out h _ _ p "[]"] by auto
    from fill_run [OF assms this(2) _ this(1)] cf t obtain es' e where
      run: "map_loop ords body (length h) es (put h out p @ [Entries []]) = (Inr (), put h out p @ Entries es' # e)"
      and p: "reads {length h..} (put h out p @ Entries es' # e) p t"
      by (metis length_put p_def)
    have "map_into ords body inn out h = (Inr (), put h out p @ Entries es' # e)"
      using v out load_less [OF out] a(1,2) run
      by (simp add: map_into_def bind_load_st bind_store put_append p_def)
    with p show ?thesis by blast
  qed
qed

end

text \<open>The bodies of the loops: each computes a fresh value in a grown heap and stores it last.\<close>

lemma map_put_grown:
  "load h (n, []) = Some (Entries es) \<Longrightarrow> map_put n k v (h @ e) = (Inr (), put h (n, []) (Entries (AList.update k v es)) @ e)"
  using load_less [of h "(n, [])"] by (simp add: map_put_run put_append)

lemma entryI:
  assumes "body n k v h = map_put n k v' (h @ e)" and "load h (n, []) = Some (Entries es)" and "reads {length h..} (h @ e) v' t"
  shows "\<exists>v' e. body n k v h = (Inr (), put h (n, []) (Entries (AList.update k v' es)) @ e) \<and>
      reads {length h..} (put h (n, []) (Entries (AList.update k v' es)) @ e) v' t"
proof -
  have "reads {length h..} (put h (n, []) (Entries (AList.update k v' es)) @ e) v' t"
    using load_less [OF assms(2)] by (intro reads_transfer [OF assms(3)]) (auto simp: nth_append nth_put)
  with assms(1) map_put_grown [OF assms(2)] show ?thesis by metis
qed

lemma map_put_twice:
  "load h (n, []) = Some (Entries es) \<Longrightarrow> bind_st (map_put n k v) (\<lambda>_. map_put n k v) h = map_put n k v (h @ [])"
  by (simp add: bind_st_def map_put_run update_twice)

interpretation string_entry: entry_copier TyString string_entry
proof unfold_locales
  fix h n k es v t
  assume "load h (n, []) = Some (Entries es)" and "reads (- {n}) h v t" "conforms TyString t"
  then show "\<exists>v' e. string_entry n k v h = (Inr (), put h (n, []) (Entries (AList.update k v' es)) @ e) \<and>
      reads {length h..} (put h (n, []) (Entries (AList.update k v' es)) @ e) v' t"
    by (intro entryI [of _ _ _ _ _ v "[]"]) (auto simp: string_entry_def intro: reads_lit)
qed

context copier
begin

lemma ptr_entry_copier: "entry_copier (TyPtr ty) (ptr_entry ty into)"
proof unfold_locales
  fix h n k es v t
  assume es: "load h (n, []) = Some (Entries es)" and rd: "reads (- {n}) h v t" and cf: "conforms (TyPtr ty) t"
  show "\<exists>v' e. ptr_entry ty into n k v h = (Inr (), put h (n, []) (Entries (AList.update k v' es)) @ e) \<and>
      reads {length h..} (put h (n, []) (Entries (AList.update k v' es)) @ e) v' t"
  proof (cases "\<exists>u. t = TPtr (Some u)")
    case False
    then have "v = Ptr None" "t = TPtr None" using cf rd by auto
    then show ?thesis using es
      by (intro entryI [of _ _ _ _ _ v "[]"]) (auto simp: ptr_entry_def map_put_twice intro: reads_nil_ptr)
  next
    case True
    then obtain u where u: "t = TPtr (Some u)" by blast
    with rd obtain src w where src: "v = Ptr (Some src)" "load h src = Some w" "reads (- {n}) h w u" by auto
    from cf u have "conforms ty u" by auto
    from into_new [OF src(2,3) this, of "zero_val ty"] obtain w' e
      where run: "into src (length h, []) (h @ [zero_val ty]) = (Inr (), h @ w' # e)"
        and w': "reads {Suc (length h)..} (h @ w' # e) w' u" by blast
    have "reads {length h..} (h @ w' # e) (Ptr (Some (length h, []))) t"
      using reads_transfer [OF w', of "{length h..}"] unfolding u by (auto intro: reads_ptr)
    moreover have "ptr_entry ty into n k v h = map_put n k (Ptr (Some (length h, []))) (h @ w' # e)"
      using src(1) run by (simp add: ptr_entry_def bind_st_def new_st_def)
    ultimately show ?thesis using es by (intro entryI)
  qed
qed

lemma value_entry_copier: "entry_copier ty (value_entry ty into)"
proof unfold_locales
  fix h n k es v t
  assume es: "load h (n, []) = Some (Entries es)" and rd: "reads (- {n}) h v t" and cf: "conforms ty t"
  have "reads (- {n}) (h @ [v]) v t" using rd by (rule reads_transfer) (auto simp: nth_append)
  from deep_copy_run [OF load_new(1) this cf] obtain w e
    where run: "deep_copy ty into (Some (length h, [])) (h @ [v]) = (Inr (Some (Suc (length h), [])), h @ v # w # e)"
      and w: "reads {Suc (Suc (length h))..} (h @ v # w # e) w t"
    by auto
  have "load (h @ v # w # e) (Suc (length h), []) = Some w"
    using load_new(2) [of "h @ [v]"] by simp
  then have "value_entry ty into n k v h = map_put n k w (h @ v # w # e)"
    using run by (simp add: value_entry_def) (simp add: bind_st_def load_st_run lift_st_def)
  moreover have "reads {length h..} (h @ v # w # e) w t" using w by (rule reads_transfer) auto
  ultimately show "\<exists>v' e. value_entry ty into n k v h = (Inr (), put h (n, []) (Entries (AList.update k v' es)) @ e) \<and>
      reads {length h..} (put h (n, []) (Entries (AList.update k v' es)) @ e) v' t"
    using es by (intro entryI)
qed

end

lemma map_entry_copier:
  assumes "fair_loops ords"
  shows "entry_copier (TyMap TyString) (map_entry ords)"
proof unfold_locales
  fix h n k es v t
  assume es: "load h (n, []) = Some (Entries es)" and rd: "reads (- {n}) h v t" and cf: "conforms (TyMap TyString) t"
  show "\<exists>v' e. map_entry ords n k v h = (Inr (), put h (n, []) (Entries (AList.update k v' es)) @ e) \<and>
      reads {length h..} (put h (n, []) (Entries (AList.update k v' es)) @ e) v' t"
  proof (cases "\<exists>m. t = TMap (Some m)")
    case False
    then have "v = MapRef None" "t = TMap None" using cf rd by auto
    then show ?thesis using es
      by (intro entryI [of _ _ _ _ _ v "[]"]) (auto simp: map_entry_def map_put_twice intro: reads_nil_map)
  next
    case True
    then obtain m where t: "t = TMap (Some m)" by blast
    with rd obtain a fs where a: "v = MapRef (Some a)" "load h (a, []) = Some (Entries fs)" by auto
    from string_entry.fill_run [OF assms _ _ a(2)] rd cf a(1) t obtain fs' e
      where run: "map_loop ords string_entry (length h) fs (h @ [Entries []]) = (Inr (), h @ Entries fs' # e)"
        and rd': "reads {length h..} (h @ Entries fs' # e) (MapRef (Some (length h))) t"
      by metis
    have "map_entry ords n k v h = map_put n k (MapRef (Some (length h))) (h @ Entries fs' # e)"
      using a run by (simp add: map_entry_def bind_load_st) (simp add: bind_st_def)
    then show ?thesis using es rd' by (intro entryI)
  qed
qed

end
