(* ===== verification/Api_Layout.thy ===== *)
theory Api_Layout
  imports Go_Copy
begin

text \<open>
  The struct declarations of \<open>src/api/v1alpha1/trino_types.go\<close> and
  \<open>src/api/v1alpha1/trinocatalog_types.go\<close> as memory layouts: the fields in their order, with
  pointers, slices and maps where the declaration has them. A named string type is a string; an
  embedded struct is a field named by its type, as in Go.

  The record types of \<open>Api_Types\<close> are the values the controller reads; the layouts are what
  copying is about.
\<close>

text \<open>
  Types of other packages: the layout and \<open>DeepCopyInto\<close> by qualified name. What generated code
  relies on is that these deep copy, and that two of the types, which it copies by assignment,
  are flat.
\<close>

record go_external =
  ext_type :: "string \<Rightarrow> gotype"
  ext_into :: "string \<Rightarrow> copier_fn"

definition external_laws :: "go_external \<Rightarrow> bool" where
  "external_laws E \<longleftrightarrow> (\<forall>n. copier (ext_type E n) (ext_into E n)) \<and>
     flat (ext_type E ''metav1.TypeMeta'') \<and> flat (ext_type E ''commonsv1alpha1.ClusterOperationSpec'')"

section \<open>TrinoCluster\<close>

definition OidcSpec_type :: gotype where
  "OidcSpec_type = TyStruct
    [(''ClientCredentialsSecret'', TyString),
     (''ExtraScopes'', TySlice TyString)]"

definition AuthenticationSpec_type :: gotype where
  "AuthenticationSpec_type = TyStruct
    [(''AuthenticationClass'', TyString),
     (''Oidc'', TyPtr OidcSpec_type)]"

definition TlsSpec_type :: gotype where
  "TlsSpec_type = TyStruct
    [(''ServerSecretClass'', TyString),
     (''InternalSecretClass'', TyString)]"

definition ImageSpec_type :: gotype where
  "ImageSpec_type = TyStruct
    [(''Custom'', TyString),
     (''Repo'', TyString),
     (''KubedoopVersion'', TyString),
     (''ProductVersion'', TyString),
     (''PullPolicy'', TyString),
     (''PullSecretName'', TyString)]"

definition JvmPropertiesRoleConfigSpec_type :: gotype where
  "JvmPropertiesRoleConfigSpec_type = TyStruct
    [(''MaxHeapSize'', TyString),
     (''GcMethodType'', TyString),
     (''G1HeapRegionSize'', TyString)]"

definition ConfigOverridesSpec_type :: gotype where
  "ConfigOverridesSpec_type = TyStruct
    [(''Node'', TyMap TyString),
     (''Jvm'', TyString),
     (''Config'', TyMap TyString),
     (''Log'', TyMap TyString),
     (''ExchangeManager'', TyMap TyString)]"

definition LoggingSpec_type :: "go_external \<Rightarrow> gotype" where
  "LoggingSpec_type E = TyStruct
    [(''Containers'', TyMap (ext_type E ''commonsv1alpha1.LoggingConfigSpec'')),
     (''EnableVectorAgent'', TyBool)]"

definition CatalogLabelSelectorSpec_type :: "go_external \<Rightarrow> gotype" where
  "CatalogLabelSelectorSpec_type E = TyStruct
    [(''MatchLabels'', TyMap TyString),
     (''MatchExpressions'', TySlice (ext_type E ''metav1.LabelSelectorRequirement''))]"

definition ClusterConfigSpec_type :: "go_external \<Rightarrow> gotype" where
  "ClusterConfigSpec_type E = TyStruct
    [(''Authentication'', TySlice AuthenticationSpec_type),
     (''CatalogLabelSelector'', TyPtr (CatalogLabelSelectorSpec_type E)),
     (''CatalogProperties'', TyMap (TyMap TyString)),
     (''ListenerClass'', TyString),
     (''Tls'', TyPtr TlsSpec_type),
     (''VectorAggregatorConfigMapName'', TyString)]"

definition ConfigSpec_type :: "go_external \<Rightarrow> gotype" where
  "ConfigSpec_type E = TyStruct
    [(''RoleGroupConfigSpec'', TyPtr (ext_type E ''commonsv1alpha1.RoleGroupConfigSpec'')),
     (''QueryMaxMemory'', TyString),
     (''QueryMaxMemoryPerNode'', TyString)]"

definition BaseRoleSpec_type :: "go_external \<Rightarrow> gotype" where
  "BaseRoleSpec_type E = TyStruct
    [(''Replicas'', TyPtr TyInt),
     (''OverridesSpec'', TyPtr (ext_type E ''commonsv1alpha1.OverridesSpec'')),
     (''RoleConfig'', TyPtr (ext_type E ''commonsv1alpha1.RoleConfigSpec'')),
     (''Config'', TyPtr (ConfigSpec_type E))]"

definition RoleGroupSpec_type :: "go_external \<Rightarrow> gotype" where
  "RoleGroupSpec_type E = TyStruct
    [(''Replicas'', TyPtr TyInt),
     (''Config'', TyPtr (ConfigSpec_type E)),
     (''OverridesSpec'', TyPtr (ext_type E ''commonsv1alpha1.OverridesSpec''))]"

definition CoordinatorsSpec_type :: "go_external \<Rightarrow> gotype" where
  "CoordinatorsSpec_type E = TyStruct
    [(''RoleGroups'', TyMap (TyPtr (RoleGroupSpec_type E))),
     (''BaseRoleSpec'', BaseRoleSpec_type E)]"

definition WorkersSpec_type :: "go_external \<Rightarrow> gotype" where
  "WorkersSpec_type E = TyStruct
    [(''RoleGroups'', TyMap (TyPtr (RoleGroupSpec_type E))),
     (''BaseRoleSpec'', BaseRoleSpec_type E)]"

definition TrinoClusterSpec_type :: "go_external \<Rightarrow> gotype" where
  "TrinoClusterSpec_type E = TyStruct
    [(''ClusterConfig'', TyPtr (ClusterConfigSpec_type E)),
     (''ClusterOperation'', TyPtr (ext_type E ''commonsv1alpha1.ClusterOperationSpec'')),
     (''Image'', TyPtr ImageSpec_type),
     (''Coordinators'', TyPtr (CoordinatorsSpec_type E)),
     (''Workers'', TyPtr (WorkersSpec_type E))]"

definition TrinoCluster_type :: "go_external \<Rightarrow> gotype" where
  "TrinoCluster_type E = TyStruct
    [(''TypeMeta'', ext_type E ''metav1.TypeMeta''),
     (''ObjectMeta'', ext_type E ''metav1.ObjectMeta''),
     (''Spec'', TrinoClusterSpec_type E),
     (''Status'', ext_type E ''status.Status'')]"

definition TrinoClusterList_type :: "go_external \<Rightarrow> gotype" where
  "TrinoClusterList_type E = TyStruct
    [(''TypeMeta'', ext_type E ''metav1.TypeMeta''),
     (''ListMeta'', ext_type E ''metav1.ListMeta''),
     (''Items'', TySlice (TrinoCluster_type E))]"

section \<open>TrinoCatalog\<close>

definition ValueFromConfigurationSpec_type :: gotype where
  "ValueFromConfigurationSpec_type = TyStruct
    [(''Type'', TyString),
     (''Name'', TyString),
     (''Key'', TyString)]"

definition PropertiesSpec_type :: gotype where
  "PropertiesSpec_type = TyStruct
    [(''Value'', TyString),
     (''ValueFromConfiguration'', TyPtr ValueFromConfigurationSpec_type)]"

definition MetastoreConnectionSpec_type :: gotype where
  "MetastoreConnectionSpec_type = TyStruct
    [(''ConfigMap'', TyString)]"

definition HdfsConnectionSpec_type :: gotype where
  "HdfsConnectionSpec_type = TyStruct
    [(''ConfigMap'', TyString)]"

definition TpcdsConnectorSpec_type :: gotype where
  "TpcdsConnectorSpec_type = TyStruct
    []"

definition TpchConnectorSpec_type :: gotype where
  "TpchConnectorSpec_type = TyStruct
    []"

definition GenericConnectorSpec_type :: gotype where
  "GenericConnectorSpec_type = TyStruct
    [(''Name'', TyString),
     (''Properties'', TyPtr PropertiesSpec_type)]"

definition HiveConnectorSpec_type :: "go_external \<Rightarrow> gotype" where
  "HiveConnectorSpec_type E = TyStruct
    [(''Metastore'', TyPtr MetastoreConnectionSpec_type),
     (''S3'', TyPtr (ext_type E ''s3v1alpha1.S3BucketSpec'')),
     (''Hdfs'', TyPtr HdfsConnectionSpec_type)]"

definition IcebergConnectorSpec_type :: "go_external \<Rightarrow> gotype" where
  "IcebergConnectorSpec_type E = TyStruct
    [(''Metastore'', TyPtr MetastoreConnectionSpec_type),
     (''S3'', TyPtr (ext_type E ''s3v1alpha1.S3BucketSpec'')),
     (''Hdfs'', TyPtr HdfsConnectionSpec_type)]"

definition ConnectorSpec_type :: "go_external \<Rightarrow> gotype" where
  "ConnectorSpec_type E = TyStruct
    [(''Generic'', TyPtr GenericConnectorSpec_type),
     (''Hive'', TyPtr (HiveConnectorSpec_type E)),
     (''IceBerg'', TyPtr (IcebergConnectorSpec_type E)),
     (''Tpcds'', TyPtr TpcdsConnectorSpec_type),
     (''Tpch'', TyPtr TpchConnectorSpec_type)]"

definition TrinoCatalogSpec_type :: "go_external \<Rightarrow> gotype" where
  "TrinoCatalogSpec_type E = TyStruct
    [(''Connector'', ConnectorSpec_type E),
     (''ConfigOverrides'', TyMap TyString)]"

definition TrinoCatalogStatus_type :: gotype where
  "TrinoCatalogStatus_type = TyStruct
    []"

definition TrinoCatalog_type :: "go_external \<Rightarrow> gotype" where
  "TrinoCatalog_type E = TyStruct
    [(''TypeMeta'', ext_type E ''metav1.TypeMeta''),
     (''ObjectMeta'', ext_type E ''metav1.ObjectMeta''),
     (''Spec'', TrinoCatalogSpec_type E),
     (''Status'', TrinoCatalogStatus_type)]"

definition TrinoCatalogList_type :: "go_external \<Rightarrow> gotype" where
  "TrinoCatalogList_type E = TyStruct
    [(''TypeMeta'', ext_type E ''metav1.TypeMeta''),
     (''ListMeta'', ext_type E ''metav1.ListMeta''),
     (''Items'', TySlice (TrinoCatalog_type E))]"

end
