(* ===== verification/Deep_Copy.thy ===== *)
theory Deep_Copy
  imports Api_Layout
begin

text \<open>
  \<open>src/api/v1alpha1/zz_generated.deepcopy.go\<close>: the deep copies of the API types. The client library
  hands out objects of a shared cache, so a copy that shared a slice, a map or a pointer with its
  original would let one reconciliation change what another reads.

  Each \<open>T_DeepCopyInto\<close> lists the blocks of the source in their order, each \<open>T_DeepCopy\<close> allocates and
  fills a new value. The lemmas \<open>T_copier\<close> say that every one of them is a \<open>copier\<close> of the layout
  of its type: no field with a reference was left to the assignment alone.
\<close>

section \<open>TrinoCluster\<close>

definition OidcSpec_DeepCopyInto :: copier_fn where
  "OidcSpec_DeepCopyInto = struct_into
    [(''ExtraScopes'', slice_copy TyString)]"

definition OidcSpec_DeepCopy :: "loc option \<Rightarrow> (heap, loc option) st" where
  "OidcSpec_DeepCopy = deep_copy OidcSpec_type OidcSpec_DeepCopyInto"

definition AuthenticationSpec_DeepCopyInto :: copier_fn where
  "AuthenticationSpec_DeepCopyInto = struct_into
    [(''Oidc'', ptr_into OidcSpec_type OidcSpec_DeepCopyInto)]"

definition AuthenticationSpec_DeepCopy :: "loc option \<Rightarrow> (heap, loc option) st" where
  "AuthenticationSpec_DeepCopy = deep_copy AuthenticationSpec_type AuthenticationSpec_DeepCopyInto"

definition TlsSpec_DeepCopyInto :: copier_fn where
  "TlsSpec_DeepCopyInto = struct_into
    []"

definition TlsSpec_DeepCopy :: "loc option \<Rightarrow> (heap, loc option) st" where
  "TlsSpec_DeepCopy = deep_copy TlsSpec_type TlsSpec_DeepCopyInto"

definition ImageSpec_DeepCopyInto :: copier_fn where
  "ImageSpec_DeepCopyInto = struct_into
    []"

definition ImageSpec_DeepCopy :: "loc option \<Rightarrow> (heap, loc option) st" where
  "ImageSpec_DeepCopy = deep_copy ImageSpec_type ImageSpec_DeepCopyInto"

definition JvmPropertiesRoleConfigSpec_DeepCopyInto :: copier_fn where
  "JvmPropertiesRoleConfigSpec_DeepCopyInto = struct_into
    []"

definition JvmPropertiesRoleConfigSpec_DeepCopy :: "loc option \<Rightarrow> (heap, loc option) st" where
  "JvmPropertiesRoleConfigSpec_DeepCopy = deep_copy JvmPropertiesRoleConfigSpec_type JvmPropertiesRoleConfigSpec_DeepCopyInto"

definition ConfigOverridesSpec_DeepCopyInto :: "loop_orders \<Rightarrow> copier_fn" where
  "ConfigOverridesSpec_DeepCopyInto ords = struct_into
    [(''Node'', map_into ords string_entry),
     (''Config'', map_into ords string_entry),
     (''Log'', map_into ords string_entry),
     (''ExchangeManager'', map_into ords string_entry)]"

definition ConfigOverridesSpec_DeepCopy :: "loop_orders \<Rightarrow> loc option \<Rightarrow> (heap, loc option) st" where
  "ConfigOverridesSpec_DeepCopy ords = deep_copy ConfigOverridesSpec_type (ConfigOverridesSpec_DeepCopyInto ords)"

definition LoggingSpec_DeepCopyInto :: "go_external \<Rightarrow> loop_orders \<Rightarrow> copier_fn" where
  "LoggingSpec_DeepCopyInto E ords = struct_into
    [(''Containers'', map_into ords (value_entry (ext_type E ''commonsv1alpha1.LoggingConfigSpec'') (ext_into E ''commonsv1alpha1.LoggingConfigSpec'')))]"

definition LoggingSpec_DeepCopy :: "go_external \<Rightarrow> loop_orders \<Rightarrow> loc option \<Rightarrow> (heap, loc option) st" where
  "LoggingSpec_DeepCopy E ords = deep_copy (LoggingSpec_type E) (LoggingSpec_DeepCopyInto E ords)"

definition CatalogLabelSelectorSpec_DeepCopyInto :: "go_external \<Rightarrow> loop_orders \<Rightarrow> copier_fn" where
  "CatalogLabelSelectorSpec_DeepCopyInto E ords = struct_into
    [(''MatchLabels'', map_into ords string_entry),
     (''MatchExpressions'', slice_into (ext_type E ''metav1.LabelSelectorRequirement'') (ext_into E ''metav1.LabelSelectorRequirement''))]"

definition CatalogLabelSelectorSpec_DeepCopy :: "go_external \<Rightarrow> loop_orders \<Rightarrow> loc option \<Rightarrow> (heap, loc option) st" where
  "CatalogLabelSelectorSpec_DeepCopy E ords = deep_copy (CatalogLabelSelectorSpec_type E) (CatalogLabelSelectorSpec_DeepCopyInto E ords)"

definition ClusterConfigSpec_DeepCopyInto :: "go_external \<Rightarrow> loop_orders \<Rightarrow> copier_fn" where
  "ClusterConfigSpec_DeepCopyInto E ords = struct_into
    [(''Authentication'', slice_into AuthenticationSpec_type AuthenticationSpec_DeepCopyInto),
     (''CatalogLabelSelector'', ptr_into (CatalogLabelSelectorSpec_type E) (CatalogLabelSelectorSpec_DeepCopyInto E ords)),
     (''CatalogProperties'', map_into ords (map_entry ords)),
     (''Tls'', ptr_assign TlsSpec_type)]"

definition ClusterConfigSpec_DeepCopy :: "go_external \<Rightarrow> loop_orders \<Rightarrow> loc option \<Rightarrow> (heap, loc option) st" where
  "ClusterConfigSpec_DeepCopy E ords = deep_copy (ClusterConfigSpec_type E) (ClusterConfigSpec_DeepCopyInto E ords)"

definition ConfigSpec_DeepCopyInto :: "go_external \<Rightarrow> copier_fn" where
  "ConfigSpec_DeepCopyInto E = struct_into
    [(''RoleGroupConfigSpec'', ptr_into (ext_type E ''commonsv1alpha1.RoleGroupConfigSpec'') (ext_into E ''commonsv1alpha1.RoleGroupConfigSpec''))]"

definition ConfigSpec_DeepCopy :: "go_external \<Rightarrow> loc option \<Rightarrow> (heap, loc option) st" where
  "ConfigSpec_DeepCopy E = deep_copy (ConfigSpec_type E) (ConfigSpec_DeepCopyInto E)"

definition BaseRoleSpec_DeepCopyInto :: "go_external \<Rightarrow> copier_fn" where
  "BaseRoleSpec_DeepCopyInto E = struct_into
    [(''Replicas'', ptr_assign TyInt),
     (''OverridesSpec'', ptr_into (ext_type E ''commonsv1alpha1.OverridesSpec'') (ext_into E ''commonsv1alpha1.OverridesSpec'')),
     (''RoleConfig'', ptr_into (ext_type E ''commonsv1alpha1.RoleConfigSpec'') (ext_into E ''commonsv1alpha1.RoleConfigSpec'')),
     (''Config'', ptr_into (ConfigSpec_type E) (ConfigSpec_DeepCopyInto E))]"

definition BaseRoleSpec_DeepCopy :: "go_external \<Rightarrow> loc option \<Rightarrow> (heap, loc option) st" where
  "BaseRoleSpec_DeepCopy E = deep_copy (BaseRoleSpec_type E) (BaseRoleSpec_DeepCopyInto E)"

definition RoleGroupSpec_DeepCopyInto :: "go_external \<Rightarrow> copier_fn" where
  "RoleGroupSpec_DeepCopyInto E = struct_into
    [(''Replicas'', ptr_assign TyInt),
     (''Config'', ptr_into (ConfigSpec_type E) (ConfigSpec_DeepCopyInto E)),
     (''OverridesSpec'', ptr_into (ext_type E ''commonsv1alpha1.OverridesSpec'') (ext_into E ''commonsv1alpha1.OverridesSpec''))]"

definition RoleGroupSpec_DeepCopy :: "go_external \<Rightarrow> loc option \<Rightarrow> (heap, loc option) st" where
  "RoleGroupSpec_DeepCopy E = deep_copy (RoleGroupSpec_type E) (RoleGroupSpec_DeepCopyInto E)"

definition CoordinatorsSpec_DeepCopyInto :: "go_external \<Rightarrow> loop_orders \<Rightarrow> copier_fn" where
  "CoordinatorsSpec_DeepCopyInto E ords = struct_into
    [(''RoleGroups'', map_into ords (ptr_entry (RoleGroupSpec_type E) (RoleGroupSpec_DeepCopyInto E))),
     (''BaseRoleSpec'', BaseRoleSpec_DeepCopyInto E)]"

definition CoordinatorsSpec_DeepCopy :: "go_external \<Rightarrow> loop_orders \<Rightarrow> loc option \<Rightarrow> (heap, loc option) st" where
  "CoordinatorsSpec_DeepCopy E ords = deep_copy (CoordinatorsSpec_type E) (CoordinatorsSpec_DeepCopyInto E ords)"

definition WorkersSpec_DeepCopyInto :: "go_external \<Rightarrow> loop_orders \<Rightarrow> copier_fn" where
  "WorkersSpec_DeepCopyInto E ords = struct_into
    [(''RoleGroups'', map_into ords (ptr_entry (RoleGroupSpec_type E) (RoleGroupSpec_DeepCopyInto E))),
     (''BaseRoleSpec'', BaseRoleSpec_DeepCopyInto E)]"

definition WorkersSpec_DeepCopy :: "go_external \<Rightarrow> loop_orders \<Rightarrow> loc option \<Rightarrow> (heap, loc option) st" where
  "WorkersSpec_DeepCopy E ords = deep_copy (WorkersSpec_type E) (WorkersSpec_DeepCopyInto E ords)"

definition TrinoClusterSpec_DeepCopyInto :: "go_external \<Rightarrow> loop_orders \<Rightarrow> copier_fn" where
  "TrinoClusterSpec_DeepCopyInto E ords = struct_into
    [(''ClusterConfig'', ptr_into (ClusterConfigSpec_type E) (ClusterConfigSpec_DeepCopyInto E ords)),
     (''ClusterOperation'', ptr_assign (ext_type E ''commonsv1alpha1.ClusterOperationSpec'')),
     (''Image'', ptr_assign ImageSpec_type),
     (''Coordinators'', ptr_into (CoordinatorsSpec_type E) (CoordinatorsSpec_DeepCopyInto E ords)),
     (''Workers'', ptr_into (WorkersSpec_type E) (WorkersSpec_DeepCopyInto E ords))]"

definition TrinoClusterSpec_DeepCopy :: "go_external \<Rightarrow> loop_orders \<Rightarrow> loc option \<Rightarrow> (heap, loc option) st" where
  "TrinoClusterSpec_DeepCopy E ords = deep_copy (TrinoClusterSpec_type E) (TrinoClusterSpec_DeepCopyInto E ords)"

definition TrinoCluster_DeepCopyInto :: "go_external \<Rightarrow> loop_orders \<Rightarrow> copier_fn" where
  "TrinoCluster_DeepCopyInto E ords = struct_into
    [(''TypeMeta'', assign),
     (''ObjectMeta'', ext_into E ''metav1.ObjectMeta''),
     (''Spec'', TrinoClusterSpec_DeepCopyInto E ords),
     (''Status'', ext_into E ''status.Status'')]"

definition TrinoCluster_DeepCopy :: "go_external \<Rightarrow> loop_orders \<Rightarrow> loc option \<Rightarrow> (heap, loc option) st" where
  "TrinoCluster_DeepCopy E ords = deep_copy (TrinoCluster_type E) (TrinoCluster_DeepCopyInto E ords)"

definition TrinoCluster_DeepCopyObject :: "go_external \<Rightarrow> loop_orders \<Rightarrow> loc option \<Rightarrow> (heap, (string \<times> loc) option) st" where
  "TrinoCluster_DeepCopyObject E ords = deep_copy_object ''*TrinoCluster'' (TrinoCluster_DeepCopy E ords)"

definition TrinoClusterList_DeepCopyInto :: "go_external \<Rightarrow> loop_orders \<Rightarrow> copier_fn" where
  "TrinoClusterList_DeepCopyInto E ords = struct_into
    [(''TypeMeta'', assign),
     (''ListMeta'', ext_into E ''metav1.ListMeta''),
     (''Items'', slice_into (TrinoCluster_type E) (TrinoCluster_DeepCopyInto E ords))]"

definition TrinoClusterList_DeepCopy :: "go_external \<Rightarrow> loop_orders \<Rightarrow> loc option \<Rightarrow> (heap, loc option) st" where
  "TrinoClusterList_DeepCopy E ords = deep_copy (TrinoClusterList_type E) (TrinoClusterList_DeepCopyInto E ords)"

definition TrinoClusterList_DeepCopyObject :: "go_external \<Rightarrow> loop_orders \<Rightarrow> loc option \<Rightarrow> (heap, (string \<times> loc) option) st" where
  "TrinoClusterList_DeepCopyObject E ords = deep_copy_object ''*TrinoClusterList'' (TrinoClusterList_DeepCopy E ords)"

section \<open>TrinoCatalog\<close>

definition ValueFromConfigurationSpec_DeepCopyInto :: copier_fn where
  "ValueFromConfigurationSpec_DeepCopyInto = struct_into
    []"

definition ValueFromConfigurationSpec_DeepCopy :: "loc option \<Rightarrow> (heap, loc option) st" where
  "ValueFromConfigurationSpec_DeepCopy = deep_copy ValueFromConfigurationSpec_type ValueFromConfigurationSpec_DeepCopyInto"

definition PropertiesSpec_DeepCopyInto :: copier_fn where
  "PropertiesSpec_DeepCopyInto = struct_into
    [(''ValueFromConfiguration'', ptr_assign ValueFromConfigurationSpec_type)]"

definition PropertiesSpec_DeepCopy :: "loc option \<Rightarrow> (heap, loc option) st" where
  "PropertiesSpec_DeepCopy = deep_copy PropertiesSpec_type PropertiesSpec_DeepCopyInto"

definition MetastoreConnectionSpec_DeepCopyInto :: copier_fn where
  "MetastoreConnectionSpec_DeepCopyInto = struct_into
    []"

definition MetastoreConnectionSpec_DeepCopy :: "loc option \<Rightarrow> (heap, loc option) st" where
  "MetastoreConnectionSpec_DeepCopy = deep_copy MetastoreConnectionSpec_type MetastoreConnectionSpec_DeepCopyInto"

definition HdfsConnectionSpec_DeepCopyInto :: copier_fn where
  "HdfsConnectionSpec_DeepCopyInto = struct_into
    []"

definition HdfsConnectionSpec_DeepCopy :: "loc option \<Rightarrow> (heap, loc option) st" where
  "HdfsConnectionSpec_DeepCopy = deep_copy HdfsConnectionSpec_type HdfsConnectionSpec_DeepCopyInto"

definition TpcdsConnectorSpec_DeepCopyInto :: copier_fn where
  "TpcdsConnectorSpec_DeepCopyInto = struct_into
    []"

definition TpcdsConnectorSpec_DeepCopy :: "loc option \<Rightarrow> (heap, loc option) st" where
  "TpcdsConnectorSpec_DeepCopy = deep_copy TpcdsConnectorSpec_type TpcdsConnectorSpec_DeepCopyInto"

definition TpchConnectorSpec_DeepCopyInto :: copier_fn where
  "TpchConnectorSpec_DeepCopyInto = struct_into
    []"

definition TpchConnectorSpec_DeepCopy :: "loc option \<Rightarrow> (heap, loc option) st" where
  "TpchConnectorSpec_DeepCopy = deep_copy TpchConnectorSpec_type TpchConnectorSpec_DeepCopyInto"

definition GenericConnectorSpec_DeepCopyInto :: copier_fn where
  "GenericConnectorSpec_DeepCopyInto = struct_into
    [(''Properties'', ptr_into PropertiesSpec_type PropertiesSpec_DeepCopyInto)]"

definition GenericConnectorSpec_DeepCopy :: "loc option \<Rightarrow> (heap, loc option) st" where
  "GenericConnectorSpec_DeepCopy = deep_copy GenericConnectorSpec_type GenericConnectorSpec_DeepCopyInto"

definition HiveConnectorSpec_DeepCopyInto :: "go_external \<Rightarrow> copier_fn" where
  "HiveConnectorSpec_DeepCopyInto E = struct_into
    [(''Metastore'', ptr_assign MetastoreConnectionSpec_type),
     (''S3'', ptr_into (ext_type E ''s3v1alpha1.S3BucketSpec'') (ext_into E ''s3v1alpha1.S3BucketSpec'')),
     (''Hdfs'', ptr_assign HdfsConnectionSpec_type)]"

definition HiveConnectorSpec_DeepCopy :: "go_external \<Rightarrow> loc option \<Rightarrow> (heap, loc option) st" where
  "HiveConnectorSpec_DeepCopy E = deep_copy (HiveConnectorSpec_type E) (HiveConnectorSpec_DeepCopyInto E)"

definition IcebergConnectorSpec_DeepCopyInto :: "go_external \<Rightarrow> copier_fn" where
  "IcebergConnectorSpec_DeepCopyInto E = struct_into
    [(''Metastore'', ptr_assign MetastoreConnectionSpec_type),
     (''S3'', ptr_into (ext_type E ''s3v1alpha1.S3BucketSpec'') (ext_into E ''s3v1alpha1.S3BucketSpec'')),
     (''Hdfs'', ptr_assign HdfsConnectionSpec_type)]"

definition IcebergConnectorSpec_DeepCopy :: "go_external \<Rightarrow> loc option \<Rightarrow> (heap, loc option) st" where
  "IcebergConnectorSpec_DeepCopy E = deep_copy (IcebergConnectorSpec_type E) (IcebergConnectorSpec_DeepCopyInto E)"

definition ConnectorSpec_DeepCopyInto :: "go_external \<Rightarrow> copier_fn" where
  "ConnectorSpec_DeepCopyInto E = struct_into
    [(''Generic'', ptr_into GenericConnectorSpec_type GenericConnectorSpec_DeepCopyInto),
     (''Hive'', ptr_into (HiveConnectorSpec_type E) (HiveConnectorSpec_DeepCopyInto E)),
     (''IceBerg'', ptr_into (IcebergConnectorSpec_type E) (IcebergConnectorSpec_DeepCopyInto E)),
     (''Tpcds'', ptr_assign TpcdsConnectorSpec_type),
     (''Tpch'', ptr_assign TpchConnectorSpec_type)]"

definition ConnectorSpec_DeepCopy :: "go_external \<Rightarrow> loc option \<Rightarrow> (heap, loc option) st" where
  "ConnectorSpec_DeepCopy E = deep_copy (ConnectorSpec_type E) (ConnectorSpec_DeepCopyInto E)"

definition TrinoCatalogSpec_DeepCopyInto :: "go_external \<Rightarrow> loop_orders \<Rightarrow> copier_fn" where
  "TrinoCatalogSpec_DeepCopyInto E ords = struct_into
    [(''Connector'', ConnectorSpec_DeepCopyInto E),
     (''ConfigOverrides'', map_into ords string_entry)]"

definition TrinoCatalogSpec_DeepCopy :: "go_external \<Rightarrow> loop_orders \<Rightarrow> loc option \<Rightarrow> (heap, loc option) st" where
  "TrinoCatalogSpec_DeepCopy E ords = deep_copy (TrinoCatalogSpec_type E) (TrinoCatalogSpec_DeepCopyInto E ords)"

definition TrinoCatalogStatus_DeepCopyInto :: copier_fn where
  "TrinoCatalogStatus_DeepCopyInto = struct_into
    []"

definition TrinoCatalogStatus_DeepCopy :: "loc option \<Rightarrow> (heap, loc option) st" where
  "TrinoCatalogStatus_DeepCopy = deep_copy TrinoCatalogStatus_type TrinoCatalogStatus_DeepCopyInto"

definition TrinoCatalog_DeepCopyInto :: "go_external \<Rightarrow> loop_orders \<Rightarrow> copier_fn" where
  "TrinoCatalog_DeepCopyInto E ords = struct_into
    [(''TypeMeta'', assign),
     (''ObjectMeta'', ext_into E ''metav1.ObjectMeta''),
     (''Spec'', TrinoCatalogSpec_DeepCopyInto E ords),
     (''Status'', assign)]"

definition TrinoCatalog_DeepCopy :: "go_external \<Rightarrow> loop_orders \<Rightarrow> loc option \<Rightarrow> (heap, loc option) st" where
  "TrinoCatalog_DeepCopy E ords = deep_copy (TrinoCatalog_type E) (TrinoCatalog_DeepCopyInto E ords)"

definition TrinoCatalog_DeepCopyObject :: "go_external \<Rightarrow> loop_orders \<Rightarrow> loc option \<Rightarrow> (heap, (string \<times> loc) option) st" where
  "TrinoCatalog_DeepCopyObject E ords = deep_copy_object ''*TrinoCatalog'' (TrinoCatalog_DeepCopy E ords)"

definition TrinoCatalogList_DeepCopyInto :: "go_external \<Rightarrow> loop_orders \<Rightarrow> copier_fn" where
  "TrinoCatalogList_DeepCopyInto E ords = struct_into
    [(''TypeMeta'', assign),
     (''ListMeta'', ext_into E ''metav1.ListMeta''),
     (''Items'', slice_into (TrinoCatalog_type E) (TrinoCatalog_DeepCopyInto E ords))]"

definition TrinoCatalogList_DeepCopy :: "go_external \<Rightarrow> loop_orders \<Rightarrow> loc option \<Rightarrow> (heap, loc option) st" where
  "TrinoCatalogList_DeepCopy E ords = deep_copy (TrinoCatalogList_type E) (TrinoCatalogList_DeepCopyInto E ords)"

definition TrinoCatalogList_DeepCopyObject :: "go_external \<Rightarrow> loop_orders \<Rightarrow> loc option \<Rightarrow> (heap, (string \<times> loc) option) st" where
  "TrinoCatalogList_DeepCopyObject E ords = deep_copy_object ''*TrinoCatalogList'' (TrinoCatalogList_DeepCopy E ords)"

section \<open>Every generated function is a deep copy\<close>

named_theorems copier_facts

lemma external_copier [copier_facts]:
  "external_laws E \<Longrightarrow> copier (ext_type E n) (ext_into E n)"
  "external_laws E \<Longrightarrow> flat (ext_type E ''metav1.TypeMeta'')"
  "external_laws E \<Longrightarrow> flat (ext_type E ''commonsv1alpha1.ClusterOperationSpec'')"
  by (simp_all add: external_laws_def)

declare copier.ptr_block [copier_facts] copier.slice_block [copier_facts] ptr_assign_block [copier_facts]
  slice_copy_block [copier_facts] entry_copier.map_block [copier_facts] copier.ptr_entry_copier [copier_facts]
  copier.value_entry_copier [copier_facts] map_entry_copier [copier_facts] string_entry.entry_copier_axioms [copier_facts]
  assign_copier [copier_facts] block_of_copier [copier_facts]

lemma OidcSpec_copier [copier_facts]: "copier OidcSpec_type OidcSpec_DeepCopyInto"
  unfolding OidcSpec_type_def OidcSpec_DeepCopyInto_def by (rule struct_copier) (simp add: covers_def copier_facts)

lemma AuthenticationSpec_copier [copier_facts]: "copier AuthenticationSpec_type AuthenticationSpec_DeepCopyInto"
  unfolding AuthenticationSpec_type_def AuthenticationSpec_DeepCopyInto_def by (rule struct_copier) (simp add: covers_def copier_facts)

lemma TlsSpec_flat [simp]: "flat TlsSpec_type"
  by (simp add: TlsSpec_type_def)

lemma TlsSpec_copier [copier_facts]: "copier TlsSpec_type TlsSpec_DeepCopyInto"
  unfolding TlsSpec_type_def TlsSpec_DeepCopyInto_def by (rule struct_copier) (simp add: covers_def copier_facts)

lemma ImageSpec_flat [simp]: "flat ImageSpec_type"
  by (simp add: ImageSpec_type_def)

lemma ImageSpec_copier [copier_facts]: "copier ImageSpec_type ImageSpec_DeepCopyInto"
  unfolding ImageSpec_type_def ImageSpec_DeepCopyInto_def by (rule struct_copier) (simp add: covers_def copier_facts)

lemma JvmPropertiesRoleConfigSpec_flat [simp]: "flat JvmPropertiesRoleConfigSpec_type"
  by (simp add: JvmPropertiesRoleConfigSpec_type_def)

lemma JvmPropertiesRoleConfigSpec_copier [copier_facts]: "copier JvmPropertiesRoleConfigSpec_type JvmPropertiesRoleConfigSpec_DeepCopyInto"
  unfolding JvmPropertiesRoleConfigSpec_type_def JvmPropertiesRoleConfigSpec_DeepCopyInto_def by (rule struct_copier) (simp add: covers_def copier_facts)

lemma ConfigOverridesSpec_copier [copier_facts]: "fair_loops ords \<Longrightarrow> copier ConfigOverridesSpec_type (ConfigOverridesSpec_DeepCopyInto ords)"
  unfolding ConfigOverridesSpec_type_def ConfigOverridesSpec_DeepCopyInto_def by (rule struct_copier) (simp add: covers_def copier_facts)

lemma LoggingSpec_copier [copier_facts]: "external_laws E \<Longrightarrow> fair_loops ords \<Longrightarrow> copier (LoggingSpec_type E) (LoggingSpec_DeepCopyInto E ords)"
  unfolding LoggingSpec_type_def LoggingSpec_DeepCopyInto_def by (rule struct_copier) (simp add: covers_def copier_facts)

lemma CatalogLabelSelectorSpec_copier [copier_facts]: "external_laws E \<Longrightarrow> fair_loops ords \<Longrightarrow> copier (CatalogLabelSelectorSpec_type E) (CatalogLabelSelectorSpec_DeepCopyInto E ords)"
  unfolding CatalogLabelSelectorSpec_type_def CatalogLabelSelectorSpec_DeepCopyInto_def by (rule struct_copier) (simp add: covers_def copier_facts)

lemma ClusterConfigSpec_copier [copier_facts]: "external_laws E \<Longrightarrow> fair_loops ords \<Longrightarrow> copier (ClusterConfigSpec_type E) (ClusterConfigSpec_DeepCopyInto E ords)"
  unfolding ClusterConfigSpec_type_def ClusterConfigSpec_DeepCopyInto_def by (rule struct_copier) (simp add: covers_def copier_facts)

lemma ConfigSpec_copier [copier_facts]: "external_laws E \<Longrightarrow> copier (ConfigSpec_type E) (ConfigSpec_DeepCopyInto E)"
  unfolding ConfigSpec_type_def ConfigSpec_DeepCopyInto_def by (rule struct_copier) (simp add: covers_def copier_facts)

lemma BaseRoleSpec_copier [copier_facts]: "external_laws E \<Longrightarrow> copier (BaseRoleSpec_type E) (BaseRoleSpec_DeepCopyInto E)"
  unfolding BaseRoleSpec_type_def BaseRoleSpec_DeepCopyInto_def by (rule struct_copier) (simp add: covers_def copier_facts)

lemma RoleGroupSpec_copier [copier_facts]: "external_laws E \<Longrightarrow> copier (RoleGroupSpec_type E) (RoleGroupSpec_DeepCopyInto E)"
  unfolding RoleGroupSpec_type_def RoleGroupSpec_DeepCopyInto_def by (rule struct_copier) (simp add: covers_def copier_facts)

lemma CoordinatorsSpec_copier [copier_facts]: "external_laws E \<Longrightarrow> fair_loops ords \<Longrightarrow> copier (CoordinatorsSpec_type E) (CoordinatorsSpec_DeepCopyInto E ords)"
  unfolding CoordinatorsSpec_type_def CoordinatorsSpec_DeepCopyInto_def by (rule struct_copier) (simp add: covers_def copier_facts)

lemma WorkersSpec_copier [copier_facts]: "external_laws E \<Longrightarrow> fair_loops ords \<Longrightarrow> copier (WorkersSpec_type E) (WorkersSpec_DeepCopyInto E ords)"
  unfolding WorkersSpec_type_def WorkersSpec_DeepCopyInto_def by (rule struct_copier) (simp add: covers_def copier_facts)

lemma TrinoClusterSpec_copier [copier_facts]: "external_laws E \<Longrightarrow> fair_loops ords \<Longrightarrow> copier (TrinoClusterSpec_type E) (TrinoClusterSpec_DeepCopyInto E ords)"
  unfolding TrinoClusterSpec_type_def TrinoClusterSpec_DeepCopyInto_def by (rule struct_copier) (simp add: covers_def copier_facts)

lemma TrinoCluster_copier [copier_facts]: "external_laws E \<Longrightarrow> fair_loops ords \<Longrightarrow> copier (TrinoCluster_type E) (TrinoCluster_DeepCopyInto E ords)"
  unfolding TrinoCluster_type_def TrinoCluster_DeepCopyInto_def by (rule struct_copier) (simp add: covers_def copier_facts)

lemma TrinoClusterList_copier [copier_facts]: "external_laws E \<Longrightarrow> fair_loops ords \<Longrightarrow> copier (TrinoClusterList_type E) (TrinoClusterList_DeepCopyInto E ords)"
  unfolding TrinoClusterList_type_def TrinoClusterList_DeepCopyInto_def by (rule struct_copier) (simp add: covers_def copier_facts)

lemma ValueFromConfigurationSpec_flat [simp]: "flat ValueFromConfigurationSpec_type"
  by (simp add: ValueFromConfigurationSpec_type_def)

lemma ValueFromConfigurationSpec_copier [copier_facts]: "copier ValueFromConfigurationSpec_type ValueFromConfigurationSpec_DeepCopyInto"
  unfolding ValueFromConfigurationSpec_type_def ValueFromConfigurationSpec_DeepCopyInto_def by (rule struct_copier) (simp add: covers_def copier_facts)

lemma PropertiesSpec_copier [copier_facts]: "copier PropertiesSpec_type PropertiesSpec_DeepCopyInto"
  unfolding PropertiesSpec_type_def PropertiesSpec_DeepCopyInto_def by (rule struct_copier) (simp add: covers_def copier_facts)

lemma MetastoreConnectionSpec_flat [simp]: "flat MetastoreConnectionSpec_type"
  by (simp add: MetastoreConnectionSpec_type_def)

lemma MetastoreConnectionSpec_copier [copier_facts]: "copier MetastoreConnectionSpec_type MetastoreConnectionSpec_DeepCopyInto"
  unfolding MetastoreConnectionSpec_type_def MetastoreConnectionSpec_DeepCopyInto_def by (rule struct_copier) (simp add: covers_def copier_facts)

lemma HdfsConnectionSpec_flat [simp]: "flat HdfsConnectionSpec_type"
  by (simp add: HdfsConnectionSpec_type_def)

lemma HdfsConnectionSpec_copier [copier_facts]: "copier HdfsConnectionSpec_type HdfsConnectionSpec_DeepCopyInto"
  unfolding HdfsConnectionSpec_type_def HdfsConnectionSpec_DeepCopyInto_def by (rule struct_copier) (simp add: covers_def copier_facts)

lemma TpcdsConnectorSpec_flat [simp]: "flat TpcdsConnectorSpec_type"
  by (simp add: TpcdsConnectorSpec_type_def)

lemma TpcdsConnectorSpec_copier [copier_facts]: "copier TpcdsConnectorSpec_type TpcdsConnectorSpec_DeepCopyInto"
  unfolding TpcdsConnectorSpec_type_def TpcdsConnectorSpec_DeepCopyInto_def by (rule struct_copier) (simp add: covers_def copier_facts)

lemma TpchConnectorSpec_flat [simp]: "flat TpchConnectorSpec_type"
  by (simp add: TpchConnectorSpec_type_def)

lemma TpchConnectorSpec_copier [copier_facts]: "copier TpchConnectorSpec_type TpchConnectorSpec_DeepCopyInto"
  unfolding TpchConnectorSpec_type_def TpchConnectorSpec_DeepCopyInto_def by (rule struct_copier) (simp add: covers_def copier_facts)

lemma GenericConnectorSpec_copier [copier_facts]: "copier GenericConnectorSpec_type GenericConnectorSpec_DeepCopyInto"
  unfolding GenericConnectorSpec_type_def GenericConnectorSpec_DeepCopyInto_def by (rule struct_copier) (simp add: covers_def copier_facts)

lemma HiveConnectorSpec_copier [copier_facts]: "external_laws E \<Longrightarrow> copier (HiveConnectorSpec_type E) (HiveConnectorSpec_DeepCopyInto E)"
  unfolding HiveConnectorSpec_type_def HiveConnectorSpec_DeepCopyInto_def by (rule struct_copier) (simp add: covers_def copier_facts)

lemma IcebergConnectorSpec_copier [copier_facts]: "external_laws E \<Longrightarrow> copier (IcebergConnectorSpec_type E) (IcebergConnectorSpec_DeepCopyInto E)"
  unfolding IcebergConnectorSpec_type_def IcebergConnectorSpec_DeepCopyInto_def by (rule struct_copier) (simp add: covers_def copier_facts)

lemma ConnectorSpec_copier [copier_facts]: "external_laws E \<Longrightarrow> copier (ConnectorSpec_type E) (ConnectorSpec_DeepCopyInto E)"
  unfolding ConnectorSpec_type_def ConnectorSpec_DeepCopyInto_def by (rule struct_copier) (simp add: covers_def copier_facts)

lemma TrinoCatalogSpec_copier [copier_facts]: "external_laws E \<Longrightarrow> fair_loops ords \<Longrightarrow> copier (TrinoCatalogSpec_type E) (TrinoCatalogSpec_DeepCopyInto E ords)"
  unfolding TrinoCatalogSpec_type_def TrinoCatalogSpec_DeepCopyInto_def by (rule struct_copier) (simp add: covers_def copier_facts)

lemma TrinoCatalogStatus_flat [simp]: "flat TrinoCatalogStatus_type"
  by (simp add: TrinoCatalogStatus_type_def)

lemma TrinoCatalogStatus_copier [copier_facts]: "copier TrinoCatalogStatus_type TrinoCatalogStatus_DeepCopyInto"
  unfolding TrinoCatalogStatus_type_def TrinoCatalogStatus_DeepCopyInto_def by (rule struct_copier) (simp add: covers_def copier_facts)

lemma TrinoCatalog_copier [copier_facts]: "external_laws E \<Longrightarrow> fair_loops ords \<Longrightarrow> copier (TrinoCatalog_type E) (TrinoCatalog_DeepCopyInto E ords)"
  unfolding TrinoCatalog_type_def TrinoCatalog_DeepCopyInto_def by (rule struct_copier) (simp add: covers_def copier_facts)

lemma TrinoCatalogList_copier [copier_facts]: "external_laws E \<Longrightarrow> fair_loops ords \<Longrightarrow> copier (TrinoCatalogList_type E) (TrinoCatalogList_DeepCopyInto E ords)"
  unfolding TrinoCatalogList_type_def TrinoCatalogList_DeepCopyInto_def by (rule struct_copier) (simp add: covers_def copier_facts)

interpretation oidc_spec: copier OidcSpec_type OidcSpec_DeepCopyInto by (rule OidcSpec_copier)
interpretation authentication_spec: copier AuthenticationSpec_type AuthenticationSpec_DeepCopyInto by (rule AuthenticationSpec_copier)
interpretation image_spec: copier ImageSpec_type ImageSpec_DeepCopyInto by (rule ImageSpec_copier)
interpretation generic_connector: copier GenericConnectorSpec_type GenericConnectorSpec_DeepCopyInto by (rule GenericConnectorSpec_copier)

text \<open>
  A copy in cells of its own: later writes to the cells of one side never show on the other.
\<close>

lemma copy_independent:
  assumes "reads {Suc (length h)..} (h @ v' # e) v' t" and "reads UNIV h v t"
  shows "length h \<le> length h' \<Longrightarrow> drop (length h) h' = v' # e \<Longrightarrow> reads {length h..} h' (Ptr (Some (length h, []))) (TPtr (Some t))"
    and "take (length h) h' = h \<Longrightarrow> reads UNIV h' v t"
proof -
  assume len: "length h \<le> length h'" and tail: "drop (length h) h' = v' # e"
  have h': "h' = take (length h) h' @ v' # e" using append_take_drop_id [of "length h" h'] tail by simp
  have same: "a < length h' \<and> h' ! a = (h @ v' # e) ! a" if "length h \<le> a" "a < length (h @ v' # e)" for a
    using that len by (subst (1 2) h') (simp add: nth_append)
  have "reads {length h..} h' v' t" using assms(1) by (rule reads_transfer) (use same in auto)
  moreover have "load h' (length h, []) = Some v'" using same [of "length h"] by (simp add: load_def)
  ultimately show "reads {length h..} h' (Ptr (Some (length h, []))) (TPtr (Some t))" by (auto intro: reads_ptr)
next
  assume old: "take (length h) h' = h"
  have "h' ! a = h ! a \<and> a < length h'" if "a < length h" for a
    using that old by (metis length_take min_less_iff_conj nth_take)
  then show "reads UNIV h' v t" by (intro reads_transfer [OF assms(2)]) auto
qed

section \<open>An example\<close>

text \<open>
  Object metadata with a map of labels stands for the types of other packages, and a cluster with a
  catalog and an image for an object in memory.
\<close>

definition example_external :: go_external where
  "example_external = \<lparr>
     ext_type = (\<lambda>n. if n = ''metav1.ObjectMeta'' then TyStruct [(''Name'', TyString), (''Labels'', TyMap TyString)]
       else TyStruct [(''Kind'', TyString)]),
     ext_into = (\<lambda>n. if n = ''metav1.ObjectMeta'' then struct_into [(''Labels'', map_into (\<lambda>_. rev) string_entry)]
       else struct_into [])\<rparr>"

lemma example_loops: "fair_loops (\<lambda>_. rev)"
  by (simp add: fair_loops_def)

lemma example_external_laws: "external_laws example_external"
  using example_loops unfolding external_laws_def example_external_def
  by (auto intro!: struct_copier simp: covers_def copier_facts)

definition example_object :: goval where
  "example_object = Struct [(''TypeMeta'', Struct [(''Kind'', Lit (Str ''TrinoCluster''))]),
     (''ObjectMeta'', Struct [(''Name'', Lit (Str ''trino'')), (''Labels'', MapRef None)]),
     (''Spec'', Struct [(''ClusterConfig'', Ptr (Some (1, []))), (''ClusterOperation'', Ptr None), (''Image'', Ptr None),
        (''Coordinators'', Ptr None), (''Workers'', Ptr None)]),
     (''Status'', Struct [(''Kind'', Lit (Str []))])]"

definition example_heap :: heap where
  "example_heap = [example_object,
     Struct [(''Authentication'', Slice None), (''CatalogLabelSelector'', Ptr None), (''CatalogProperties'', MapRef (Some 2)),
       (''ListenerClass'', Lit (Str ''cluster-internal'')), (''Tls'', Ptr None),
       (''VectorAggregatorConfigMapName'', Lit (Str []))],
     Entries [(''tpch'', MapRef (Some 3))],
     Entries [(''connector.name'', Lit (Str ''tpch''))]]"

definition example_catalog_tree :: gotree where
  "example_catalog_tree = TMap (Some [''connector.name'' \<mapsto> TLit (Str ''tpch'')])"

definition example_config_tree :: gotree where
  "example_config_tree = TStruct [(''Authentication'', TSlice None), (''CatalogLabelSelector'', TPtr None),
     (''CatalogProperties'', TMap (Some [''tpch'' \<mapsto> example_catalog_tree])),
     (''ListenerClass'', TLit (Str ''cluster-internal'')), (''Tls'', TPtr None),
     (''VectorAggregatorConfigMapName'', TLit (Str []))]"

definition example_tree :: gotree where
  "example_tree = TStruct [(''TypeMeta'', TStruct [(''Kind'', TLit (Str ''TrinoCluster''))]),
     (''ObjectMeta'', TStruct [(''Name'', TLit (Str ''trino'')), (''Labels'', TMap None)]),
     (''Spec'', TStruct [(''ClusterConfig'', TPtr (Some example_config_tree)), (''ClusterOperation'', TPtr None),
        (''Image'', TPtr None), (''Coordinators'', TPtr None), (''Workers'', TPtr None)]),
     (''Status'', TStruct [(''Kind'', TLit (Str []))])]"

lemma example_load:
  "load example_heap (0, []) = Some example_object"
  "load example_heap (1, []) = Some (example_heap ! 1)"
  "load example_heap (2, []) = Some (Entries [(''tpch'', MapRef (Some 3))])"
  "load example_heap (3, []) = Some (Entries [(''connector.name'', Lit (Str ''tpch''))])"
  by (simp_all add: load_def example_heap_def)

lemma example_reads: "reads UNIV example_heap example_object example_tree"
proof -
  have "reads UNIV example_heap (MapRef (Some 3)) example_catalog_tree"
    unfolding example_catalog_tree_def
    by (rule reads_map [OF UNIV_I example_load(4)]) (auto simp: wf_map_def intro: reads_lit)
  then have "reads UNIV example_heap (MapRef (Some 2)) (TMap (Some [''tpch'' \<mapsto> example_catalog_tree]))"
    by (intro reads_map [OF UNIV_I example_load(3)]) (auto simp: wf_map_def)
  then have "reads UNIV example_heap (example_heap ! 1) example_config_tree"
    by (simp add: example_config_tree_def example_heap_def [THEN arg_cong, of "\<lambda>h. h ! 1", simplified] reads.intros(1-3,5))
  then have "reads UNIV example_heap (Ptr (Some (1, []))) (TPtr (Some example_config_tree))"
    using example_load(2) by (auto intro: reads_ptr)
  then show ?thesis
    by (simp add: example_object_def example_tree_def reads.intros(1-3,7))
qed

lemma example_conforms: "conforms (TrinoCluster_type example_external) example_tree"
proof -
  have "conforms (TyMap (TyMap TyString)) (TMap (Some [''tpch'' \<mapsto> example_catalog_tree]))"
    unfolding example_catalog_tree_def by (auto intro!: conforms_map conforms_string split: if_splits)
  then have "conforms (ClusterConfigSpec_type example_external) example_config_tree"
    by (simp add: ClusterConfigSpec_type_def example_config_tree_def conforms.intros(1-5,7))
  then show ?thesis
    by (simp add: TrinoCluster_type_def TrinoClusterSpec_type_def example_tree_def)
      (simp add: example_external_def conforms.intros(1-6,9))
qed

section \<open>Properties of the deep copies\<close>

text \<open>
  C5. The deep copy of a cluster object is equal to the original and shares nothing with it: the run
  leaves every existing cell as it was, the copy denotes the same tree and goes on doing so whatever
  happens to the old cells, and the original is as little affected by what happens to the new ones.
  A nil object gives a nil interface, and not an interface that holds a nil pointer.
\<close>

theorem cluster_object_deep_copied:
  assumes "external_laws E" and "fair_loops ords"
    and "load h l = Some v" and "reads UNIV h v t" and "conforms (TrinoCluster_type E) t"
  shows "(\<exists>v' e. TrinoCluster_DeepCopyObject E ords (Some l) h = (Inr (Some (''*TrinoCluster'', (length h, []))), h @ v' # e) \<and>
      (\<forall>h'. length h \<le> length h' \<longrightarrow> drop (length h) h' = v' # e \<longrightarrow>
         reads {length h..} h' (Ptr (Some (length h, []))) (TPtr (Some t))) \<and>
      (\<forall>h'. take (length h) h' = h \<longrightarrow> load h' l = Some v \<and> reads UNIV h' v t)) \<and>
    TrinoCluster_DeepCopyObject E ords None h = (Inr None, h)"
proof (intro conjI)
  from copier.deep_copy_run [OF TrinoCluster_copier [OF assms(1,2)] assms(3-5)] obtain v' e
    where run: "deep_copy (TrinoCluster_type E) (TrinoCluster_DeepCopyInto E ords) (Some l) h
        = (Inr (Some (length h, [])), h @ v' # e)"
      and v': "reads {Suc (length h)..} (h @ v' # e) v' t" by blast
  have "load h' l = Some v" if "take (length h) h' = h" for h'
    using that load_appendI [OF assms(3), of "drop (length h) h'"] by (metis append_take_drop_id)
  with copy_independent [OF v' assms(4)] run
  show "\<exists>v' e. TrinoCluster_DeepCopyObject E ords (Some l) h = (Inr (Some (''*TrinoCluster'', (length h, []))), h @ v' # e) \<and>
      (\<forall>h'. length h \<le> length h' \<longrightarrow> drop (length h) h' = v' # e \<longrightarrow>
         reads {length h..} h' (Ptr (Some (length h, []))) (TPtr (Some t))) \<and>
      (\<forall>h'. take (length h) h' = h \<longrightarrow> load h' l = Some v \<and> reads UNIV h' v t)"
    by (intro exI [of _ v'] exI [of _ e])
      (simp add: TrinoCluster_DeepCopyObject_def TrinoCluster_DeepCopy_def deep_copy_object_def bind_st_def lift_st_def)
  show "TrinoCluster_DeepCopyObject E ords None h = (Inr None, h)"
    by (simp add: TrinoCluster_DeepCopyObject_def TrinoCluster_DeepCopy_def deep_copy_object_def deep_copy_def bind_st_def lift_st_def)
qed

theorem cluster_object_deep_copied_witness:
  "\<exists>v' e. TrinoCluster_DeepCopyObject example_external (\<lambda>_. rev) (Some (0, [])) example_heap
      = (Inr (Some (''*TrinoCluster'', (4, []))), example_heap @ v' # e) \<and>
    reads {4..} (replicate 4 (Lit (Flag False)) @ v' # e) (Ptr (Some (4, []))) (TPtr (Some example_tree))"
proof -
  have "length example_heap = 4" by (simp add: example_heap_def)
  then show ?thesis
    using cluster_object_deep_copied [OF example_external_laws example_loops example_load(1) example_reads example_conforms]
    by fastforce
qed

text \<open>
  C12. Every generated \<open>DeepCopyInto\<close> deep copies all of its type: written into any location of
  another cell, it produces a value that denotes the same tree through cells allocated during the
  run, and it changes nothing else. No field with a reference is missing from any of them.
\<close>

theorem generated_deep_copies:
  assumes "external_laws E" and "fair_loops ords"
  shows "copier OidcSpec_type OidcSpec_DeepCopyInto \<and> copier AuthenticationSpec_type AuthenticationSpec_DeepCopyInto \<and>
    copier TlsSpec_type TlsSpec_DeepCopyInto \<and> copier ImageSpec_type ImageSpec_DeepCopyInto \<and>
    copier JvmPropertiesRoleConfigSpec_type JvmPropertiesRoleConfigSpec_DeepCopyInto \<and> copier ConfigOverridesSpec_type (ConfigOverridesSpec_DeepCopyInto ords) \<and>
    copier (LoggingSpec_type E) (LoggingSpec_DeepCopyInto E ords) \<and> copier (CatalogLabelSelectorSpec_type E) (CatalogLabelSelectorSpec_DeepCopyInto E ords) \<and>
    copier (ClusterConfigSpec_type E) (ClusterConfigSpec_DeepCopyInto E ords) \<and> copier (ConfigSpec_type E) (ConfigSpec_DeepCopyInto E) \<and>
    copier (BaseRoleSpec_type E) (BaseRoleSpec_DeepCopyInto E) \<and> copier (RoleGroupSpec_type E) (RoleGroupSpec_DeepCopyInto E) \<and>
    copier (CoordinatorsSpec_type E) (CoordinatorsSpec_DeepCopyInto E ords) \<and> copier (WorkersSpec_type E) (WorkersSpec_DeepCopyInto E ords) \<and>
    copier (TrinoClusterSpec_type E) (TrinoClusterSpec_DeepCopyInto E ords) \<and> copier (TrinoCluster_type E) (TrinoCluster_DeepCopyInto E ords) \<and>
    copier (TrinoClusterList_type E) (TrinoClusterList_DeepCopyInto E ords) \<and> copier ValueFromConfigurationSpec_type ValueFromConfigurationSpec_DeepCopyInto \<and>
    copier PropertiesSpec_type PropertiesSpec_DeepCopyInto \<and> copier MetastoreConnectionSpec_type MetastoreConnectionSpec_DeepCopyInto \<and>
    copier HdfsConnectionSpec_type HdfsConnectionSpec_DeepCopyInto \<and> copier TpcdsConnectorSpec_type TpcdsConnectorSpec_DeepCopyInto \<and>
    copier TpchConnectorSpec_type TpchConnectorSpec_DeepCopyInto \<and> copier GenericConnectorSpec_type GenericConnectorSpec_DeepCopyInto \<and>
    copier (HiveConnectorSpec_type E) (HiveConnectorSpec_DeepCopyInto E) \<and> copier (IcebergConnectorSpec_type E) (IcebergConnectorSpec_DeepCopyInto E) \<and>
    copier (ConnectorSpec_type E) (ConnectorSpec_DeepCopyInto E) \<and> copier (TrinoCatalogSpec_type E) (TrinoCatalogSpec_DeepCopyInto E ords) \<and>
    copier TrinoCatalogStatus_type TrinoCatalogStatus_DeepCopyInto \<and> copier (TrinoCatalog_type E) (TrinoCatalog_DeepCopyInto E ords) \<and>
    copier (TrinoCatalogList_type E) (TrinoCatalogList_DeepCopyInto E ords)"
  using assms by (intro conjI) (rule copier_facts; assumption)+

theorem generated_deep_copies_witness:
  "copier (TrinoCatalogList_type example_external) (TrinoCatalogList_DeepCopyInto example_external (\<lambda>_. rev))"
  using generated_deep_copies [OF example_external_laws example_loops] by blast

end
