(* ===== verification/Go_Flag.thy ===== *)
theory Go_Flag
  imports Trino_Prelude
begin

text \<open>
  The command line of Go's \<open>flag\<close> package, as far as \<open>cmd/main.go\<close> uses it: \<open>parse_flags\<close> consumes
  arguments of the forms \<open>-f\<close>, \<open>--f\<close>, \<open>-f=v\<close>, \<open>--f=v\<close> and, for a flag that is not boolean, \<open>-f v\<close>, until
  the first argument that is no flag or the terminator \<open>--\<close>. Assignments are returned in their order, so
  that the last one to a flag wins.
\<close>

record flag_def =
  fd_bool :: bool
  fd_accepts :: "string \<Rightarrow> bool"

type_synonym flag_set = "string \<Rightarrow> flag_def option"

datatype flag_error = HelpRequested | BadSyntax string | NotDefined string | NeedsArgument string | InvalidValue string string

text \<open>\<open>strconv.ParseBool\<close>\<close>

definition ParseBool :: "string \<Rightarrow> bool option" where
  "ParseBool s = (if s \<in> set [''1'', ''t'', ''T'', ''true'', ''TRUE'', ''True''] then Some True
     else if s \<in> set [''0'', ''f'', ''F'', ''false'', ''FALSE'', ''False''] then Some False else None)"

definition string_flag :: flag_def where
  "string_flag = \<lparr>fd_bool = False, fd_accepts = (\<lambda>_. True)\<rparr>"

definition bool_flag :: flag_def where
  "bool_flag = \<lparr>fd_bool = True, fd_accepts = (\<lambda>v. ParseBool v \<noteq> None)\<rparr>"

text \<open>The name and the value of a flag argument without its dashes; an equals sign in first place does not count.\<close>

definition split_flag :: "string \<Rightarrow> string \<times> string option" where
  "split_flag s = (let rest = dropWhile (\<lambda>c. c \<noteq> CHR ''='') (tl s)
     in (take 1 s @ takeWhile (\<lambda>c. c \<noteq> CHR ''='') (tl s), if rest = [] then None else Some (tl rest)))"

definition flag_body :: "string \<Rightarrow> string" where
  "flag_body s = (if take 2 s = ''--'' then drop 2 s else drop 1 s)"

definition set_value :: "string \<Rightarrow> flag_def \<Rightarrow> string \<Rightarrow> flag_error + ((string \<times> string) list \<times> string list)
    \<Rightarrow> flag_error + ((string \<times> string) list \<times> string list)" where
  "set_value name d v rest = (if fd_accepts d v
     then (case rest of Inl e \<Rightarrow> Inl e | Inr (as, args) \<Rightarrow> Inr ((name, v) # as, args)) else Inl (InvalidValue name v))"

fun parse_flags :: "flag_set \<Rightarrow> string list \<Rightarrow> flag_error + ((string \<times> string) list \<times> string list)" where
  "parse_flags F [] = Inr ([], [])"
| "parse_flags F (s # args) =
     (if length s < 2 \<or> hd s \<noteq> CHR ''-'' then Inr ([], s # args)
      else if s = ''--'' then Inr ([], args)
      else if flag_body s = [] \<or> hd (flag_body s) \<in> {CHR ''-'', CHR ''=''} then Inl (BadSyntax s)
      else case split_flag (flag_body s) of (name, value) \<Rightarrow>
        (case F name of
           None \<Rightarrow> if name \<in> {''help'', ''h''} then Inl HelpRequested else Inl (NotDefined name)
         | Some d \<Rightarrow>
             if fd_bool d then set_value name d (case value of None \<Rightarrow> ''true'' | Some v \<Rightarrow> v) (parse_flags F args)
             else (case value of
                 Some v \<Rightarrow> set_value name d v (parse_flags F args)
               | None \<Rightarrow> (case args of
                   [] \<Rightarrow> Inl (NeedsArgument name)
                 | v # args' \<Rightarrow> set_value name d v (parse_flags F args')))))"

text \<open>An argument of the form \<open>--name=value\<close>.\<close>

definition flag_arg :: "string \<times> string \<Rightarrow> string" where
  "flag_arg nv = ''--'' @ fst nv @ ''='' @ snd nv"

definition flag_name :: "string \<Rightarrow> bool" where
  "flag_name n \<longleftrightarrow> n \<noteq> [] \<and> hd n \<noteq> CHR ''-'' \<and> CHR ''='' \<notin> set n"

lemma split_flag_assignment:
  assumes "flag_name n"
  shows "split_flag (n @ CHR ''='' # v) = (n, Some v)"
proof -
  obtain c cs where n: "n = c # cs" "CHR ''='' \<notin> set cs" using assms by (cases n) (auto simp: flag_name_def)
  then have "takeWhile (\<lambda>c. c \<noteq> CHR ''='') (cs @ CHR ''='' # v) = cs"
    "dropWhile (\<lambda>c. c \<noteq> CHR ''='') (cs @ CHR ''='' # v) = CHR ''='' # v"
    by (subst takeWhile_append2 dropWhile_append2, auto)+
  with n show ?thesis by (simp add: split_flag_def)
qed

text \<open>A value is taken as it is, whatever dashes and equals signs it holds.\<close>

lemma parse_flags_assignment:
  assumes "flag_name n" and "F n = Some d" and "fd_accepts d v"
  shows "parse_flags F (flag_arg (n, v) # args) =
    (case parse_flags F args of Inl e \<Rightarrow> Inl e | Inr (as, rest) \<Rightarrow> Inr ((n, v) # as, rest))"
proof -
  have body: "flag_body (flag_arg (n, v)) = n @ CHR ''='' # v" by (simp add: flag_body_def flag_arg_def)
  have "flag_arg (n, v) \<noteq> ''--''" "\<not> length (flag_arg (n, v)) < 2" "hd (flag_arg (n, v)) = CHR ''-''"
    by (simp_all add: flag_arg_def)
  moreover have "hd (n @ CHR ''='' # v) \<notin> {CHR ''-'', CHR ''=''}"
    using assms(1) by (cases n) (auto simp: flag_name_def)
  ultimately show ?thesis
    using assms by (simp add: body split_flag_assignment set_value_def)
qed

lemma parse_flags_assignments:
  assumes "\<forall>(n, v) \<in> set as. flag_name n \<and> (\<exists>d. F n = Some d \<and> fd_accepts d v)"
  shows "parse_flags F (map flag_arg as) = Inr (as, [])"
  using assms
proof (induction as)
  case (Cons a as)
  obtain n v where a: "a = (n, v)" by (cases a)
  with Cons.prems obtain d where "flag_name n" "F n = Some d" "fd_accepts d v" by auto
  from parse_flags_assignment [of _ F, OF this, of "map flag_arg as"] Cons a show ?case
    by (simp del: parse_flags.simps)
qed simp

end
