(* ===== verification/App_Version.thy ===== *)
theory App_Version
  imports Go_Strings
begin

text \<open>
  \<open>src/internal/util/version/version.go\<close>: the version information that \<open>--version\<close> prints, a JSON object
  of seven strings. The link-time variables and what the Go run time says about itself are arguments.

  \<open>json_string\<close> is the string encoding of \<open>encoding/json\<close> with its HTML escapes, on ASCII characters;
  the encoder also replaces invalid UTF-8 and escapes U+2028 and U+2029, which is not modelled, so
  statements are about ASCII values.
\<close>

section \<open>JSON strings\<close>

definition hex_lower :: "nat \<Rightarrow> char" where
  "hex_lower n = ''0123456789abcdef'' ! (n mod 16)"

definition json_short :: "(char \<times> char) list" where
  "json_short = [(CHR 0x22, CHR 0x22), (CHR 0x5C, CHR 0x5C), (CHR 0x08, CHR ''b''), (CHR 0x0C, CHR ''f''),
     (CHR 0x0A, CHR ''n''), (CHR 0x0D, CHR ''r''), (CHR 0x09, CHR ''t'')]"

definition json_char :: "char \<Rightarrow> string" where
  "json_char c = (case map_of json_short c of
     Some d \<Rightarrow> [CHR 0x5C, d]
   | None \<Rightarrow> if (of_char c :: nat) < 0x20 \<or> c \<in> {CHR ''<'', CHR ''>'', CHR ''&''}
       then [CHR 0x5C, CHR ''u'', CHR ''0'', CHR ''0'', hex_lower (of_char c div 16), hex_lower (of_char c mod 16)] else [c])"

definition json_string :: "string \<Rightarrow> string" where
  "json_string s = [CHR 0x22] @ concat (map json_char s) @ [CHR 0x22]"

definition json_object :: "(string \<times> string) list \<Rightarrow> string" where
  "json_object fs = ''{'' @ strings_Join (map (\<lambda>(k, v). json_string k @ '':'' @ json_string v) fs) '','' @ ''}''"

section \<open>AppInfo\<close>

record build_vars =
  bv_BuildVersion :: string
  bv_BuildTime :: string
  bv_GitCommit :: string

definition default_build_vars :: build_vars where
  "default_build_vars = \<lparr>bv_BuildVersion = ''N/A'', bv_BuildTime = ''N/A'', bv_GitCommit = ''N/A''\<rparr>"

record go_runtime =
  rt_Version :: string
  rt_Compiler :: string
  rt_GOOS :: string
  rt_GOARCH :: string

record AppInfo =
  ai_Name :: string
  ai_AppVersion :: string
  ai_BuildTime :: string
  ai_GitCommit :: string
  ai_GoVersion :: string
  ai_Compiler :: string
  ai_Platform :: string

definition NewAppInfo :: "build_vars \<Rightarrow> go_runtime \<Rightarrow> string \<Rightarrow> AppInfo" where
  "NewAppInfo B R name = \<lparr>ai_Name = name, ai_AppVersion = bv_BuildVersion B, ai_BuildTime = bv_BuildTime B,
     ai_GitCommit = bv_GitCommit B, ai_GoVersion = rt_Version R, ai_Compiler = rt_Compiler R,
     ai_Platform = rt_GOOS R @ ''/'' @ rt_GOARCH R\<rparr>"

text \<open>The fields with their JSON names, in the order of the struct.\<close>

definition app_fields :: "AppInfo \<Rightarrow> (string \<times> string) list" where
  "app_fields a = [(''AppName'', ai_Name a), (''AppVersion'', ai_AppVersion a), (''BuildTime'', ai_BuildTime a),
     (''GitCommit'', ai_GitCommit a), (''GoVersion'', ai_GoVersion a), (''Compiler'', ai_Compiler a),
     (''Platform'', ai_Platform a)]"

text \<open>Marshalling a struct of strings does not fail, but the code handles it.\<close>

definition json_Marshal :: "AppInfo \<Rightarrow> goerror + string" where
  "json_Marshal a = Inr (json_object (app_fields a))"

definition AppInfo_String :: "AppInfo \<Rightarrow> string" where
  "AppInfo_String a = (case json_Marshal a of Inl err \<Rightarrow> ''Error marshaling AppInfo'' | Inr data \<Rightarrow> data)"

section \<open>Reading JSON\<close>

text \<open>A reader of strings up to their closing quote, and of objects of strings.\<close>

definition json_unshort :: "char \<Rightarrow> char option" where
  "json_unshort d = map_of (map prod.swap json_short) d"

definition unhex_lower :: "char \<Rightarrow> nat" where
  "unhex_lower c = length (takeWhile (\<lambda>d. d \<noteq> c) ''0123456789abcdef'')"

fun json_read :: "string \<Rightarrow> (string \<times> string) option" where
  "json_read [] = None"
| "json_read (c # cs) =
     (if c = CHR 0x22 then Some ([], cs)
      else if c \<noteq> CHR 0x5C then map_option (apfst (Cons c)) (json_read cs)
      else (case cs of
          [] \<Rightarrow> None
        | d # ds \<Rightarrow>
            if d \<noteq> CHR ''u'' then (case json_unshort d of None \<Rightarrow> None | Some e \<Rightarrow> map_option (apfst (Cons e)) (json_read ds))
            else if length ds < 4 then None
            else map_option (apfst (Cons (char_of (16 * unhex_lower (ds ! 2) + unhex_lower (ds ! 3))))) (json_read (drop 4 ds))))"

definition json_value :: "string \<Rightarrow> (string \<times> string) option" where
  "json_value s = (if take 1 s = [CHR 0x22] then json_read (tl s) else None)"

fun json_fields :: "nat \<Rightarrow> string \<Rightarrow> (string \<times> string) list option" where
  "json_fields 0 s = None"
| "json_fields (Suc n) s = (case json_value s of
     None \<Rightarrow> None
   | Some (k, s1) \<Rightarrow> if take 1 s1 \<noteq> '':'' then None else (case json_value (tl s1) of
       None \<Rightarrow> None
     | Some (v, s2) \<Rightarrow> if s2 = ''}'' then Some [(k, v)]
         else if take 1 s2 \<noteq> '','' then None else map_option (Cons (k, v)) (json_fields n (tl s2))))"

definition json_parse :: "string \<Rightarrow> (string \<times> string) list option" where
  "json_parse s = (if take 1 s = ''{'' then json_fields (length s) (tl s) else None)"

lemma unhex_hex_lower: "n < 16 \<Longrightarrow> unhex_lower (hex_lower n) = n"
proof -
  have "\<forall>n \<in> {..<16}. unhex_lower (hex_lower n) = n" by code_simp
  then show "n < 16 \<Longrightarrow> unhex_lower (hex_lower n) = n" by simp
qed

lemma json_short_facts:
  "map_of json_short c = Some d \<Longrightarrow> json_unshort d = Some c"
  "map_of json_short c = Some d \<Longrightarrow> d \<noteq> CHR ''u''"
  "map_of json_short (CHR 0x22) \<noteq> None" "map_of json_short (CHR 0x5C) \<noteq> None"
  by (auto simp: json_short_def json_unshort_def split: if_splits)

lemma json_read_char: "json_read (json_char c @ t) = map_option (apfst (Cons c)) (json_read t)"
proof (cases "map_of json_short c")
  case (Some d)
  then show ?thesis using json_short_facts(1,2) [OF Some] by (simp add: json_char_def)
next
  case None
  have "16 * (of_char c div 16) + of_char c mod 16 = (of_char c :: nat)" by simp
  moreover have "of_char c div 16 < (16 :: nat)" by (rule less_mult_imp_div_less) simp
  ultimately show ?thesis using None json_short_facts(3,4) by (auto simp: json_char_def unhex_hex_lower)
qed

lemma json_value_string: "json_value (json_string s @ t) = Some (s, t)"
proof -
  have "json_read (concat (map json_char s) @ CHR 0x22 # t) = Some (s, t)"
    by (induction s) (simp_all add: json_read_char del: json_read.simps(2), simp)
  then show ?thesis by (simp add: json_value_def json_string_def)
qed

lemma json_fields_join:
  "fs \<noteq> [] \<Longrightarrow> length fs \<le> n \<Longrightarrow>
    json_fields n (strings_Join (map (\<lambda>(k, v). json_string k @ '':'' @ json_string v) fs) '','' @ ''}'') = Some fs"
proof (induction fs arbitrary: n)
  case (Cons f fs)
  obtain k v where f: "f = (k, v)" by (cases f)
  obtain m where n: "n = Suc m" using Cons.prems by (cases n) auto
  show ?case
  proof (cases "fs = []")
    case True
    then show ?thesis using json_value_string [of k "CHR '':'' # json_string v @ ''}''"] json_value_string [of v "''}''"]
      by (simp add: f n)
  next
    case False
    let ?rest = "strings_Join (map (\<lambda>(k, v). json_string k @ '':'' @ json_string v) fs) '','' @ ''}''"
    have "json_fields m ?rest = Some fs" using Cons False n by simp
    then show ?thesis
      using False json_value_string [of k "CHR '':'' # json_string v @ CHR '','' # ?rest"] json_value_string [of v "CHR '','' # ?rest"]
      by (simp add: f n strings_Join_Cons)
  qed
qed simp

lemma json_members_length:
  "length fs \<le> length (strings_Join (map (\<lambda>(k, v). json_string k @ '':'' @ json_string v) fs) '','')"
proof (induction fs)
  case (Cons f fs)
  then show ?case by (cases "fs = []") (auto simp: strings_Join_Cons split: prod.splits)
qed simp

lemma json_roundtrip: "fs \<noteq> [] \<Longrightarrow> json_parse (json_object fs) = Some fs"
proof -
  let ?body = "strings_Join (map (\<lambda>(k, v). json_string k @ '':'' @ json_string v) fs) '','' @ ''}''"
  assume "fs \<noteq> []"
  then have "json_fields (length (CHR ''{'' # ?body)) ?body = Some fs"
    using json_members_length [of fs] by (intro json_fields_join) simp_all
  then show ?thesis by (simp only: json_parse_def json_object_def append.simps take.simps) simp
qed

end
