(* ===== verification/Manager.thy ===== *)
theory Manager
  imports Go_Flag App_Version
begin

text \<open>
  \<open>src/cmd/main.go\<close>: the command line, the options of the controller manager and the order in which it
  is set up; with \<open>src/api/v1alpha1/groupversion_info.go\<close> and the \<open>init\<close> functions of the API package,
  which fill the scheme before \<open>main\<close> runs, and \<open>SetupWithManager\<close> of the controller.

  The scheme, the manager and the flags that the logging and client libraries add are parameters. A
  manager answers each call with an error or not, possibly depending on the calls before. The result
  of a run is the exit status with the output and the calls that were made; \<open>Start\<close> blocks until the
  manager stops, so a status after it is that of a manager that has stopped.
\<close>

section \<open>The scheme\<close>

record 'b scheme_builders =
  sb_new :: "string \<times> string \<Rightarrow> 'b"
  sb_Register :: "string list \<Rightarrow> 'b \<Rightarrow> 'b"

record ('b, 's) schemes =
  sch_New :: 's
  sch_core :: "'s \<Rightarrow> goerror + 's"
  sch_authentication :: "'s \<Rightarrow> goerror + 's"
  sch_AddToScheme :: "'b \<Rightarrow> 's \<Rightarrow> goerror + 's"

definition GroupVersion :: "string \<times> string" where
  "GroupVersion = (''trino.kubedoop.dev'', ''v1alpha1'')"

definition SchemeBuilder :: "'b scheme_builders \<Rightarrow> 'b" where
  "SchemeBuilder SB = sb_new SB GroupVersion"

definition trino_types_init :: "'b scheme_builders \<Rightarrow> 'b \<Rightarrow> 'b" where
  "trino_types_init SB = sb_Register SB [''TrinoCluster'', ''TrinoClusterList'']"

definition trinocatalog_types_init :: "'b scheme_builders \<Rightarrow> 'b \<Rightarrow> 'b" where
  "trinocatalog_types_init SB = sb_Register SB [''TrinoCatalog'', ''TrinoCatalogList'']"

text \<open>The \<open>init\<close> functions of a package run in the order of its file names.\<close>

definition AddToScheme :: "'b scheme_builders \<Rightarrow> ('b, 's) schemes \<Rightarrow> 's \<Rightarrow> goerror + 's" where
  "AddToScheme SB S = sch_AddToScheme S (trinocatalog_types_init SB (trino_types_init SB (SchemeBuilder SB)))"

definition Must :: "goerror + 'a \<Rightarrow> 'a res" where
  "Must r = (case r of Inl _ \<Rightarrow> Inl (Panic ''Must'') | Inr x \<Rightarrow> Inr x)"

definition main_init :: "'b scheme_builders \<Rightarrow> ('b, 's) schemes \<Rightarrow> 's res" where
  "main_init SB S = bind_res (Must (sch_core S (sch_New S))) (\<lambda>s1.
     bind_res (Must (sch_authentication S s1)) (\<lambda>s2. Must (AddToScheme SB S s2)))"

section \<open>The command line\<close>

record main_flags =
  metricsAddr :: string
  metricsCertPath :: string
  metricsCertName :: string
  metricsCertKey :: string
  webhookCertPath :: string
  webhookCertName :: string
  webhookCertKey :: string
  enableLeaderElection :: bool
  probeAddr :: string
  secureMetrics :: bool
  enableHTTP2 :: bool
  showVersion :: bool

definition default_flags :: main_flags where
  "default_flags = \<lparr>metricsAddr = ''0'', metricsCertPath = '''', metricsCertName = ''tls.crt'', metricsCertKey = ''tls.key'',
     webhookCertPath = '''', webhookCertName = ''tls.crt'', webhookCertKey = ''tls.key'', enableLeaderElection = False,
     probeAddr = '':8081'', secureMetrics = True, enableHTTP2 = False, showVersion = False\<rparr>"

text \<open>The flags with their variables: a string variable or a boolean one.\<close>

datatype flag_var =
    StringVar "string \<Rightarrow> main_flags \<Rightarrow> main_flags"
  | BoolVar "bool \<Rightarrow> main_flags \<Rightarrow> main_flags"

definition main_vars :: "(string \<times> flag_var) list" where
  "main_vars =
    [(''metrics-bind-address'', StringVar (\<lambda>v. metricsAddr_update (\<lambda>_. v))),
     (''health-probe-bind-address'', StringVar (\<lambda>v. probeAddr_update (\<lambda>_. v))),
     (''leader-elect'', BoolVar (\<lambda>v. enableLeaderElection_update (\<lambda>_. v))),
     (''metrics-secure'', BoolVar (\<lambda>v. secureMetrics_update (\<lambda>_. v))),
     (''webhook-cert-path'', StringVar (\<lambda>v. webhookCertPath_update (\<lambda>_. v))),
     (''webhook-cert-name'', StringVar (\<lambda>v. webhookCertName_update (\<lambda>_. v))),
     (''webhook-cert-key'', StringVar (\<lambda>v. webhookCertKey_update (\<lambda>_. v))),
     (''metrics-cert-path'', StringVar (\<lambda>v. metricsCertPath_update (\<lambda>_. v))),
     (''metrics-cert-name'', StringVar (\<lambda>v. metricsCertName_update (\<lambda>_. v))),
     (''metrics-cert-key'', StringVar (\<lambda>v. metricsCertKey_update (\<lambda>_. v))),
     (''enable-http2'', BoolVar (\<lambda>v. enableHTTP2_update (\<lambda>_. v))),
     (''version'', BoolVar (\<lambda>v. showVersion_update (\<lambda>_. v)))]"

fun var_def :: "flag_var \<Rightarrow> flag_def" where
  "var_def (StringVar _) = string_flag"
| "var_def (BoolVar _) = bool_flag"

text \<open>\<open>flag.CommandLine\<close>: these flags and those that the libraries bind.\<close>

definition command_line :: "flag_set \<Rightarrow> flag_set" where
  "command_line libs n = (case map_of main_vars n of Some x \<Rightarrow> Some (var_def x) | None \<Rightarrow> libs n)"

fun assign_var :: "flag_var \<Rightarrow> string \<Rightarrow> main_flags \<Rightarrow> main_flags" where
  "assign_var (StringVar f) v = f v"
| "assign_var (BoolVar f) v = (case ParseBool v of Some b \<Rightarrow> f b | None \<Rightarrow> id)"

definition set_flag :: "main_flags \<Rightarrow> string \<times> string \<Rightarrow> main_flags" where
  "set_flag f nv = (case map_of main_vars (fst nv) of Some x \<Rightarrow> assign_var x (snd nv) f | None \<Rightarrow> f)"

definition flag_Parse :: "flag_set \<Rightarrow> string list \<Rightarrow> flag_error + main_flags" where
  "flag_Parse libs args = (case parse_flags (command_line libs) args of
     Inl e \<Rightarrow> Inl e | Inr (as, _) \<Rightarrow> Inr (foldl set_flag default_flags as))"

section \<open>The options\<close>

record tls_config =
  NextProtos :: "string list"

type_synonym tls_option = "tls_config \<Rightarrow> tls_config"

definition disableHTTP2 :: tls_option where
  "disableHTTP2 c = c\<lparr>NextProtos := [''http/1.1'']\<rparr>"

definition tlsOpts :: "main_flags \<Rightarrow> tls_option list" where
  "tlsOpts f = (if \<not> enableHTTP2 f then [disableHTTP2] else [])"

record webhook_options =
  who_TLSOpts :: "tls_option list"
  who_CertDir :: string
  who_CertName :: string
  who_KeyName :: string

definition webhookServerOptions :: "main_flags \<Rightarrow> webhook_options" where
  "webhookServerOptions f = (let wo = \<lparr>who_TLSOpts = tlsOpts f, who_CertDir = [], who_CertName = [], who_KeyName = []\<rparr>
     in if length (webhookCertPath f) > 0
        then wo\<lparr>who_CertDir := webhookCertPath f, who_CertName := webhookCertName f, who_KeyName := webhookCertKey f\<rparr> else wo)"

record metrics_options =
  mo_BindAddress :: string
  mo_SecureServing :: bool
  mo_TLSOpts :: "tls_option list"
  mo_FilterProvider :: "string option"
  mo_CertDir :: string
  mo_CertName :: string
  mo_KeyName :: string

definition metricsServerOptions :: "main_flags \<Rightarrow> metrics_options" where
  "metricsServerOptions f =
     (let m0 = \<lparr>mo_BindAddress = metricsAddr f, mo_SecureServing = secureMetrics f, mo_TLSOpts = tlsOpts f,
                mo_FilterProvider = None, mo_CertDir = [], mo_CertName = [], mo_KeyName = []\<rparr>;
          m1 = (if secureMetrics f then m0\<lparr>mo_FilterProvider := Some ''WithAuthenticationAndAuthorization''\<rparr> else m0)
      in if length (metricsCertPath f) > 0
         then m1\<lparr>mo_CertDir := metricsCertPath f, mo_CertName := metricsCertName f, mo_KeyName := metricsCertKey f\<rparr> else m1)"

record 's manager_options =
  mgo_Scheme :: 's
  mgo_Metrics :: metrics_options
  mgo_HealthProbeBindAddress :: string
  mgo_LeaderElection :: bool
  mgo_WebhookServer :: webhook_options
  mgo_LeaderElectionID :: string

definition ctrl_Options :: "'s \<Rightarrow> main_flags \<Rightarrow> 's manager_options" where
  "ctrl_Options scheme f = \<lparr>mgo_Scheme = scheme, mgo_Metrics = metricsServerOptions f,
     mgo_HealthProbeBindAddress = probeAddr f, mgo_LeaderElection = enableLeaderElection f,
     mgo_WebhookServer = webhookServerOptions f, mgo_LeaderElectionID = ''284d6bfa.kubedoop.dev''\<rparr>"

section \<open>The run\<close>

datatype 's manager_call =
    NewManager "'s manager_options"
  | CompleteController string
  | AddHealthzCheck string
  | AddReadyzCheck string
  | StartManager

text \<open>\<open>ctrl.NewControllerManagedBy(mgr).For(&TrinoCluster{}).Complete(r)\<close>\<close>

definition SetupWithManager :: "'s manager_call" where
  "SetupWithManager = CompleteController ''TrinoCluster''"

definition manager_calls :: "'s \<Rightarrow> main_flags \<Rightarrow> 's manager_call list" where
  "manager_calls scheme f = [NewManager (ctrl_Options scheme f), SetupWithManager, AddHealthzCheck ''healthz'',
     AddReadyzCheck ''readyz'', StartManager]"

type_synonym 's manager_errors = "'s manager_call list \<Rightarrow> 's manager_call \<Rightarrow> goerror option"

text \<open>Each call is followed by \<open>if err != nil { ...; os.Exit(1) }\<close>.\<close>

fun run_calls :: "'s manager_errors \<Rightarrow> 's manager_call list \<Rightarrow> 's manager_call list \<Rightarrow> nat \<times> 's manager_call list" where
  "run_calls fails before [] = (0, before)"
| "run_calls fails before (c # cs) = (case fails before c of
     Some err \<Rightarrow> (1, before @ [c])
   | None \<Rightarrow> run_calls fails (before @ [c]) cs)"

record 's process =
  exit_status :: nat
  stdout :: "string list"
  made_calls :: "'s manager_call list"

record 's main_env =
  env_flags :: flag_set
  env_build :: build_vars
  env_runtime :: go_runtime
  env_config_ok :: bool
  env_manager :: "'s manager_errors"

text \<open>
  A command line that cannot be parsed exits with 2, one that asks for help with 0; \<open>GetConfigOrDie\<close>
  exits with 1 where there is no configuration for the API server.
\<close>

definition main :: "'s main_env \<Rightarrow> 's \<Rightarrow> string list \<Rightarrow> 's process" where
  "main env scheme args = (case flag_Parse (env_flags env) args of
     Inl HelpRequested \<Rightarrow> \<lparr>exit_status = 0, stdout = [], made_calls = []\<rparr>
   | Inl _ \<Rightarrow> \<lparr>exit_status = 2, stdout = [], made_calls = []\<rparr>
   | Inr f \<Rightarrow>
       if showVersion f
       then \<lparr>exit_status = 0, stdout = [AppInfo_String (NewAppInfo (env_build env) (env_runtime env) ''trino-operator'')],
             made_calls = []\<rparr>
       else if \<not> env_config_ok env then \<lparr>exit_status = 1, stdout = [], made_calls = []\<rparr>
       else (case run_calls (env_manager env) [] (manager_calls scheme f) of
          (status, cs) \<Rightarrow> \<lparr>exit_status = status, stdout = [], made_calls = cs\<rparr>))"

text \<open>The whole program: a panic of \<open>init\<close> exits with 2 before \<open>main\<close>.\<close>

definition program :: "'b scheme_builders \<Rightarrow> ('b, 's) schemes \<Rightarrow> 's main_env \<Rightarrow> string list \<Rightarrow> 's process" where
  "program SB S env args = (case main_init SB S of
     Inl _ \<Rightarrow> \<lparr>exit_status = 2, stdout = [], made_calls = []\<rparr>
   | Inr scheme \<Rightarrow> main env scheme args)"

section \<open>Lemmas\<close>

lemma run_calls_spec:
  "\<exists>n \<le> length cs. snd (run_calls fails before cs) = before @ take n cs \<and>
     (\<forall>i. Suc i < n \<longrightarrow> fails (before @ take i cs) (cs ! i) = None) \<and>
     fst (run_calls fails before cs) = (if \<forall>i < length cs. fails (before @ take i cs) (cs ! i) = None then 0 else 1) \<and>
     (n < length cs \<longrightarrow> 0 < n \<and> fails (before @ take (n - 1) cs) (cs ! (n - 1)) \<noteq> None)"
proof (induction cs arbitrary: before)
  case (Cons c cs)
  show ?case
  proof (cases "fails before c")
    case None
    from Cons.IH [of "before @ [c]"] obtain n where n: "n \<le> length cs"
      "snd (run_calls fails (before @ [c]) cs) = (before @ [c]) @ take n cs"
      "\<forall>i. Suc i < n \<longrightarrow> fails ((before @ [c]) @ take i cs) (cs ! i) = None"
      "fst (run_calls fails (before @ [c]) cs)
         = (if \<forall>i < length cs. fails ((before @ [c]) @ take i cs) (cs ! i) = None then 0 else 1)"
      "n < length cs \<longrightarrow> 0 < n \<and> fails ((before @ [c]) @ take (n - 1) cs) (cs ! (n - 1)) \<noteq> None"
      by blast
    have all: "(\<forall>i < length (c # cs). fails (before @ take i (c # cs)) ((c # cs) ! i) = None)
        \<longleftrightarrow> (\<forall>i < length cs. fails ((before @ [c]) @ take i cs) (cs ! i) = None)"
      using None by (auto simp: less_Suc_eq_0_disj)
    have "fails (before @ take i (c # cs)) ((c # cs) ! i) = None" if "Suc i < Suc n" for i
      using that n(3) None by (cases i) auto
    moreover have "0 < Suc n \<and> fails (before @ take (Suc n - 1) (c # cs)) ((c # cs) ! (Suc n - 1)) \<noteq> None"
      if "Suc n < length (c # cs)"
      using that n(5) by (cases n) auto
    ultimately show ?thesis using n(1,2,4) None unfolding all by (intro exI [of _ "Suc n"]) simp
  next
    case (Some e)
    then have "\<not> (\<forall>i < length (c # cs). fails (before @ take i (c # cs)) ((c # cs) ! i) = None)" by force
    with Some show ?thesis by (intro exI [of _ 1]) simp
  qed
qed simp

text \<open>The calls of the manager: \<open>Start\<close>, the last, is made when the other four succeed.\<close>

lemma manager_run:
  obtains n where "snd (run_calls fails [] (manager_calls scheme f)) = take n (manager_calls scheme f)"
    and "\<forall>i. Suc i < n \<longrightarrow> fails (take i (manager_calls scheme f)) (manager_calls scheme f ! i) = None"
    and "fst (run_calls fails [] (manager_calls scheme f))
      = (if \<forall>i < 5. fails (take i (manager_calls scheme f)) (manager_calls scheme f ! i) = None then 0 else 1)"
    and "StartManager \<in> set (take n (manager_calls scheme f))
      \<longleftrightarrow> (\<forall>i < 4. fails (take i (manager_calls scheme f)) (manager_calls scheme f ! i) = None)"
proof -
  let ?cs = "manager_calls scheme f"
  define ok where "ok i \<longleftrightarrow> fails (take i ?cs) (?cs ! i) = None" for i
  have "length ?cs = 5" by (simp add: manager_calls_def)
  with run_calls_spec [of ?cs fails "[]"] obtain n where n: "n \<le> 5" "snd (run_calls fails [] ?cs) = take n ?cs"
    "\<forall>i. Suc i < n \<longrightarrow> ok i" "fst (run_calls fails [] ?cs) = (if \<forall>i < 5. ok i then 0 else 1)"
    "n < 5 \<longrightarrow> 0 < n \<and> \<not> ok (n - 1)"
    by (auto simp: ok_def)
  from n(1) have "n \<in> {0, 1, 2, 3, 4, 5}" by auto
  then have last: "StartManager \<in> set (take n ?cs) \<longleftrightarrow> n = 5" by (auto simp: manager_calls_def SetupWithManager_def)
  have "n = 5 \<longleftrightarrow> (\<forall>i < 4. ok i)"
  proof
    assume "n = 5"
    then have "Suc i < n" if "i < 4" for i using that by simp
    then show "\<forall>i < 4. ok i" using n(3) by blast
  next
    assume all: "\<forall>i < 4. ok i"
    show "n = 5"
    proof (rule ccontr)
      assume "n \<noteq> 5"
      with n(1) have "n < 5" by simp
      then have "n - 1 < 4" "\<not> ok (n - 1)" using n(5) by simp_all
      with all show False by blast
    qed
  qed
  with that n(2-4) last show thesis unfolding ok_def by blast
qed

text \<open>Applying the TLS options of a server to its configuration.\<close>

definition apply_tls :: "tls_option list \<Rightarrow> tls_config \<Rightarrow> tls_config" where
  "apply_tls opts c = fold (\<lambda>f. f) opts c"

definition secured :: "main_flags \<Rightarrow> 's manager_options \<Rightarrow> bool" where
  "secured f mo \<longleftrightarrow>
     (\<forall>c. NextProtos (apply_tls (mo_TLSOpts (mgo_Metrics mo)) c) = (if enableHTTP2 f then NextProtos c else [''http/1.1''])) \<and>
     (\<forall>c. NextProtos (apply_tls (who_TLSOpts (mgo_WebhookServer mo)) c) = (if enableHTTP2 f then NextProtos c else [''http/1.1''])) \<and>
     (mo_FilterProvider (mgo_Metrics mo) \<noteq> None \<longleftrightarrow> mo_SecureServing (mgo_Metrics mo))"

lemma options_secured: "secured f (ctrl_Options scheme f)"
  by (simp add: secured_def ctrl_Options_def webhookServerOptions_def metricsServerOptions_def tlsOpts_def apply_tls_def
      disableHTTP2_def Let_def)

definition render_bool :: "bool \<Rightarrow> string" where
  "render_bool b = (if b then ''true'' else ''false'')"

text \<open>A command line that sets every flag.\<close>

definition render_flags :: "main_flags \<Rightarrow> (string \<times> string) list" where
  "render_flags f =
    [(''version'', render_bool (showVersion f)), (''enable-http2'', render_bool (enableHTTP2 f)),
     (''metrics-secure'', render_bool (secureMetrics f)), (''leader-elect'', render_bool (enableLeaderElection f)),
     (''metrics-bind-address'', metricsAddr f), (''health-probe-bind-address'', probeAddr f),
     (''webhook-cert-path'', webhookCertPath f), (''webhook-cert-name'', webhookCertName f),
     (''webhook-cert-key'', webhookCertKey f), (''metrics-cert-path'', metricsCertPath f),
     (''metrics-cert-name'', metricsCertName f), (''metrics-cert-key'', metricsCertKey f)]"

lemma ParseBool_render [simp]: "ParseBool (render_bool b) = Some b"
  by (simp add: ParseBool_def render_bool_def)

lemma render_accepted: "\<forall>(n, v) \<in> set (render_flags f). flag_name n \<and> (\<exists>d. command_line libs n = Some d \<and> fd_accepts d v)"
  by (simp add: render_flags_def flag_name_def command_line_def main_vars_def string_flag_def bool_flag_def)

section \<open>Properties of the program\<close>

text \<open>
  C9. Once the scheme is initialised and the flags are parsed, and unless they ask for the version, the
  manager is set up in one order and started last: the calls made are an initial part of the
  fixed sequence, each call but the last made succeeded, \<open>Start\<close> is reached if and only if everything
  before it succeeded, and the exit status is 0 if and only if \<open>Start\<close> succeeded as well, 1 otherwise.
  Every manager created serves metrics and webhooks over HTTP/1.1 alone unless HTTP/2 was asked for,
  and filters requests for metrics exactly where these are served securely.
\<close>

theorem manager_outcome:
  assumes "main_init SB S = Inr scheme" and "flag_Parse (env_flags env) args = Inr f" and "\<not> showVersion f"
  shows "\<exists>n. made_calls (program SB S env args) = take n (manager_calls scheme f) \<and>
    (\<forall>i. Suc i < n \<longrightarrow> env_manager env (take i (manager_calls scheme f)) (manager_calls scheme f ! i) = None) \<and>
    (StartManager \<in> set (made_calls (program SB S env args)) \<longleftrightarrow> env_config_ok env \<and>
       (\<forall>i < 4. env_manager env (take i (manager_calls scheme f)) (manager_calls scheme f ! i) = None)) \<and>
    exit_status (program SB S env args) = (if env_config_ok env \<and>
       (\<forall>i < 5. env_manager env (take i (manager_calls scheme f)) (manager_calls scheme f ! i) = None) then 0 else 1) \<and>
    (\<forall>mo. NewManager mo \<in> set (made_calls (program SB S env args)) \<longrightarrow> secured f mo)"
proof (cases "env_config_ok env")
  case False
  then have "made_calls (program SB S env args) = []" "exit_status (program SB S env args) = 1"
    using assms by (simp_all add: program_def main_def)
  with False show ?thesis by (intro exI [of _ 0]) simp
next
  case True
  let ?cs = "manager_calls scheme f"
  obtain n where n: "snd (run_calls (env_manager env) [] ?cs) = take n ?cs"
    "\<forall>i. Suc i < n \<longrightarrow> env_manager env (take i ?cs) (?cs ! i) = None"
    "fst (run_calls (env_manager env) [] ?cs) = (if \<forall>i < 5. env_manager env (take i ?cs) (?cs ! i) = None then 0 else 1)"
    "StartManager \<in> set (take n ?cs) \<longleftrightarrow> (\<forall>i < 4. env_manager env (take i ?cs) (?cs ! i) = None)"
    by (rule manager_run)
  have p: "made_calls (program SB S env args) = take n ?cs"
    "exit_status (program SB S env args) = fst (run_calls (env_manager env) [] ?cs)"
    using assms True n(1) by (simp_all add: program_def main_def case_prod_unfold)
  have "secured f mo" if "NewManager mo \<in> set (made_calls (program SB S env args))" for mo
  proof -
    from that have "NewManager mo \<in> set ?cs" unfolding p(1) by (rule in_set_takeD)
    then have "mo = ctrl_Options scheme f" by (auto simp: manager_calls_def SetupWithManager_def)
    then show ?thesis using options_secured by simp
  qed
  then show ?thesis unfolding p n(3) n(4) using True n(2) by (intro exI [of _ n] conjI) simp_all
qed

text \<open>A manager whose readiness check cannot be set up.\<close>

definition example_builders_list :: "(string \<times> string \<times> string list) scheme_builders" where
  "example_builders_list = \<lparr>sb_new = (\<lambda>(g, v). (g, v, [])), sb_Register = (\<lambda>ks (g, v, os). (g, v, os @ ks))\<rparr>"

definition example_schemes :: "(string \<times> string \<times> string list, string list) schemes" where
  "example_schemes = \<lparr>sch_New = [], sch_core = (\<lambda>s. Inr (s @ [''Pod''])), sch_authentication = (\<lambda>s. Inr (s @ [''AuthenticationClass''])),
     sch_AddToScheme = (\<lambda>(g, v, os) s. Inr (s @ os))\<rparr>"

definition example_env :: "string list main_env" where
  "example_env = \<lparr>env_flags = (\<lambda>_. None), env_build = default_build_vars,
     env_runtime = \<lparr>rt_Version = ''go1.25.8'', rt_Compiler = ''gc'', rt_GOOS = ''linux'', rt_GOARCH = ''amd64''\<rparr>,
     env_config_ok = True, env_manager = (\<lambda>_ c. if c = AddReadyzCheck ''readyz'' then Some (LibError ''stopped'') else None)\<rparr>"

lemma example_main_init:
  "main_init example_builders_list example_schemes
     = Inr [''Pod'', ''AuthenticationClass'', ''TrinoCluster'', ''TrinoClusterList'', ''TrinoCatalog'', ''TrinoCatalogList'']"
  by (simp add: main_init_def Must_def AddToScheme_def example_builders_list_def example_schemes_def SchemeBuilder_def
      GroupVersion_def trino_types_init_def trinocatalog_types_init_def)

lemma example_parse: "flag_Parse (env_flags example_env) [''--leader-elect''] = Inr (default_flags\<lparr>enableLeaderElection := True\<rparr>)"
  by (auto simp: flag_Parse_def flag_body_def split_flag_def command_line_def main_vars_def bool_flag_def ParseBool_def
      set_value_def set_flag_def)

theorem manager_outcome_witness:
  "exit_status (program example_builders_list example_schemes example_env [''--leader-elect'']) = 1 \<and>
    StartManager \<notin> set (made_calls (program example_builders_list example_schemes example_env [''--leader-elect'']))"
proof -
  let ?f = "default_flags\<lparr>enableLeaderElection := True\<rparr>"
  let ?s = "[''Pod'', ''AuthenticationClass'', ''TrinoCluster'', ''TrinoClusterList'', ''TrinoCatalog'', ''TrinoCatalogList'']"
  have "manager_calls ?s ?f ! 3 = AddReadyzCheck ''readyz''" by (simp add: manager_calls_def)
  then have "env_manager example_env (take 3 (manager_calls ?s ?f)) (manager_calls ?s ?f ! 3) \<noteq> None"
    by (simp add: example_env_def)
  then have "\<not> (\<forall>i < 4. env_manager example_env (take i (manager_calls ?s ?f)) (manager_calls ?s ?f ! i) = None)"
    "\<not> (\<forall>i < 5. env_manager example_env (take i (manager_calls ?s ?f)) (manager_calls ?s ?f ! i) = None)"
    by (auto intro!: exI [of _ 3])
  moreover have "\<not> showVersion ?f" by (simp add: default_flags_def)
  ultimately show ?thesis using manager_outcome [OF example_main_init example_parse] by metis
qed

text \<open>
  C30. The command line can express every configuration, and takes values as they are: whatever flags
  the libraries add, a line that assigns each flag is read back as exactly the settings it was
  written from, also where a value holds dashes or equals signs.
\<close>

theorem flags_roundtrip: "flag_Parse libs (map flag_arg (render_flags f)) = Inr f"
  unfolding flag_Parse_def parse_flags_assignments [OF render_accepted]
  by (simp add: render_flags_def set_flag_def main_vars_def default_flags_def)

definition ascii :: "string \<Rightarrow> bool" where
  "ascii s \<longleftrightarrow> (\<forall>c \<in> set s. (of_char c :: nat) < 128)"

text \<open>
  C31. What \<open>--version\<close> prints is JSON and says what the binary was built from: the one line printed
  parses to the seven fields with the values of the link-time variables and of the run time, the
  status is 0 and no manager is created. This is for a scheme that initialises, flags that parse, and
  values in ASCII, for which the encoder is modelled.
\<close>

theorem version_roundtrip:
  assumes "main_init SB S = Inr scheme" and "flag_Parse (env_flags env) args = Inr f" and "showVersion f"
    and "\<forall>(k, v) \<in> set (app_fields (NewAppInfo (env_build env) (env_runtime env) ''trino-operator'')). ascii v"
  shows "\<exists>line. program SB S env args = \<lparr>exit_status = 0, stdout = [line], made_calls = []\<rparr> \<and>
    json_parse line = Some [(''AppName'', ''trino-operator''), (''AppVersion'', bv_BuildVersion (env_build env)),
      (''BuildTime'', bv_BuildTime (env_build env)), (''GitCommit'', bv_GitCommit (env_build env)),
      (''GoVersion'', rt_Version (env_runtime env)), (''Compiler'', rt_Compiler (env_runtime env)),
      (''Platform'', rt_GOOS (env_runtime env) @ ''/'' @ rt_GOARCH (env_runtime env))]"
proof -
  let ?a = "NewAppInfo (env_build env) (env_runtime env) ''trino-operator''"
  have "json_parse (AppInfo_String ?a) = Some (app_fields ?a)"
    using json_roundtrip [of "app_fields ?a"] by (simp add: AppInfo_String_def json_Marshal_def app_fields_def)
  then show ?thesis using assms(1-3) by (simp add: program_def main_def) (simp add: app_fields_def NewAppInfo_def)
qed

theorem version_roundtrip_witness:
  "\<exists>line. program example_builders_list example_schemes example_env [''--version''] = \<lparr>exit_status = 0, stdout = [line], made_calls = []\<rparr> \<and>
    (\<exists>fs. json_parse line = Some fs \<and> map_of fs ''Platform'' = Some ''linux/amd64'')"
proof -
  have "flag_Parse (env_flags example_env) [''--version''] = Inr (default_flags\<lparr>showVersion := True\<rparr>)"
    by (auto simp: flag_Parse_def flag_body_def split_flag_def command_line_def main_vars_def bool_flag_def ParseBool_def
        set_value_def set_flag_def)
  from version_roundtrip [OF example_main_init this] show ?thesis
    by (simp add: app_fields_def NewAppInfo_def example_env_def default_build_vars_def ascii_def) force
qed

end
