(* ===== verification/Spec2Isabelle.thy ===== *)
theory Spec2Isabelle
  imports Cluster Deep_Copy Manager "HOL-Library.Sublist"
begin

text \<open>
  The trino operator: a Kubernetes controller that turns a \<open>TrinoCluster\<close> object into the config maps,
  services, stateful sets and secret of a running Trino cluster. This library models its Go code and
  proves what makes it correct, file by file and across files. Paths are under \<open>src/\<close>.

  \<^bold>\<open>The program.\<close> \<open>cmd/main.go\<close> reads the command line, sets up a controller manager and starts it. For
  every change of a \<open>TrinoCluster\<close> the manager calls \<open>Reconcile\<close>
  (\<open>internal/controller/trino_controller.go\<close>), which reads the object, builds the cluster reconciler
  (\<open>internal/controller/cluster/cluster.go\<close>), lets it register its resources and runs them. The cluster
  registers the coordinator role and the worker role (\<open>internal/controller/coordinator/role.go\<close>,
  \<open>internal/controller/worker/role.go\<close>), the shared secret of internal TLS
  (\<open>internal/controller/common/secret.go\<close>) and the coordinator service. A role registers, for each of its
  role groups, a config map (\<open>common/configmap.go\<close>), a service, a metrics service (\<open>common/service.go\<close>) and a
  stateful set (\<open>common/statefulset.go\<close>). The builders of config maps and stateful sets consult the
  authenticators (\<open>common/authz/\<close>), each time anew. The API types and their generated deep copies are in
  \<open>api/v1alpha1/\<close>.

  \<^bold>\<open>The theories.\<close>

  \<^item> \<open>Trino_Prelude\<close>: results of Go code (\<open>fault + 'a\<close>: an error value or a panic), nil pointers as options,
    state transformers for methods that change their receiver, Go maps as association lists and the
    order of \<open>range\<close> over them as an argument.
  \<^item> \<open>Go_Strings\<close>, \<open>Go_Encoding\<close>, \<open>Go_Float\<close>, \<open>Go_Flag\<close>: what the code uses of the standard library
    (\<open>strings.Join\<close>, \<open>strconv.Itoa\<close>, \<open>path.Join\<close> and \<open>path.Clean\<close>; URL escaping and base64; float64 multiplication
    and rounding; command line flags), with the laws the components need.
  \<^item> \<open>Api_Types\<close>: the structs and constants of \<open>api/v1alpha1/trino_types.go\<close> as records of values, and the
    Kubernetes types that the code fills in. \<open>Operator_Go\<close>: the operator-go framework, as records of
    functions (constants, property files, quantities, names, builders) with the laws used of them.
  \<^item> \<open>Authz\<close>: the three authenticators, the factory, \<open>NewAuthentication\<close> and the collecting methods; the
    contract they share is the locale \<open>authenticator_contract\<close>.
  \<^item> \<open>Config_Map\<close>, \<open>Stateful_Set\<close>, \<open>Shared_Secret\<close>, \<open>Metrics_Service\<close>: one builder each, every function of
    its file. The calls on the framework's builders are recorded in order, and \<open>Build\<close> returns also the
    state in which a fault leaves the builder.
  \<^item> \<open>Roles\<close>: both role reconcilers; what their registration loops share is the locale \<open>role_contract\<close>.
    \<open>Cluster\<close>: the cluster reconciler and the controller's \<open>Reconcile\<close>.
  \<^item> \<open>Go_Heap\<close>, \<open>Go_Copy\<close>: Go memory with addresses, and the blocks of generated copy code with their
    contracts (the locales \<open>copy_block\<close>, \<open>copier\<close>, \<open>entry_copier\<close>). \<open>Api_Layout\<close>: the struct declarations of
    \<open>trino_types.go\<close> and \<open>trinocatalog_types.go\<close> as layouts. \<open>Deep_Copy\<close>: every function of
    \<open>zz_generated.deepcopy.go\<close>.
  \<^item> \<open>App_Version\<close>: \<open>internal/util/version/version.go\<close>. \<open>Manager\<close>: \<open>cmd/main.go\<close> with the scheme registration of
    \<open>groupversion_info.go\<close> and the \<open>init\<close> functions.
  \<^item> This theory: the properties that span components, about a cluster registered as a whole.

  \<^bold>\<open>What is shown.\<close> Of the authenticators: when the lookup succeeds and what it returns, that the map order
  cannot change this, the errors and panics there are, the issuer URL. Of the config map: which
  files \<open>Build\<close> writes, what is in them and that none is written twice, that the authentication
  properties displace none of the operator's own, that the discovery URI fits the server, and bounds on
  the heap size for every memory limit in the int64 range. Of the stateful set: that volumes and mounts
  fit together, what the vector sidecar is made for and the fault behaviour. Of the secret: that it is drawn once and never
  replaced, as an invariant of a step relation, and that with several replicas whose steps interleave
  the check before the creation protects it if and only if one of them reconciles at a time. Of roles and cluster: exactly when registration succeeds, which resources are registered, in
  success and in failure, and when their names are distinct. Of the deep copies: that every one is deep for its type. Of the manager:
  the order of its setup, its exit status and options, and that the command line is read faithfully.
  Across components: \<open>Reconcile\<close> runs exactly the resources that the specification asks for, every
  discovery address names the service of a coordinator role group with its port, every stateful
  set finds the config map of its role group and is probed where the group's service forwards, the files that a
  configuration names are on mounted volumes, the secret is wired to every node, and every variable
  that a configuration refers to is supplied to the container.

  \<^bold>\<open>Parameters.\<close> Code of other modules is an argument: the API server's \<open>Get\<close>, the framework's builders,
  reconcilers and merge function, the property file format, the \<open>DeepCopyInto\<close> of foreign types, the
  controller manager, and the random source. Where a theorem relies on documented behaviour of one of
  them, that is a named hypothesis (such as \<open>props_laws\<close>, \<open>quantity_laws\<close>, \<open>info_laws\<close>, \<open>external_laws\<close>), and
  a witness instantiates it with a concrete function.

  \<^bold>\<open>Bounds.\<close> All functions are total; loops are recursions over lists, so there is no fuel except the
  number of fields that the JSON reader of \<open>App_Version\<close> may read, for which the length of the text
  suffices. Ports are 32-bit words. The heap computation is in float64, modelled as integers with binary
  exponents and rounded to nearest even. The JSON encoder is modelled for ASCII.

  \<^bold>\<open>Not modelled.\<close> Log output. \<open>Run\<close> and the reconciliation of single resources, which are the framework's.
  Tests (\<open>*_test.go\<close>), manifests, CRDs and the helm chart. The shell script of the container is a text: what
  it contains is modelled, not what a shell does with it. Capacities of slices.
\<close>

section \<open>Ports\<close>

definition role_port :: "'x ClusterConfigSpec option \<Rightarrow> ContainerPort" where
  "role_port cc = hd (role_ports cc)"

lemma role_port_facts:
  "role_ports cc = [role_port cc]"
  "cp_Name (role_port cc) = (if tls_enabled cc then ''https'' else ''http'')"
  "cp_ContainerPort (role_port cc) = (if tls_enabled cc then HttpsPort else HttpPort)"
  by (simp_all add: role_port_def role_ports_def)

lemma discovery_uri_port:
  "getDiscoveryUri b = cp_Name (role_port (cmb_ClusterConfig b)) @ ''://'' @ cmb_CoordiantorSvcFqdn b @ '':''
     @ strconv_Itoa (sint (cp_ContainerPort (role_port (cmb_ClusterConfig b))))"
  by (simp add: getDiscoveryUri_def cm_enabledTls_def role_port_facts HttpScheme_def HttpsScheme_def)

section \<open>The main container and the configuration of the examples\<close>

definition example_ss_orders :: ss_orders where
  "example_ss_orders = \<lparr>ord_volumes = rev, ord_args = rev, ord_mounts = rev, ord_envs = rev\<rparr>"

lemma example_with_auth:
  "ssb_ClusterConfig b = Some example_ss_config \<Longrightarrow> with_auth K ord b zero get = with_auth K ord example_ss zero get"
  by (simp add: with_auth_def example_ss_auth) (simp add: auth_specs_def example_ss_config_def)

lemma example_container:
  assumes "ssb_ClusterConfig b = Some example_ss_config"
  shows "\<exists>cb. main_container_builder example_consts example_client example_builders example_ss_orders b = Inr cb"
  using example_auth_total(2) [of rev example_consts] example_auth_total(3) [of rev]
    example_auth_total(4) [of rev example_consts "IndentTab4Spaces example_builders"]
  by (auto simp: main_container_builder_def getMainContainerArgs_def auth_commands_def getMainContainerVolumeMounts_def
      getMainContainerEnvVars_def example_ss_orders_def example_with_auth [OF assms] Let_def)

lemma example_config_defined:
  assumes "cmb_ClusterConfig b = Some example_ss_config"
  shows "\<exists>ps. getConfigProperties example_consts example_props example_client rev b = Inr ps"
proof -
  have specs: "auth_specs (cmb_ClusterConfig b) = Some [people_spec, sso_spec]"
    using assms by (simp add: auth_specs_def example_ss_config_def)
  obtain as where as: "NewAuthentication example_client rev [people_spec, sso_spec] = Inr as"
    "set as = {LdapAuth people_auth, OidcAuth sso_auth}"
    using fair_order_id(2) by (rule example_people_sso)
  have "\<exists>ps. trino_GetConfigProperties example_props as = Inr ps"
    unfolding trino_GetConfigProperties_def using as(2) example_complete
    by (intro concat_res_defined) (auto simp: oidc_defs ldap_defs)
  with as(1) specs show ?thesis by (auto simp: getConfigProperties_def)
qed

lemma example_group_resources:
  obtains r' s b where "cluster_RegisterResources example_cluster_api example_merge example_consts example_infos example_client
      example_cluster_orders (example_cluster example_coordinators example_workers) = (Inr (), r')"
    "StatefulSetResource s \<in> set (group_resources_of r')" "ssb_ClusterConfig (ssr_builder s) = Some example_ss_config"
    "ConfigMapResource b \<in> set (group_resources_of r')" "cmb_ClusterConfig b = Some example_ss_config"
    "cmb_RoleName b = ''coordinator''" "cmb_TrinoConfig b = Some example_config"
proof -
  let ?r = "example_cluster example_coordinators example_workers"
  obtain r' where r': "cluster_RegisterResources example_cluster_api example_merge example_consts example_infos example_client
    example_cluster_orders ?r = (Inr (), r')"
    by (rule example_register)
  then obtain fqdn img cr wr where
    cr: "coordinator_RegisterResources example_merge example_consts example_infos (ord_coordinators example_cluster_orders)
      (coordinator_role example_cluster_api ?r img fqdn) = (Inr (), cr)"
    and res: "clr_resources r' = clr_resources ?r @ [CoordinatorRole cr, WorkerRole wr] @ tail_resources example_consts example_infos ?r"
    by (rule cluster_register_ok)
  have spec: "cor_Spec (coordinator_role example_cluster_api ?r img fqdn) = Some example_coordinators"
    by (simp add: role_fields example_cluster_fields)
  obtain rs where "coordinator_group_resources example_merge example_consts example_infos example_role_orders
      (coordinator_role example_cluster_api ?r img fqdn) (''default'', example_role_group None) = Inr rs"
    and "cor_resources cr = rs"
    using coordinator.register_ok [OF _ cr] spec
    by (auto simp: example_cluster_orders_def example_range go_res coordinator_AddResource_def role_fields)
  then have sub: "set rs \<subseteq> set (group_resources_of r')" and rs: "rs = group_bundle example_consts example_infos example_role_orders
      (Some example_ss_config) img fqdn (IsStopped example_cluster_api (clr_ClusterOperation ?r))
      \<lparr>rgi_RoleInfo = coordinator_role_info ?r, rgi_RoleGroupName = ''default''\<rparr> (Some example_config) None (Some 1)"
    using spec by (auto simp: group_resources_of_def res example_role_defs group_bundle_def role_fields example_cluster_fields)
  obtain s b where "StatefulSetResource s \<in> set rs" "ssb_ClusterConfig (ssr_builder s) = Some example_ss_config"
    "ConfigMapResource b \<in> set rs" "cmb_ClusterConfig b = Some example_ss_config" "cmb_RoleName b = ''coordinator''"
    "cmb_TrinoConfig b = Some example_config"
    by (fastforce simp: rs group_bundle_def NewStatefulSetBuilder_def NewConfigReconciler_def NewConfigMapBuilder_def
        config_options_def coordinator_role_info_def RoleCoordinator_def Let_def)
  with that [OF r'] sub show thesis by blast
qed

section \<open>The coordinator is where the nodes look for it\<close>

text \<open>
  C1. Every node of a registered cluster with at least one coordinator role group is given a discovery
  address that exists: for each config map of either role, the URI names the service that the
  coordinator role registered for one of its role groups, in the namespace of the cluster, with the
  port that service forwards.
\<close>

theorem discovery_reaches_coordinator:
  assumes "fair_cluster_orders ords" and "wf_spec (clr_Spec r)" and "clr_resources r = []"
    and "coordinator_groups (clr_Spec r) \<noteq> []"
    and "cluster_RegisterResources A M C I K ords r = (Inr u, r')"
    and "ConfigMapResource b \<in> set (group_resources_of r')"
  shows "\<exists>cr n svc p. CoordinatorRole cr \<in> set (clr_resources r') \<and> n \<in> set (coordinator_groups (clr_Spec r)) \<and>
    ServiceResource svc \<in> set (cor_resources cr) \<and>
    svc_Name svc = rgi_GetFullName I \<lparr>rgi_RoleInfo = coordinator_role_info r, rgi_RoleGroupName = n\<rparr> \<and> svc_Ports svc = [p] \<and>
    getDiscoveryUri b = cp_Name p @ ''://'' @ svc_Name svc @ ''.'' @ GetOwnerNamespace K @ ''.svc.cluster.local:''
      @ strconv_Itoa (sint (cp_ContainerPort p))"
proof -
  obtain fqdn where fqdn: "getCoordinatorSvcFqdn I K (ord_fqdn ords) r = Inr fqdn"
    and one: "\<forall>x \<in> set (group_resources_of r'). \<exists>role n xs. cluster_group r role n \<and> cluster_bundle A C I r fqdn role n xs \<and>
       x \<in> set xs \<and> set xs \<subseteq> set (group_resources_of r')"
    and two: "\<exists>cr. CoordinatorRole cr \<in> set (clr_resources r') \<and> set (cor_resources cr) \<subseteq> set (group_resources_of r') \<and>
       (\<forall>n \<in> set (coordinator_groups (clr_Spec r)). \<exists>xs. cluster_bundle A C I r fqdn (coordinator_role_info r) n xs \<and>
          set xs \<subseteq> set (cor_resources cr))"
    using assms(1,2,3,5) by (rule cluster_registered)
  obtain n where n: "n \<in> set (coordinator_groups (clr_Spec r))" and f: "fqdn = coordinator_fqdn I K r n"
    using assms(1,2,4) fqdn by (rule fqdn_of_group)
  define info where "info = \<lparr>rgi_RoleInfo = coordinator_role_info r, rgi_RoleGroupName = n\<rparr>"
  from two n obtain cr where cr: "CoordinatorRole cr \<in> set (clr_resources r')"
    and svc: "ServiceResource \<lparr>svc_Name = rgi_GetFullName I info, svc_Ports = role_ports (clr_ClusterConfig r),
      svc_Option = role_service_option I info\<rparr> \<in> set (cor_resources cr)"
    by (fastforce simp: cluster_bundle_def group_bundle_def info_def)
  from one assms(6) have b: "cmb_CoordiantorSvcFqdn b = fqdn" "cmb_ClusterConfig b = clr_ClusterConfig r"
    by (fastforce simp: cluster_bundle_def group_bundle_def NewConfigReconciler_def NewConfigMapBuilder_def Let_def)+
  show ?thesis
    by (intro exI [of _ "role_port (clr_ClusterConfig r)"] exI conjI, rule cr, rule n, rule svc)
      (simp_all add: b f discovery_uri_port coordinator_fqdn_def info_def role_port_facts(1))
qed

theorem discovery_reaches_coordinator_witness:
  "\<exists>r'. cluster_RegisterResources example_cluster_api example_merge example_consts example_infos example_client
      example_cluster_orders (example_cluster example_coordinators example_workers) = (Inr (), r') \<and>
    (\<forall>b. ConfigMapResource b \<in> set (group_resources_of r') \<longrightarrow>
      (\<exists>p :: ContainerPort. getDiscoveryUri b = cp_Name p @ ''://trino-coordinator-default.prod.svc.cluster.local:''
          @ strconv_Itoa (sint (cp_ContainerPort p))))"
proof -
  let ?r = "example_cluster example_coordinators example_workers"
  obtain r' where r': "cluster_RegisterResources example_cluster_api example_merge example_consts example_infos example_client
    example_cluster_orders ?r = (Inr (), r')"
    by (rule example_register)
  have groups: "coordinator_groups (clr_Spec ?r) = [''default'']"
    by (simp add: coordinator_groups_def example_cluster_fields example_coordinators_def)
  have name: "rgi_GetFullName example_infos \<lparr>rgi_RoleInfo = coordinator_role_info ?r, rgi_RoleGroupName = ''default''\<rparr>
      = ''trino-coordinator-default''" "GetOwnerNamespace example_client = ''prod''"
    by (simp_all add: example_infos_def coordinator_role_info_def example_cluster_def NewClusterReconciler_def RoleCoordinator_def
        example_client_def)
  have ne: "coordinator_groups (clr_Spec ?r) \<noteq> []" by (simp add: groups)
  have "\<exists>p :: ContainerPort. getDiscoveryUri b = cp_Name p @ ''://trino-coordinator-default.prod.svc.cluster.local:''
      @ strconv_Itoa (sint (cp_ContainerPort p))" if "ConfigMapResource b \<in> set (group_resources_of r')" for b
  proof -
    from discovery_reaches_coordinator [OF example_cluster_fair example_cluster_wf example_cluster_fields(4) ne r' that]
    obtain n and svc :: service_builder and p :: ContainerPort where "n \<in> set (coordinator_groups (clr_Spec ?r))"
      and "svc_Name svc = rgi_GetFullName example_infos \<lparr>rgi_RoleInfo = coordinator_role_info ?r, rgi_RoleGroupName = n\<rparr>"
      and uri: "getDiscoveryUri b = cp_Name p @ ''://'' @ svc_Name svc @ ''.'' @ GetOwnerNamespace example_client @ ''.svc.cluster.local:''
        @ strconv_Itoa (sint (cp_ContainerPort p))"
      by blast
    then have svc: "svc_Name svc = ''trino-coordinator-default''" using groups name(1) by simp
    show ?thesis by (rule exI [of _ p]) (simp add: uri svc name(2))
  qed
  with r' show ?thesis by blast
qed

section \<open>What a role group mounts and probes\<close>

text \<open>
  C10. Every registered stateful set belongs to one role group of the specification and fits the other
  resources of that group, which are registered under the same name. Its config volume, which the main
  container mounts at the configuration directory, is the group's config map. The container declares
  exactly the one port that the group's service forwards, and its liveness probe and its
  readiness probe both address that port by name, over HTTPS if and only if it is the HTTPS port.
  This is where the volumes and the container can be built, and \<open>GetName\<close> of the framework's builder is
  the name that it was constructed with.
\<close>

theorem statefulset_matches_group:
  assumes "fair_cluster_orders ords" and "wf_spec (clr_Spec r)" and "clr_resources r = []"
    and "cluster_RegisterResources A M C I K ords r = (Inr u, r')" and "builder_laws U"
    and "StatefulSetResource s \<in> set (group_resources_of r')" and "getVolumes C Q K U ord (ssr_builder s) = Inr vs"
    and "main_container_builder C K U os (ssr_builder s) = Inr cb"
  shows "\<exists>role n name b svc p ms live ready. cluster_group r role n \<and>
    name = rgi_GetFullName I \<lparr>rgi_RoleInfo = role, rgi_RoleGroupName = n\<rparr> \<and> sb_Name (ssb_base (ssr_builder s)) = name \<and>
    ConfigMapResource b \<in> set (group_resources_of r') \<and> cfb_Name (cmb_base b) = name \<and>
    \<lparr>vol_Name = TrinoConfigVolumeName, vol_Source = ConfigMapSource name\<rparr> \<in> set vs \<and>
    AddVolumeMounts ms \<in> set (cb_calls cb) \<and> \<lparr>vm_Name = TrinoConfigVolumeName, vm_MountPath = TrinoConfigMountDir C\<rparr> \<in> set ms \<and>
    ServiceResource svc \<in> set (group_resources_of r') \<and> svc_Name svc = name \<and> svc_Ports svc = [p] \<and>
    (\<forall>ps. AddPorts ps \<in> set (cb_calls cb) \<longleftrightarrow> ps = [p]) \<and>
    (\<forall>q. SetLivenessProbe q \<in> set (cb_calls cb) \<longleftrightarrow> q = live) \<and>
    (\<forall>q. SetReadinessProbe q \<in> set (cb_calls cb) \<longleftrightarrow> q = ready) \<and>
    (\<forall>q \<in> {live, ready}. pr_Port q = cp_Name p \<and>
       pr_Scheme q = (if cp_ContainerPort p = HttpsPort then ''HTTPS'' else ''HTTP''))"
proof -
  obtain fqdn where one: "\<forall>x \<in> set (group_resources_of r'). \<exists>role n xs. cluster_group r role n \<and>
      cluster_bundle A C I r fqdn role n xs \<and> x \<in> set xs \<and> set xs \<subseteq> set (group_resources_of r')"
    using assms(1-4) by (rule cluster_registered)
  from bspec [OF one assms(6)] obtain role n os' img cfg overrides replicas info
    where grp: "cluster_group r role n" and info: "info = \<lparr>rgi_RoleInfo = role, rgi_RoleGroupName = n\<rparr>"
    and s: "StatefulSetResource s \<in> set (group_bundle C I os' (clr_ClusterConfig r) img fqdn
        (IsStopped A (clr_ClusterOperation r)) info cfg overrides replicas)"
    and sub: "set (group_bundle C I os' (clr_ClusterConfig r) img fqdn
        (IsStopped A (clr_ClusterOperation r)) info cfg overrides replicas) \<subseteq> set (group_resources_of r')"
    unfolding cluster_bundle_def by blast
  let ?p = "role_port (clr_ClusterConfig r)" and ?q = "main_probe (ssr_builder s)" and ?name = "rgi_GetFullName I info"
  have b: "ssb_ClusterConfig (ssr_builder s) = clr_ClusterConfig r" "ssb_ports (ssr_builder s) = [?p]" "sb_Name (ssb_base (ssr_builder s)) = ?name"
    using s by (simp_all add: group_bundle_def NewStatefulSetBuilder_def Let_def role_port_facts(1))
  have cm: "ConfigMapResource (NewConfigReconciler I fqdn (clr_ClusterConfig r) cfg info) \<in> set (group_resources_of r')"
    and svc: "ServiceResource \<lparr>svc_Name = ?name, svc_Ports = [?p], svc_Option = role_service_option I info\<rparr> \<in> set (group_resources_of r')"
    using sub by (simp_all add: group_bundle_def role_port_facts(1))
  have cm_name: "cfb_Name (cmb_base (NewConfigReconciler I fqdn (clr_ClusterConfig r) cfg info)) = ?name"
    by (simp add: NewConfigReconciler_def NewConfigMapBuilder_def Let_def)
  have vol: "\<lparr>vol_Name = TrinoConfigVolumeName, vol_Source = ConfigMapSource ?name\<rparr> \<in> set vs"
    using assms(5,7) b(3) by (auto simp: getVolumes_def Let_def go_res builder_laws_def)
  from assms(8) obtain args ms envs where
    calls: "cb_calls cb = [SetCommand [''sh'', ''-c''], SetArgs args, AddVolumeMounts ms]
      @ (if ss_enabledTls (ssr_builder s) then [AddEnvFromSecret (getInternalSharedSecretName (ssb_ClusterName (ssr_builder s)))] else [])
      @ [AddEnvVars envs, AddPorts [?p], SetLivenessProbe ?q, SetReadinessProbe ?q]"
    and ms: "getMainContainerVolumeMounts C K (ord_mounts os) (ssr_builder s) = Inr ms"
    by (auto simp: main_container_builder_def go_res b(2))
  have mount: "\<lparr>vm_Name = TrinoConfigVolumeName, vm_MountPath = TrinoConfigMountDir C\<rparr> \<in> set ms"
    using ms by (auto simp: getMainContainerVolumeMounts_def go_res Let_def)
  have probe: "pr_Port ?q = cp_Name ?p" "pr_Scheme ?q = (if cp_ContainerPort ?p = HttpsPort then ''HTTPS'' else ''HTTP'')"
    using ports_distinct b(1) by (simp_all add: main_probe_def ss_enabledTls_def role_port_facts)
  show ?thesis
    by (intro exI [of _ role] exI [of _ n] exI [of _ ?name] exI [of _ ?p] exI [of _ ms] exI [of _ ?q] exI conjI,
        rule grp, simp only: info, rule b(3), rule cm, rule cm_name, rule vol)
      (use svc mount probe in \<open>auto simp: calls\<close>)
qed

theorem statefulset_matches_group_witness:
  "\<exists>r' s cb svc. cluster_RegisterResources example_cluster_api example_merge example_consts example_infos example_client
      example_cluster_orders (example_cluster example_coordinators example_workers) = (Inr (), r') \<and>
    StatefulSetResource s \<in> set (group_resources_of r') \<and> ServiceResource svc \<in> set (group_resources_of r') \<and>
    svc_Name svc = sb_Name (ssb_base (ssr_builder s)) \<and>
    main_container_builder example_consts example_client example_builders example_ss_orders (ssr_builder s) = Inr cb \<and>
    AddPorts (svc_Ports svc) \<in> set (cb_calls cb)"
proof -
  obtain r' s where ex: "cluster_RegisterResources example_cluster_api example_merge example_consts example_infos example_client
      example_cluster_orders (example_cluster example_coordinators example_workers) = (Inr (), r')"
    "StatefulSetResource s \<in> set (group_resources_of r')" "ssb_ClusterConfig (ssr_builder s) = Some example_ss_config"
    by (rule example_group_resources)
  obtain vs where vs: "getVolumes example_consts example_quantity example_client example_builders rev (ssr_builder s) = Inr vs"
    using example_auth_total(1) [of rev example_consts example_quantity]
    by (auto simp: getVolumes_def example_with_auth [OF ex(3)] Let_def)
  obtain cb where cb: "main_container_builder example_consts example_client example_builders example_ss_orders (ssr_builder s) = Inr cb"
    using example_container [OF ex(3)] by blast
  from statefulset_matches_group [OF example_cluster_fair example_cluster_wf example_cluster_fields(4) ex(1)
      example_builder_laws ex(2) vs cb]
  show ?thesis using ex(1,2) cb by metis
qed

section \<open>Secrets reach the configuration\<close>

text \<open>
  C13. With TLS the nodes share a secret they can all read: the cluster registers a secret whose name is
  the one that the main container of every registered stateful set takes its environment from, and
  whose key is the variable that the config.properties of every role group refers to; without TLS
  there is neither a secret nor such a reference.
\<close>

theorem shared_secret_wired:
  assumes "fair_cluster_orders ords" and "wf_spec (clr_Spec r)" and "clr_resources r = []" and "info_laws I"
    and "cluster_RegisterResources A M C I K ords r = (Inr u, r')"
    and "StatefulSetResource s \<in> set (group_resources_of r')" and "main_container_builder C K U os (ssr_builder s) = Inr cb"
    and "ConfigMapResource b \<in> set (group_resources_of r')" and "props_laws P" and "getConfigProperties C P K ord b = Inr ps"
  shows "if tls_enabled (clr_ClusterConfig r)
    then \<exists>sec. SharedSecretResource sec \<in> set (clr_resources r') \<and>
      {n. AddEnvFromSecret n \<in> set (cb_calls cb)} = {cfb_Name (isb_base sec)} \<and>
      (\<forall>obj sec' rand. isb_Build U rand sec = (Inr obj, sec') \<longrightarrow>
        (\<exists>v. cfb_Items (isb_base sec') = cfb_Items (isb_base sec) @ [(InternalSharedSecretEnvName, v)])) \<and>
      props_Get P ps ''internal-communication.shared-secret'' = ''${ENV:'' @ InternalSharedSecretEnvName @ ''}''
    else (\<forall>sec. SharedSecretResource sec \<notin> set (clr_resources r')) \<and> (\<forall>n. AddEnvFromSecret n \<notin> set (cb_calls cb)) \<and>
      ''internal-communication.shared-secret'' \<notin> fst ` set ps"
proof -
  obtain fqdn where one: "\<forall>x \<in> set (group_resources_of r'). \<exists>role n xs. cluster_group r role n \<and>
      cluster_bundle A C I r fqdn role n xs \<and> x \<in> set xs \<and> set xs \<subseteq> set (group_resources_of r')"
    using assms(1-3,5) by (rule cluster_registered)
  have sf: "ssb_ClusterConfig (ssr_builder s) = clr_ClusterConfig r" "ssb_ClusterName (ssr_builder s) = ci_ClusterName (clr_ClusterInfo r)"
    using one assms(6,4)
    by (fastforce simp: cluster_bundle_def cluster_group_def group_bundle_def NewStatefulSetBuilder_def Let_def
        role_statefulset_option_def info_laws_def coordinator_role_info_def worker_role_info_def)+
  have bf: "cmb_ClusterConfig b = clr_ClusterConfig r"
    using one assms(8) by (fastforce simp: cluster_bundle_def group_bundle_def NewConfigReconciler_def NewConfigMapBuilder_def Let_def)
  have calls: "{n. AddEnvFromSecret n \<in> set (cb_calls cb)} =
      (if tls_enabled (clr_ClusterConfig r) then {getInternalSharedSecretName (ci_ClusterName (clr_ClusterInfo r))} else {})"
    using assms(7) sf by (auto simp: main_container_builder_def go_res ss_enabledTls_def)
  have res: "SharedSecretResource sec \<in> set (clr_resources r') \<longleftrightarrow>
      tls_enabled (clr_ClusterConfig r) \<and> sec = NewInternalsharedSecretReconciler I (clr_ClusterInfo r)" for sec
    using assms(3,5) by (elim cluster_register_ok) (auto simp: tail_resources_def)
  show ?thesis
  proof (cases "tls_enabled (clr_ClusterConfig r)")
    case True
    have "(''internal-communication.shared-secret'', ''${ENV:'' @ InternalSharedSecretEnvName @ ''}'')
        \<in> set (base_config_properties C b)"
      using True bf by (simp add: base_config_properties_def tls_properties_def cm_enabledTls_def)
    then have "props_Get P ps ''internal-communication.shared-secret'' = ''${ENV:'' @ InternalSharedSecretEnvName @ ''}''"
      by (rule config_last_value [OF assms(9,10)])
    with True calls res assms(4) show ?thesis
      by (auto simp: isb_Build_ok AddItem_def NewInternalsharedSecretReconciler_def info_laws_def)
  next
    case False
    obtain auth where "ps = base_config_properties C b @ auth" "fst ` set auth \<subseteq> set auth_keys"
      using assms(9,10) by (rule getConfigProperties_ok)
    then have "''internal-communication.shared-secret'' \<notin> fst ` set ps"
      using False bf by (auto simp: base_config_properties_def memory_properties_def cm_enabledTls_def auth_keys_def split: option.splits)
    with False calls res show ?thesis by auto
  qed
qed

theorem shared_secret_wired_witness:
  "\<exists>r' s cb sec. cluster_RegisterResources example_cluster_api example_merge example_consts example_infos example_client
      example_cluster_orders (example_cluster example_coordinators example_workers) = (Inr (), r') \<and>
    StatefulSetResource s \<in> set (group_resources_of r') \<and>
    main_container_builder example_consts example_client example_builders example_ss_orders (ssr_builder s) = Inr cb \<and>
    SharedSecretResource sec \<in> set (clr_resources r') \<and> {n. AddEnvFromSecret n \<in> set (cb_calls cb)} = {cfb_Name (isb_base sec)}"
proof -
  obtain r' s b where ex: "cluster_RegisterResources example_cluster_api example_merge example_consts example_infos example_client
      example_cluster_orders (example_cluster example_coordinators example_workers) = (Inr (), r')"
    "StatefulSetResource s \<in> set (group_resources_of r')" "ssb_ClusterConfig (ssr_builder s) = Some example_ss_config"
    "ConfigMapResource b \<in> set (group_resources_of r')" "cmb_ClusterConfig b = Some example_ss_config"
    by (rule example_group_resources)
  obtain cb ps where cb: "main_container_builder example_consts example_client example_builders example_ss_orders (ssr_builder s) = Inr cb"
    and ps: "getConfigProperties example_consts example_props example_client rev b = Inr ps"
    using example_container [OF ex(3)] example_config_defined [OF ex(5)] by blast
  have "tls_enabled (Some example_ss_config)"
    by (simp add: tls_enabled_def example_ss_config_def example_cluster_config_def)
  with shared_secret_wired [OF example_cluster_fair example_cluster_wf example_cluster_fields(4) example_info_laws(1)
      ex(1,2) cb ex(4) example_props_laws ps] ex cb show ?thesis
    unfolding example_cluster_fields(3) by auto
qed

text \<open>
  A variable is supplied to a container as an environment variable or by an export of its start
  script. \<open>IndentTab4Spaces\<close> replaces tabs, so text without tabs survives it.
\<close>

definition supplied :: "container_builder \<Rightarrow> string \<Rightarrow> bool" where
  "supplied cb x \<longleftrightarrow> (\<exists>es. AddEnvVars es \<in> set (cb_calls cb) \<and> x \<in> ev_Name ` set es) \<or>
     (\<exists>arg. SetArgs [arg] \<in> set (cb_calls cb) \<and> sublist (''export '' @ x @ ''='') arg)"

definition indent_laws :: "(string \<Rightarrow> string) \<Rightarrow> bool" where
  "indent_laws indent \<longleftrightarrow> (\<forall>w s. CHR 0x09 \<notin> set w \<longrightarrow> sublist w s \<longrightarrow> sublist w (indent s))"

text \<open>
  The keys whose values are references to variables, and the variables: the four literal references
  of \<open>oidc.go\<close> and \<open>ldap.go\<close>.
\<close>

definition env_references :: "(string \<times> string) list" where
  "env_references =
     [(''http-server.authentication.oauth2.client-id'', ''OIDC_CLIENT_ID''),
      (''http-server.authentication.oauth2.client-secret'', ''OIDC_CLIENT_SECRET''),
      (''ldap.bind-dn'', ''LDAP_USER''), (''ldap.bind-password'', ''LDAP_PASSWORD'')]"

fun provides :: "authenticator \<Rightarrow> string \<Rightarrow> bool" where
  "provides (OidcAuth a) x = (x \<in> {''OIDC_CLIENT_ID'', ''OIDC_CLIENT_SECRET''})"
| "provides (StaticAuth a) x = False"
| "provides (LdapAuth a) x = (x \<in> {''LDAP_USER'', ''LDAP_PASSWORD''})"

lemma env_reference_value:
  assumes "auth_GetConfigProperties a = Inr (Some p)" and "(k, v) \<in> set p" and "(k, x) \<in> set env_references"
  shows "v = ''${ENV:'' @ x @ ''}'' \<and> provides a x"
proof -
  from assms(3) consider
    "k = ''http-server.authentication.oauth2.client-id''" "x = ''OIDC_CLIENT_ID''"
  | "k = ''http-server.authentication.oauth2.client-secret''" "x = ''OIDC_CLIENT_SECRET''"
  | "k = ''ldap.bind-dn''" "x = ''LDAP_USER''" | "k = ''ldap.bind-password''" "x = ''LDAP_PASSWORD''"
    unfolding env_references_def by fastforce
  then show ?thesis
    using assms(1,2) by cases (cases a; auto simp: oidc_defs static_defs ldap_defs go_res)+
qed

lemma env_keys_are_auth_keys: "(k, x) \<in> set env_references \<Longrightarrow> k \<in> set auth_keys"
  by (auto simp: env_references_def auth_keys_def)

lemma copy_pairs:
  assumes "props_laws P" and "copy_properties P (Some p) = Inr qs" and "(k, v) \<in> set qs"
  shows "(k, v) \<in> set p"
proof -
  have k: "k \<in> set (props_Keys P p)" and v: "v = props_Get P p k" using assms(2,3) by auto
  obtain w where "last_value p k = Some w"
    using k by (metis assms(1) last_value_None_iff not_Some_eq props_laws_Keys(2))
  then have "v = w" "(k, w) \<in> set p"
    using v props_laws_Get [OF assms(1)] map_of_SomeD [of "rev p" k w] by (auto simp: last_value_def)
  then show ?thesis by simp
qed

lemma trino_property_source:
  assumes "props_laws P" and "trino_GetConfigProperties P as = Inr ps" and "(k, v) \<in> set ps"
  shows "\<exists>a \<in> set as. \<exists>p. auth_GetConfigProperties a = Inr (Some p) \<and> (k, v) \<in> set p"
proof -
  obtain a qs where a: "a \<in> set as" "bind_res (auth_GetConfigProperties a) (copy_properties P) = Inr qs" "(k, v) \<in> set qs"
    using concat_res_set [OF assms(2) [unfolded trino_GetConfigProperties_def], of "(k, v)"] assms(3) by blast
  then obtain p where p: "auth_GetConfigProperties a = Inr p" "copy_properties P p = Inr qs" by (auto simp: go_res)
  show ?thesis
  proof (cases p)
    case None
    with copied_keys [OF assms(1) p(2)] a(3) show ?thesis by (auto simp: image_iff)
  next
    case (Some q)
    with p copy_pairs [OF assms(1) _ a(3)] a(1) show ?thesis by blast
  qed
qed

lemma env_reference_source:
  assumes "props_laws P" and "getConfigProperties C P K ord b = Inr ps" and "(k, x) \<in> set env_references"
    and "k \<in> fst ` set ps"
  obtains specs as a where "auth_specs (cmb_ClusterConfig b) = Some specs" "NewAuthentication K ord specs = Inr as"
    "a \<in> set as" "provides a x" "props_Get P ps k = ''${ENV:'' @ x @ ''}''"
proof -
  have nb: "k \<notin> fst ` set (base_config_properties C b)"
    using assms(3) env_keys_are_auth_keys base_keys_not_auth by blast
  with assms(2,4) obtain specs as qs rs where as: "auth_specs (cmb_ClusterConfig b) = Some specs"
    "NewAuthentication K ord specs = Inr as"
    and qs: "trino_GetConfigProperties P as = Inr qs" and rs: "copy_properties P (Some qs) = Inr rs"
    and ps: "ps = base_config_properties C b @ rs"
    by (auto simp: getConfigProperties_def go_res split: option.splits if_splits)
  obtain v where v: "last_value ps k = Some v" using assms(4) by (metis last_value_None_iff not_Some_eq)
  then have "(k, v) \<in> set ps" using map_of_SomeD [of "rev ps"] by (simp add: last_value_def)
  with nb ps have "(k, v) \<in> set rs" by force
  then have "(k, v) \<in> set qs" by (rule copy_pairs [OF assms(1) rs])
  from trino_property_source [OF assms(1) qs this] obtain a p where a: "a \<in> set as"
    "auth_GetConfigProperties a = Inr (Some p)" "(k, v) \<in> set p"
    by blast
  from env_reference_value [OF a(2,3) assms(3)] props_laws_Get [OF assms(1) v] show thesis
    using that [OF as a(1)] by simp
qed

lemma text_lines_contains: "l \<in> set ls \<Longrightarrow> sublist l (text_lines ls)"
proof -
  assume "l \<in> set ls"
  then obtain xs ys where "ls = xs @ l # ys" by (auto dest: split_list)
  then have "text_lines ls = text_lines xs @ l @ (NL @ text_lines ys)" by (simp add: text_lines_def)
  then show ?thesis unfolding sublist_def by blast
qed

lemma strings_Join_contains: "w \<in> set ws \<Longrightarrow> sublist w (strings_Join ws sep)"
proof (induction ws sep rule: strings_Join.induct)
  case (3 u v ws sep)
  show ?case
  proof (cases "w = u")
    case True
    then show ?thesis by simp
  next
    case False
    with 3 have "sublist w (strings_Join (v # ws) sep)" by simp
    then show ?thesis by (simp add: sublist_append)
  qed
qed simp_all

lemma script_contains_commands: "sublist cmds (main_script C cmds)"
  unfolding main_script_def by (rule text_lines_contains) simp

lemma ldap_exports:
  assumes "x \<in> {''LDAP_USER'', ''LDAP_PASSWORD''}"
  shows "sublist (''export '' @ x @ ''='') (ldap_command_text dir)"
proof -
  have "ldap_command_text dir = (NL @ ''set +x'' @ NL @ NL) @ ''export LDAP_USER='' @ (''$(cat '' @ path_Join [dir, ''user''] @ '')'' @ NL
      @ ''export LDAP_PASSWORD='' @ ''$(cat '' @ path_Join [dir, ''password''] @ '')'' @ NL @ ''set -x'' @ NL)"
    "ldap_command_text dir = (NL @ ''set +x'' @ NL @ NL @ ''export LDAP_USER=$(cat '' @ path_Join [dir, ''user''] @ '')'' @ NL)
      @ ''export LDAP_PASSWORD='' @ (''$(cat '' @ path_Join [dir, ''password''] @ '')'' @ NL @ ''set -x'' @ NL)"
    by (simp_all add: ldap_command_text_def)
  then have "sublist ''export LDAP_USER='' (ldap_command_text dir)" "sublist ''export LDAP_PASSWORD='' (ldap_command_text dir)"
    unfolding sublist_def by blast+
  with assms show ?thesis by auto
qed

lemma ldap_script_exports:
  assumes "indent_laws (IndentTab4Spaces U)" and "LdapAuth a \<in> set as" and "provides (LdapAuth a) x"
    and "trino_GetCommands C (IndentTab4Spaces U) as = Inr cmds"
  shows "sublist (''export '' @ x @ ''='') (IndentTab4Spaces U (main_script C (strings_Join cmds NL)))"
proof -
  let ?w = "''export '' @ x @ ''=''"
  have tab: "CHR 0x09 \<notin> set ?w" using assms(3) by auto
  have keep: "sublist ?w (IndentTab4Spaces U t)" if "sublist ?w t" for t
    using assms(1) tab that unfolding indent_laws_def by blast
  obtain zs where zs: "auth_GetCommands C (IndentTab4Spaces U) (LdapAuth a) = Inr zs" "set zs \<subseteq> set cmds"
    using assms(4) [unfolded trino_GetCommands_def] assms(2) by (rule concat_res_elem)
  then obtain dir where "IndentTab4Spaces U (ldap_command_text dir) \<in> set cmds"
    by (auto simp: ldap_GetCommands_def go_res)
  then have "sublist (IndentTab4Spaces U (ldap_command_text dir)) (strings_Join cmds NL)"
    by (rule strings_Join_contains)
  moreover have "sublist ?w (IndentTab4Spaces U (ldap_command_text dir))"
    by (rule keep) (rule ldap_exports, use assms(3) in simp)
  ultimately have "sublist ?w (main_script C (strings_Join cmds NL))"
    using script_contains_commands sublist_order.order_trans by metis
  then show ?thesis by (rule keep)
qed

lemma oidc_env_vars:
  assumes "OidcAuth a \<in> set as" and "provides (OidcAuth a) x" and "trino_GetEnvVars as = Inr es"
  shows "x \<in> ev_Name ` set es"
proof -
  obtain zs where zs: "auth_GetEnvVars (OidcAuth a) = Inr zs" "set zs \<subseteq> set es"
    using assms(3) [unfolded trino_GetEnvVars_def] assms(1) by (rule concat_res_elem)
  have "x \<in> ev_Name ` set zs" using zs(1) assms(2) by (auto simp: oidc_GetEnvVars_def go_res)
  with zs(2) show ?thesis by blast
qed

text \<open>
  C14. Every variable that the authentication part of a coordinator's config.properties refers to, by
  one of the four literal references that the authenticators write, is supplied to its main
  container: the OIDC client credentials as environment variables from the
  client secret, the LDAP bind credentials by exports of the start script, however the separate
  authentication lookups of the two builders order their authenticators.
\<close>

theorem authentication_environment_supplied:
  assumes "fair_order ord" and "fair_order (ord_args os)" and "fair_order (ord_envs os)"
    and "props_laws P" and "indent_laws (IndentTab4Spaces U)" and "cmb_ClusterConfig b = ssb_ClusterConfig s"
    and "getConfigProperties C P K ord b = Inr ps" and "main_container_builder C K U os s = Inr cb"
    and "(k, x) \<in> set env_references" and "k \<in> fst ` set ps"
  shows "props_Get P ps k = ''${ENV:'' @ x @ ''}'' \<and> supplied cb x"
proof -
  obtain specs as a where as: "auth_specs (cmb_ClusterConfig b) = Some specs" "NewAuthentication K ord specs = Inr as"
    and a: "a \<in> set as" "provides a x" and v: "props_Get P ps k = ''${ENV:'' @ x @ ''}''"
    using assms(4,7,9,10) by (rule env_reference_source)
  have specs: "auth_specs (ssb_ClusterConfig s) = Some specs" using as(1) assms(6) by simp
  have same: "a \<in> set bs" if "fair_order o'" "NewAuthentication K o' specs = Inr bs" for o' bs
    using NewAuthentication_reorder [OF assms(1) that(1) as(2) that(2)] a(1) by (metis mset_eq_setD)
  from assms(8) specs obtain bs cmds where bs: "NewAuthentication K (ord_args os) specs = Inr bs"
    "trino_GetCommands C (IndentTab4Spaces U) bs = Inr cmds"
    and args: "SetArgs [IndentTab4Spaces U (main_script C (strings_Join cmds NL))] \<in> set (cb_calls cb)"
    by (auto simp: main_container_builder_def getMainContainerArgs_def auth_commands_def with_auth_def go_res)
  from assms(8) specs obtain cs es where cs: "NewAuthentication K (ord_envs os) specs = Inr cs" "trino_GetEnvVars cs = Inr es"
    and envs: "AddEnvVars es \<in> set (cb_calls cb)"
    by (auto simp: main_container_builder_def getMainContainerEnvVars_def with_auth_def go_res)
  have "supplied cb x"
  proof (cases a)
    case (OidcAuth y)
    with same [OF assms(3) cs(1)] a(2) cs(2) envs show ?thesis
      unfolding supplied_def using oidc_env_vars by blast
  next
    case (LdapAuth y)
    with same [OF assms(2) bs(1)] a(2) bs(2) args show ?thesis
      unfolding supplied_def using ldap_script_exports [OF assms(5)] by blast
  next
    case (StaticAuth y)
    with a(2) show ?thesis by simp
  qed
  with v show ?thesis by blast
qed

lemma copied_key_set:
  assumes "props_laws P" and "copy_properties P (Some p) = Inr qs"
  shows "fst ` set qs = fst ` set p"
proof -
  have "qs = map (\<lambda>k. (k, props_Get P p k)) (props_Keys P p)" using assms(2) by simp
  then have "fst ` set qs = set (props_Keys P p)" by (simp add: image_image)
  then show ?thesis by (simp only: props_laws_Keys(2) [OF assms(1)])
qed

lemma property_keys_kept:
  assumes "props_laws P" and "cmb_RoleName b = ''coordinator''" and "auth_specs (cmb_ClusterConfig b) = Some specs"
    and "NewAuthentication K ord specs = Inr as" and "getConfigProperties C P K ord b = Inr ps"
    and "a \<in> set as" and "auth_GetConfigProperties a = Inr (Some p)"
  shows "fst ` set p \<subseteq> fst ` set ps"
proof -
  obtain qs rs where qs: "trino_GetConfigProperties P as = Inr qs" and rs: "copy_properties P (Some qs) = Inr rs"
    and ps: "ps = base_config_properties C b @ rs"
    using assms(2-5) by (auto simp: getConfigProperties_def go_res)
  obtain zs where zs: "bind_res (auth_GetConfigProperties a) (copy_properties P) = Inr zs" "set zs \<subseteq> set qs"
    using qs [unfolded trino_GetConfigProperties_def] assms(6) by (rule concat_res_elem)
  have "copy_properties P (Some p) = Inr zs" using zs(1) assms(7) by simp
  from copied_key_set [OF assms(1) this] have "fst ` set p = fst ` set zs" by (rule sym)
  also have "\<dots> \<subseteq> fst ` set qs" using zs(2) by (rule image_mono)
  also have "\<dots> = fst ` set rs" using copied_key_set [OF assms(1) rs] by (rule sym)
  also have "\<dots> \<subseteq> fst ` set ps" unfolding ps by (rule image_mono) simp
  finally show ?thesis .
qed

theorem authentication_environment_supplied_witness:
  "\<exists>b s ps cb. getConfigProperties example_consts example_props example_client rev (b :: (int, string) ConfigMapBuilder) = Inr ps \<and>
    main_container_builder example_consts example_client example_builders example_ss_orders s = Inr cb \<and>
    supplied cb ''OIDC_CLIENT_SECRET'' \<and> supplied cb ''LDAP_PASSWORD''"
proof -
  obtain s :: "(int, string) StatefulSetReconciler" and b :: "(int, string) ConfigMapBuilder" where
    ex: "ssb_ClusterConfig (ssr_builder s) = Some example_ss_config" "cmb_ClusterConfig b = Some example_ss_config"
      "cmb_RoleName b = ''coordinator''"
    by (rule example_group_resources)
  obtain cb ps where cb: "main_container_builder example_consts example_client example_builders example_ss_orders (ssr_builder s) = Inr cb"
    and ps: "getConfigProperties example_consts example_props example_client rev b = Inr ps"
    using example_container [OF ex(1)] example_config_defined [OF ex(2)] by blast
  have laws: "fair_order (ord_args example_ss_orders)" "fair_order (ord_envs example_ss_orders)"
    "indent_laws (IndentTab4Spaces example_builders)" "cmb_ClusterConfig b = ssb_ClusterConfig (ssr_builder s)"
    using ex by (simp_all add: example_ss_orders_def indent_laws_def example_builders_def)
  have specs: "auth_specs (cmb_ClusterConfig b) = Some [people_spec, sso_spec]"
    using ex(2) by (simp add: auth_specs_def example_ss_config_def)
  obtain as where as: "NewAuthentication example_client rev [people_spec, sso_spec] = Inr as"
    "set as = {LdapAuth people_auth, OidcAuth sso_auth}"
    using fair_order_id(2) by (rule example_people_sso)
  obtain p q where p: "oidc_GetConfigProperties sso_auth = Inr (Some p)" "''http-server.authentication.oauth2.client-secret'' \<in> fst ` set p"
    and q: "ldap_GetConfigProperties people_auth = Inr (Some q)" "''ldap.bind-password'' \<in> fst ` set q"
    using example_complete(1,2) by (auto simp: oidc_defs ldap_defs)
  note kept = property_keys_kept [OF example_props_laws ex(3) specs as(1) ps]
  have "''http-server.authentication.oauth2.client-secret'' \<in> fst ` set ps" "''ldap.bind-password'' \<in> fst ` set ps"
    using kept [of "OidcAuth sso_auth" p] kept [of "LdapAuth people_auth" q] p q as(2) by auto
  moreover have "(''http-server.authentication.oauth2.client-secret'', ''OIDC_CLIENT_SECRET'') \<in> set env_references"
    "(''ldap.bind-password'', ''LDAP_PASSWORD'') \<in> set env_references"
    by (simp_all add: env_references_def)
  ultimately show ?thesis
    using authentication_environment_supplied [OF fair_order_id(2) laws(1,2) example_props_laws laws(3,4) ps cb] cb ps by blast
qed

section \<open>Files the configuration names\<close>

text \<open>A volume of the pod with the given source, mounted by the main container at the given directory.\<close>

definition mounts_volume :: "'q Volume list \<Rightarrow> VolumeMount list \<Rightarrow> 'q VolumeSource \<Rightarrow> string \<Rightarrow> bool" where
  "mounts_volume vs ms source dir \<longleftrightarrow>
     (\<exists>name. \<lparr>vol_Name = name, vol_Source = source\<rparr> \<in> set vs \<and> \<lparr>vm_Name = name, vm_MountPath = dir\<rparr> \<in> set ms)"

lemma text_line_part: "pre @ w @ post \<in> set ls \<Longrightarrow> sublist w (text_lines ls)"
  using text_lines_contains [of "pre @ w @ post" ls] sublist_order.order_trans
  by (metis sublist_appendI)

lemma script_names_store: "sublist (''-destkeystore '' @ path_Join [ClientTlsPath C, ''truststore.p12'']) (main_script C cmds)"
  unfolding main_script_def by (rule text_line_part [where pre = TAB and post = BS]) simp

lemma script_names_data: "sublist (''--data-dir '' @ TrinoDataDir C) (main_script C cmds)"
  unfolding main_script_def
  by (rule text_line_part [where pre = "''bin/launcher run --etc-dir '' @ TrinoConfigDir C @ '' ''" and post = "[]"]) simp

lemma jvm_names_store:
  "sublist (''-Djava.net.ssl.trustStore='' @ path_Join [ClientTlsPath C, ''truststore.p12'']) (jvm_text C xmx xms)"
proof -
  have "plain_name ''client''" "plain_name ''truststore.p12''" by (simp_all add: plain_name_def dotdot_def)
  from path_Join_assoc [OF this] show ?thesis
    unfolding jvm_text_def ClientTlsPath_def by (intro text_line_part [where pre = "[]" and post = "[]"]) simp
qed

lemma builder_mounts:
  assumes "getVolumes C Q K U o1 b = Inr vs" and "getMainContainerVolumeMounts C K o2 b = Inr ms"
  shows "mounts_volume vs ms (EmptyDirSource (MustParse Q ''1Gi'')) (KubedoopLogDir C)"
    and "mounts_volume vs ms (EmptyDirSource (MustParse Q ''1Mi'')) (ClientTlsPath C)"
    and "\<lparr>vm_Name = TrinoDataVolumeName, vm_MountPath = TrinoDataDir C\<rparr> \<in> set ms"
proof -
  have vs: "\<lparr>vol_Name = TrinoLogVolumeName, vol_Source = EmptyDirSource (MustParse Q ''1Gi'')\<rparr> \<in> set vs"
    "\<lparr>vol_Name = TrinoClientTlsVolumeName, vol_Source = EmptyDirSource (MustParse Q ''1Mi'')\<rparr> \<in> set vs"
    using assms(1) by (auto simp: getVolumes_def go_res Let_def)
  have ms: "\<lparr>vm_Name = TrinoLogVolumeName, vm_MountPath = KubedoopLogDir C\<rparr> \<in> set ms"
    "\<lparr>vm_Name = TrinoClientTlsVolumeName, vm_MountPath = ClientTlsPath C\<rparr> \<in> set ms"
    "\<lparr>vm_Name = TrinoDataVolumeName, vm_MountPath = TrinoDataDir C\<rparr> \<in> set ms"
    using assms(2) by (auto simp: getMainContainerVolumeMounts_def go_res Let_def TrinoLogDir_def)
  show "mounts_volume vs ms (EmptyDirSource (MustParse Q ''1Gi'')) (KubedoopLogDir C)"
    "mounts_volume vs ms (EmptyDirSource (MustParse Q ''1Mi'')) (ClientTlsPath C)"
    unfolding mounts_volume_def using vs ms by blast+
  show "\<lparr>vm_Name = TrinoDataVolumeName, vm_MountPath = TrinoDataDir C\<rparr> \<in> set ms" by (rule ms)
qed

lemma builder_mounts_store:
  assumes "getVolumes C Q K U o1 b = Inr vs" and "getMainContainerVolumeMounts C K o2 b = Inr ms"
    and "tls_enabled (ssb_ClusterConfig b)"
  obtains ct where "mounts_volume vs ms (EphemeralSource ct) (ServerTlsMountPath C)"
    "(AnnotationSecretsFormat C, TLSP12 C) \<in> set (ct_Annotations ct)"
    "(AnnotationSecretsPKCS12Password C, DefaultTlsPassphrase) \<in> set (ct_Annotations ct)"
proof -
  from assms(3) obtain cc tls where cc: "ssb_ClusterConfig b = Some cc" "cc_Tls cc = Some tls"
    by (auto simp: tls_enabled_def split: option.splits)
  define cls where "cls = (if tls_ServerSecretClass tls = [] then ''tls'' else tls_ServerSecretClass tls)"
  have "buildTlsVolume C Q TrinoServerTlsVolumeName cls \<in> set vs"
    using assms(1) cc by (auto simp: getVolumes_def go_res tls_volumes_def cls_def Let_def)
  moreover have "\<lparr>vm_Name = TrinoServerTlsVolumeName, vm_MountPath = ServerTlsMountPath C\<rparr> \<in> set ms"
    using assms(2,3) by (auto simp: getMainContainerVolumeMounts_def go_res Let_def ss_enabledTls_def)
  ultimately show thesis
    by (intro that) (auto simp: mounts_volume_def buildTlsVolume_def)
qed

lemma store_properties:
  assumes "props_laws P" and "getConfigProperties C P K ord b = Inr ps" and "tls_enabled (cmb_ClusterConfig b)"
    and "server \<in> {''http-server'', ''internal-communication''}" and "kind \<in> {''keystore'', ''truststore''}"
  shows "props_Get P ps (server @ ''.https.'' @ kind @ ''.path'') = path_Join [ServerTlsMountPath C, kind @ ''.p12'']"
    and "props_Get P ps (server @ ''.https.'' @ kind @ ''.key'') = DefaultTlsPassphrase"
proof -
  have "(server @ ''.https.'' @ kind @ ''.path'', path_Join [ServerTlsMountPath C, kind @ ''.p12'']) \<in> set (tls_properties C)"
    "(server @ ''.https.'' @ kind @ ''.key'', DefaultTlsPassphrase) \<in> set (tls_properties C)"
    using assms(4,5) unfolding insert_iff empty_iff by (elim disjE FalseE; simp add: tls_properties_def)+
  then have "(server @ ''.https.'' @ kind @ ''.path'', path_Join [ServerTlsMountPath C, kind @ ''.p12'']) \<in> set (base_config_properties C b)"
    "(server @ ''.https.'' @ kind @ ''.key'', DefaultTlsPassphrase) \<in> set (base_config_properties C b)"
    using assms(3) by (simp_all add: base_config_properties_def cm_enabledTls_def)
  with config_last_value [OF assms(1,2)] show "props_Get P ps (server @ ''.https.'' @ kind @ ''.path'') = path_Join [ServerTlsMountPath C, kind @ ''.p12'']"
    "props_Get P ps (server @ ''.https.'' @ kind @ ''.key'') = DefaultTlsPassphrase"
    by blast+
qed

lemma indent_keeps: "indent_laws indent \<Longrightarrow> CHR 0x09 \<notin> set w \<Longrightarrow> sublist w s \<Longrightarrow> sublist w (indent s)"
  unfolding indent_laws_def by blast

lemma client_store_no_tab:
  assumes "CHR 0x09 \<notin> set (KubedoopTlsDir C)"
  shows "CHR 0x09 \<notin> set (path_Join [ClientTlsPath C, ''truststore.p12''])"
proof -
  have "plain_name ''client''" "plain_name ''truststore.p12''" by (simp_all add: plain_name_def dotdot_def)
  from path_Join_plain_chars [OF this(1), of "KubedoopTlsDir C"] path_Join_plain_chars [OF this(2), of "ClientTlsPath C"] assms
  show ?thesis by (auto simp: ClientTlsPath_def)
qed

text \<open>
  C3. The files that a node is configured with are on volumes that its pod mounts, for every config map
  and every stateful set of a registered cluster. With TLS, each of the four key and trust stores named in
  config.properties is a PKCS12 file directly below the mount point of a volume for which the secret
  operator is asked for that format and for the very password that config.properties gives for the
  store. The log file is below the mount point of an empty volume. The trust store that jvm.config
  names is the one that the start script writes, on an empty volume of its own, and the data directory
  that the script gives to the launcher is the mount point of the claim template. Hypotheses are the
  laws of the property files and of the indentation, and directory constants without tabs.
\<close>

theorem configured_files_mounted:
  assumes "fair_cluster_orders ords" and "wf_spec (clr_Spec r)" and "clr_resources r = []"
    and "cluster_RegisterResources A M C I K ords r = (Inr u, r')"
    and "props_laws P" and "indent_laws (IndentTab4Spaces U)"
    and "CHR 0x09 \<notin> set (KubedoopTlsDir C)" and "CHR 0x09 \<notin> set (KubedoopDataDir C)"
    and "ConfigMapResource b \<in> set (group_resources_of r')"
    and "getConfigProperties C P K ord b = Inr ps" and "getJvmProperties C Q U b = Inr jvm"
    and "StatefulSetResource s \<in> set (group_resources_of r')"
    and "getVolumes C Q K U o1 (ssr_builder s) = Inr vs" and "main_container_builder C K U os (ssr_builder s) = Inr cb"
  shows "\<exists>ms arg. AddVolumeMounts ms \<in> set (cb_calls cb) \<and> SetArgs [arg] \<in> set (cb_calls cb) \<and>
    (tls_enabled (clr_ClusterConfig r) \<longrightarrow>
      (\<forall>server \<in> {''http-server'', ''internal-communication''}. \<forall>kind \<in> {''keystore'', ''truststore''}.
        \<exists>ct dir. mounts_volume vs ms (EphemeralSource ct) dir \<and>
          props_Get P ps (server @ ''.https.'' @ kind @ ''.path'') = path_Join [dir, kind @ ''.p12''] \<and>
          (AnnotationSecretsFormat C, TLSP12 C) \<in> set (ct_Annotations ct) \<and>
          (AnnotationSecretsPKCS12Password C, props_Get P ps (server @ ''.https.'' @ kind @ ''.key'')) \<in> set (ct_Annotations ct))) \<and>
    (\<exists>size dir file. mounts_volume vs ms (EmptyDirSource size) dir \<and> plain_name file \<and>
       props_Get P ps ''log.path'' = path_Join [dir, ''trino'', file]) \<and>
    (\<exists>size dir. mounts_volume vs ms (EmptyDirSource size) dir \<and>
       sublist (''-Djava.net.ssl.trustStore='' @ path_Join [dir, ''truststore.p12'']) jvm \<and>
       sublist (''-destkeystore '' @ path_Join [dir, ''truststore.p12'']) arg) \<and>
    (\<exists>claim dir. map pvc_Name (getPvcTemplates Q (ssr_builder s)) = [claim] \<and>
       \<lparr>vm_Name = claim, vm_MountPath = dir\<rparr> \<in> set ms \<and> sublist (''--data-dir '' @ dir) arg)"
proof -
  obtain fqdn where one: "\<forall>x \<in> set (group_resources_of r'). \<exists>role n xs. cluster_group r role n \<and>
      cluster_bundle A C I r fqdn role n xs \<and> x \<in> set xs \<and> set xs \<subseteq> set (group_resources_of r')"
    using assms(1-4) by (rule cluster_registered)
  have sf: "ssb_ClusterConfig (ssr_builder s) = clr_ClusterConfig r"
    using one assms(12) by (fastforce simp: cluster_bundle_def group_bundle_def NewStatefulSetBuilder_def Let_def)
  have bf: "cmb_ClusterConfig b = clr_ClusterConfig r" "cmb_RoleName b \<in> {''coordinator'', ''worker''}"
    using one assms(9)
    by (fastforce simp: cluster_bundle_def cluster_group_def group_bundle_def NewConfigReconciler_def NewConfigMapBuilder_def
        config_options_def coordinator_role_info_def worker_role_info_def RoleCoordinator_def RoleWorker_def Let_def)+
  from assms(14) obtain ms cmds where ms: "getMainContainerVolumeMounts C K (ord_mounts os) (ssr_builder s) = Inr ms"
    and calls: "AddVolumeMounts ms \<in> set (cb_calls cb)" "SetArgs [IndentTab4Spaces U (main_script C cmds)] \<in> set (cb_calls cb)"
    by (auto simp: main_container_builder_def getMainContainerArgs_def go_res)
  note mounts = builder_mounts [OF assms(13) ms]
  obtain xmx xms where jvm: "jvm = IndentTab4Spaces U (jvm_text C xmx xms)"
    using assms(11) by (auto simp: getJvmProperties_def go_res)
  note kept = indent_keeps [OF assms(6)]
  have stores: "sublist (''-Djava.net.ssl.trustStore='' @ path_Join [ClientTlsPath C, ''truststore.p12'']) jvm"
    "sublist (''-destkeystore '' @ path_Join [ClientTlsPath C, ''truststore.p12'']) (IndentTab4Spaces U (main_script C cmds))"
    unfolding jvm using client_store_no_tab [OF assms(7)]
    by (intro kept jvm_names_store script_names_store; simp)+
  have data: "sublist (''--data-dir '' @ TrinoDataDir C) (IndentTab4Spaces U (main_script C cmds))"
    using assms(8) by (intro kept script_names_data) (simp add: TrinoDataDir_def)
  have "(''log.path'', path_Join [KubedoopLogDir C, ''trino'', cmb_RoleName b @ ''.airlift.json'']) \<in> set (base_config_properties C b)"
    by (simp add: base_config_properties_def)
  then have log: "props_Get P ps ''log.path'' = path_Join [KubedoopLogDir C, ''trino'', cmb_RoleName b @ ''.airlift.json'']"
    by (rule config_last_value [OF assms(5,10)])
  have plain: "plain_name (cmb_RoleName b @ ''.airlift.json'')" using bf(2) by (auto simp: plain_name_def dotdot_def)
  have tls: "\<exists>ct dir. mounts_volume vs ms (EphemeralSource ct) dir \<and>
      props_Get P ps (server @ ''.https.'' @ kind @ ''.path'') = path_Join [dir, kind @ ''.p12''] \<and>
      (AnnotationSecretsFormat C, TLSP12 C) \<in> set (ct_Annotations ct) \<and>
      (AnnotationSecretsPKCS12Password C, props_Get P ps (server @ ''.https.'' @ kind @ ''.key'')) \<in> set (ct_Annotations ct)"
    if on: "tls_enabled (clr_ClusterConfig r)" and names: "server \<in> {''http-server'', ''internal-communication''}" "kind \<in> {''keystore'', ''truststore''}"
    for server kind
  proof -
    obtain ct where "mounts_volume vs ms (EphemeralSource ct) (ServerTlsMountPath C)"
      "(AnnotationSecretsFormat C, TLSP12 C) \<in> set (ct_Annotations ct)"
      "(AnnotationSecretsPKCS12Password C, DefaultTlsPassphrase) \<in> set (ct_Annotations ct)"
      using assms(13) ms on [folded sf] by (rule builder_mounts_store)
    with store_properties [OF assms(5,10) on [folded bf(1)] names] show ?thesis by metis
  qed
  have claim: "map pvc_Name (getPvcTemplates Q (ssr_builder s)) = [TrinoDataVolumeName]" by (simp add: getPvcTemplates_def)
  show ?thesis
  proof (rule exI [of _ ms], rule exI [of _ "IndentTab4Spaces U (main_script C cmds)"], intro conjI impI ballI)
    show "\<exists>size dir file. mounts_volume vs ms (EmptyDirSource size) dir \<and> plain_name file \<and>
       props_Get P ps ''log.path'' = path_Join [dir, ''trino'', file]"
      using mounts(1) plain log by blast
    show "\<exists>size dir. mounts_volume vs ms (EmptyDirSource size) dir \<and>
       sublist (''-Djava.net.ssl.trustStore='' @ path_Join [dir, ''truststore.p12'']) jvm \<and>
       sublist (''-destkeystore '' @ path_Join [dir, ''truststore.p12'']) (IndentTab4Spaces U (main_script C cmds))"
      using mounts(2) stores by blast
    show "\<exists>claim dir. map pvc_Name (getPvcTemplates Q (ssr_builder s)) = [claim] \<and>
       \<lparr>vm_Name = claim, vm_MountPath = dir\<rparr> \<in> set ms \<and> sublist (''--data-dir '' @ dir) (IndentTab4Spaces U (main_script C cmds))"
      by (intro exI conjI) (fact claim, fact mounts(3), fact data)
  qed (fact calls, fact calls, rule tls)
qed

lemma example_jvm_defined:
  assumes "cmb_TrinoConfig b = Some example_config"
  shows "\<exists>jvm. getJvmProperties example_consts example_quantity example_builders b = Inr jvm"
proof -
  have heap: "heap_memory example_quantity b = Inr 2000000000"
    using assms by (simp add: heap_memory_def example_config_def example_quantity_def DefaultJvmMem_def)
  from getHeapSize_eq [OF heap] show ?thesis
    by (simp add: getJvmProperties_def example_quantity_def split: prod.splits)
qed

theorem configured_files_mounted_witness:
  "\<exists>r' b s ps jvm vs cb arg dir. cluster_RegisterResources example_cluster_api example_merge example_consts example_infos example_client
      example_cluster_orders (example_cluster example_coordinators example_workers) = (Inr (), r') \<and>
    ConfigMapResource b \<in> set (group_resources_of r') \<and> StatefulSetResource s \<in> set (group_resources_of r') \<and>
    getConfigProperties example_consts example_props example_client rev b = Inr ps \<and>
    getJvmProperties example_consts example_quantity example_builders b = Inr jvm \<and>
    getVolumes example_consts example_quantity example_client example_builders rev (ssr_builder s) = Inr vs \<and>
    main_container_builder example_consts example_client example_builders example_ss_orders (ssr_builder s) = Inr cb \<and>
    SetArgs [arg] \<in> set (cb_calls cb) \<and> sublist (''-destkeystore '' @ path_Join [dir, ''truststore.p12'']) arg \<and>
    sublist (''-Djava.net.ssl.trustStore='' @ path_Join [dir, ''truststore.p12'']) jvm"
proof -
  obtain r' s b where ex: "cluster_RegisterResources example_cluster_api example_merge example_consts example_infos example_client
      example_cluster_orders (example_cluster example_coordinators example_workers) = (Inr (), r')"
    "StatefulSetResource s \<in> set (group_resources_of r')" "ssb_ClusterConfig (ssr_builder s) = Some example_ss_config"
    "ConfigMapResource b \<in> set (group_resources_of r')" "cmb_ClusterConfig b = Some example_ss_config"
    "cmb_TrinoConfig b = Some example_config"
    by (rule example_group_resources)
  obtain cb ps jvm where cb: "main_container_builder example_consts example_client example_builders example_ss_orders (ssr_builder s) = Inr cb"
    and ps: "getConfigProperties example_consts example_props example_client rev b = Inr ps"
    and jvm: "getJvmProperties example_consts example_quantity example_builders b = Inr jvm"
    using example_container [OF ex(3)] example_config_defined [OF ex(5)] example_jvm_defined [OF ex(6)] by blast
  obtain vs where vs: "getVolumes example_consts example_quantity example_client example_builders rev (ssr_builder s) = Inr vs"
    using example_auth_total(1) [of rev example_consts example_quantity]
    by (auto simp: getVolumes_def example_with_auth [OF ex(3)] Let_def)
  have laws: "indent_laws (IndentTab4Spaces example_builders)" "CHR 0x09 \<notin> set (KubedoopTlsDir example_consts)"
    "CHR 0x09 \<notin> set (KubedoopDataDir example_consts)"
    by (simp_all add: indent_laws_def example_builders_def example_consts_def)
  from configured_files_mounted [OF example_cluster_fair example_cluster_wf example_cluster_fields(4) ex(1) example_props_laws laws
      ex(4) ps jvm ex(2) vs cb]
  obtain arg dir where "SetArgs [arg] \<in> set (cb_calls cb)"
    "sublist (''-Djava.net.ssl.trustStore='' @ path_Join [dir, ''truststore.p12'']) jvm"
    "sublist (''-destkeystore '' @ path_Join [dir, ''truststore.p12'']) arg"
    by blast
  with ex(1,2,4) ps jvm vs cb show ?thesis by blast
qed

end
